(* ===== verification/Prelude.thy ===== *)
theory Prelude
  imports Complex_Main "HOL-Library.Sublist" "HOL-Library.Multiset" "HOL-Library.Char_ord" "HOL-Library.List_Lexorder"
    "HOL-Library.AList" "HOL-Library.Product_Lexorder"
begin

text \<open>
  What every component shares: strings as JavaScript sees them, numbers as JavaScript
  sees them, results that may be an exception, the chunking helper of the database
  layer, and the collections of facts the component proofs simplify with.

  A string of the program is a list of UTF-16 code units. The model's \<^typ>\<open>string\<close>
  is a list of code units below 256; the operations below (trimming, lower-casing,
  digit tests) are written out on that range as ECMAScript defines them there.
\<close>

named_theorems table_simps \<open>equations of the row-list operations\<close>
named_theorems keyed_intros \<open>operations that keep a table's key unique\<close>

subsection \<open>Exceptions as values\<close>

definition ebind :: "'e + 'a \<Rightarrow> ('a \<Rightarrow> 'e + 'b) \<Rightarrow> 'e + 'b" where
  "ebind m f = (case m of Inl e \<Rightarrow> Inl e | Inr x \<Rightarrow> f x)"

lemma ebind_Inl [simp]: "ebind (Inl e) f = Inl e"
  by (simp add: ebind_def)

lemma ebind_Inr [simp]: "ebind (Inr x) f = f x"
  by (simp add: ebind_def)

lemma ebind_eq_Inr_iff: "ebind m f = Inr y \<longleftrightarrow> (\<exists>x. m = Inr x \<and> f x = Inr y)"
  by (cases m) auto

lemma ebind_eq_Inl_iff:
  "ebind m f = Inl e \<longleftrightarrow> m = Inl e \<or> (\<exists>x. m = Inr x \<and> f x = Inl e)"
  by (cases m) auto

lemma ebind_cong [fundef_cong]:
  "m = m' \<Longrightarrow> (\<And>x. m' = Inr x \<Longrightarrow> f x = f' x) \<Longrightarrow> ebind m f = ebind m' f'"
  by (cases m') auto

subsection \<open>Characters and strings\<close>

definition is_ws :: "char \<Rightarrow> bool" where
  "is_ws c = (let n = (of_char c :: nat) in 9 \<le> n \<and> n \<le> 13 \<or> n = 32 \<or> n = 160)"

definition is_digit :: "char \<Rightarrow> bool" where
  "is_digit c = (let n = (of_char c :: nat) in 48 \<le> n \<and> n \<le> 57)"

definition ch_lower :: "char \<Rightarrow> char" where
  "ch_lower c = (let n = (of_char c :: nat) in
     if 65 \<le> n \<and> n \<le> 90 \<or> 192 \<le> n \<and> n \<le> 222 \<and> n \<noteq> 215 then char_of (n + 32) else c)"

definition js_lower :: "string \<Rightarrow> string" where
  "js_lower = map ch_lower"

definition js_trim :: "string \<Rightarrow> string" where
  "js_trim s = rev (dropWhile is_ws (rev (dropWhile is_ws s)))"

definition digits_only :: "string \<Rightarrow> string" where
  "digits_only = filter is_digit"

definition all_digits :: "string \<Rightarrow> bool" where
  "all_digits s \<longleftrightarrow> s \<noteq> [] \<and> list_all is_digit s"

definition starts_with :: "string \<Rightarrow> string \<Rightarrow> bool" where
  "starts_with p s \<longleftrightarrow> take (length p) s = p"

text \<open>\<open>value.split (c)\<close> at a single character.\<close>

fun split_at :: "char \<Rightarrow> string \<Rightarrow> string list" where
  "split_at c [] = [[]]"
| "split_at c (x # xs) =
     (if x = c then [] # split_at c xs else (case split_at c xs of [] \<Rightarrow> [[x]] | p # ps \<Rightarrow> (x # p) # ps))"

lemma starts_with_append [simp]: "starts_with p (p @ s)"
  by (simp add: starts_with_def)

lemma starts_with_iff: "starts_with p s \<longleftrightarrow> (\<exists>t. s = p @ t)"
  by (metis append_take_drop_id starts_with_append starts_with_def)

lemma js_trim_Nil [simp]: "js_trim [] = []"
  by (simp add: js_trim_def)

lemma js_trim_eq_self:
  "s = [] \<or> (\<not> is_ws (hd s) \<and> \<not> is_ws (last s)) \<Longrightarrow> js_trim s = s"
proof (cases s)
  case Nil
  then show ?thesis by simp
next
  case (Cons c cs)
  assume "s = [] \<or> (\<not> is_ws (hd s) \<and> \<not> is_ws (last s))"
  with Cons have h: "\<not> is_ws (hd s)" and l: "\<not> is_ws (last s)" by auto
  have "dropWhile is_ws s = s" using Cons h by simp
  moreover have "dropWhile is_ws (rev s) = rev s"
  proof -
    have "s \<noteq> []" using Cons by simp
    then show ?thesis using l by (cases s rule: rev_cases) auto
  qed
  ultimately show ?thesis by (simp add: js_trim_def)
qed

lemma hd_dropWhile_not: "dropWhile P xs \<noteq> [] \<Longrightarrow> \<not> P (hd (dropWhile P xs))"
  by (induction xs) auto

lemma js_trim_edges:
  assumes "js_trim s \<noteq> []"
  shows "\<not> is_ws (hd (js_trim s)) \<and> \<not> is_ws (last (js_trim s))"
proof -
  let ?d = "dropWhile is_ws s"
  let ?e = "dropWhile is_ws (rev ?d)"
  have ne: "?e \<noteq> []" using assms by (simp add: js_trim_def)
  have last: "last (js_trim s) = hd ?e" using ne by (simp add: js_trim_def last_rev)
  obtain pre where pre: "rev ?d = pre @ ?e" by (metis takeWhile_dropWhile_id)
  then have "?d = rev ?e @ rev pre" by (metis rev_append rev_rev_ident)
  then have "hd ?d = hd (rev ?e)" using ne by (metis Nil_is_rev_conv hd_append2)
  then have "hd (js_trim s) = hd ?d" by (simp add: js_trim_def)
  moreover have "?d \<noteq> []" using ne by (metis dropWhile.simps(1) rev.simps(1))
  ultimately show ?thesis using last ne hd_dropWhile_not by metis
qed

lemma js_trim_idem [simp]: "js_trim (js_trim s) = js_trim s"
  using js_trim_edges [of s] js_trim_eq_self by blast

lemma set_js_trim_subset: "set (js_trim s) \<subseteq> set s"
  by (auto simp: js_trim_def dest!: set_dropWhileD)

lemma digits_only_all [simp]: "list_all is_digit (digits_only s)"
  by (auto simp: digits_only_def list_all_iff)

lemma digits_only_id: "list_all is_digit s \<Longrightarrow> digits_only s = s"
  by (simp add: digits_only_def list_all_iff filter_id_conv)

lemma digit_not_ws: "is_digit c \<Longrightarrow> \<not> is_ws c"
  by (auto simp: is_digit_def is_ws_def Let_def)

subsection \<open>Numbers\<close>

text \<open>
  A JavaScript number that need not be finite. Where the program only ever holds
  integers (timestamps in milliseconds, row ids, counters) the model uses \<^typ>\<open>int\<close>.
\<close>

datatype js_num = Fin rat | NaN | PosInf | NegInf

definition rat_trunc :: "rat \<Rightarrow> int" where
  "rat_trunc x = (if 0 \<le> x then \<lfloor>x\<rfloor> else \<lceil>x\<rceil>)"

lemma rat_trunc_of_int [simp]: "rat_trunc (of_int n) = n"
  by (simp add: rat_trunc_def)

lemma rat_trunc_nonneg: "0 \<le> x \<Longrightarrow> 0 \<le> rat_trunc x"
  by (simp add: rat_trunc_def)

fun dec_nat :: "nat \<Rightarrow> string" where
  "dec_nat n = (if n < 10 then [char_of (48 + n)]
                else dec_nat (n div 10) @ [char_of (48 + n mod 10)])"

declare dec_nat.simps [simp del]

definition dec_int :: "int \<Rightarrow> string" where
  "dec_int i = (if i < 0 then ''-'' @ dec_nat (nat (- i)) else dec_nat (nat i))"

text \<open>The same by division of integers, for evaluation.\<close>

function dec_pos :: "int \<Rightarrow> string" where
  "dec_pos i = (if i < 10 then [char_of (48 + nat i)] else dec_pos (i div 10) @ [char_of (48 + nat (i mod 10))])"
  by auto
termination by (relation "measure nat") auto

declare dec_pos.simps [simp del]

lemma dec_pos: "0 \<le> i \<Longrightarrow> dec_nat (nat i) = dec_pos i"
proof (induction i rule: dec_pos.induct)
  case (1 i)
  then show ?case by (subst dec_nat.simps, subst dec_pos.simps) (auto simp: nat_div_distrib nat_mod_distrib)
qed

lemma dec_int_code [code]: "dec_int i = (if i < 0 then ''-'' @ dec_pos (- i) else dec_pos i)"
  by (simp add: dec_int_def dec_pos)

lemma is_digit_dec: "(n::nat) < 10 \<Longrightarrow> is_digit (char_of (48 + n))"
  by (simp add: is_digit_def Let_def)

lemma dec_nat_digits: "list_all is_digit (dec_nat n) \<and> dec_nat n \<noteq> []"
proof (induction n rule: dec_nat.induct)
  case (1 n)
  show ?case
  proof (cases "n < 10")
    case True
    then show ?thesis by (subst (1 2) dec_nat.simps) (simp add: is_digit_dec)
  next
    case False
    then show ?thesis using 1 by (subst (1 2) dec_nat.simps) (simp add: is_digit_dec)
  qed
qed

subsection \<open>Batches\<close>

text \<open>
  \<open>chunkArray\<close> of \<^verbatim>\<open>src/db/database.ts\<close> and \<^verbatim>\<open>src/runtime/projection/projector.ts\<close>: the loop
  steps by \<open>size\<close>, so a size of zero would never end; every caller passes a positive
  constant, and the model takes the size as its predecessor plus one.
\<close>

fun chunkArray :: "'a list \<Rightarrow> nat \<Rightarrow> 'a list list" where
  "chunkArray items size' =
     (if items = [] \<or> size' = 0 then []
      else take size' items # chunkArray (drop size' items) size')"

declare chunkArray.simps [simp del]

lemma concat_chunkArray: "0 < n \<Longrightarrow> concat (chunkArray xs n) = xs"
proof (induction xs n rule: chunkArray.induct)
  case (1 items size')
  then show ?case by (subst chunkArray.simps) auto
qed

lemma chunkArray_bounds:
  "c \<in> set (chunkArray xs n) \<Longrightarrow> c \<noteq> [] \<and> length c \<le> n"
proof (induction xs n rule: chunkArray.induct)
  case (1 items size')
  then show ?case by (subst (asm) chunkArray.simps) (auto split: if_splits)
qed

subsection \<open>Options\<close>

definition coalesce :: "'a option \<Rightarrow> 'a option \<Rightarrow> 'a option" where
  "coalesce a b = (case a of None \<Rightarrow> b | Some x \<Rightarrow> Some x)"

lemma coalesce_simps [simp]:
  "coalesce None b = b" "coalesce (Some x) b = Some x"
  by (simp_all add: coalesce_def)

definition get_or :: "'a option \<Rightarrow> 'a \<Rightarrow> 'a" where
  "get_or a d = (case a of None \<Rightarrow> d | Some x \<Rightarrow> x)"

lemma get_or_simps [simp]: "get_or None d = d" "get_or (Some x) d = x"
  by (simp_all add: get_or_def)

lemma mem_map_filter: "x \<in> set (List.map_filter f xs) \<longleftrightarrow> (\<exists>y\<in>set xs. f y = Some x)"
  by (induction xs) (auto split: option.splits)

end
