(* ===== verification/Aliases.thy ===== *)
theory Aliases
  imports Prelude
begin

text \<open>
  JavaScript \<open>Map\<close> values as association lists in insertion order, and the resolution of
  a contact id through merge aliases (\<open>resolveCanonicalContactIdFromAliases\<close> of
  \<^verbatim>\<open>src/db/database.ts\<close>, the same loop as \<open>resolveCanonicalContactId\<close> of
  \<^verbatim>\<open>src/runtime/projection/projector.ts\<close>). The loop keeps the ids it has seen and
  throws when it meets one again; the relation \<open>resolves\<close> is its specification.
\<close>

type_synonym ('k, 'v) js_map = "('k \<times> 'v) list"

definition map_set :: "'k \<Rightarrow> 'v \<Rightarrow> ('k, 'v) js_map \<Rightarrow> ('k, 'v) js_map" where
  "map_set k v m = AList.update k v m"

definition map_has :: "('k, 'v) js_map \<Rightarrow> 'k \<Rightarrow> bool" where
  "map_has m k \<longleftrightarrow> map_of m k \<noteq> None"

definition js_map_from :: "('k \<times> 'v) list \<Rightarrow> ('k, 'v) js_map" where
  "js_map_from ps = fold (\<lambda>(k, v) m. map_set k v m) ps []"

lemma map_of_map_set [simp]: "map_of (map_set k v m) = (map_of m)(k \<mapsto> v)"
  by (simp add: map_set_def update_conv')

lemma map_has_map_set [simp]: "map_has (map_set k v m) k' \<longleftrightarrow> k' = k \<or> map_has m k'"
  by (simp add: map_has_def)

lemma map_of_fold_set:
  "map_of (fold (\<lambda>(k, v) m. map_set k v m) ps m) = map_of m ++ map_of (rev ps)"
proof (induction ps arbitrary: m)
  case Nil
  then show ?case by simp
next
  case (Cons p ps)
  obtain k v where p: "p = (k, v)" by fastforce
  have "map_of (fold (\<lambda>(k, v) m. map_set k v m) (p # ps) m) =
      (map_of m)(k \<mapsto> v) ++ map_of (rev ps)"
    using p Cons.IH [of "map_set k v m"] by (simp add: fun_upd_def)
  also have "\<dots> = map_of m ++ map_of (rev (p # ps))"
    using p by (simp add: map_add_assoc [symmetric] map_of_append fun_eq_iff map_add_def
        split: option.splits)
  finally show ?case .
qed

lemma map_of_js_map_from: "map_of (js_map_from ps) = map_of (rev ps)"
  by (simp add: js_map_from_def map_of_fold_set)

lemma map_of_js_map_from_distinct:
  "distinct (map fst ps) \<Longrightarrow> map_of (js_map_from ps) = map_of ps"
proof -
  assume d: "distinct (map fst ps)"
  then have "distinct (map fst (rev ps))" by (simp add: rev_map [symmetric])
  with d show ?thesis by (simp add: map_of_js_map_from map_of_inject_set)
qed

subsection \<open>One step through the aliases\<close>

definition next_alias :: "(string, string) js_map \<Rightarrow> string \<Rightarrow> string option" where
  "next_alias m x = (case map_of m x of
       None \<Rightarrow> None
     | Some z \<Rightarrow> if z = [] \<or> z = x then None else Some z)"

function resolve_loop ::
  "(string, string) js_map \<Rightarrow> string list \<Rightarrow> string \<Rightarrow> string + string" where
  "resolve_loop m seen current =
     (if current \<in> set seen then Inl current
      else case next_alias m current of
             None \<Rightarrow> Inr current
           | Some nxt \<Rightarrow> resolve_loop m (current # seen) nxt)"
  by pat_completeness auto
termination
proof (relation "measure (\<lambda>(m, seen, current). card (fst ` set m - set seen))")
  show "wf (measure (\<lambda>(m, seen, current). card (fst ` set (m::(string, string) js_map) - set seen)))"
    by simp
next
  fix m :: "(string, string) js_map" and seen current nxt
  assume new: "current \<notin> set seen" and nxt: "next_alias m current = Some nxt"
  from nxt have "current \<in> fst ` set m"
    by (auto simp: next_alias_def dest!: map_of_SomeD split: option.splits intro: rev_image_eqI)
  with new have "fst ` set m - set (current # seen) \<subset> fst ` set m - set seen"
    by auto
  then have "card (fst ` set m - set (current # seen)) < card (fst ` set m - set seen)"
    by (simp add: psubset_card_mono)
  then show "((m, current # seen, nxt), m, seen, current) \<in>
      measure (\<lambda>(m, seen, current). card (fst ` set m - set seen))" by simp
qed

declare resolve_loop.simps [simp del]

definition resolve_alias :: "(string, string) js_map \<Rightarrow> string \<Rightarrow> string + string" where
  "resolve_alias m x = resolve_loop m [] x"

subsection \<open>Specification: the chain of aliases ends\<close>

inductive resolves :: "(string, string) js_map \<Rightarrow> string \<Rightarrow> nat \<Rightarrow> string \<Rightarrow> bool"
  for m where
  root: "next_alias m x = None \<Longrightarrow> resolves m x 0 x"
| hop: "next_alias m x = Some z \<Longrightarrow> resolves m z n y \<Longrightarrow> resolves m x (Suc n) y"

inductive_cases resolves_cases: "resolves m x n y"

lemma resolves_deterministic:
  "resolves m x n y \<Longrightarrow> resolves m x n' y' \<Longrightarrow> n = n' \<and> y = y'"
proof (induction arbitrary: n' rule: resolves.induct)
  case (root x)
  then show ?case by (auto elim: resolves.cases)
next
  case (hop x z n y)
  from hop.prems show ?case
  proof (cases rule: resolves.cases)
    case root
    then show ?thesis using hop.hyps by simp
  next
    case (hop w k)
    then show ?thesis using hop.hyps \<open>next_alias m x = Some z\<close> hop.IH by auto
  qed
qed

lemma resolves_end: "resolves m x n y \<Longrightarrow> next_alias m y = None"
  by (induction rule: resolves.induct) auto

lemma resolves_nonempty: "resolves m x n y \<Longrightarrow> x \<noteq> [] \<Longrightarrow> y \<noteq> []"
proof (induction rule: resolves.induct)
  case (root x)
  then show ?case by simp
next
  case (hop x z n y)
  from hop.hyps(1) have "z \<noteq> []" by (auto simp: next_alias_def split: option.splits if_splits)
  then show ?case by (rule hop.IH)
qed

lemma resolve_loop_sound: "resolve_loop m seen x = Inr y \<Longrightarrow> \<exists>n. resolves m x n y"
proof (induction m seen x rule: resolve_loop.induct)
  case (1 m seen current)
  show ?case
  proof (cases "next_alias m current")
    case None
    with "1.prems" have "y = current"
      by (subst (asm) resolve_loop.simps) (auto split: if_splits)
    with None show ?thesis by (auto intro: resolves.root)
  next
    case (Some nxt)
    with "1.prems" have new: "current \<notin> set seen"
      and rec: "resolve_loop m (current # seen) nxt = Inr y"
      by (subst (asm) resolve_loop.simps, auto split: if_splits)+
    from "1.IH" [OF new Some rec] obtain n where "resolves m nxt n y" ..
    with Some show ?thesis by (auto intro: resolves.hop)
  qed
qed

lemma resolve_loop_complete:
  "resolves m x n y \<Longrightarrow> (\<And>s. s \<in> set seen \<Longrightarrow> \<exists>k y'. n < k \<and> resolves m s k y') \<Longrightarrow>
   resolve_loop m seen x = Inr y"
proof (induction arbitrary: seen rule: resolves.induct)
  case (root x)
  have "x \<notin> set seen"
    using root resolves.root [OF root.hyps] resolves_deterministic by (metis less_irrefl)
  with root.hyps show ?case by (subst resolve_loop.simps) simp
next
  case (hop x z n y)
  have x: "resolves m x (Suc n) y" using hop.hyps by (rule resolves.hop)
  have new: "x \<notin> set seen"
    using hop.prems x resolves_deterministic by (metis less_irrefl)
  have "resolve_loop m (x # seen) z = Inr y"
  proof (rule hop.IH)
    fix s assume "s \<in> set (x # seen)"
    then show "\<exists>k y'. n < k \<and> resolves m s k y'"
      using x hop.prems [of s] by (auto intro: less_trans [OF lessI])
  qed
  with new hop.hyps(1) show ?case by (subst resolve_loop.simps) simp
qed

lemma resolve_alias_iff: "resolve_alias m x = Inr y \<longleftrightarrow> (\<exists>n. resolves m x n y)"
  using resolve_loop_sound resolve_loop_complete [where seen = "[]"]
  by (auto simp: resolve_alias_def)

lemma resolve_alias_end: "resolve_alias m x = Inr y \<Longrightarrow> next_alias m y = None"
  by (auto simp: resolve_alias_iff dest: resolves_end)

lemma resolve_alias_root: "next_alias m x = None \<Longrightarrow> resolve_alias m x = Inr x"
  by (auto simp: resolve_alias_iff intro: resolves.root)

lemma resolve_alias_idem:
  "resolve_alias m x = Inr y \<Longrightarrow> resolve_alias m y = Inr y"
  by (auto dest: resolve_alias_end resolve_alias_root)

lemma resolve_alias_nonempty: "resolve_alias m x = Inr y \<Longrightarrow> x \<noteq> [] \<Longrightarrow> y \<noteq> []"
  by (auto simp: resolve_alias_iff dest: resolves_nonempty)

lemma next_alias_cong: "map_of m = map_of m' \<Longrightarrow> next_alias m = next_alias m'"
  by (auto simp: next_alias_def fun_eq_iff)

lemma resolves_cong: "next_alias m = next_alias m' \<Longrightarrow> resolves m x n y \<Longrightarrow> resolves m' x n y"
  by (rotate_tac, induction rule: resolves.induct) (auto intro: resolves.intros)

lemma resolve_alias_cong:
  "map_of m = map_of m' \<Longrightarrow> resolve_alias m x = Inr y \<Longrightarrow> resolve_alias m' x = Inr y"
  using next_alias_cong resolves_cong by (metis resolve_alias_iff)

text \<open>Joining two chains: the ends become one, and no other id resolves differently.\<close>

lemma resolves_join:
  assumes p: "next_alias m p = None" and s: "next_alias m s = None"
    and ne: "p \<noteq> s" "p \<noteq> []"
  shows "resolves m x n y \<Longrightarrow> \<exists>k. resolves (map_set s p m) x k (if y = s then p else y)"
proof (induction rule: resolves.induct)
  case (root x)
  have pp: "resolves (map_set s p m) p 0 p"
    using p ne by (intro resolves.root) (simp add: next_alias_def)
  show ?case
  proof (cases "x = s")
    case True
    have "next_alias (map_set s p m) s = Some p" using ne by (simp add: next_alias_def)
    then show ?thesis using pp True by (auto intro: resolves.hop)
  next
    case False
    then have "next_alias (map_set s p m) x = None" using root by (simp add: next_alias_def)
    then show ?thesis using False by (auto intro: resolves.root)
  qed
next
  case (hop x z n y)
  from hop.hyps(1) s have "x \<noteq> s" by auto
  then have "next_alias (map_set s p m) x = Some z"
    using hop.hyps(1) by (simp add: next_alias_def)
  with hop.IH show ?case using resolves.hop by blast
qed

lemma resolve_alias_join:
  "next_alias m p = None \<Longrightarrow> next_alias m s = None \<Longrightarrow> p \<noteq> s \<Longrightarrow> p \<noteq> [] \<Longrightarrow>
   resolve_alias m x = Inr y \<Longrightarrow>
   resolve_alias (map_set s p m) x = Inr (if y = s then p else y)"
  using resolves_join by (metis resolve_alias_iff)

definition is_Inr :: "'a + 'b \<Rightarrow> bool" where
  "is_Inr v = (case v of Inl _ \<Rightarrow> False | Inr _ \<Rightarrow> True)"

definition aliases_total :: "(string, string) js_map \<Rightarrow> bool" where
  "aliases_total m \<longleftrightarrow> list_all (\<lambda>p. is_Inr (resolve_alias m (fst p))) m"

lemma is_Inr_iff: "is_Inr v \<longleftrightarrow> (\<exists>y. v = Inr y)"
  by (cases v) (auto simp: is_Inr_def)

lemma aliases_total_resolves: "aliases_total m \<Longrightarrow> \<exists>y. resolve_alias m x = Inr y"
proof (cases "map_of m x")
  case None
  then have "next_alias m x = None" by (simp add: next_alias_def)
  then show ?thesis using resolve_alias_root by blast
next
  case (Some v)
  assume "aliases_total m"
  with Some show ?thesis
    by (auto simp: aliases_total_def list_all_iff is_Inr_iff dest!: map_of_SomeD)
qed

lemma aliases_totalI: "(\<And>x. \<exists>y. resolve_alias m x = Inr y) \<Longrightarrow> aliases_total m"
  by (auto simp: aliases_total_def list_all_iff is_Inr_iff)

lemma aliases_total_iff: "aliases_total m \<longleftrightarrow> (\<forall>x. \<exists>y. resolve_alias m x = Inr y)"
  using aliases_total_resolves aliases_totalI by blast

lemma aliases_total_cong: "map_of m = map_of m' \<Longrightarrow> aliases_total m \<Longrightarrow> aliases_total m'"
  using resolve_alias_cong by (metis aliases_total_iff)

lemma aliases_total_join:
  "aliases_total m \<Longrightarrow> next_alias m p = None \<Longrightarrow> next_alias m s = None \<Longrightarrow> p \<noteq> s \<Longrightarrow>
   p \<noteq> [] \<Longrightarrow> aliases_total (map_set s p m)"
  unfolding aliases_total_iff by (metis resolve_alias_join)

lemma aliases_total_Nil [simp]: "aliases_total []"
  by (simp add: aliases_total_def)

end
