(* ===== verification/Table.thy ===== *)
theory Table
  imports Prelude
begin

text \<open>
  SQL tables as row lists. A table is the list of its rows in \<open>rowid\<close> order: an
  insertion appends, an update rewrites rows in place, a deletion filters. The key of a
  table (its primary key or a \<open>UNIQUE\<close> column list) is a function from rows to keys,
  and \<open>keyed\<close> says that it identifies rows. The operations are the statement shapes
  the repository uses: plain \<open>INSERT\<close> (an error on a duplicate key), \<open>INSERT ... ON
  CONFLICT DO NOTHING\<close>, \<open>INSERT ... ON CONFLICT DO UPDATE\<close>, \<open>UPDATE ... WHERE\<close>,
  \<open>DELETE ... WHERE\<close>, and \<open>SELECT ... ORDER BY ... LIMIT 1\<close>.
\<close>

datatype db_error = UniqueViolation | ForeignKeyViolation

definition keyed :: "('r \<Rightarrow> 'k) \<Rightarrow> 'r list \<Rightarrow> bool" where
  "keyed key rows \<longleftrightarrow> distinct (map key rows)"

definition tbl_has :: "('r \<Rightarrow> 'k) \<Rightarrow> 'k \<Rightarrow> 'r list \<Rightarrow> bool" where
  "tbl_has key k rows \<longleftrightarrow> list_ex (\<lambda>r. key r = k) rows"

definition tbl_get :: "('r \<Rightarrow> 'k) \<Rightarrow> 'k \<Rightarrow> 'r list \<Rightarrow> 'r option" where
  "tbl_get key k rows = find (\<lambda>r. key r = k) rows"

definition tbl_insert :: "('r \<Rightarrow> 'k) \<Rightarrow> 'r \<Rightarrow> 'r list \<Rightarrow> db_error + 'r list" where
  "tbl_insert key r rows =
     (if tbl_has key (key r) rows then Inl UniqueViolation else Inr (rows @ [r]))"

definition tbl_insert_ignore :: "('r \<Rightarrow> 'k) \<Rightarrow> 'r \<Rightarrow> 'r list \<Rightarrow> 'r list" where
  "tbl_insert_ignore key r rows = (if tbl_has key (key r) rows then rows else rows @ [r])"

definition tbl_update :: "('r \<Rightarrow> bool) \<Rightarrow> ('r \<Rightarrow> 'r) \<Rightarrow> 'r list \<Rightarrow> 'r list" where
  "tbl_update P f rows = map (\<lambda>r. if P r then f r else r) rows"

definition tbl_changes :: "('r \<Rightarrow> bool) \<Rightarrow> 'r list \<Rightarrow> nat" where
  "tbl_changes P rows = length (filter P rows)"

definition tbl_delete :: "('r \<Rightarrow> bool) \<Rightarrow> 'r list \<Rightarrow> 'r list" where
  "tbl_delete P rows = filter (\<lambda>r. \<not> P r) rows"

definition tbl_upsert :: "('r \<Rightarrow> 'k) \<Rightarrow> 'r \<Rightarrow> ('r \<Rightarrow> 'r) \<Rightarrow> 'r list \<Rightarrow> 'r list" where
  "tbl_upsert key r upd rows =
     (if tbl_has key (key r) rows then tbl_update (\<lambda>x. key x = key r) upd rows
      else rows @ [r])"

text \<open>
  \<open>INSERT ... ON CONFLICT (key) DO UPDATE\<close> on a table whose primary key \<open>pk\<close> is not the conflict
  target: a new row whose primary key is taken is an error.
\<close>

definition tbl_upsert_pk ::
  "('r \<Rightarrow> 'p) \<Rightarrow> ('r \<Rightarrow> 'k) \<Rightarrow> 'r \<Rightarrow> ('r \<Rightarrow> 'r) \<Rightarrow> 'r list \<Rightarrow> db_error + 'r list" where
  "tbl_upsert_pk pk key r upd rows =
     (if tbl_has key (key r) rows then Inr (tbl_update (\<lambda>x. key x = key r) upd rows)
      else if tbl_has pk (pk r) rows then Inl UniqueViolation
      else Inr (rows @ [r]))"

definition order_first :: "('r \<Rightarrow> 'k::linorder) \<Rightarrow> 'r list \<Rightarrow> 'r option" where
  "order_first key rows = (case sort_key key rows of [] \<Rightarrow> None | r # _ \<Rightarrow> Some r)"

subsection \<open>Lookup\<close>

lemma tbl_has_iff: "tbl_has key k rows \<longleftrightarrow> k \<in> key ` set rows"
  by (auto simp: tbl_has_def list_ex_iff)

lemma tbl_has_Nil [simp]: "\<not> tbl_has key k []"
  by (simp add: tbl_has_def)

lemma tbl_has_Cons [simp]: "tbl_has key k (r # rows) \<longleftrightarrow> key r = k \<or> tbl_has key k rows"
  by (simp add: tbl_has_def)

lemma tbl_has_append [simp]: "tbl_has key k (xs @ ys) \<longleftrightarrow> tbl_has key k xs \<or> tbl_has key k ys"
  by (simp add: tbl_has_def)

lemma tbl_get_Nil [simp]: "tbl_get key k [] = None"
  by (simp add: tbl_get_def)

lemma tbl_get_Cons [simp]:
  "tbl_get key k (r # rows) = (if key r = k then Some r else tbl_get key k rows)"
  by (simp add: tbl_get_def)

lemma tbl_get_append [simp]:
  "tbl_get key k (xs @ ys) = (case tbl_get key k xs of None \<Rightarrow> tbl_get key k ys | Some r \<Rightarrow> Some r)"
  by (induction xs) auto

lemma tbl_get_None_iff: "tbl_get key k rows = None \<longleftrightarrow> \<not> tbl_has key k rows"
  by (induction rows) auto

lemma tbl_get_SomeD: "tbl_get key k rows = Some r \<Longrightarrow> r \<in> set rows \<and> key r = k"
  by (induction rows) (auto split: if_splits)

lemma tbl_has_get: "tbl_has key k rows \<Longrightarrow> \<exists>r. tbl_get key k rows = Some r \<and> key r = k"
  by (induction rows) auto

lemma tbl_get_keyed:
  "keyed key rows \<Longrightarrow> r \<in> set rows \<Longrightarrow> tbl_get key (key r) rows = Some r"
  by (induction rows) (auto simp: keyed_def)

lemma keyed_unique:
  "keyed key rows \<Longrightarrow> r \<in> set rows \<Longrightarrow> r' \<in> set rows \<Longrightarrow> key r = key r' \<Longrightarrow> r = r'"
  by (auto simp: keyed_def distinct_map dest: inj_onD)

subsection \<open>Keys stay unique\<close>

lemma keyed_Nil [simp]: "keyed key []"
  by (simp add: keyed_def)

lemma keyed_append_one: "keyed key (rows @ [r]) \<longleftrightarrow> keyed key rows \<and> \<not> tbl_has key (key r) rows"
  by (auto simp: keyed_def tbl_has_iff)

lemma keyed_insert [keyed_intros]: "tbl_insert key r rows = Inr rows' \<Longrightarrow> keyed key rows \<Longrightarrow> keyed key rows'"
  by (auto simp: tbl_insert_def keyed_append_one split: if_splits)

lemma keyed_insert_ignore [keyed_intros]: "keyed key rows \<Longrightarrow> keyed key (tbl_insert_ignore key r rows)"
  by (auto simp: tbl_insert_ignore_def keyed_append_one)

lemma keyed_update [keyed_intros]:
  "(\<And>r. P r \<Longrightarrow> key (f r) = key r) \<Longrightarrow> keyed key rows \<Longrightarrow> keyed key (tbl_update P f rows)"
proof -
  assume f: "\<And>r. P r \<Longrightarrow> key (f r) = key r"
  assume k: "keyed key rows"
  have "map key (tbl_update P f rows) = map key rows"
    using f by (auto simp: tbl_update_def)
  with k show ?thesis by (simp add: keyed_def)
qed

lemma keyed_delete [keyed_intros]: "keyed key rows \<Longrightarrow> keyed key (tbl_delete P rows)"
  by (auto simp: tbl_delete_def keyed_def distinct_map intro: inj_on_subset)

lemma keyed_upsert [keyed_intros]:
  "(\<And>x. key x = key r \<Longrightarrow> key (upd x) = key x) \<Longrightarrow> keyed key rows \<Longrightarrow>
   keyed key (tbl_upsert key r upd rows)"
  using keyed_update [of "\<lambda>x. key x = key r" key upd rows]
  by (simp add: tbl_upsert_def keyed_append_one)

subsection \<open>What the operations do to the rows\<close>

lemma set_tbl_update: "set (tbl_update P f rows) = {if P r then f r else r | r. r \<in> set rows}"
  by (auto simp: tbl_update_def)

lemma set_tbl_delete [simp]: "set (tbl_delete P rows) = {r \<in> set rows. \<not> P r}"
  by (auto simp: tbl_delete_def)

lemma length_tbl_update [simp]: "length (tbl_update P f rows) = length rows"
  by (simp add: tbl_update_def)

lemma tbl_update_Nil [simp]: "tbl_update P f [] = []"
  by (simp add: tbl_update_def)

lemma tbl_update_none: "(\<And>r. r \<in> set rows \<Longrightarrow> \<not> P r) \<Longrightarrow> tbl_update P f rows = rows"
  by (auto simp: tbl_update_def intro: map_idI)

lemma tbl_changes_eq_0: "tbl_changes P rows = 0 \<longleftrightarrow> (\<forall>r\<in>set rows. \<not> P r)"
  by (auto simp: tbl_changes_def filter_empty_conv)

lemma tbl_changes_pos: "0 < tbl_changes P rows \<longleftrightarrow> (\<exists>r\<in>set rows. P r)"
  using tbl_changes_eq_0 [of P rows] by auto

lemma tbl_has_update [table_simps]:
  "(\<And>r. P r \<Longrightarrow> key (f r) = key r) \<Longrightarrow> tbl_has key k (tbl_update P f rows) = tbl_has key k rows"
  by (induction rows) (auto simp: tbl_update_def)

lemma tbl_has_insert_ignore [table_simps]:
  "tbl_has key k (tbl_insert_ignore key r rows) \<longleftrightarrow> key r = k \<or> tbl_has key k rows"
  by (auto simp: tbl_insert_ignore_def)

lemma tbl_has_upsert [table_simps]:
  "(\<And>x. key x = key r \<Longrightarrow> key (upd x) = key x) \<Longrightarrow>
   tbl_has key k (tbl_upsert key r upd rows) \<longleftrightarrow> key r = k \<or> tbl_has key k rows"
  using tbl_has_update [of "\<lambda>x. key x = key r" key upd k rows]
  by (auto simp: tbl_upsert_def)

lemma tbl_get_update [table_simps]:
  "(\<And>r. P r \<Longrightarrow> key (f r) = key r) \<Longrightarrow>
   tbl_get key k (tbl_update P f rows) =
     map_option (\<lambda>r. if P r then f r else r) (tbl_get key k rows)"
  by (induction rows) (auto simp: tbl_update_def)

lemma tbl_get_insert_ignore [table_simps]:
  "tbl_get key k (tbl_insert_ignore key r rows) =
     (if tbl_has key k rows then tbl_get key k rows else if key r = k then Some r else None)"
  using tbl_get_None_iff [of key k rows]
  by (auto simp: tbl_insert_ignore_def split: option.splits)

lemma tbl_get_upsert [table_simps]:
  assumes "\<And>x. key x = key r \<Longrightarrow> key (upd x) = key x"
  shows "tbl_get key k (tbl_upsert key r upd rows) =
    (if key r = k
     then Some (case tbl_get key k rows of None \<Rightarrow> r | Some x \<Rightarrow> upd x)
     else tbl_get key k rows)"
proof (cases "tbl_has key (key r) rows")
  case True
  then obtain x where x: "tbl_get key (key r) rows = Some x" "key x = key r"
    using tbl_has_get by metis
  have "tbl_get key k (tbl_upsert key r upd rows) =
      map_option (\<lambda>y. if key y = key r then upd y else y) (tbl_get key k rows)"
    using True tbl_get_update [of "\<lambda>x. key x = key r" key upd k rows] assms
    by (simp add: tbl_upsert_def)
  then show ?thesis
    using x by (cases "tbl_get key k rows") (auto dest: tbl_get_SomeD)
next
  case False
  then have "tbl_get key (key r) rows = None" by (simp add: tbl_get_None_iff)
  then show ?thesis using False by (auto simp: tbl_upsert_def split: option.splits)
qed

lemma tbl_get_delete [table_simps]:
  "keyed key rows \<Longrightarrow>
   tbl_get key k (tbl_delete P rows) =
     (case tbl_get key k rows of None \<Rightarrow> None | Some r \<Rightarrow> if P r then None else Some r)"
  by (induction rows) (auto simp: tbl_delete_def keyed_def tbl_get_None_iff tbl_has_iff
      split: option.splits dest!: tbl_get_SomeD)

lemma tbl_has_delete:
  "tbl_has key k (tbl_delete P rows) \<longleftrightarrow> (\<exists>r\<in>set rows. \<not> P r \<and> key r = k)"
  by (auto simp: tbl_has_iff)

lemma tbl_upsert_cases:
  assumes "x \<in> set (tbl_upsert key r upd rows)"
  obtains (kept) "x \<in> set rows" | (new) "x = r"
  | (updated) x' where "x' \<in> set rows" "key x' = key r" "x = upd x'"
  using assms by (fastforce simp: tbl_upsert_def tbl_update_def split: if_split_asm)

text \<open>
  When the primary key is determined by the conflict key and the other way round, the
  primary-key check of \<open>tbl_upsert_pk\<close> never fires.
\<close>

lemma tbl_upsert_pk_agree:
  assumes "\<forall>x\<in>set rows. pk x = pk r \<longrightarrow> key x = key r"
  shows "tbl_upsert_pk pk key r upd rows = Inr (tbl_upsert key r upd rows)"
proof (cases "tbl_has pk (pk r) rows")
  case True
  then obtain x where "x \<in> set rows" "pk x = pk r" by (auto simp: tbl_has_iff)
  then have "tbl_has key (key r) rows" using assms by (auto simp: tbl_has_iff intro!: image_eqI [of _ _ x])
  then show ?thesis by (simp add: tbl_upsert_pk_def tbl_upsert_def)
qed (simp add: tbl_upsert_pk_def tbl_upsert_def)

subsection \<open>Ordered selection\<close>

lemma order_first_None_iff: "order_first key rows = None \<longleftrightarrow> rows = []"
  by (auto simp: order_first_def split: list.splits dest: arg_cong [of _ _ length])

lemma order_first_Nil [simp]: "order_first key [] = None"
  by (simp add: order_first_def)

lemma order_first_SomeD:
  assumes "order_first key rows = Some r"
  shows "r \<in> set rows \<and> (\<forall>x\<in>set rows. key r \<le> key x)"
proof -
  obtain rest where s: "sort_key key rows = r # rest"
    using assms by (auto simp: order_first_def split: list.splits)
  have "sorted (map key (r # rest))" using s by (metis sorted_sort_key)
  then have "\<forall>x\<in>set (r # rest). key r \<le> key x" by auto
  moreover have "set rows = set (r # rest)" using s by (metis set_sort)
  ultimately show ?thesis by simp
qed

end
