(* ===== verification/ContactMerge.thy ===== *)
theory ContactMerge
  imports Aliases Table
begin

text \<open>
  Manual contact merges and contact memories: the tables \<open>contact_merge_decisions\<close> and
  \<open>contact_memories\<close> of \<^verbatim>\<open>src/db/schema.ts\<close> and the operations of
  \<^verbatim>\<open>src/db/database.ts\<close> on them (\<open>planContactMergeDecisions\<close>,
  \<open>recordContactMergeDecisionsBatch\<close>, \<open>addContactMemory\<close>, \<open>listContactMemories\<close>,
  \<open>markContactMemoryStale\<close>). The contacts table is projected elsewhere; these operations
  read only its ids and names, so here it is a list of pairs. \<open>randomUUID()\<close> is an
  argument: the value it returned, or, for a batch, the sequence of values.
\<close>

subsection \<open>State\<close>

record merge_input =
  mi_primary :: string
  mi_secondary :: string
  mi_reason :: "string option"

record planned_merge =
  pl_id :: string
  pl_primary :: string
  pl_secondary :: string
  pl_canonical :: string
  pl_reason :: "string option"

record decision_row =
  dec_id :: string
  dec_type :: string
  dec_primary :: string
  dec_secondary :: string
  dec_canonical :: string
  dec_reason :: "string option"
  dec_created_by :: "string option"
  dec_created_at :: int

record memory_row =
  mem_id :: string
  mem_contact :: string
  mem_body :: string
  mem_source_kind :: string
  mem_evidence_json :: "string option"
  mem_confidence :: "int option"
  mem_supersedes :: "string option"
  mem_stale_at :: "int option"
  mem_created_by :: "string option"
  mem_created_at :: int
  mem_updated_at :: int

record merge_db =
  mdb_contacts :: "(string \<times> string option) list"
  mdb_decisions :: "decision_row list"
  mdb_memories :: "memory_row list"

datatype contact_label = Primary | Secondary

datatype merge_error =
    MergeListEmpty
  | MergeIdsRequired
  | MergeIntoItself
  | ContactMissing contact_label string
  | AliasCycle string
  | AlreadyMerged string
  | MergeDb db_error

subsection \<open>Reading the aliases\<close>

definition listContactMergeDecisions :: "merge_db \<Rightarrow> decision_row list" where
  "listContactMergeDecisions db =
     sort_key (\<lambda>d. (dec_created_at d, dec_id d)) (mdb_decisions db)"

definition listContactMergeAliases :: "merge_db \<Rightarrow> (string \<times> string) list" where
  "listContactMergeAliases db =
     map (\<lambda>d. (dec_secondary d, dec_canonical d))
       (sort_key (\<lambda>d. (dec_created_at d, dec_id d))
         (filter (\<lambda>d. dec_type d = ''merge'') (mdb_decisions db)))"

definition merge_aliases :: "merge_db \<Rightarrow> (string, string) js_map" where
  "merge_aliases db = js_map_from (listContactMergeAliases db)"

definition resolve_or_throw :: "string \<Rightarrow> (string, string) js_map \<Rightarrow> merge_error + string" where
  "resolve_or_throw contactId aliasMap =
     (case resolve_alias aliasMap contactId of Inl c \<Rightarrow> Inl (AliasCycle c) | Inr y \<Rightarrow> Inr y)"

definition db_resolveCanonicalContactId :: "merge_db \<Rightarrow> string \<Rightarrow> merge_error + string" where
  "db_resolveCanonicalContactId db contactId = resolve_or_throw contactId (merge_aliases db)"

definition assertContactExists :: "merge_db \<Rightarrow> string \<Rightarrow> contact_label \<Rightarrow> merge_error + unit" where
  "assertContactExists db contactId label =
     (if tbl_has fst contactId (mdb_contacts db) then Inr ()
      else Inl (ContactMissing label contactId))"

subsection \<open>Planning\<close>

definition plan_one ::
  "merge_db \<Rightarrow> string \<Rightarrow> (string, string) js_map \<Rightarrow> merge_input \<Rightarrow>
   merge_error + planned_merge \<times> (string, string) js_map" where
  "plan_one db uuid aliasMap merge =
     (let primaryContactId = js_trim (mi_primary merge);
          secondaryContactId = js_trim (mi_secondary merge)
      in if primaryContactId = [] \<or> secondaryContactId = [] then Inl MergeIdsRequired
         else if primaryContactId = secondaryContactId then Inl MergeIntoItself
         else ebind (assertContactExists db primaryContactId Primary) (\<lambda>_.
              ebind (assertContactExists db secondaryContactId Secondary) (\<lambda>_.
              ebind (resolve_or_throw primaryContactId aliasMap) (\<lambda>canonicalPrimary.
              ebind (resolve_or_throw secondaryContactId aliasMap) (\<lambda>canonicalSecondary.
                if canonicalPrimary = canonicalSecondary then Inl (AlreadyMerged canonicalPrimary)
                else let aliasMap' = map_set canonicalSecondary canonicalPrimary aliasMap in
                  ebind (resolve_or_throw canonicalSecondary aliasMap') (\<lambda>_.
                    Inr (\<lparr>pl_id = uuid, pl_primary = canonicalPrimary,
                          pl_secondary = canonicalSecondary, pl_canonical = canonicalPrimary,
                          pl_reason = mi_reason merge\<rparr>, aliasMap')))))))"

fun plan_loop ::
  "merge_db \<Rightarrow> (nat \<Rightarrow> string) \<Rightarrow> nat \<Rightarrow> (string, string) js_map \<Rightarrow> merge_input list \<Rightarrow>
   merge_error + planned_merge list \<times> (string, string) js_map" where
  "plan_loop db uuid i aliasMap [] = Inr ([], aliasMap)"
| "plan_loop db uuid i aliasMap (merge # rest) =
     ebind (plan_one db (uuid i) aliasMap merge) (\<lambda>(planned, aliasMap').
     ebind (plan_loop db uuid (Suc i) aliasMap' rest) (\<lambda>(more, aliasMap'').
       Inr (planned # more, aliasMap'')))"

definition planContactMergeDecisions ::
  "merge_db \<Rightarrow> (nat \<Rightarrow> string) \<Rightarrow> merge_input list \<Rightarrow> merge_error + planned_merge list" where
  "planContactMergeDecisions db uuid input =
     (if input = [] then Inl MergeListEmpty
      else ebind (plan_loop db uuid 0 (merge_aliases db) input) (\<lambda>(planned, _). Inr planned))"

subsection \<open>Recording\<close>

definition decision_of :: "int \<Rightarrow> string option \<Rightarrow> planned_merge \<Rightarrow> decision_row" where
  "decision_of timestamp createdBy decision =
     \<lparr>dec_id = pl_id decision, dec_type = ''merge'', dec_primary = pl_primary decision,
      dec_secondary = pl_secondary decision, dec_canonical = pl_canonical decision,
      dec_reason = pl_reason decision, dec_created_by = Some (get_or createdBy ''cli''),
      dec_created_at = timestamp\<rparr>"

definition record_one ::
  "int \<Rightarrow> string option \<Rightarrow> planned_merge \<Rightarrow> merge_db \<Rightarrow> merge_error + merge_db" where
  "record_one timestamp createdBy decision db =
     (case tbl_insert dec_id (decision_of timestamp createdBy decision) (mdb_decisions db) of
        Inl e \<Rightarrow> Inl (MergeDb e)
      | Inr ds \<Rightarrow> Inr (db\<lparr>mdb_decisions := ds,
          mdb_memories := tbl_update (\<lambda>m. mem_contact m = pl_secondary decision)
            (\<lambda>m. m\<lparr>mem_contact := pl_canonical decision, mem_updated_at := timestamp\<rparr>)
            (mdb_memories db)\<rparr>))"

fun record_all ::
  "int \<Rightarrow> string option \<Rightarrow> planned_merge list \<Rightarrow> merge_db \<Rightarrow> merge_error + merge_db" where
  "record_all timestamp createdBy [] db = Inr db"
| "record_all timestamp createdBy (d # ds) db =
     ebind (record_one timestamp createdBy d db) (record_all timestamp createdBy ds)"

definition recordContactMergeDecisionsBatch ::
  "int \<Rightarrow> (nat \<Rightarrow> string) \<Rightarrow> string option \<Rightarrow> merge_input list \<Rightarrow> merge_db \<Rightarrow>
   merge_error + planned_merge list \<times> merge_db" where
  "recordContactMergeDecisionsBatch timestamp uuid createdBy input db =
     ebind (planContactMergeDecisions db uuid input) (\<lambda>planned.
     ebind (record_all timestamp createdBy planned db) (\<lambda>db'. Inr (planned, db')))"

definition recordContactMergeDecision ::
  "int \<Rightarrow> string \<Rightarrow> string option \<Rightarrow> merge_input \<Rightarrow> merge_db \<Rightarrow>
   merge_error + planned_merge list \<times> merge_db" where
  "recordContactMergeDecision timestamp uuid createdBy input db =
     recordContactMergeDecisionsBatch timestamp (\<lambda>_. uuid) createdBy [input] db"

subsection \<open>Invariant\<close>

definition merge_rows :: "merge_db \<Rightarrow> decision_row list" where
  "merge_rows db = filter (\<lambda>d. dec_type d = ''merge'') (mdb_decisions db)"

definition merge_inv :: "merge_db \<Rightarrow> bool" where
  "merge_inv db \<longleftrightarrow>
     keyed dec_id (mdb_decisions db) \<and>
     distinct (map dec_secondary (merge_rows db)) \<and>
     (\<forall>d\<in>set (merge_rows db). dec_canonical d \<noteq> [] \<and> dec_canonical d \<noteq> dec_secondary d) \<and>
     aliases_total (merge_aliases db)"

definition pl_map :: "planned_merge list \<Rightarrow> (string, string) js_map \<Rightarrow> (string, string) js_map" where
  "pl_map planned m = fold (\<lambda>d. map_set (pl_secondary d) (pl_canonical d)) planned m"

lemma resolve_or_throw_Inr [simp]: "resolve_or_throw c m = Inr y \<longleftrightarrow> resolve_alias m c = Inr y"
  by (auto simp: resolve_or_throw_def split: sum.splits)

lemma plan_one_ok:
  assumes "plan_one db uuid m merge = Inr (d, m')"
  obtains "js_trim (mi_primary merge) \<noteq> []" "js_trim (mi_secondary merge) \<noteq> []"
    "tbl_has fst (js_trim (mi_primary merge)) (mdb_contacts db)"
    "tbl_has fst (js_trim (mi_secondary merge)) (mdb_contacts db)"
    "resolve_alias m (js_trim (mi_primary merge)) = Inr (pl_primary d)"
    "resolve_alias m (js_trim (mi_secondary merge)) = Inr (pl_secondary d)"
    "pl_primary d \<noteq> pl_secondary d" "pl_canonical d = pl_primary d" "pl_id d = uuid"
    "pl_reason d = mi_reason merge"
    "m' = map_set (pl_secondary d) (pl_canonical d) m"
  using assms
  by (auto simp: plan_one_def Let_def ebind_eq_Inr_iff assertContactExists_def split: if_splits)

lemma plan_one_roots:
  assumes "plan_one db uuid m merge = Inr (d, m')"
  shows "next_alias m (pl_primary d) = None" "next_alias m (pl_secondary d) = None"
    "pl_primary d \<noteq> []" "pl_primary d \<noteq> pl_secondary d" "pl_canonical d = pl_primary d"
    "pl_secondary d \<noteq> []" "pl_id d = uuid"
    "m' = map_set (pl_secondary d) (pl_primary d) m"
  using assms
  by (auto elim!: plan_one_ok dest: resolve_alias_end resolve_alias_nonempty)

lemma plan_one_total:
  assumes "plan_one db uuid m merge = Inr (d, m')" "aliases_total m"
  shows "aliases_total m'"
  using plan_one_roots [OF assms(1)] assms(2) by (simp add: aliases_total_join)

lemma plan_one_resolve:
  assumes "plan_one db uuid m merge = Inr (d, m')" "resolve_alias m x = Inr y"
  shows "resolve_alias m' x = Inr (if y = pl_secondary d then pl_primary d else y)"
  using plan_one_roots [OF assms(1)] assms(2) resolve_alias_join by metis

lemma plan_one_merges:
  assumes "plan_one db uuid m merge = Inr (d, m')"
  shows "resolve_alias m' (js_trim (mi_primary merge)) = Inr (pl_primary d)"
    "resolve_alias m' (js_trim (mi_secondary merge)) = Inr (pl_primary d)"
  using assms plan_one_resolve [OF assms] plan_one_roots(4) [OF assms]
  by (auto elim!: plan_one_ok)

text \<open>A planning step never runs into an alias cycle, neither before nor after its update.\<close>

lemma plan_one_no_cycle:
  assumes tot: "aliases_total m"
  shows "plan_one db uuid m merge \<noteq> Inl (AliasCycle c)"
proof
  assume err: "plan_one db uuid m merge = Inl (AliasCycle c)"
  let ?p = "js_trim (mi_primary merge)" and ?s = "js_trim (mi_secondary merge)"
  obtain p' s' where p: "resolve_alias m ?p = Inr p'" and s: "resolve_alias m ?s = Inr s'"
    using aliases_total_resolves [OF tot] by metis
  with err have ne: "?p \<noteq> []" "p' \<noteq> s'"
    and cyc: "resolve_or_throw s' (map_set s' p' m) = Inl (AliasCycle c)"
    by (auto simp: plan_one_def Let_def ebind_eq_Inl_iff assertContactExists_def
        resolve_or_throw_def split: if_splits)
  have "resolve_alias (map_set s' p' m) s' = Inr p'"
    using resolve_alias_join [OF resolve_alias_end [OF p] resolve_alias_end [OF s] ne(2)
        resolve_alias_nonempty [OF p ne(1)] resolve_alias_idem [OF s]] by simp
  with cyc show False by (simp add: resolve_or_throw_def)
qed

subsection \<open>The planning loop\<close>

lemma plan_loop_ConsE:
  assumes "plan_loop db uuid i m (merge # rest) = Inr (planned, m')"
  obtains d m1 more where "plan_one db (uuid i) m merge = Inr (d, m1)"
    "plan_loop db uuid (Suc i) m1 rest = Inr (more, m')" "planned = d # more"
  using assms by (auto simp: ebind_eq_Inr_iff)

lemma plan_loop_total:
  "plan_loop db uuid i m input = Inr (planned, m') \<Longrightarrow> aliases_total m \<Longrightarrow> aliases_total m'"
proof (induction input arbitrary: i m planned)
  case Nil
  then show ?case by simp
next
  case (Cons merge rest)
  from Cons.prems(1) obtain d m1 more where one: "plan_one db (uuid i) m merge = Inr (d, m1)"
    and rest: "plan_loop db uuid (Suc i) m1 rest = Inr (more, m')" and pl: "planned = d # more"
    by (rule plan_loop_ConsE)
  have "aliases_total m1" using one Cons.prems(2) by (rule plan_one_total)
  then show ?case by (rule Cons.IH [OF rest])
qed

lemma plan_loop_map:
  "plan_loop db uuid i m input = Inr (planned, m') \<Longrightarrow> m' = pl_map planned m"
proof (induction input arbitrary: i m planned)
  case Nil
  then show ?case by (simp add: pl_map_def)
next
  case (Cons merge rest)
  from Cons.prems obtain d m1 more where one: "plan_one db (uuid i) m merge = Inr (d, m1)"
    and rest: "plan_loop db uuid (Suc i) m1 rest = Inr (more, m')" and pl: "planned = d # more"
    by (rule plan_loop_ConsE)
  show ?case using Cons.IH [OF rest] plan_one_roots [OF one] pl by (simp add: pl_map_def)
qed

lemma plan_loop_length:
  "plan_loop db uuid i m input = Inr (planned, m') \<Longrightarrow> length planned = length input"
  by (induction input arbitrary: i m planned m') (auto simp: ebind_eq_Inr_iff)

lemma plan_loop_ids:
  "plan_loop db uuid i m input = Inr (planned, m') \<Longrightarrow>
   map pl_id planned = map uuid [i..<i + length input]"
  by (induction input arbitrary: i m planned m')
    (auto simp: ebind_eq_Inr_iff plan_one_roots upt_conv_Cons simp del: upt_Suc)

lemma plan_loop_no_cycle:
  "aliases_total m \<Longrightarrow> plan_loop db uuid i m input \<noteq> Inl (AliasCycle c)"
proof (induction input arbitrary: i m)
  case Nil
  then show ?case by simp
next
  case (Cons merge rest)
  show ?case
  proof (cases "plan_one db (uuid i) m merge")
    case (Inl e)
    then show ?thesis using plan_one_no_cycle [OF Cons.prems] by (metis ebind_Inl plan_loop.simps(2))
  next
    case (Inr r)
    obtain d m1 where r: "r = (d, m1)" by fastforce
    have "aliases_total m1" using Inr r Cons.prems plan_one_total by blast
    then show ?thesis using Inr r Cons.IH [of m1 "Suc i"]
      by (auto simp: ebind_eq_Inl_iff)
  qed
qed

text \<open>Contacts that resolved together before still do, and each requested pair now does.\<close>

lemma plan_loop_coarsens:
  "plan_loop db uuid i m input = Inr (planned, m') \<Longrightarrow>
   resolve_alias m x = Inr z \<Longrightarrow> resolve_alias m y = Inr z \<Longrightarrow>
   \<exists>w. resolve_alias m' x = Inr w \<and> resolve_alias m' y = Inr w"
proof (induction input arbitrary: i m planned z)
  case Nil
  then show ?case by simp
next
  case (Cons merge rest)
  then obtain d m1 more where one: "plan_one db (uuid i) m merge = Inr (d, m1)"
    and rest: "plan_loop db uuid (Suc i) m1 rest = Inr (more, m')"
    by (auto simp: ebind_eq_Inr_iff)
  show ?case
    using Cons.IH [OF rest] plan_one_resolve [OF one Cons.prems(2)]
      plan_one_resolve [OF one Cons.prems(3)] by blast
qed

lemma plan_loop_merges:
  "plan_loop db uuid i m input = Inr (planned, m') \<Longrightarrow> merge \<in> set input \<Longrightarrow>
   \<exists>w. resolve_alias m' (js_trim (mi_primary merge)) = Inr w \<and>
       resolve_alias m' (js_trim (mi_secondary merge)) = Inr w"
proof (induction input arbitrary: i m planned)
  case Nil
  then show ?case by simp
next
  case (Cons merge0 rest)
  then obtain d m1 more where one: "plan_one db (uuid i) m merge0 = Inr (d, m1)"
    and rest: "plan_loop db uuid (Suc i) m1 rest = Inr (more, m')"
    by (auto simp: ebind_eq_Inr_iff)
  show ?case
  proof (cases "merge = merge0")
    case True
    then show ?thesis using plan_loop_coarsens [OF rest] plan_one_merges [OF one] by blast
  next
    case False
    then show ?thesis using Cons.IH [OF rest] Cons.prems(2) by simp
  qed
qed

lemma plan_loop_rows:
  "plan_loop db uuid i m input = Inr (planned, m') \<Longrightarrow>
   distinct (map pl_secondary planned) \<and>
   (\<forall>d\<in>set planned. next_alias m (pl_secondary d) = None \<and> pl_canonical d \<noteq> [] \<and>
      pl_canonical d \<noteq> pl_secondary d \<and> pl_canonical d = pl_primary d)"
proof (induction input arbitrary: i m planned)
  case Nil
  then show ?case by simp
next
  case (Cons merge rest)
  then obtain d m1 more where one: "plan_one db (uuid i) m merge = Inr (d, m1)"
    and rest: "plan_loop db uuid (Suc i) m1 rest = Inr (more, m')" and pl: "planned = d # more"
    by (auto simp: ebind_eq_Inr_iff)
  note d = plan_one_roots [OF one]
  have later: "pl_secondary x \<noteq> pl_secondary d \<and> next_alias m (pl_secondary x) = None"
    if "x \<in> set more" for x
  proof -
    from Cons.IH [OF rest] that have x: "next_alias m1 (pl_secondary x) = None" by simp
    then have ne: "pl_secondary x \<noteq> pl_secondary d"
      using d by (auto simp: next_alias_def)
    with x d show ?thesis by (auto simp: next_alias_def)
  qed
  have "pl_secondary d \<notin> set (map pl_secondary more)"
    using later by (metis imageE set_map)
  moreover have "\<forall>x\<in>set more. pl_canonical x \<noteq> [] \<and> pl_canonical x \<noteq> pl_secondary x \<and>
      pl_canonical x = pl_primary x" and "distinct (map pl_secondary more)"
    using Cons.IH [OF rest] by blast+
  ultimately show ?case using later d pl by auto
qed

subsection \<open>Recording keeps the invariant\<close>

lemma listContactMergeAliases_set:
  "set (listContactMergeAliases db) = (\<lambda>d. (dec_secondary d, dec_canonical d)) ` set (merge_rows db)"
  by (simp add: listContactMergeAliases_def merge_rows_def)

lemma merge_aliases_map:
  assumes "distinct (map dec_secondary (merge_rows db))"
  shows "map_of (merge_aliases db) =
    map_of (map (\<lambda>d. (dec_secondary d, dec_canonical d)) (merge_rows db))"
proof -
  let ?pairs = "map (\<lambda>d. (dec_secondary d, dec_canonical d))"
  let ?s = "sort_key (\<lambda>d. (dec_created_at d, dec_id d)) (merge_rows db)"
  have "mset (map dec_secondary ?s) = mset (map dec_secondary (merge_rows db))" by simp
  then have "distinct (map dec_secondary ?s)" using assms by (metis mset_eq_imp_distinct_iff)
  then have d: "distinct (map fst (?pairs ?s))" by (simp add: comp_def)
  moreover have "distinct (map fst (?pairs (merge_rows db)))" using assms by (simp add: comp_def)
  ultimately have "map_of (?pairs ?s) = map_of (?pairs (merge_rows db))"
    by (subst map_of_inject_set) auto
  with d show ?thesis
    by (simp add: merge_aliases_def listContactMergeAliases_def map_of_js_map_from_distinct
        merge_rows_def [symmetric])
qed

lemma merge_inv_fresh:
  assumes "merge_inv db" "next_alias (merge_aliases db) k = None"
  shows "k \<notin> dec_secondary ` set (merge_rows db)"
proof
  assume "k \<in> dec_secondary ` set (merge_rows db)"
  then obtain d where d: "d \<in> set (merge_rows db)" "dec_secondary d = k" by auto
  have dist: "distinct (map dec_secondary (merge_rows db))"
    using assms(1) by (simp add: merge_inv_def)
  then have "map_of (map (\<lambda>d. (dec_secondary d, dec_canonical d)) (merge_rows db)) k
      = Some (dec_canonical d)"
    using d by (intro map_of_is_SomeI) (auto simp: comp_def)
  then show False
    using assms d by (auto simp: merge_inv_def next_alias_def merge_aliases_map [OF dist])
qed

lemma record_one_ok:
  assumes inv: "merge_inv db" and root: "next_alias (merge_aliases db) (pl_secondary d) = None"
    and proot: "next_alias (merge_aliases db) (pl_canonical d) = None"
    and ne: "pl_canonical d \<noteq> []" "pl_canonical d \<noteq> pl_secondary d"
    and ok: "record_one t cb d db = Inr db'"
  shows "merge_inv db' \<and>
    map_of (merge_aliases db') = (map_of (merge_aliases db))(pl_secondary d \<mapsto> pl_canonical d)"
proof -
  let ?row = "decision_of t cb d"
  from ok have ds: "tbl_insert dec_id ?row (mdb_decisions db) = Inr (mdb_decisions db')"
    by (auto simp: record_one_def split: sum.splits)
  then have app: "mdb_decisions db' = mdb_decisions db @ [?row]"
    by (auto simp: tbl_insert_def split: if_splits)
  then have rows: "merge_rows db' = merge_rows db @ [?row]"
    by (simp add: merge_rows_def decision_of_def)
  have fresh: "pl_secondary d \<notin> dec_secondary ` set (merge_rows db)"
    using merge_inv_fresh [OF inv root] .
  have dist: "distinct (map dec_secondary (merge_rows db))"
    using inv by (simp add: merge_inv_def)
  then have dist': "distinct (map dec_secondary (merge_rows db'))"
    using fresh rows by (auto simp: decision_of_def)
  have eq: "map_of (merge_aliases db') = (map_of (merge_aliases db))(pl_secondary d \<mapsto> pl_canonical d)"
  proof
    fix k
    have "map_of (map (\<lambda>d. (dec_secondary d, dec_canonical d)) (merge_rows db)) (pl_secondary d) = None"
      using fresh by (auto simp: map_of_eq_None_iff image_image)
    then show "map_of (merge_aliases db') k =
        ((map_of (merge_aliases db))(pl_secondary d \<mapsto> pl_canonical d)) k"
      unfolding merge_aliases_map [OF dist] merge_aliases_map [OF dist'] rows
      by (auto simp: decision_of_def map_add_def split: option.splits)
  qed
  have "aliases_total (map_set (pl_secondary d) (pl_canonical d) (merge_aliases db))"
    using inv root proot ne by (auto simp: merge_inv_def intro!: aliases_total_join)
  then have "aliases_total (merge_aliases db')"
    using eq aliases_total_cong by (metis map_of_map_set)
  moreover have "keyed dec_id (mdb_decisions db')"
    using ds inv by (auto simp: merge_inv_def intro: keyed_insert)
  ultimately show ?thesis
    using inv rows dist' ne eq by (auto simp: merge_inv_def decision_of_def)
qed

lemma record_all_ok:
  assumes "merge_inv db" "map_of (merge_aliases db) = map_of m"
    and "plan_loop db0 uuid i m input = Inr (planned, m')"
    and "record_all t cb planned db = Inr db'"
  shows "merge_inv db' \<and> map_of (merge_aliases db') = map_of m'"
  using assms
proof (induction input arbitrary: i m planned db)
  case Nil
  then show ?case by simp
next
  case (Cons merge rest)
  from Cons.prems(3) obtain d m1 more where one: "plan_one db0 (uuid i) m merge = Inr (d, m1)"
    and rest: "plan_loop db0 uuid (Suc i) m1 rest = Inr (more, m')" and pl: "planned = d # more"
    by (rule plan_loop_ConsE)
  from Cons.prems(4) pl obtain db1 where r1: "record_one t cb d db = Inr db1"
    and r2: "record_all t cb more db1 = Inr db'" by (auto simp: ebind_eq_Inr_iff)
  note d = plan_one_roots [OF one]
  have na: "next_alias (merge_aliases db) = next_alias m"
    using Cons.prems(2) by (rule next_alias_cong)
  have "merge_inv db1 \<and>
      map_of (merge_aliases db1) = (map_of (merge_aliases db))(pl_secondary d \<mapsto> pl_canonical d)"
    by (rule record_one_ok [OF Cons.prems(1) _ _ _ _ r1]) (simp_all add: na d)
  then have inv1: "merge_inv db1" and map1: "map_of (merge_aliases db1) = map_of m1"
    using Cons.prems(2) d by simp_all
  show ?case by (rule Cons.IH [OF inv1 map1 rest r2])
qed

lemma batch_ok:
  assumes inv: "merge_inv db"
    and ok: "recordContactMergeDecisionsBatch t uuid cb input db = Inr (planned, db')"
  obtains m' where "plan_loop db uuid 0 (merge_aliases db) input = Inr (planned, m')"
    "merge_inv db'" "map_of (merge_aliases db') = map_of m'"
proof -
  from ok obtain m' where pl: "plan_loop db uuid 0 (merge_aliases db) input = Inr (planned, m')"
    and rec: "record_all t cb planned db = Inr db'"
    by (auto simp: recordContactMergeDecisionsBatch_def planContactMergeDecisions_def
        ebind_eq_Inr_iff split: if_splits)
  from record_all_ok [OF inv refl pl rec] that pl show thesis by blast
qed

lemma record_all_contacts: "record_all t cb planned db = Inr db' \<Longrightarrow> mdb_contacts db' = mdb_contacts db"
  by (induction planned arbitrary: db)
    (auto simp: ebind_eq_Inr_iff record_one_def split: sum.splits)

lemma record_all_decisions:
  "record_all t cb planned db = Inr db' \<Longrightarrow>
   mdb_decisions db' = mdb_decisions db @ map (decision_of t cb) planned"
  by (induction planned arbitrary: db)
    (auto simp: ebind_eq_Inr_iff record_one_def tbl_insert_def split: sum.splits if_splits)

lemma record_all_memory_contacts:
  "record_all t cb planned db = Inr db' \<Longrightarrow>
   map mem_contact (mdb_memories db') =
     map (\<lambda>m. fold (\<lambda>d c. if c = pl_secondary d then pl_canonical d else c) planned (mem_contact m))
       (mdb_memories db)"
proof (induction planned arbitrary: db)
  case Nil
  then show ?case by simp
next
  case (Cons d ds)
  then obtain db1 where r1: "record_one t cb d db = Inr db1"
    and r2: "record_all t cb ds db1 = Inr db'" by (auto simp: ebind_eq_Inr_iff)
  from r1 have m1: "mdb_memories db1 = tbl_update (\<lambda>m. mem_contact m = pl_secondary d)
      (\<lambda>m. m\<lparr>mem_contact := pl_canonical d, mem_updated_at := t\<rparr>) (mdb_memories db)"
    by (auto simp: record_one_def split: sum.splits)
  show ?case unfolding Cons.IH [OF r2] m1 by (simp add: tbl_update_def comp_def)
qed

text \<open>Where a memory ends up is where its contact resolves, when it sat at a root before.\<close>

lemma plan_loop_fold_resolves:
  "plan_loop db uuid i m input = Inr (planned, m') \<Longrightarrow> next_alias m c = None \<Longrightarrow>
   resolve_alias m' c =
     Inr (fold (\<lambda>d c. if c = pl_secondary d then pl_canonical d else c) planned c)"
proof (induction input arbitrary: i m planned c)
  case Nil
  then show ?case by (simp add: resolve_alias_root)
next
  case (Cons merge rest)
  from Cons.prems(1) obtain d m1 more where one: "plan_one db (uuid i) m merge = Inr (d, m1)"
    and rest: "plan_loop db uuid (Suc i) m1 rest = Inr (more, m')" and pl: "planned = d # more"
    by (rule plan_loop_ConsE)
  note d = plan_one_roots [OF one]
  let ?c = "if c = pl_secondary d then pl_canonical d else c"
  have c1: "resolve_alias m1 c = Inr ?c"
    using plan_one_resolve [OF one resolve_alias_root [OF Cons.prems(2)]] d by simp
  have root: "next_alias m1 ?c = None" using c1 by (rule resolve_alias_end)
  have step: "resolve_alias m' ?c = Inr (fold (\<lambda>d c. if c = pl_secondary d then pl_canonical d else c) more ?c)"
    by (rule Cons.IH [OF rest root])
  obtain w where "resolve_alias m' c = Inr w" "resolve_alias m' ?c = Inr w"
    using plan_loop_coarsens [OF rest c1 resolve_alias_root [OF root]] by blast
  with step pl show ?case by simp
qed

subsection \<open>Memories\<close>

datatype memory_error =
    MemContactRequired
  | MemBodyRequired
  | MemConfidenceRange
  | MemContactMissing string
  | MemMissing string
  | MemDifferentContact
  | MemDb db_error

record memory_input =
  ci_contact :: string
  ci_body :: string
  ci_source_kind :: "string option"
  ci_evidence_json :: "string option"
  ci_confidence :: "js_num option"
  ci_supersedes :: "string option"
  ci_created_by :: "string option"

definition memory_confidence :: "js_num option \<Rightarrow> int option" where
  "memory_confidence c = (case c of Some (Fin x) \<Rightarrow> Some (rat_trunc x) | _ \<Rightarrow> None)"

definition getContactMemory :: "string \<Rightarrow> merge_db \<Rightarrow> (memory_row \<times> string option) option" where
  "getContactMemory i db =
     map_option (\<lambda>m. (m, Option.bind (map_of (mdb_contacts db) (mem_contact m)) id))
       (tbl_get mem_id i (mdb_memories db))"

definition supersede_memory ::
  "int \<Rightarrow> string \<Rightarrow> string option \<Rightarrow> memory_row list \<Rightarrow> memory_error + memory_row list" where
  "supersede_memory timestamp contactId supId memories =
     (case supId of
        None \<Rightarrow> Inr memories
      | Some i \<Rightarrow>
          if i = [] then Inr memories
          else case tbl_get mem_id i memories of
                 None \<Rightarrow> Inl (MemMissing i)
               | Some superseded \<Rightarrow>
                   if mem_contact superseded \<noteq> contactId then Inl MemDifferentContact
                   else Inr (tbl_update (\<lambda>m. mem_id m = i)
                     (\<lambda>m. m\<lparr>mem_stale_at := Some timestamp, mem_updated_at := timestamp\<rparr>) memories))"

definition new_memory_row ::
  "int \<Rightarrow> string \<Rightarrow> string \<Rightarrow> string \<Rightarrow> string \<Rightarrow> int option \<Rightarrow> memory_input \<Rightarrow> memory_row" where
  "new_memory_row timestamp uuid contactId body sourceKind confidence input =
     \<lparr>mem_id = uuid, mem_contact = contactId, mem_body = body,
      mem_source_kind = sourceKind, mem_evidence_json = ci_evidence_json input,
      mem_confidence = confidence, mem_supersedes = ci_supersedes input,
      mem_stale_at = None, mem_created_by = ci_created_by input,
      mem_created_at = timestamp, mem_updated_at = timestamp\<rparr>"

definition insert_memory ::
  "memory_row \<Rightarrow> merge_db \<Rightarrow> memory_row list \<Rightarrow>
   memory_error + (memory_row \<times> string option) option \<times> merge_db" where
  "insert_memory row db memories =
     (if (case mem_supersedes row of None \<Rightarrow> False
          | Some i \<Rightarrow> i \<noteq> mem_id row \<and> \<not> tbl_has mem_id i memories)
      then Inl (MemDb ForeignKeyViolation)
      else case tbl_insert mem_id row memories of
             Inl e \<Rightarrow> Inl (MemDb e)
           | Inr memories' \<Rightarrow>
               (let db' = db\<lparr>mdb_memories := memories'\<rparr>
                in Inr (getContactMemory (mem_id row) db', db')))"

definition addContactMemory ::
  "int \<Rightarrow> string \<Rightarrow> memory_input \<Rightarrow> merge_db \<Rightarrow>
   memory_error + (memory_row \<times> string option) option \<times> merge_db" where
  "addContactMemory timestamp uuid input db =
     (let contactId = js_trim (ci_contact input);
          body = js_trim (ci_body input);
          kind = js_trim (get_or (ci_source_kind input) ''agent'');
          sourceKind = (if kind = [] then ''agent'' else kind);
          confidence = memory_confidence (ci_confidence input)
      in if contactId = [] then Inl MemContactRequired
         else if body = [] then Inl MemBodyRequired
         else if (case confidence of None \<Rightarrow> False | Some c \<Rightarrow> c < 0 \<or> c > 100) then Inl MemConfidenceRange
         else if \<not> tbl_has fst contactId (mdb_contacts db) then Inl (MemContactMissing contactId)
         else ebind (supersede_memory timestamp contactId (ci_supersedes input) (mdb_memories db))
           (insert_memory
             (new_memory_row timestamp uuid contactId body sourceKind confidence input) db))"

definition markContactMemoryStale ::
  "int \<Rightarrow> string \<Rightarrow> int option \<Rightarrow> merge_db \<Rightarrow>
   memory_error + (memory_row \<times> string option) \<times> merge_db" where
  "markContactMemoryStale now i staleAt db =
     (let timestamp = get_or staleAt now;
          db' = db\<lparr>mdb_memories := tbl_update (\<lambda>m. mem_id m = i)
            (\<lambda>m. m\<lparr>mem_stale_at := Some timestamp, mem_updated_at := timestamp\<rparr>) (mdb_memories db)\<rparr>
      in case getContactMemory i db' of None \<Rightarrow> Inl (MemMissing i) | Some m \<Rightarrow> Inr (m, db'))"

definition listContactMemories ::
  "string \<Rightarrow> bool \<Rightarrow> js_num option \<Rightarrow> bool \<Rightarrow> merge_db \<Rightarrow> memory_error + memory_row list" where
  "listContactMemories contact includeStale maxRows all_rows db =
     (let contactId = js_trim contact in
      if contactId = [] then Inl MemContactRequired
      else let limit = (case maxRows of Some (Fin x) \<Rightarrow> max 1 (min 500 (rat_trunc x)) | _ \<Rightarrow> 50);
               rows = sort_key (\<lambda>m. - mem_created_at m)
                 (filter (\<lambda>m. mem_contact m = contactId \<and> (includeStale \<or> mem_stale_at m = None))
                   (mdb_memories db))
           in Inr (if all_rows then rows else take (nat limit) rows))"

subsection \<open>Steps and reachable states\<close>

definition memory_inv :: "merge_db \<Rightarrow> bool" where
  "memory_inv db \<longleftrightarrow> keyed mem_id (mdb_memories db) \<and>
     (\<forall>m\<in>set (mdb_memories db). \<forall>i. mem_supersedes m = Some i \<and> i \<noteq> [] \<longrightarrow>
        (\<exists>m'\<in>set (mdb_memories db). mem_id m' = i \<and> mem_contact m' = mem_contact m \<and>
           mem_stale_at m' \<noteq> None))"

inductive merge_step :: "merge_db \<Rightarrow> merge_db \<Rightarrow> bool" where
  merge: "recordContactMergeDecisionsBatch t uuid cb input db = Inr (planned, db') \<Longrightarrow> merge_step db db'"
| remember: "addContactMemory t i inp db = Inr (r, db') \<Longrightarrow> merge_step db db'"
| stale: "markContactMemoryStale t i st db = Inr (m, db') \<Longrightarrow> merge_step db db'"
| contacts: "merge_step db (db\<lparr>mdb_contacts := cs\<rparr>)"

inductive_cases merge_stepE: "merge_step db db'"

inductive merge_reachable :: "merge_db \<Rightarrow> bool" where
  start: "merge_reachable \<lparr>mdb_contacts = cs, mdb_decisions = [], mdb_memories = []\<rparr>"
| step: "merge_reachable db \<Longrightarrow> merge_step db db' \<Longrightarrow> merge_reachable db'"

lemma merge_inv_decisions: "mdb_decisions db' = mdb_decisions db \<Longrightarrow> merge_inv db' = merge_inv db"
  by (simp add: merge_inv_def merge_rows_def merge_aliases_def listContactMergeAliases_def)

lemma new_memory_row_sel [simp]:
  "mem_id (new_memory_row t i c b k conf inp) = i"
  "mem_contact (new_memory_row t i c b k conf inp) = c"
  "mem_body (new_memory_row t i c b k conf inp) = b"
  "mem_confidence (new_memory_row t i c b k conf inp) = conf"
  "mem_supersedes (new_memory_row t i c b k conf inp) = ci_supersedes inp"
  "mem_stale_at (new_memory_row t i c b k conf inp) = None"
  by (simp_all add: new_memory_row_def)

lemma insert_memory_ok:
  "insert_memory row db ms = Inr (r, db') \<Longrightarrow>
   \<not> tbl_has mem_id (mem_id row) ms \<and> db' = db\<lparr>mdb_memories := ms @ [row]\<rparr>"
  by (auto simp: insert_memory_def tbl_insert_def Let_def split: if_splits sum.splits option.splits)

lemma addContactMemory_ok:
  assumes "addContactMemory t i inp db = Inr (r, db')"
  obtains ms k conf where
    "supersede_memory t (js_trim (ci_contact inp)) (ci_supersedes inp) (mdb_memories db) = Inr ms"
    "\<not> tbl_has mem_id i ms"
    "db' = db\<lparr>mdb_memories := ms @
       [new_memory_row t i (js_trim (ci_contact inp)) (js_trim (ci_body inp)) k conf inp]\<rparr>"
proof -
  let ?k = "if js_trim (get_or (ci_source_kind inp) ''agent'') = [] then ''agent''
    else js_trim (get_or (ci_source_kind inp) ''agent'')"
  let ?row = "new_memory_row t i (js_trim (ci_contact inp)) (js_trim (ci_body inp)) ?k
    (memory_confidence (ci_confidence inp)) inp"
  from assms have "ebind (supersede_memory t (js_trim (ci_contact inp)) (ci_supersedes inp)
      (mdb_memories db)) (insert_memory ?row db) = Inr (r, db')"
    unfolding addContactMemory_def Let_def by (simp only: split: if_splits) auto
  then obtain ms where sup: "supersede_memory t (js_trim (ci_contact inp)) (ci_supersedes inp)
      (mdb_memories db) = Inr ms" and ins: "insert_memory ?row db ms = Inr (r, db')"
    unfolding ebind_eq_Inr_iff by blast
  from insert_memory_ok [OF ins] show thesis by (intro that [OF sup]) simp_all
qed

lemma memory_invD:
  "memory_inv db \<Longrightarrow> m \<in> set (mdb_memories db) \<Longrightarrow> mem_supersedes m = Some i \<Longrightarrow> i \<noteq> [] \<Longrightarrow>
   \<exists>m'\<in>set (mdb_memories db). mem_id m' = i \<and> mem_contact m' = mem_contact m \<and> mem_stale_at m' \<noteq> None"
  by (auto simp: memory_inv_def)

lemma supersede_ok:
  assumes "supersede_memory t c supId ms = Inr ms'" "keyed mem_id ms"
  shows "keyed mem_id ms' \<and> map mem_id ms' = map mem_id ms \<and> map mem_contact ms' = map mem_contact ms \<and>
    map mem_supersedes ms' = map mem_supersedes ms \<and>
    (\<forall>m\<in>set ms. mem_stale_at m \<noteq> None \<longrightarrow>
       (\<exists>m'\<in>set ms'. mem_id m' = mem_id m \<and> mem_contact m' = mem_contact m \<and> mem_stale_at m' \<noteq> None)) \<and>
    (\<forall>i. supId = Some i \<and> i \<noteq> [] \<longrightarrow>
       (\<exists>m'\<in>set ms'. mem_id m' = i \<and> mem_contact m' = c \<and> mem_stale_at m' \<noteq> None))"
proof (cases "supId = None \<or> supId = Some []")
  case True
  then show ?thesis using assms by (auto simp: supersede_memory_def split: option.splits)
next
  case False
  then obtain i where i: "supId = Some i" "i \<noteq> []" by auto
  let ?f = "\<lambda>m. m\<lparr>mem_stale_at := Some t, mem_updated_at := t\<rparr>"
  from assms(1) i obtain old where old: "tbl_get mem_id i ms = Some old" "mem_contact old = c"
    and ms': "ms' = tbl_update (\<lambda>m. mem_id m = i) ?f ms"
    by (auto simp: supersede_memory_def split: option.splits if_splits)
  have "?f old \<in> set ms'" using old by (auto simp: ms' set_tbl_update dest!: tbl_get_SomeD)
  then have "\<exists>m'\<in>set ms'. mem_id m' = i \<and> mem_contact m' = c \<and> mem_stale_at m' \<noteq> None"
    using old by (auto dest!: tbl_get_SomeD intro!: bexI [of _ "?f old"])
  moreover have "\<exists>m'\<in>set ms'. mem_id m' = mem_id m \<and> mem_contact m' = mem_contact m \<and> mem_stale_at m' \<noteq> None"
    if m: "m \<in> set ms" "mem_stale_at m \<noteq> None" for m
    using m by (intro bexI [of _ "if mem_id m = i then ?f m else m"]) (auto simp: ms' set_tbl_update)
  moreover have "keyed mem_id ms'" using assms(2) by (simp add: ms' keyed_update)
  ultimately show ?thesis using i by (auto simp: ms' tbl_update_def)
qed

lemma map_eq_witness:
  "map f xs = map f ys \<Longrightarrow> map g xs = map g ys \<Longrightarrow> map h xs = map h ys \<Longrightarrow> x \<in> set xs \<Longrightarrow>
   \<exists>y\<in>set ys. f y = f x \<and> g y = g x \<and> h y = h x"
proof -
  assume eq: "map f xs = map f ys" "map g xs = map g ys" "map h xs = map h ys" and x: "x \<in> set xs"
  from eq(1) have len: "length xs = length ys" by (rule map_eq_imp_length_eq)
  from x obtain n where n: "n < length xs" "x = xs ! n" by (auto simp: in_set_conv_nth)
  from eq n len have "f (ys ! n) = f x \<and> g (ys ! n) = g x \<and> h (ys ! n) = h x"
    by (simp add: list_eq_iff_nth_eq)
  then show ?thesis using n len by (intro bexI [of _ "ys ! n"]) auto
qed

lemma addContactMemory_inv:
  assumes "addContactMemory t i inp db = Inr (r, db')" "memory_inv db"
  shows "memory_inv db'"
proof -
  from assms(1) obtain ms k conf where
    sup: "supersede_memory t (js_trim (ci_contact inp)) (ci_supersedes inp) (mdb_memories db) = Inr ms"
    and new: "\<not> tbl_has mem_id i ms"
    and db': "db' = db\<lparr>mdb_memories := ms @ [new_memory_row t i (js_trim (ci_contact inp)) (js_trim (ci_body inp)) k conf inp]\<rparr>"
    by (rule addContactMemory_ok)
  have k: "keyed mem_id (mdb_memories db)" using assms(2) by (simp add: memory_inv_def)
  note s = supersede_ok [OF sup k]
  have old: "\<exists>m'\<in>set ms. mem_id m' = j \<and> mem_contact m' = mem_contact m \<and> mem_stale_at m' \<noteq> None"
    if m: "m \<in> set ms" "mem_supersedes m = Some j" "j \<noteq> []" for m j
  proof -
    obtain m0 where m0: "m0 \<in> set (mdb_memories db)" "mem_supersedes m0 = Some j" "mem_contact m0 = mem_contact m"
      using map_eq_witness [of mem_id ms "mdb_memories db" mem_contact mem_supersedes m] s m by auto
    then obtain m1 where m1: "m1 \<in> set (mdb_memories db)" "mem_id m1 = j"
      "mem_contact m1 = mem_contact m" "mem_stale_at m1 \<noteq> None"
      using memory_invD [OF assms(2) m0(1) m0(2) m(3)] by auto
    from s m1 show ?thesis by metis
  qed
  show ?thesis
    using s new old by (auto simp: db' memory_inv_def keyed_append_one)
qed

lemma markContactMemoryStale_inv:
  assumes "markContactMemoryStale t i st db = Inr (m, db')" "memory_inv db"
  shows "memory_inv db'"
proof -
  let ?f = "\<lambda>m. m\<lparr>mem_stale_at := Some (get_or st t), mem_updated_at := get_or st t\<rparr>"
  have db': "mdb_memories db' = tbl_update (\<lambda>m. mem_id m = i) ?f (mdb_memories db)"
    using assms(1) by (auto simp: markContactMemoryStale_def Let_def split: option.splits)
  have keep: "\<exists>m'\<in>set (mdb_memories db'). mem_id m' = mem_id m \<and> mem_contact m' = mem_contact m \<and> mem_stale_at m' \<noteq> None"
    if "m \<in> set (mdb_memories db)" "mem_stale_at m \<noteq> None" for m
    using that by (intro bexI [of _ "if mem_id m = i then ?f m else m"]) (auto simp: db' set_tbl_update)
  have "keyed mem_id (mdb_memories db')"
    using assms(2) by (simp add: db' memory_inv_def keyed_update)
  moreover have "\<exists>m'\<in>set (mdb_memories db'). mem_id m' = j \<and> mem_contact m' = mem_contact x \<and> mem_stale_at m' \<noteq> None"
    if x: "x \<in> set (mdb_memories db')" "mem_supersedes x = Some j" "j \<noteq> []" for x j
  proof -
    from x obtain y where y: "y \<in> set (mdb_memories db)" "mem_supersedes y = Some j" "mem_contact y = mem_contact x"
      by (auto simp: db' set_tbl_update split: if_splits)
    then obtain z where "z \<in> set (mdb_memories db)" "mem_id z = j" "mem_contact z = mem_contact y" "mem_stale_at z \<noteq> None"
      using memory_invD [OF assms(2) y(1,2) x(3)] by auto
    then show ?thesis using keep [of z] y by auto
  qed
  ultimately show ?thesis by (auto simp: memory_inv_def)
qed

lemma record_one_memory_inv:
  assumes "record_one t cb d db = Inr db'" "memory_inv db"
  shows "memory_inv db'"
proof -
  let ?f = "\<lambda>m. if mem_contact m = pl_secondary d
    then m\<lparr>mem_contact := pl_canonical d, mem_updated_at := t\<rparr> else m"
  have ms: "mdb_memories db' = map ?f (mdb_memories db)"
    using assms(1) by (auto simp: record_one_def tbl_update_def split: sum.splits)
  have "map mem_id (mdb_memories db') = map mem_id (mdb_memories db)" by (simp add: ms)
  then have "keyed mem_id (mdb_memories db')" using assms(2) by (simp add: memory_inv_def keyed_def)
  moreover have "\<exists>m'\<in>set (mdb_memories db'). mem_id m' = j \<and> mem_contact m' = mem_contact x \<and> mem_stale_at m' \<noteq> None"
    if x: "x \<in> set (mdb_memories db')" "mem_supersedes x = Some j" "j \<noteq> []" for x j
  proof -
    from x obtain y where y: "y \<in> set (mdb_memories db)" "mem_supersedes y = Some j" "x = ?f y"
      by (auto simp: ms split: if_splits)
    then obtain z where "z \<in> set (mdb_memories db)" "mem_id z = j" "mem_contact z = mem_contact y" "mem_stale_at z \<noteq> None"
      using memory_invD [OF assms(2) y(1,2) x(3)] by auto
    then show ?thesis using y by (intro bexI [of _ "?f z"]) (auto simp: ms)
  qed
  ultimately show ?thesis by (auto simp: memory_inv_def)
qed

lemma record_all_memory_inv:
  "record_all t cb ds db = Inr db' \<Longrightarrow> memory_inv db \<Longrightarrow> memory_inv db'"
  by (induction ds arbitrary: db) (auto simp: ebind_eq_Inr_iff dest: record_one_memory_inv)

lemma merge_step_inv:
  "merge_step db db' \<Longrightarrow> merge_inv db \<and> memory_inv db \<Longrightarrow> merge_inv db' \<and> memory_inv db'"
proof (induction rule: merge_step.induct)
  case (merge t uuid cb input db planned db')
  from merge.hyps obtain pl where rec: "record_all t cb pl db = Inr db'"
    by (auto simp: recordContactMergeDecisionsBatch_def ebind_eq_Inr_iff)
  have "merge_inv db'"
    using merge.prems merge.hyps by (auto elim: batch_ok [rotated])
  moreover have "memory_inv db'" using rec merge.prems record_all_memory_inv by blast
  ultimately show ?case by blast
next
  case (remember t i inp db r db')
  then have "mdb_decisions db' = mdb_decisions db" by (auto elim: addContactMemory_ok)
  then show ?case using remember addContactMemory_inv merge_inv_decisions by blast
next
  case (stale t i st db m db')
  then have "mdb_decisions db' = mdb_decisions db"
    by (auto simp: markContactMemoryStale_def Let_def split: option.splits)
  then show ?case using stale markContactMemoryStale_inv merge_inv_decisions by blast
next
  case (contacts db cs)
  then show ?case using merge_inv_decisions [of "db\<lparr>mdb_contacts := cs\<rparr>" db]
    by (simp add: memory_inv_def)
qed

lemma merge_reachable_inv: "merge_reachable db \<Longrightarrow> merge_inv db \<and> memory_inv db"
proof (induction rule: merge_reachable.induct)
  case (start cs)
  then show ?case
    by (simp add: merge_inv_def memory_inv_def merge_rows_def merge_aliases_def
        listContactMergeAliases_def js_map_from_def)
next
  case (step db db')
  then show ?case using merge_step_inv by blast
qed

subsection \<open>Sample states\<close>

definition demo_merge_db :: merge_db where
  "demo_merge_db = \<lparr>mdb_contacts = [(''a'', None), (''b'', Some ''Bo''), (''c'', None)],
     mdb_decisions = [], mdb_memories = []\<rparr>"

definition demo_merges :: "merge_input list" where
  "demo_merges = [\<lparr>mi_primary = ''a '', mi_secondary = ''b'', mi_reason = None\<rparr>,
     \<lparr>mi_primary = ''c'', mi_secondary = ''b'', mi_reason = None\<rparr>]"

definition demo_uuid :: "nat \<Rightarrow> string" where
  "demo_uuid i = (if i = 0 then ''u0'' else if i = 1 then ''u1'' else ''u2'')"

definition demo_memory_input :: memory_input where
  "demo_memory_input = \<lparr>ci_contact = ''b'', ci_body = ''likes tea'', ci_source_kind = None,
     ci_evidence_json = None, ci_confidence = None, ci_supersedes = None, ci_created_by = None\<rparr>"

definition demo_memory_db :: merge_db where
  "demo_memory_db = (case addContactMemory 3 ''m1'' demo_memory_input demo_merge_db of
     Inr (_, db) \<Rightarrow> (case addContactMemory 4 ''m2''
        (demo_memory_input\<lparr>ci_supersedes := Some ''m1''\<rparr>) db of Inr (_, db') \<Rightarrow> db' | Inl _ \<Rightarrow> db)
   | Inl _ \<Rightarrow> demo_merge_db)"

lemma demo_merge_db_reachable: "merge_reachable demo_merge_db"
  unfolding demo_merge_db_def by (rule merge_reachable.start)

lemma demo_memory_db_reachable: "merge_reachable demo_memory_db"
proof -
  have "is_Inr (addContactMemory 3 ''m1'' demo_memory_input demo_merge_db)"
    by code_simp
  then obtain r db where db: "addContactMemory 3 ''m1'' demo_memory_input demo_merge_db = Inr (r, db)"
    by (auto simp: is_Inr_iff)
  have r: "merge_reachable db"
    using merge_reachable.step [OF demo_merge_db_reachable merge_step.remember [OF db]] .
  show ?thesis
    using r merge_reachable.step [OF r merge_step.remember]
    by (auto simp: demo_memory_db_def db split: sum.splits)
qed

subsection \<open>Properties\<close>

text \<open>
  C13: merging merges. From any reachable state, a batch that is accepted makes the two
  contacts of each of its entries resolve to one canonical contact, keeps together all
  contacts that resolved together before, and leaves a state in which resolution is total.
\<close>

theorem merge_batch_resolves_together:
  assumes reach: "merge_reachable db"
    and ok: "recordContactMergeDecisionsBatch t uuid createdBy input db = Inr (planned, db')"
  shows "(\<forall>merge\<in>set input. \<exists>w.
            db_resolveCanonicalContactId db' (js_trim (mi_primary merge)) = Inr w \<and>
            db_resolveCanonicalContactId db' (js_trim (mi_secondary merge)) = Inr w) \<and>
    (\<forall>x y. db_resolveCanonicalContactId db x = db_resolveCanonicalContactId db y \<longrightarrow>
       (\<exists>w. db_resolveCanonicalContactId db' x = Inr w \<and>
            db_resolveCanonicalContactId db' y = Inr w))"
proof -
  have inv: "merge_inv db" using merge_reachable_inv [OF reach] by blast
  obtain m' where pl: "plan_loop db uuid 0 (merge_aliases db) input = Inr (planned, m')"
    and eq: "map_of (merge_aliases db') = map_of m'"
    using batch_ok [OF inv ok] by blast
  have cong: "resolve_alias m' x = Inr w \<Longrightarrow> db_resolveCanonicalContactId db' x = Inr w" for x w
    using resolve_alias_cong [OF eq [symmetric]] by (simp add: db_resolveCanonicalContactId_def)
  have tot: "\<exists>z. db_resolveCanonicalContactId db x = Inr z" for x
    using inv aliases_total_resolves [of "merge_aliases db" x]
    by (auto simp: merge_inv_def db_resolveCanonicalContactId_def)
  show ?thesis
  proof (intro conjI ballI allI impI)
    fix merge assume "merge \<in> set input"
    then show "\<exists>w. db_resolveCanonicalContactId db' (js_trim (mi_primary merge)) = Inr w \<and>
        db_resolveCanonicalContactId db' (js_trim (mi_secondary merge)) = Inr w"
      using plan_loop_merges [OF pl] cong by blast
  next
    fix x y assume "db_resolveCanonicalContactId db x = db_resolveCanonicalContactId db y"
    with tot [of y] obtain z where "resolve_alias (merge_aliases db) x = Inr z"
      "resolve_alias (merge_aliases db) y = Inr z"
      by (metis db_resolveCanonicalContactId_def resolve_or_throw_Inr)
    from plan_loop_coarsens [OF pl this]
    show "\<exists>w. db_resolveCanonicalContactId db' x = Inr w \<and> db_resolveCanonicalContactId db' y = Inr w"
      using cong by blast
  qed
qed

text \<open>
  C14: the cycle guards of the merge code never fire. In every reachable state each contact id
  resolves to a canonical id that resolves to itself, and planning any batch never ends in
  the cycle error.
\<close>

theorem merge_never_cycles:
  assumes "merge_reachable db"
  shows "(\<exists>y. db_resolveCanonicalContactId db x = Inr y \<and> db_resolveCanonicalContactId db y = Inr y) \<and>
    planContactMergeDecisions db uuid input \<noteq> Inl (AliasCycle c)"
proof -
  have tot: "aliases_total (merge_aliases db)"
    using merge_reachable_inv [OF assms] by (simp add: merge_inv_def)
  have "planContactMergeDecisions db uuid input \<noteq> Inl (AliasCycle c)"
    using plan_loop_no_cycle [OF tot] by (auto simp: planContactMergeDecisions_def ebind_eq_Inl_iff)
  then show ?thesis
    using aliases_total_resolves [OF tot, of x] resolve_alias_idem
    by (auto simp: db_resolveCanonicalContactId_def)
qed



subsection \<open>Witnesses\<close>

theorem merge_batch_resolves_together_witness:
  "\<exists>planned db' w. recordContactMergeDecisionsBatch 9 demo_uuid None demo_merges demo_merge_db = Inr (planned, db') \<and>
     db_resolveCanonicalContactId db' ''b'' = Inr w \<and> db_resolveCanonicalContactId db' ''c'' = Inr w"
proof -
  have "is_Inr (recordContactMergeDecisionsBatch 9 demo_uuid None demo_merges demo_merge_db)"
    by code_simp
  then obtain planned db' where
    ok: "recordContactMergeDecisionsBatch 9 demo_uuid None demo_merges demo_merge_db = Inr (planned, db')"
    by (auto simp: is_Inr_iff)
  have t: "js_trim ''c'' = ''c''" "js_trim ''b'' = ''b''" by code_simp+
  show ?thesis
    using merge_batch_resolves_together [OF demo_merge_db_reachable ok] ok
    by (auto simp: demo_merges_def t)
qed

theorem merge_never_cycles_witness:
  "\<exists>y. db_resolveCanonicalContactId demo_merge_db ''b'' = Inr y \<and>
     planContactMergeDecisions demo_merge_db demo_uuid demo_merges \<noteq> Inl (AliasCycle ''a'')"
  using merge_never_cycles [OF demo_merge_db_reachable, of "''b''" demo_uuid demo_merges "''a''"]
  by blast



end
