(* ===== verification/Platforms.thy ===== *)
theory Platforms
  imports Prelude
begin

text \<open>
  The platforms and the enumerations of \<^verbatim>\<open>src/platforms/core/types.ts\<close>, with the
  string each value is stored as, the platform definitions and the feature matrix, and the
  account-key checks of \<^verbatim>\<open>src/platforms/core/account-keys.ts\<close>. Platforms are ordered
  by their stored name, as \<open>ORDER BY platform\<close> orders them.
\<close>

subsection \<open>Platforms\<close>

datatype platform = Contacts | Discord | Gmail | IMessage | LinkedIn | Signal | Slack | WhatsApp

fun platform_name :: "platform \<Rightarrow> string" where
  "platform_name Contacts = ''contacts''"
| "platform_name Discord = ''discord''"
| "platform_name Gmail = ''gmail''"
| "platform_name IMessage = ''imessage''"
| "platform_name LinkedIn = ''linkedin''"
| "platform_name Signal = ''signal''"
| "platform_name Slack = ''slack''"
| "platform_name WhatsApp = ''whatsapp''"

definition platform_values :: "platform list" where
  "platform_values = [Contacts, Discord, Gmail, IMessage, LinkedIn, Signal, Slack, WhatsApp]"

lemma platform_values_all [simp]: "p \<in> set platform_values"
  by (cases p) (simp_all add: platform_values_def)

lemma inj_platform_name: "platform_name p = platform_name q \<Longrightarrow> p = q"
  by (cases p; cases q) simp_all

lemma platform_name_eq_iff [simp]: "platform_name p = platform_name q \<longleftrightarrow> p = q"
  using inj_platform_name by blast

instantiation platform :: linorder
begin

definition less_eq_platform :: "platform \<Rightarrow> platform \<Rightarrow> bool" where
  "less_eq_platform p q \<longleftrightarrow> platform_name p \<le> platform_name q"

definition less_platform :: "platform \<Rightarrow> platform \<Rightarrow> bool" where
  "less_platform p q \<longleftrightarrow> platform_name p < platform_name q"

instance
  by standard (auto simp: less_eq_platform_def less_platform_def order_less_le intro: inj_platform_name)

end

definition parsePlatform :: "string \<Rightarrow> platform option" where
  "parsePlatform value = find (\<lambda>p. platform_name p = value) platform_values"

definition isPlatform :: "string \<Rightarrow> bool" where
  "isPlatform value \<longleftrightarrow> value \<in> set (map platform_name platform_values)"

lemma parsePlatform_name [simp]: "parsePlatform (platform_name p) = Some p"
  by (cases p) (simp_all add: parsePlatform_def platform_values_def)

lemma parsePlatform_SomeD: "parsePlatform s = Some p \<Longrightarrow> s = platform_name p"
  by (auto simp: parsePlatform_def find_Some_iff)

lemma isPlatform_iff: "isPlatform s \<longleftrightarrow> parsePlatform s \<noteq> None"
  by (auto simp: isPlatform_def parsePlatform_def find_None_iff)

subsection \<open>Platform definitions\<close>

datatype host_os = MacOS | Windows | Linux

datatype permission_requirement = PermContacts | PermFullDiskAccess

datatype helper_requirement = SignalCli | SlackHelper | WhatsAppHelper

record platform_spec =
  pd_adapter :: bool
  pd_default_account_key :: string
  pd_supports_multiple_accounts :: bool
  pd_requestable_integration :: bool
  pd_requestable_order :: "int option"
  pd_supported_host_os :: "host_os list"
  pd_onboarding_visible :: bool
  pd_permission_requirements :: "permission_requirement list"
  pd_helper_requirements :: "helper_requirement list"

fun platform_definition :: "platform \<Rightarrow> platform_spec" where
  "platform_definition Contacts = \<lparr>pd_adapter = True, pd_default_account_key = ''local'',
     pd_supports_multiple_accounts = False, pd_requestable_integration = False,
     pd_requestable_order = None, pd_supported_host_os = [MacOS], pd_onboarding_visible = True,
     pd_permission_requirements = [PermContacts], pd_helper_requirements = []\<rparr>"
| "platform_definition Gmail = \<lparr>pd_adapter = True, pd_default_account_key = ''default'',
     pd_supports_multiple_accounts = True, pd_requestable_integration = True,
     pd_requestable_order = Some 2, pd_supported_host_os = [MacOS, Windows, Linux],
     pd_onboarding_visible = True, pd_permission_requirements = [], pd_helper_requirements = []\<rparr>"
| "platform_definition IMessage = \<lparr>pd_adapter = True, pd_default_account_key = ''local'',
     pd_supports_multiple_accounts = False, pd_requestable_integration = False,
     pd_requestable_order = None, pd_supported_host_os = [MacOS], pd_onboarding_visible = True,
     pd_permission_requirements = [PermFullDiskAccess], pd_helper_requirements = []\<rparr>"
| "platform_definition Discord = \<lparr>pd_adapter = True, pd_default_account_key = ''default'',
     pd_supports_multiple_accounts = False, pd_requestable_integration = True,
     pd_requestable_order = Some 3, pd_supported_host_os = [MacOS, Windows, Linux],
     pd_onboarding_visible = True, pd_permission_requirements = [], pd_helper_requirements = []\<rparr>"
| "platform_definition LinkedIn = \<lparr>pd_adapter = True, pd_default_account_key = ''default'',
     pd_supports_multiple_accounts = False, pd_requestable_integration = True,
     pd_requestable_order = Some 4, pd_supported_host_os = [MacOS, Windows, Linux],
     pd_onboarding_visible = True, pd_permission_requirements = [], pd_helper_requirements = []\<rparr>"
| "platform_definition Signal = \<lparr>pd_adapter = True, pd_default_account_key = ''default'',
     pd_supports_multiple_accounts = False, pd_requestable_integration = True,
     pd_requestable_order = Some 6, pd_supported_host_os = [MacOS, Windows, Linux],
     pd_onboarding_visible = True, pd_permission_requirements = [],
     pd_helper_requirements = [SignalCli]\<rparr>"
| "platform_definition Slack = \<lparr>pd_adapter = True, pd_default_account_key = ''default'',
     pd_supports_multiple_accounts = True, pd_requestable_integration = True,
     pd_requestable_order = Some 1, pd_supported_host_os = [MacOS, Windows, Linux],
     pd_onboarding_visible = True, pd_permission_requirements = [],
     pd_helper_requirements = [SlackHelper]\<rparr>"
| "platform_definition WhatsApp = \<lparr>pd_adapter = True, pd_default_account_key = ''default'',
     pd_supports_multiple_accounts = False, pd_requestable_integration = True,
     pd_requestable_order = Some 5, pd_supported_host_os = [MacOS, Windows, Linux],
     pd_onboarding_visible = True, pd_permission_requirements = [],
     pd_helper_requirements = [WhatsAppHelper]\<rparr>"

definition adapter_platform_values :: "platform list" where
  "adapter_platform_values = filter (\<lambda>p. pd_adapter (platform_definition p)) platform_values"

definition isAdapterPlatform :: "string \<Rightarrow> bool" where
  "isAdapterPlatform value \<longleftrightarrow> value \<in> set (map platform_name adapter_platform_values)"

text \<open>\<open>Number.MAX_SAFE_INTEGER\<close> stands for a missing order in the comparison.\<close>

definition requestable_integration_values :: "platform list" where
  "requestable_integration_values =
     sort_key (\<lambda>p. get_or (pd_requestable_order (platform_definition p)) 9007199254740991)
       (filter (\<lambda>p. pd_requestable_integration (platform_definition p)) platform_values)"

definition getDefaultAccountKeyForPlatform :: "platform \<Rightarrow> string" where
  "getDefaultAccountKeyForPlatform p = pd_default_account_key (platform_definition p)"

definition isPlatformSupportedOnHost :: "platform \<Rightarrow> host_os \<Rightarrow> bool" where
  "isPlatformSupportedOnHost p h \<longleftrightarrow> h \<in> set (pd_supported_host_os (platform_definition p))"

lemma pd_adapter_all [simp]: "pd_adapter (platform_definition p)"
  by (cases p) simp_all

lemma isAdapterPlatform_iff: "isAdapterPlatform s \<longleftrightarrow> isPlatform s"
  by (simp add: isAdapterPlatform_def isPlatform_def adapter_platform_values_def)

subsection \<open>Feature matrix\<close>

datatype feature = Receive | RealtimeIngest | FullHistorySync | MessageEdits | Deletes | Reactions
  | ThreadsReplies | ReadReceipts | Attachments | ContactSync

datatype feature_support = SupYes | SupPartial | SupNo

definition feature_values :: "feature list" where
  "feature_values = [Receive, RealtimeIngest, FullHistorySync, MessageEdits, Deletes, Reactions,
     ThreadsReplies, ReadReceipts, Attachments, ContactSync]"

text \<open>One row of \<open>PLATFORM_FEATURE_MATRIX\<close>, its columns in the order of \<open>feature_values\<close>.\<close>

fun feature_row :: "platform \<Rightarrow> feature_support list" where
  "feature_row Contacts = [SupNo, SupYes, SupYes, SupNo, SupNo, SupNo, SupNo, SupNo, SupNo, SupYes]"
| "feature_row Discord = [SupYes, SupYes, SupNo, SupNo, SupNo, SupNo, SupPartial, SupNo, SupYes, SupPartial]"
| "feature_row Gmail = [SupYes, SupPartial, SupYes, SupNo, SupPartial, SupNo, SupYes, SupNo, SupPartial, SupPartial]"
| "feature_row IMessage = [SupYes, SupYes, SupYes, SupNo, SupNo, SupYes, SupNo, SupPartial, SupYes, SupPartial]"
| "feature_row LinkedIn = [SupYes, SupYes, SupPartial, SupYes, SupYes, SupYes, SupYes, SupPartial, SupYes, SupYes]"
| "feature_row Signal = [SupYes, SupYes, SupNo, SupNo, SupNo, SupNo, SupNo, SupNo, SupYes, SupPartial]"
| "feature_row Slack = [SupYes, SupYes, SupYes, SupPartial, SupNo, SupPartial, SupYes, SupNo, SupYes, SupYes]"
| "feature_row WhatsApp = [SupYes, SupYes, SupYes, SupNo, SupNo, SupNo, SupNo, SupPartial, SupYes, SupPartial]"

definition getPlatformFeatureSupport :: "platform \<Rightarrow> feature \<Rightarrow> feature_support option" where
  "getPlatformFeatureSupport p f = map_of (zip feature_values (feature_row p)) f"

subsection \<open>Account keys\<close>

datatype account_key_error = KeyEmpty | KeyWhitespace | KeyTooLong | KeyControl | KeyPath

definition is_control :: "char \<Rightarrow> bool" where
  "is_control c = (let n = (of_char c :: nat) in n \<le> 31 \<or> n = 127)"

definition validateIntegrationAccountKey :: "string \<Rightarrow> account_key_error + string" where
  "validateIntegrationAccountKey accountKey =
     (let trimmed = js_trim accountKey in
      if trimmed = [] then Inl KeyEmpty
      else if trimmed \<noteq> accountKey then Inl KeyWhitespace
      else if length trimmed > 256 then Inl KeyTooLong
      else if list_ex is_control trimmed then Inl KeyControl
      else if CHR 0x5C \<in> set trimmed \<or> CHR ''/'' \<in> set trimmed \<or> trimmed = ''.'' \<or> trimmed = ''..''
      then Inl KeyPath
      else Inr trimmed)"

definition resolveIntegrationAccountKey :: "string option \<Rightarrow> string \<Rightarrow> account_key_error + string" where
  "resolveIntegrationAccountKey accountKey defaultAccountKey =
     (case accountKey of None \<Rightarrow> validateIntegrationAccountKey defaultAccountKey
      | Some k \<Rightarrow> validateIntegrationAccountKey k)"

definition safe_path_segment :: "string \<Rightarrow> bool" where
  "safe_path_segment k \<longleftrightarrow> k \<noteq> [] \<and> k \<noteq> ''.'' \<and> k \<noteq> ''..'' \<and> length k \<le> 256 \<and>
     list_all (\<lambda>c. \<not> is_control c \<and> c \<noteq> CHR 0x5C \<and> c \<noteq> CHR ''/'') k"


lemma validate_default_keys:
  "resolveIntegrationAccountKey None (getDefaultAccountKeyForPlatform p) =
     Inr (getDefaultAccountKeyForPlatform p)"
proof -
  have "list_all (\<lambda>p. resolveIntegrationAccountKey None (getDefaultAccountKeyForPlatform p) =
      Inr (getDefaultAccountKeyForPlatform p)) platform_values" by code_simp
  then show ?thesis by (simp add: list_all_iff)
qed

text \<open>
  The stored form of a platform round-trips, exactly the eight known names are platforms, all
  of them are adapters, and the platforms a user may request come in the order Slack, Gmail,
  Discord, LinkedIn, WhatsApp, Signal.
\<close>

theorem platform_roundtrip:
  "(parsePlatform s = Some p \<longleftrightarrow> s = platform_name p) \<and>
   (isAdapterPlatform s \<longleftrightarrow> parsePlatform s \<noteq> None) \<and>
   requestable_integration_values = [Slack, Gmail, Discord, LinkedIn, WhatsApp, Signal]"
proof -
  have "parsePlatform s = Some p \<longleftrightarrow> s = platform_name p"
    using parsePlatform_SomeD by auto
  moreover have "isAdapterPlatform s \<longleftrightarrow> parsePlatform s \<noteq> None"
    by (simp add: isAdapterPlatform_iff isPlatform_iff)
  moreover have "requestable_integration_values = [Slack, Gmail, Discord, LinkedIn, WhatsApp, Signal]"
    by code_simp
  ultimately show ?thesis by blast
qed

text \<open>
  The feature matrix is complete, and it says of Gmail that realtime ingest, deletes,
  attachments and contact sync are partial.
\<close>

theorem feature_matrix_complete:
  "getPlatformFeatureSupport p f \<noteq> None \<and>
   filter (\<lambda>f. getPlatformFeatureSupport Gmail f = Some SupPartial) feature_values =
     [RealtimeIngest, Deletes, Attachments, ContactSync]"
proof -
  have "getPlatformFeatureSupport p f \<noteq> None"
    by (cases p; cases f; simp add: getPlatformFeatureSupport_def feature_values_def)
  moreover have "filter (\<lambda>f. getPlatformFeatureSupport Gmail f = Some SupPartial) feature_values =
     [RealtimeIngest, Deletes, Attachments, ContactSync]" by code_simp
  ultimately show ?thesis by simp
qed

end
