(* ===== verification/Phone.thy ===== *)
theory Phone
  imports Prelude
begin

text \<open>
  Phone normalisation: \<^verbatim>\<open>src/core/utils/phone.ts\<close>. \<open>normalizePhone\<close> keeps a leading
  plus and the digits, and drops the country code of an eleven-digit North American number;
  \<open>toE164\<close> puts a plus and, for ten digits, the country code 1 in front.
\<close>

definition normalizePhone :: "string \<Rightarrow> string" where
  "normalizePhone phone =
     (let trimmed = js_trim phone in
      if length trimmed = 0 then []
      else let digits = digits_only trimmed in
        if length digits = 0 then []
        else if length digits = 11 \<and> starts_with ''1'' digits then drop 1 digits
        else if starts_with ''+'' trimmed then ''+'' @ digits
        else digits)"

definition toE164 :: "string \<Rightarrow> string option" where
  "toE164 phone =
     (let normalized = normalizePhone phone in
      if length normalized = 0 then None
      else if starts_with ''+'' normalized then Some normalized
      else if length normalized = 10 then Some (''+1'' @ normalized)
      else if all_digits normalized then Some (''+'' @ normalized)
      else None)"

lemma plus_not_digit [simp]: "\<not> is_digit (CHR ''+'')"
  by (simp add: is_digit_def Let_def)

lemma plus_not_ws [simp]: "\<not> is_ws (CHR ''+'')"
  by (simp add: is_ws_def Let_def)

lemma one_is_digit [simp]: "is_digit (CHR ''1'')"
  by (simp add: is_digit_def Let_def)

lemma filter_dropWhile_ws: "filter is_digit (dropWhile is_ws s) = filter is_digit s"
  by (induction s) (auto dest: digit_not_ws)

lemma digits_only_trim: "digits_only (js_trim s) = digits_only s"
  by (simp add: digits_only_def js_trim_def rev_filter [symmetric] filter_dropWhile_ws)

lemma trim_clean: "list_all (\<lambda>c. \<not> is_ws c) s \<Longrightarrow> js_trim s = s"
  by (rule js_trim_eq_self) (cases s; auto simp: list_all_iff)

lemma trim_digits: "list_all is_digit s \<Longrightarrow> js_trim s = s"
  by (rule trim_clean) (auto simp: list_all_iff dest: digit_not_ws)

lemma trim_plus_digits: "list_all is_digit s \<Longrightarrow> js_trim (CHR ''+'' # s) = CHR ''+'' # s"
  by (rule trim_clean) (auto simp: list_all_iff dest: digit_not_ws)

lemma starts_with_char: "starts_with [c] s \<longleftrightarrow> s \<noteq> [] \<and> hd s = c"
  by (cases s) (auto simp: starts_with_def)

lemma digits_no_plus: "list_all is_digit s \<Longrightarrow> \<not> starts_with ''+'' s"
  by (cases s) (auto simp: starts_with_char)

lemma digits_only_Nil_trim: "js_trim p = [] \<Longrightarrow> digits_only p = []"
  using digits_only_trim [of p] by (simp add: digits_only_def)

text \<open>The result by cases on the digits of the input.\<close>

lemma normalizePhone_cases:
  "normalizePhone p =
     (let d = digits_only p in
      if d = [] then []
      else if length d = 11 \<and> hd d = CHR ''1'' then tl d
      else if starts_with ''+'' (js_trim p) then CHR ''+'' # d else d)"
  by (auto simp: normalizePhone_def Let_def digits_only_trim starts_with_char drop_Suc
      dest: digits_only_Nil_trim)

lemma normalizePhone_digits:
  assumes "list_all is_digit d"
  shows "normalizePhone d = (if length d = 11 \<and> hd d = CHR ''1'' then tl d else d)"
  using assms by (simp add: normalizePhone_cases Let_def digits_only_id trim_digits digits_no_plus)

lemma normalizePhone_plus:
  assumes "list_all is_digit d" "d \<noteq> []"
  shows "normalizePhone (CHR ''+'' # d) =
    (if length d = 11 \<and> hd d = CHR ''1'' then tl d else CHR ''+'' # d)"
proof -
  have "digits_only (CHR ''+'' # d) = d" using assms by (simp add: digits_only_def list_all_iff filter_id_conv)
  then show ?thesis
    using assms by (simp add: normalizePhone_cases Let_def trim_plus_digits starts_with_char)
qed

lemma list_all_tl: "list_all P xs \<Longrightarrow> list_all P (tl xs)"
  by (cases xs) auto

text \<open>
  C29: phone normalisation is a normal form. Normalising twice changes nothing, the result is
  empty exactly when the input has no digit, and otherwise it is digits with at most a leading
  plus, never an eleven-digit number starting with the country code 1.
\<close>

theorem normalizePhone_normal_form:
  "normalizePhone (normalizePhone p) = normalizePhone p \<and>
   (normalizePhone p = [] \<longleftrightarrow> digits_only p = []) \<and>
   (\<exists>d. list_all is_digit d \<and> \<not> (length d = 11 \<and> hd d = CHR ''1'') \<and>
        (normalizePhone p = d \<or> normalizePhone p = CHR ''+'' # d))"
proof -
  let ?d = "digits_only p"
  have all: "list_all is_digit ?d" by simp
  consider (empty) "?d = []" | (nanp) "?d \<noteq> []" "length ?d = 11 \<and> hd ?d = CHR ''1''"
    | (plus) "?d \<noteq> []" "\<not> (length ?d = 11 \<and> hd ?d = CHR ''1'')" "starts_with ''+'' (js_trim p)"
    | (plain) "?d \<noteq> []" "\<not> (length ?d = 11 \<and> hd ?d = CHR ''1'')" "\<not> starts_with ''+'' (js_trim p)"
    by blast
  then show ?thesis
  proof cases
    case empty
    then have "normalizePhone p = []" by (simp add: normalizePhone_cases)
    then show ?thesis using empty by (auto simp: normalizePhone_cases digits_only_def intro: exI [of _ "[]"])
  next
    case nanp
    then have eq: "normalizePhone p = tl ?d" by (simp add: normalizePhone_cases Let_def)
    have tl: "list_all is_digit (tl ?d)" "length (tl ?d) = 10"
      using all nanp by (auto intro: list_all_tl)
    then have "tl ?d \<noteq> []" by (metis list.size(3) zero_neq_numeral)
    with tl nanp show ?thesis unfolding eq by (auto simp: normalizePhone_digits intro: exI [of _ "tl ?d"])
  next
    case plus
    then have eq: "normalizePhone p = CHR ''+'' # ?d" by (auto simp: normalizePhone_cases Let_def)
    have "normalizePhone (CHR ''+'' # ?d) = CHR ''+'' # ?d" using plus all normalizePhone_plus by auto
    then show ?thesis unfolding eq using plus all by blast
  next
    case plain
    then have eq: "normalizePhone p = ?d" by (auto simp: normalizePhone_cases Let_def)
    have "normalizePhone ?d = ?d" using plain all normalizePhone_digits by auto
    then show ?thesis unfolding eq using plain all by blast
  qed
qed

lemma normalizePhone_empty: "normalizePhone p = [] \<longleftrightarrow> digits_only p = []"
proof -
  have "tl d \<noteq> []" if "length d = 11" for d :: string using that by (cases d) auto
  then show ?thesis by (auto simp: normalizePhone_cases Let_def)
qed

lemma normalizePhone_form:
  obtains d where "list_all is_digit d" "\<not> (length d = 11 \<and> hd d = CHR ''1'')"
    "normalizePhone p = d \<or> (d \<noteq> [] \<and> normalizePhone p = CHR ''+'' # d)"
proof (cases "length (digits_only p) = 11 \<and> hd (digits_only p) = CHR ''1''")
  case True
  have "list_all is_digit (tl (digits_only p))" by (rule list_all_tl) simp
  then show thesis using True by (intro that [of "tl (digits_only p)"]) (auto simp: normalizePhone_cases Let_def)
next
  case False
  then show thesis
    by (intro that [of "digits_only p"]) (auto simp: normalizePhone_cases Let_def)
qed

lemma toE164_digits:
  assumes "list_all is_digit d" "d \<noteq> []" "\<not> (length d = 11 \<and> hd d = CHR ''1'')"
    and "normalizePhone p = d"
  shows "toE164 p = Some (if length d = 10 then ''+1'' @ d else CHR ''+'' # d)"
  using assms by (auto simp: toE164_def Let_def digits_no_plus all_digits_def)

text \<open>
  A number in E.164 form is a fixed point: whatever \<open>toE164\<close> returns it maps to itself, a
  number without digits has no such form, and every number with a digit has one.
\<close>

lemma toE164_stable:
  "(toE164 p = None \<longleftrightarrow> digits_only p = []) \<and>
   (case toE164 p of None \<Rightarrow> True | Some e \<Rightarrow> starts_with ''+'' e \<and> toE164 e = Some e)"
proof -
  obtain d where d: "list_all is_digit d" "\<not> (length d = 11 \<and> hd d = CHR ''1'')"
    and n: "normalizePhone p = d \<or> (d \<noteq> [] \<and> normalizePhone p = CHR ''+'' # d)"
    by (rule normalizePhone_form)
  note empty = normalizePhone_empty [of p]
  have plus: "toE164 (CHR ''+'' # d) = Some (CHR ''+'' # d)" if "d \<noteq> []"
  proof -
    have "normalizePhone (CHR ''+'' # d) = CHR ''+'' # d" using d that normalizePhone_plus by auto
    then show ?thesis by (simp add: toE164_def Let_def starts_with_char)
  qed
  have one: "toE164 (''+1'' @ d) = Some (''+1'' @ d)" if "length d = 10"
  proof -
    have "normalizePhone (''+1'' @ d) = d"
      using d that normalizePhone_plus [of "CHR ''1'' # d"] by simp
    moreover have "d \<noteq> []" using that by auto
    ultimately show ?thesis using d that toE164_digits [of d "''+1'' @ d"] by auto
  qed
  show ?thesis
  proof (cases "d = []")
    case True
    then show ?thesis using n empty by (auto simp: toE164_def)
  next
    case False
    show ?thesis
    proof (cases "normalizePhone p = d")
      case True
      from toE164_digits [OF d(1) False d(2) True] show ?thesis
        using one plus False empty True by (auto simp: starts_with_char)
    next
      case neq: False
      then have eq: "normalizePhone p = CHR ''+'' # d" using n by simp
      then have "toE164 p = Some (CHR ''+'' # d)" by (simp add: toE164_def Let_def starts_with_char)
      then show ?thesis using plus False empty eq by (simp add: starts_with_char)
    qed
  qed
qed

end
