(* ===== verification/Json.thy ===== *)
theory Json
  imports Aliases
begin

text \<open>
  JSON values as the code handles them after \<open>JSON.parse\<close>: objects are lists of fields in
  insertion order without a field twice, numbers are those of the language. A column that stores \<open>JSON.stringify\<close>
  of a value holds in the model the value itself.
\<close>

datatype json = JNull | JBool bool | JNum js_num | JStr string | JArr "json list"
  | JObj "(string \<times> json) list"

text \<open>Reading a property; \<open>None\<close> is \<open>undefined\<close>.\<close>

fun jget :: "json \<Rightarrow> string \<Rightarrow> json option" where
  "jget (JObj fields) k = map_of fields k"
| "jget _ k = None"

fun is_jobject :: "json \<Rightarrow> bool" where
  "is_jobject (JObj _) = True"
| "is_jobject _ = False"

text \<open>\<open>typeof value === "object" && value !== null\<close> holds of arrays too.\<close>

fun is_js_object :: "json \<Rightarrow> bool" where
  "is_js_object (JObj _) = True"
| "is_js_object (JArr _) = True"
| "is_js_object _ = False"

fun jstr :: "json option \<Rightarrow> string option" where
  "jstr (Some (JStr s)) = Some s"
| "jstr _ = None"

fun jnum :: "json option \<Rightarrow> js_num option" where
  "jnum (Some (JNum n)) = Some n"
| "jnum _ = None"

lemma jstr_eq_Some [simp]: "jstr j = Some s \<longleftrightarrow> j = Some (JStr s)"
  by (cases j rule: jstr.cases) auto

lemma jnum_eq_Some [simp]: "jnum j = Some n \<longleftrightarrow> j = Some (JNum n)"
  by (cases j rule: jnum.cases) auto

text \<open>The fields a spread \<open>...value\<close> copies.\<close>

fun js_spread :: "json option \<Rightarrow> (string \<times> json) list" where
  "js_spread (Some (JObj fields)) = fields"
| "js_spread (Some (JArr js)) = zip (map dec_nat [0..<length js]) js"
| "js_spread (Some (JStr s)) = zip (map dec_nat [0..<length s]) (map (\<lambda>c. JStr [c]) s)"
| "js_spread _ = []"

text \<open>What \<open>JSON.parse (JSON.stringify v)\<close> gives back: a number that is not finite becomes \<open>null\<close>.\<close>

fun json_stored :: "json \<Rightarrow> json" where
  "json_stored (JNum (Fin x)) = JNum (Fin x)"
| "json_stored (JNum _) = JNull"
| "json_stored (JArr js) = JArr (map json_stored js)"
| "json_stored (JObj fields) = JObj (map (\<lambda>(k, v). (k, json_stored v)) fields)"
| "json_stored j = j"

lemma map_of_json_stored:
  "map_of (map (\<lambda>(k, v). (k, json_stored v)) fields) k = map_option json_stored (map_of fields k)"
  by (induction fields) auto

lemma jget_stored: "jget (json_stored j) k = map_option json_stored (jget j k)"
proof (cases j)
  case (JNum n)
  then show ?thesis by (cases n) auto
qed (auto simp: map_of_json_stored)

lemma json_stored_idem [simp]: "json_stored (json_stored j) = json_stored j"
  by (induction j rule: json_stored.induct) auto

lemma json_stored_str [simp]: "json_stored j = JStr s \<longleftrightarrow> j = JStr s"
  by (cases j rule: json_stored.cases) auto

definition optional_text :: "string option \<Rightarrow> json" where
  "optional_text t = (case t of None \<Rightarrow> JNull | Some s \<Rightarrow> JStr s)"

definition json_or_null :: "json option \<Rightarrow> json" where
  "json_or_null v = get_or v JNull"

text \<open>
  The text columns: \<open>safeStringifyJson\<close> stores nothing for \<open>null\<close>, and \<open>safeParseJsonRecord\<close> reads objects only
  (\<^verbatim>\<open>src/db/codecs.ts\<close>).
\<close>

definition safeStringifyJson :: "json option \<Rightarrow> json option" where
  "safeStringifyJson value = (if value = Some JNull then None else map_option json_stored value)"

definition safeParseJsonStringArray :: "json option \<Rightarrow> string list" where
  "safeParseJsonStringArray raw =
     (case raw of
        Some (JArr js) \<Rightarrow> if list_all (\<lambda>j. jstr (Some j) \<noteq> None) js then List.map_filter (\<lambda>j. jstr (Some j)) js else []
      | _ \<Rightarrow> [])"

definition safeParseJsonRecord :: "json option \<Rightarrow> json option" where
  "safeParseJsonRecord raw = (case raw of Some j \<Rightarrow> if is_jobject j then Some j else None | None \<Rightarrow> None)"

end
