(* ===== verification/SyncRuns.thy ===== *)
theory SyncRuns
  imports Platforms Table Json
begin

text \<open>
  Synchronisation runs: the tables \<open>sync_runs\<close> and \<open>sync_run_errors\<close> of
  \<^verbatim>\<open>src/db/schema.ts\<close> and the operations of \<^verbatim>\<open>src/db/database.ts\<close> that queue, claim,
  extend, finish, fail, recover and reschedule a run. \<open>now()\<close> and \<open>randomUUID()\<close> are
  arguments; an operation that reads the clock several times takes one argument per reading.
  A JSON argument stands for the text \<open>safeStringifyJson\<close> makes of it, \<open>None\<close> for \<open>null\<close>; where
  the code tells \<open>undefined\<close> from a value, the argument is an option of that.
\<close>

subsection \<open>State\<close>

datatype run_type = RtSync | RtSyncResume | RtProject | RtRebuild

datatype run_status = Queued | Ingesting | Projecting | Completed | Failed

record sync_run =
  run_id :: string
  run_platform :: "platform option"
  run_account :: "string option"
  run_type :: run_type
  run_status :: run_status
  run_trigger :: string
  run_queued_at :: int
  run_scheduled_at :: int
  run_started_at :: "int option"
  run_finished_at :: "int option"
  run_attempt :: nat
  run_owner :: "string option"
  run_lease :: "int option"
  run_last_progress :: "int option"
  run_error_code :: "string option"
  run_details :: "json option"

record run_error =
  err_id :: string
  err_run :: string
  err_platform :: "platform option"
  err_account :: "string option"
  err_code :: "string option"
  err_message :: string
  err_details :: "json option"
  err_created_at :: int

record run_db =
  rdb_runs :: "sync_run list"
  rdb_errors :: "run_error list"

record run_claim =
  claim_owner :: "string option"
  claim_attempt :: nat

record run_input =
  ri_platform :: "platform option"
  ri_account :: "string option"
  ri_type :: run_type
  ri_trigger :: string
  ri_details :: "json option"
  ri_scheduled_at :: "int option"
  ri_delay_ms :: "js_num option"

subsection \<open>Queueing\<close>

definition scheduled_at_of :: "int \<Rightarrow> run_input \<Rightarrow> int" where
  "scheduled_at_of queuedAt input =
     (case ri_scheduled_at input of
        Some s \<Rightarrow> s
      | None \<Rightarrow> (case ri_delay_ms input of
                    Some (Fin d) \<Rightarrow> queuedAt + max 0 (rat_trunc d)
                  | _ \<Rightarrow> queuedAt))"

definition queued_run :: "int \<Rightarrow> string \<Rightarrow> run_input \<Rightarrow> sync_run" where
  "queued_run queuedAt uuid input =
     \<lparr>run_id = uuid, run_platform = ri_platform input, run_account = ri_account input,
      run_type = ri_type input, run_status = Queued, run_trigger = ri_trigger input,
      run_queued_at = queuedAt, run_scheduled_at = scheduled_at_of queuedAt input,
      run_started_at = None, run_finished_at = None, run_attempt = 0, run_owner = None,
      run_lease = None, run_last_progress = None, run_error_code = None,
      run_details = ri_details input\<rparr>"

definition db_queueSyncRun :: "int \<Rightarrow> string \<Rightarrow> run_input \<Rightarrow> run_db \<Rightarrow> db_error + string \<times> run_db" where
  "db_queueSyncRun now uuid input db =
     ebind (tbl_insert run_id (queued_run now uuid input) (rdb_runs db)) (\<lambda>runs.
       Inr (uuid, db\<lparr>rdb_runs := runs\<rparr>))"

fun insert_runs :: "sync_run list \<Rightarrow> sync_run list \<Rightarrow> db_error + sync_run list" where
  "insert_runs [] runs = Inr runs"
| "insert_runs (r # rs) runs = ebind (tbl_insert run_id r runs) (insert_runs rs)"

definition WRITE_BATCH_SIZE :: nat where
  "WRITE_BATCH_SIZE = 250"

text \<open>
  \<open>queueSyncRuns\<close> inserts in chunks within one transaction; \<open>uuids\<close> are the ids drawn for
  the inputs in order.
\<close>

definition queued_rows :: "int \<Rightarrow> string list \<Rightarrow> run_input list \<Rightarrow> sync_run list" where
  "queued_rows queuedAt uuids inputs = map (\<lambda>(uuid, input). queued_run queuedAt uuid input) (zip uuids inputs)"

fun insert_chunks :: "sync_run list list \<Rightarrow> sync_run list \<Rightarrow> db_error + sync_run list" where
  "insert_chunks [] runs = Inr runs"
| "insert_chunks (c # cs) runs = ebind (insert_runs c runs) (insert_chunks cs)"

definition db_queueSyncRuns ::
  "int \<Rightarrow> string list \<Rightarrow> run_input list \<Rightarrow> run_db \<Rightarrow> db_error + string list \<times> run_db" where
  "db_queueSyncRuns now uuids inputs db =
     (if inputs = [] then Inr ([], db)
      else let rows = queued_rows now uuids inputs in
        ebind (insert_chunks (chunkArray rows WRITE_BATCH_SIZE) (rdb_runs db)) (\<lambda>runs.
          Inr (map run_id rows, db\<lparr>rdb_runs := runs\<rparr>)))"

definition hasQueuedOrRunningRun :: "platform \<Rightarrow> string option \<Rightarrow> run_db \<Rightarrow> bool" where
  "hasQueuedOrRunningRun platform accountKey db \<longleftrightarrow>
     list_ex (\<lambda>r. run_platform r = Some platform \<and>
         (accountKey = None \<or> run_account r = accountKey) \<and>
         (run_status r = Queued \<or> run_status r = Ingesting)) (rdb_runs db)"

definition hasQueuedOrActiveProjectionRun :: "run_db \<Rightarrow> bool" where
  "hasQueuedOrActiveProjectionRun db \<longleftrightarrow>
     list_ex (\<lambda>r. (run_type r = RtProject \<or> run_type r = RtRebuild) \<and>
         (run_status r = Queued \<or> run_status r = Projecting)) (rdb_runs db)"

lemma db_queueSyncRun_runs:
  "db_queueSyncRun t u inp db = Inr (i, db') \<Longrightarrow> i = u \<and> rdb_runs db' = rdb_runs db @ [queued_run t u inp]"
  by (auto simp: db_queueSyncRun_def ebind_eq_Inr_iff tbl_insert_def split: if_split_asm)

subsection \<open>Claiming\<close>

definition type_allowed :: "run_type list option \<Rightarrow> sync_run \<Rightarrow> bool" where
  "type_allowed runTypes r =
     (case runTypes of None \<Rightarrow> True | Some ts \<Rightarrow> ts = [] \<or> run_type r \<in> set ts)"

definition active_status :: "run_status \<Rightarrow> run_status" where
  "active_status nextStatus = (if nextStatus = Projecting then Projecting else Ingesting)"

definition claimable :: "run_type list option \<Rightarrow> run_status \<Rightarrow> int \<Rightarrow> sync_run \<Rightarrow> bool" where
  "claimable runTypes nextStatus timestamp r \<longleftrightarrow>
     type_allowed runTypes r \<and>
     (run_status r = Queued \<and> run_scheduled_at r \<le> timestamp \<or>
      run_status r = active_status nextStatus \<and>
        (case run_lease r of None \<Rightarrow> False | Some l \<Rightarrow> l \<le> timestamp))"

definition lease_until :: "int \<Rightarrow> rat option \<Rightarrow> int option" where
  "lease_until timestamp leaseMs =
     map_option (\<lambda>l. timestamp + max 1 (rat_trunc l)) leaseMs"

definition claimed_row ::
  "int \<Rightarrow> run_status \<Rightarrow> string option \<Rightarrow> rat option \<Rightarrow> sync_run \<Rightarrow> sync_run" where
  "claimed_row timestamp nextStatus ownerId leaseMs row =
     row\<lparr>run_status := nextStatus,
         run_started_at := Some (get_or (run_started_at row) timestamp),
         run_attempt := run_attempt row + 1,
         run_owner := ownerId,
         run_lease := lease_until timestamp leaseMs,
         run_last_progress := Some timestamp,
         run_error_code := None\<rparr>"

text \<open>
  The update writes the values computed from the selected row to the row with its id. The
  returned object is the selected columns with the new values; the error code and the finish
  time are not among them.
\<close>

definition claimNextQueuedRun ::
  "int \<Rightarrow> run_type list option \<Rightarrow> run_status \<Rightarrow> string option \<Rightarrow> rat option \<Rightarrow> run_db \<Rightarrow>
   sync_run option \<times> run_db" where
  "claimNextQueuedRun timestamp runTypes nextStatus ownerId leaseMs db =
     (case order_first (\<lambda>r. (run_scheduled_at r, run_queued_at r))
        (filter (claimable runTypes nextStatus timestamp) (rdb_runs db)) of
        None \<Rightarrow> (None, db)
      | Some row \<Rightarrow>
          (Some (claimed_row timestamp nextStatus ownerId leaseMs row),
           db\<lparr>rdb_runs := tbl_update (\<lambda>r. run_id r = run_id row)
             (\<lambda>r. r\<lparr>run_status := nextStatus,
                    run_started_at := Some (get_or (run_started_at row) timestamp),
                    run_attempt := run_attempt row + 1,
                    run_owner := ownerId,
                    run_lease := lease_until timestamp leaseMs,
                    run_last_progress := Some timestamp,
                    run_error_code := None\<rparr>) (rdb_runs db)\<rparr>))"

definition getNextQueuedRunScheduledAt :: "run_type list option \<Rightarrow> run_db \<Rightarrow> int option" where
  "getNextQueuedRunScheduledAt runTypes db =
     map_option run_scheduled_at
       (order_first (\<lambda>r. (run_scheduled_at r, run_queued_at r))
         (filter (\<lambda>r. run_status r = Queued \<and> type_allowed runTypes r) (rdb_runs db)))"

definition next_at_of :: "run_status \<Rightarrow> sync_run \<Rightarrow> int option" where
  "next_at_of activeStatus r =
     (if run_status r = Queued then Some (run_scheduled_at r)
      else if run_status r = activeStatus then run_lease r else None)"

fun min_opt :: "int option list \<Rightarrow> int option" where
  "min_opt [] = None"
| "min_opt (None # xs) = min_opt xs"
| "min_opt (Some x # xs) = (case min_opt xs of None \<Rightarrow> Some x | Some y \<Rightarrow> Some (min x y))"

definition getNextClaimableRunAt :: "run_type list option \<Rightarrow> run_status \<Rightarrow> run_db \<Rightarrow> int option" where
  "getNextClaimableRunAt runTypes activeStatus db =
     min_opt (map (next_at_of activeStatus)
       (filter (\<lambda>r. type_allowed runTypes r \<and>
          (run_status r = Queued \<or> run_status r = activeStatus \<and> run_lease r \<noteq> None))
          (rdb_runs db)))"

definition getQueuedProjectionRun :: "run_db \<Rightarrow> sync_run option" where
  "getQueuedProjectionRun db =
     order_first run_queued_at
       (filter (\<lambda>r. run_status r = Queued \<and> run_type r = RtProject) (rdb_runs db))"

subsection \<open>Owning a run\<close>

definition syncRunClaimPredicate :: "string \<Rightarrow> run_claim option \<Rightarrow> sync_run \<Rightarrow> bool" where
  "syncRunClaimPredicate runId claim r \<longleftrightarrow>
     run_id r = runId \<and>
     (case claim of
        None \<Rightarrow> True
      | Some c \<Rightarrow> run_attempt r = claim_attempt c \<and> run_owner r = claim_owner c)"

definition updateRunStatus ::
  "string \<Rightarrow> run_status \<Rightarrow> json option option \<Rightarrow> run_db \<Rightarrow> run_db" where
  "updateRunStatus runId status details db =
     db\<lparr>rdb_runs := tbl_update (\<lambda>r. run_id r = runId)
       (\<lambda>r. r\<lparr>run_status := status, run_details := get_or details (run_details r)\<rparr>) (rdb_runs db)\<rparr>"

definition updateRunProgress ::
  "int \<Rightarrow> string \<Rightarrow> json option option \<Rightarrow> rat option \<Rightarrow> run_claim option \<Rightarrow> run_db \<Rightarrow> bool \<times> run_db" where
  "updateRunProgress timestamp runId details leaseMs claim db =
     (0 < tbl_changes (syncRunClaimPredicate runId claim) (rdb_runs db),
      db\<lparr>rdb_runs := tbl_update (syncRunClaimPredicate runId claim)
        (\<lambda>r. r\<lparr>run_last_progress := Some timestamp,
               run_lease := (case leaseMs of None \<Rightarrow> run_lease r | Some _ \<Rightarrow> lease_until timestamp leaseMs),
               run_details := get_or details (run_details r)\<rparr>) (rdb_runs db)\<rparr>)"

definition finishRun ::
  "int \<Rightarrow> int \<Rightarrow> string \<Rightarrow> json option option \<Rightarrow> run_claim option \<Rightarrow> run_db \<Rightarrow> bool \<times> run_db" where
  "finishRun now1 now2 runId details claim db =
     (0 < tbl_changes (syncRunClaimPredicate runId claim) (rdb_runs db),
      db\<lparr>rdb_runs := tbl_update (syncRunClaimPredicate runId claim)
        (\<lambda>r. r\<lparr>run_status := Completed, run_finished_at := Some now1, run_owner := None,
               run_lease := None, run_last_progress := Some now2, run_error_code := None,
               run_details := get_or details (run_details r)\<rparr>) (rdb_runs db)\<rparr>)"

definition failRun ::
  "int \<Rightarrow> int \<Rightarrow> int \<Rightarrow> string \<Rightarrow> string \<Rightarrow> string \<Rightarrow> json option option \<Rightarrow> string option \<Rightarrow>
   run_claim option \<Rightarrow> run_db \<Rightarrow> db_error + bool \<times> run_db" where
  "failRun now1 now2 now3 uuid runId errorMessage details errorCode claim db =
     (let run = tbl_get run_id runId (rdb_runs db);
          updated = 0 < tbl_changes (syncRunClaimPredicate runId claim) (rdb_runs db);
          runs = tbl_update (syncRunClaimPredicate runId claim)
            (\<lambda>r. r\<lparr>run_status := Failed, run_finished_at := Some now1, run_owner := None,
                   run_lease := None, run_last_progress := Some now2, run_error_code := errorCode,
                   run_details := get_or details (run_details r)\<rparr>) (rdb_runs db)
      in if \<not> updated then Inr (False, db\<lparr>rdb_runs := runs\<rparr>)
         else if \<not> tbl_has run_id runId runs then Inl ForeignKeyViolation
         else ebind (tbl_insert err_id
           \<lparr>err_id = uuid, err_run = runId,
            err_platform = Option.bind run run_platform, err_account = Option.bind run run_account,
            err_code = errorCode, err_message = errorMessage,
            err_details = get_or details None, err_created_at = now3\<rparr> (rdb_errors db)) (\<lambda>errors.
              Inr (True, db\<lparr>rdb_runs := runs, rdb_errors := errors\<rparr>)))"

definition in_progress :: "sync_run \<Rightarrow> bool" where
  "in_progress r \<longleftrightarrow> run_status r = Ingesting \<or> run_status r = Projecting"

definition recoverInProgressRuns :: "int \<Rightarrow> string \<Rightarrow> run_db \<Rightarrow> nat \<times> run_db" where
  "recoverInProgressRuns timestamp errorCode db =
     (tbl_changes in_progress (rdb_runs db),
      db\<lparr>rdb_runs := tbl_update in_progress
        (\<lambda>r. r\<lparr>run_status := Queued, run_scheduled_at := timestamp, run_owner := None,
               run_lease := None, run_last_progress := Some timestamp,
               run_error_code := Some errorCode\<rparr>) (rdb_runs db)\<rparr>)"

fun fail_each ::
  "int \<Rightarrow> string \<Rightarrow> (string \<times> string) list \<Rightarrow> run_db \<Rightarrow> db_error + run_db" where
  "fail_each finishedAt errorMessage [] db = Inr db"
| "fail_each finishedAt errorMessage ((uuid, runId) # rest) db =
     ebind (tbl_insert err_id
       \<lparr>err_id = uuid, err_run = runId, err_platform = None, err_account = None, err_code = None,
        err_message = errorMessage, err_details = None, err_created_at = finishedAt\<rparr>
       (rdb_errors db)) (\<lambda>errors.
         fail_each finishedAt errorMessage rest
           (db\<lparr>rdb_runs := tbl_update (\<lambda>r. run_id r = runId)
                  (\<lambda>r. r\<lparr>run_status := Failed, run_finished_at := Some finishedAt\<rparr>) (rdb_runs db),
               rdb_errors := errors\<rparr>))"

definition failInProgressRuns ::
  "int \<Rightarrow> (nat \<Rightarrow> string) \<Rightarrow> string \<Rightarrow> run_db \<Rightarrow> db_error + nat \<times> run_db" where
  "failInProgressRuns now uuid errorMessage db =
     (let stuckRuns = map run_id (filter in_progress (rdb_runs db)) in
      if stuckRuns = [] then Inr (0, db)
      else ebind (fail_each now errorMessage (zip (map uuid [0..<length stuckRuns]) stuckRuns) db)
        (\<lambda>db'. Inr (length stuckRuns, db')))"

definition updateRunDetails :: "string \<Rightarrow> json option \<Rightarrow> run_db \<Rightarrow> run_db" where
  "updateRunDetails runId details db =
     db\<lparr>rdb_runs := tbl_update (\<lambda>r. run_id r = runId) (\<lambda>r. r\<lparr>run_details := details\<rparr>) (rdb_runs db)\<rparr>"

definition rescheduleRun :: "string \<Rightarrow> rat \<Rightarrow> run_db \<Rightarrow> run_db" where
  "rescheduleRun runId scheduledAt db =
     db\<lparr>rdb_runs := tbl_update (\<lambda>r. run_id r = runId)
       (\<lambda>r. r\<lparr>run_scheduled_at := max 0 (rat_trunc scheduledAt)\<rparr>) (rdb_runs db)\<rparr>"

definition getLatestFinishedSyncRun :: "platform \<Rightarrow> string \<Rightarrow> run_db \<Rightarrow> sync_run option" where
  "getLatestFinishedSyncRun platform accountKey db =
     order_first (\<lambda>r. - get_or (run_finished_at r) 0)
       (filter (\<lambda>r. run_platform r = Some platform \<and> run_account r = Some accountKey \<and>
            (run_type r = RtSync \<or> run_type r = RtSyncResume) \<and>
            (run_status r = Completed \<or> run_status r = Failed) \<and> run_finished_at r \<noteq> None)
          (rdb_runs db))"

definition getLatestSyncRunError :: "platform \<Rightarrow> string \<Rightarrow> run_db \<Rightarrow> run_error option" where
  "getLatestSyncRunError platform accountKey db =
     order_first (\<lambda>e. - err_created_at e)
       (filter (\<lambda>e. err_platform e = Some platform \<and> err_account e = Some accountKey) (rdb_errors db))"

definition listRecentRuns :: "nat \<Rightarrow> run_db \<Rightarrow> sync_run list" where
  "listRecentRuns limit db = take limit (sort_key (\<lambda>r. - run_queued_at r) (rdb_runs db))"

subsection \<open>Invariant and steps\<close>

definition run_inv :: "run_db \<Rightarrow> bool" where
  "run_inv db \<longleftrightarrow> keyed run_id (rdb_runs db) \<and> keyed err_id (rdb_errors db) \<and>
     (\<forall>e\<in>set (rdb_errors db). tbl_has run_id (err_run e) (rdb_runs db))"

inductive run_step :: "run_db \<Rightarrow> run_db \<Rightarrow> bool" where
  queue: "db_queueSyncRun t u inp db = Inr (i, db') \<Longrightarrow> run_step db db'"
| queue_many: "db_queueSyncRuns t us inps db = Inr (is, db') \<Longrightarrow> length us = length inps \<Longrightarrow> run_step db db'"
| claim: "claimNextQueuedRun t ts st owner lease db = (r, db') \<Longrightarrow> run_step db db'"
| progress: "updateRunProgress t i d l c db = (ok, db') \<Longrightarrow> run_step db db'"
| finish: "finishRun t1 t2 i d c db = (ok, db') \<Longrightarrow> run_step db db'"
| fail: "failRun t1 t2 t3 u i m d code c db = Inr (ok, db') \<Longrightarrow> run_step db db'"
| fail_stuck: "failInProgressRuns t us m db = Inr (n, db') \<Longrightarrow> run_step db db'"
| recover: "recoverInProgressRuns t code db = (n, db') \<Longrightarrow> run_step db db'"
| details: "run_step db (updateRunDetails i d db)"
| reschedule: "run_step db (rescheduleRun i x db)"
| status: "run_step db (updateRunStatus i st d db)"

inductive run_reachable :: "run_db \<Rightarrow> bool" where
  start: "run_reachable \<lparr>rdb_runs = [], rdb_errors = []\<rparr>"
| step: "run_reachable db \<Longrightarrow> run_step db db' \<Longrightarrow> run_reachable db'"

definition attempt_of :: "string \<Rightarrow> run_db \<Rightarrow> nat option" where
  "attempt_of i db = map_option run_attempt (tbl_get run_id i (rdb_runs db))"

text \<open>The runs of a step: every run that existed still exists, with at least its attempts.\<close>

definition runs_grow :: "sync_run list \<Rightarrow> sync_run list \<Rightarrow> bool" where
  "runs_grow rs rs' \<longleftrightarrow> (keyed run_id rs \<longrightarrow> keyed run_id rs') \<and>
     (\<forall>i r. tbl_get run_id i rs = Some r \<longrightarrow>
        (\<exists>r'. tbl_get run_id i rs' = Some r' \<and> run_attempt r \<le> run_attempt r'))"

lemma runs_grow_refl [simp]: "runs_grow rs rs"
  by (auto simp: runs_grow_def)

lemma runs_grow_trans: "runs_grow a b \<Longrightarrow> runs_grow b c \<Longrightarrow> runs_grow a c"
  unfolding runs_grow_def by (meson order_trans)

lemma runs_grow_has: "runs_grow rs rs' \<Longrightarrow> tbl_has run_id i rs \<Longrightarrow> tbl_has run_id i rs'"
  unfolding runs_grow_def by (metis option.distinct(1) tbl_get_None_iff tbl_has_get)

lemma runs_grow_update:
  assumes "\<And>r. run_id (f r) = run_id r" "\<And>r. r \<in> set rs \<Longrightarrow> P r \<Longrightarrow> run_attempt r \<le> run_attempt (f r)"
  shows "runs_grow rs (tbl_update P f rs)"
proof -
  have g: "tbl_get run_id i (tbl_update P f rs) =
      map_option (\<lambda>r. if P r then f r else r) (tbl_get run_id i rs)" for i
    using assms(1) by (intro tbl_get_update)
  show ?thesis
    using assms by (auto simp: runs_grow_def g keyed_update dest: tbl_get_SomeD)
qed

lemma runs_grow_insert: "tbl_insert run_id r rs = Inr rs' \<Longrightarrow> runs_grow rs rs'"
  by (auto simp: runs_grow_def tbl_insert_def keyed_append_one split: if_splits option.splits)

lemma insert_runs_grow: "insert_runs new rs = Inr rs' \<Longrightarrow> runs_grow rs rs'"
  by (induction new arbitrary: rs)
    (auto simp: ebind_eq_Inr_iff dest: runs_grow_insert intro: runs_grow_trans)

lemma insert_chunks_concat: "insert_chunks cs rs = insert_runs (concat cs) rs"
proof -
  have app: "insert_runs (xs @ ys) rs = ebind (insert_runs xs rs) (insert_runs ys)" for xs ys rs
    by (induction xs arbitrary: rs) (auto simp: ebind_def split: sum.splits)
  show ?thesis by (induction cs arbitrary: rs) (auto simp: app ebind_def split: sum.splits)
qed

lemma insert_runs_app: "insert_runs new rs = Inr rs' \<Longrightarrow> rs' = rs @ new"
proof (induction new arbitrary: rs)
  case Nil
  then show ?case by simp
next
  case (Cons a new)
  then have "insert_runs new (rs @ [a]) = Inr rs'"
    by (auto simp: ebind_eq_Inr_iff tbl_insert_def split: if_splits)
  from Cons.IH [OF this] show ?case by simp
qed

lemma insert_chunks_batch: "insert_chunks (chunkArray rows WRITE_BATCH_SIZE) rs = insert_runs rows rs"
  by (simp add: insert_chunks_concat concat_chunkArray WRITE_BATCH_SIZE_def)

lemma claim_cases:
  assumes "claimNextQueuedRun t ts st owner lease db = (res, db')"
  obtains (none) "res = None" "db' = db" "\<forall>r\<in>set (rdb_runs db). \<not> claimable ts st t r"
  | (some) row where "res = Some (claimed_row t st owner lease row)" "row \<in> set (rdb_runs db)"
      "claimable ts st t row"
      "\<And>r. r \<in> set (rdb_runs db) \<Longrightarrow> claimable ts st t r \<Longrightarrow>
         (run_scheduled_at row, run_queued_at row) \<le> (run_scheduled_at r, run_queued_at r)"
      "rdb_errors db' = rdb_errors db"
      "rdb_runs db' = tbl_update (\<lambda>r. run_id r = run_id row)
         (\<lambda>r. r\<lparr>run_status := st, run_started_at := Some (get_or (run_started_at row) t),
              run_attempt := run_attempt row + 1, run_owner := owner,
              run_lease := lease_until t lease, run_last_progress := Some t,
              run_error_code := None\<rparr>) (rdb_runs db)"
proof (cases "order_first (\<lambda>r. (run_scheduled_at r, run_queued_at r))
    (filter (claimable ts st t) (rdb_runs db))")
  case None
  then show thesis using assms none
    by (auto simp: claimNextQueuedRun_def order_first_None_iff filter_empty_conv)
next
  case (Some row)
  from order_first_SomeD [OF this] Some assms show thesis
    by (intro some [of row]) (auto simp: claimNextQueuedRun_def)
qed

lemma claim_grow:
  assumes "claimNextQueuedRun t ts st owner lease db = (res, db')" "keyed run_id (rdb_runs db)"
  shows "runs_grow (rdb_runs db) (rdb_runs db')"
  using assms(1)
proof (cases rule: claim_cases)
  case none
  then show ?thesis by simp
next
  case (some row)
  have "run_attempt r \<le> run_attempt row + 1" if "r \<in> set (rdb_runs db)" "run_id r = run_id row" for r
    using keyed_unique [OF assms(2) that(1) some(2) that(2)] by simp
  then show ?thesis using some(6) by (simp add: runs_grow_update)
qed

text \<open>After a claim the stored row of the claimed run is the returned one.\<close>

lemma claim_row:
  assumes "claimNextQueuedRun t ts st owner lease db = (Some r, db')" "keyed run_id (rdb_runs db)"
  shows "tbl_get run_id (run_id r) (rdb_runs db') = Some r"
  using assms(1)
proof (cases rule: claim_cases)
  case (some row)
  have "tbl_get run_id (run_id row) (rdb_runs db) = Some row"
    using tbl_get_keyed [OF assms(2) some(2)] .
  then show ?thesis using some by (simp add: tbl_get_update claimed_row_def)
qed simp

lemma fail_each_grow:
  "fail_each t m us db = Inr db' \<Longrightarrow> runs_grow (rdb_runs db) (rdb_runs db')"
proof (induction us arbitrary: db)
  case Nil
  then show ?case by simp
next
  case (Cons p us)
  obtain u i where p: "p = (u, i)" by fastforce
  from Cons.prems p obtain errors where
    "fail_each t m us (db\<lparr>rdb_runs := tbl_update (\<lambda>r. run_id r = i)
       (\<lambda>r. r\<lparr>run_status := Failed, run_finished_at := Some t\<rparr>) (rdb_runs db),
       rdb_errors := errors\<rparr>) = Inr db'" by (auto simp: ebind_eq_Inr_iff)
  from Cons.IH [OF this] have "runs_grow (tbl_update (\<lambda>r. run_id r = i)
      (\<lambda>r. r\<lparr>run_status := Failed, run_finished_at := Some t\<rparr>) (rdb_runs db)) (rdb_runs db')"
    by simp
  moreover have "runs_grow (rdb_runs db) (tbl_update (\<lambda>r. run_id r = i)
      (\<lambda>r. r\<lparr>run_status := Failed, run_finished_at := Some t\<rparr>) (rdb_runs db))"
    by (rule runs_grow_update) auto
  ultimately show ?case by (metis runs_grow_trans)
qed

lemma run_step_grow:
  "run_step db db' \<Longrightarrow> keyed run_id (rdb_runs db) \<Longrightarrow> runs_grow (rdb_runs db) (rdb_runs db')"
proof (induction rule: run_step.induct)
  case (queue t u inp db i db')
  then show ?case by (auto simp: db_queueSyncRun_def ebind_eq_Inr_iff dest: runs_grow_insert)
next
  case (queue_many t us inps db "is" db')
  then show ?case
    by (auto simp: db_queueSyncRuns_def Let_def insert_chunks_batch ebind_eq_Inr_iff
        dest: insert_runs_grow split: if_splits)
next
  case (claim t ts st owner lease db r db')
  then show ?case using claim_grow by blast
next
  case (fail t1 t2 t3 u i m d code c db ok db')
  then show ?case
    by (auto simp: failRun_def Let_def ebind_eq_Inr_iff split: if_splits intro!: runs_grow_update)
next
  case (fail_stuck t us m db n db')
  then show ?case
    by (auto simp: failInProgressRuns_def Let_def ebind_eq_Inr_iff dest: fail_each_grow split: if_splits)
qed (auto simp: updateRunProgress_def finishRun_def recoverInProgressRuns_def updateRunDetails_def
    rescheduleRun_def updateRunStatus_def intro!: runs_grow_update)

lemma fail_each_errors:
  "fail_each t m us db = Inr db' \<Longrightarrow>
   (keyed err_id (rdb_errors db) \<longrightarrow> keyed err_id (rdb_errors db')) \<and>
   (\<forall>e\<in>set (rdb_errors db'). e \<in> set (rdb_errors db) \<or> err_run e \<in> snd ` set us)"
proof (induction us arbitrary: db)
  case Nil
  then show ?case by simp
next
  case (Cons p us)
  obtain u i where p: "p = (u, i)" by fastforce
  let ?e = "\<lparr>err_id = u, err_run = i, err_platform = None, err_account = None, err_code = None,
    err_message = m, err_details = None, err_created_at = t\<rparr>"
  from Cons.prems p obtain errors where ins: "tbl_insert err_id ?e (rdb_errors db) = Inr errors"
    and rest: "fail_each t m us (db\<lparr>rdb_runs := tbl_update (\<lambda>r. run_id r = i)
       (\<lambda>r. r\<lparr>run_status := Failed, run_finished_at := Some t\<rparr>) (rdb_runs db),
       rdb_errors := errors\<rparr>) = Inr db'" by (auto simp: ebind_eq_Inr_iff)
  from ins have "keyed err_id (rdb_errors db) \<longrightarrow> keyed err_id errors" by (auto intro: keyed_insert)
  moreover from ins have "errors = rdb_errors db @ [?e]" by (auto simp: tbl_insert_def split: if_splits)
  ultimately show ?case using Cons.IH [OF rest] p by auto
qed

lemma run_step_errors:
  "run_step db db' \<Longrightarrow> run_inv db \<Longrightarrow> keyed err_id (rdb_errors db') \<and>
     (\<forall>e\<in>set (rdb_errors db'). e \<in> set (rdb_errors db) \<or> tbl_has run_id (err_run e) (rdb_runs db))"
proof (induction rule: run_step.induct)
  case (claim t ts st owner lease db r db')
  from claim.hyps have "rdb_errors db' = rdb_errors db" by (cases rule: claim_cases) auto
  then show ?case using claim.prems by (simp add: run_inv_def)
next
  case (fail t1 t2 t3 u i m d code c db ok db')
  let ?P = "syncRunClaimPredicate i c"
  show ?case
  proof (cases "0 < tbl_changes ?P (rdb_runs db)")
    case True
    then have has: "tbl_has run_id i (rdb_runs db)"
      by (auto simp: tbl_changes_pos syncRunClaimPredicate_def tbl_has_iff)
    from fail.hyps True obtain e where e: "tbl_insert err_id e (rdb_errors db) = Inr (rdb_errors db')"
      "err_run e = i"
      by (auto simp: failRun_def Let_def ebind_eq_Inr_iff split: if_splits)
    have "rdb_errors db' = rdb_errors db @ [e]"
      using e(1) by (auto simp: tbl_insert_def split: if_splits)
    then show ?thesis using fail.prems e has keyed_insert [OF e(1)] by (auto simp: run_inv_def)
  next
    case False
    then have "rdb_errors db' = rdb_errors db" using fail.hyps by (auto simp: failRun_def Let_def)
    then show ?thesis using fail.prems by (simp add: run_inv_def)
  qed
next
  case (fail_stuck t us m db n db')
  let ?stuck = "map run_id (filter in_progress (rdb_runs db))"
  show ?case
  proof (cases "?stuck = []")
    case True
    then show ?thesis using fail_stuck by (auto simp: failInProgressRuns_def run_inv_def)
  next
    case False
    then have "fail_each t m (zip (map us [0..<length ?stuck]) ?stuck) db = Inr db'"
      using fail_stuck.hyps by (auto simp: failInProgressRuns_def Let_def ebind_eq_Inr_iff)
    note f = fail_each_errors [OF this]
    have "snd ` set (zip (map us [0..<length ?stuck]) ?stuck) = set ?stuck"
      by (simp only: set_map [symmetric] map_snd_zip length_map length_upt)
    also have "\<dots> \<subseteq> run_id ` set (rdb_runs db)" by auto
    finally have "tbl_has run_id i (rdb_runs db)" if "i \<in> snd ` set (zip (map us [0..<length ?stuck]) ?stuck)" for i
      using that by (auto simp: tbl_has_iff)
    then show ?thesis using f fail_stuck.prems unfolding run_inv_def by blast
  qed
qed (auto simp: run_inv_def db_queueSyncRun_def db_queueSyncRuns_def Let_def ebind_eq_Inr_iff
    updateRunProgress_def finishRun_def recoverInProgressRuns_def updateRunDetails_def
    rescheduleRun_def updateRunStatus_def split: if_split_asm)

lemma run_step_inv: "run_step db db' \<Longrightarrow> run_inv db \<Longrightarrow> run_inv db'"
proof -
  assume st: "run_step db db'" and inv: "run_inv db"
  have k: "keyed run_id (rdb_runs db)" using inv by (simp add: run_inv_def)
  note g = run_step_grow [OF st k]
  have "tbl_has run_id (err_run e) (rdb_runs db')" if "e \<in> set (rdb_errors db')" for e
    using run_step_errors [OF st inv] that inv runs_grow_has [OF g] by (auto simp: run_inv_def)
  moreover have "keyed run_id (rdb_runs db')" using g k by (simp add: runs_grow_def)
  ultimately show ?thesis using run_step_errors [OF st inv] by (simp add: run_inv_def)
qed

lemma run_reachable_inv: "run_reachable db \<Longrightarrow> run_inv db"
proof (induction rule: run_reachable.induct)
  case start
  show ?case by (simp add: run_inv_def)
next
  case (step db db')
  then show ?case by (blast intro: run_step_inv)
qed

lemma run_steps_grow:
  "run_step\<^sup>*\<^sup>* db db' \<Longrightarrow> run_inv db \<Longrightarrow> run_inv db' \<and> runs_grow (rdb_runs db) (rdb_runs db')"
proof (induction rule: rtranclp_induct)
  case base
  then show ?case by simp
next
  case (step y z)
  then have y: "run_inv y" "runs_grow (rdb_runs db) (rdb_runs y)" by auto
  then have "keyed run_id (rdb_runs y)" by (simp add: run_inv_def)
  then have "runs_grow (rdb_runs y) (rdb_runs z)" using step.hyps(2) by (intro run_step_grow)
  then show ?case using y runs_grow_trans run_step_inv [OF step.hyps(2)] by blast
qed

lemma run_steps_reachable: "run_step\<^sup>*\<^sup>* db db' \<Longrightarrow> run_reachable db \<Longrightarrow> run_reachable db'"
  by (induction rule: rtranclp_induct) (auto intro: run_reachable.step)

text \<open>A claim token whose attempt the stored run has passed matches no row.\<close>

lemma stale_token:
  assumes "keyed run_id (rdb_runs db)" "tbl_get run_id i (rdb_runs db) = Some r" "a < run_attempt r"
    and "x \<in> set (rdb_runs db)"
  shows "\<not> syncRunClaimPredicate i (Some \<lparr>claim_owner = ow, claim_attempt = a\<rparr>) x"
  using tbl_get_keyed [OF assms(1,4)] assms by (auto simp: syncRunClaimPredicate_def)

lemma no_match_noop:
  assumes "\<And>x. x \<in> set (rdb_runs db) \<Longrightarrow> \<not> syncRunClaimPredicate i c x"
  shows "finishRun t1 t2 i d c db = (False, db)"
    and "updateRunProgress t i d l c db = (False, db)"
    and "failRun t1 t2 t3 u i m d code c db = Inr (False, db)"
  using assms tbl_update_none [of "rdb_runs db" "syncRunClaimPredicate i c"]
    tbl_changes_eq_0 [of "syncRunClaimPredicate i c" "rdb_runs db"]
  by (simp_all add: finishRun_def updateRunProgress_def failRun_def Let_def)

lemma min_opt_le_iff: "(\<exists>m. min_opt xs = Some m \<and> m \<le> t) \<longleftrightarrow> (\<exists>x. Some x \<in> set xs \<and> x \<le> t)"
proof (induction xs rule: min_opt.induct)
  case (3 x xs)
  show ?case
  proof (cases "min_opt xs")
    case None
    then show ?thesis using 3 by auto
  next
    case (Some y)
    then have "(\<exists>m. min_opt (Some x # xs) = Some m \<and> m \<le> t) \<longleftrightarrow> x \<le> t \<or> y \<le> t" by auto
    moreover have "y \<le> t \<longleftrightarrow> (\<exists>x. Some x \<in> set xs \<and> x \<le> t)" using 3 Some by auto
    ultimately show ?thesis by auto
  qed
qed auto


subsection \<open>A sample queue\<close>

definition demo_run_input :: run_input where
  "demo_run_input = \<lparr>ri_platform = Some Gmail, ri_account = Some ''a'', ri_type = RtSync,
     ri_trigger = ''manual'', ri_details = None, ri_scheduled_at = None, ri_delay_ms = None\<rparr>"

definition demo_runs :: run_db where
  "demo_runs = \<lparr>rdb_runs = [queued_run 10 ''r1'' demo_run_input,
     queued_run 20 ''r2'' (demo_run_input\<lparr>ri_account := Some ''b''\<rparr>)], rdb_errors = []\<rparr>"

lemmas demo_run_simps = demo_runs_def demo_run_input_def queued_run_def scheduled_at_of_def
  claimable_def type_allowed_def active_status_def lease_until_def claimed_row_def rat_trunc_def

lemma demo_runs_reachable: "run_reachable demo_runs"
proof -
  have "run_step \<lparr>rdb_runs = [], rdb_errors = []\<rparr>
      \<lparr>rdb_runs = [queued_run 10 ''r1'' demo_run_input], rdb_errors = []\<rparr>"
    by (rule run_step.queue [of 10 "''r1''" demo_run_input _ "''r1''"])
      (simp add: db_queueSyncRun_def tbl_insert_def ebind_def)
  then have "run_reachable \<lparr>rdb_runs = [queued_run 10 ''r1'' demo_run_input], rdb_errors = []\<rparr>"
    by (rule run_reachable.step [OF run_reachable.start])
  moreover have "run_step \<lparr>rdb_runs = [queued_run 10 ''r1'' demo_run_input], rdb_errors = []\<rparr> demo_runs"
    by (rule run_step.queue [of 20 "''r2''" "demo_run_input\<lparr>ri_account := Some ''b''\<rparr>" _ "''r2''"])
      (simp add: db_queueSyncRun_def tbl_insert_def ebind_def demo_runs_def queued_run_def tbl_has_def)
  ultimately show ?thesis by (rule run_reachable.step)
qed

definition demo_claimed :: sync_run where
  "demo_claimed = claimed_row 100 Ingesting (Some ''w1'') (Some 100) (queued_run 10 ''r1'' demo_run_input)"

lemma demo_claimed_fields:
  "run_id demo_claimed = ''r1''" "run_lease demo_claimed = Some 200" "run_attempt demo_claimed = 1"
  "run_owner demo_claimed = Some ''w1''"
  by (simp_all add: demo_claimed_def claimed_row_def queued_run_def lease_until_def rat_trunc_def)

lemma demo_claim:
  "fst (claimNextQueuedRun 100 None Ingesting (Some ''w1'') (Some 100) demo_runs) = Some demo_claimed"
proof -
  have c: "claimable None Ingesting 100 (queued_run 10 ''r1'' demo_run_input)"
    "claimable None Ingesting 100 (queued_run 20 ''r2'' (demo_run_input\<lparr>ri_account := Some ''b''\<rparr>))"
    by (simp_all add: claimable_def type_allowed_def queued_run_def scheduled_at_of_def demo_run_input_def)
  have o: "order_first (\<lambda>r. (run_scheduled_at r, run_queued_at r)) (rdb_runs demo_runs) =
      Some (queued_run 10 ''r1'' demo_run_input)"
    by (simp add: order_first_def demo_runs_def queued_run_def scheduled_at_of_def demo_run_input_def)
  have f: "filter (claimable None Ingesting 100) (rdb_runs demo_runs) = rdb_runs demo_runs"
    using c by (simp add: demo_runs_def)
  show ?thesis by (simp add: claimNextQueuedRun_def f o demo_claimed_def)
qed

subsection \<open>Exclusive claims\<close>

text \<open>
  Workers claim one after another; \<open>claim_many\<close> runs the claims \<open>(time, types, status, owner,
  lease)\<close> in order and collects what each was handed.
\<close>

type_synonym claim_call = "int \<times> run_type list option \<times> run_status \<times> string option \<times> rat option"

fun claim_many :: "claim_call list \<Rightarrow> run_db \<Rightarrow> sync_run option list \<times> run_db" where
  "claim_many [] db = ([], db)"
| "claim_many ((t, ts, st, owner, lease) # calls) db =
     (let (res, db') = claimNextQueuedRun t ts st owner lease db;
          (rest, db'') = claim_many calls db'
      in (res # rest, db''))"

definition held_until :: "string \<Rightarrow> int \<Rightarrow> run_db \<Rightarrow> bool" where
  "held_until i l db \<longleftrightarrow> keyed run_id (rdb_runs db) \<and>
     (\<exists>r. tbl_get run_id i (rdb_runs db) = Some r \<and> run_status r \<noteq> Queued \<and> run_lease r = Some l)"

lemma held_not_claimed:
  assumes "held_until i l db" "t < l" "claimNextQueuedRun t ts st owner lease db = (res, db')"
  shows "map_option run_id res \<noteq> Some i \<and> held_until i l db'"
  using assms(3)
proof (cases rule: claim_cases)
  case none
  then show ?thesis using assms(1) by simp
next
  case (some row)
  obtain r where r: "tbl_get run_id i (rdb_runs db) = Some r" "run_status r \<noteq> Queued" "run_lease r = Some l"
    and k: "keyed run_id (rdb_runs db)" using assms(1) by (auto simp: held_until_def)
  have ne: "run_id row \<noteq> i"
  proof
    assume "run_id row = i"
    then have "row = r" using tbl_get_keyed [OF k some(2)] r(1) by simp
    then show False using some(3) r assms(2) by (auto simp: claimable_def)
  qed
  have "tbl_get run_id i (rdb_runs db') = Some r"
    using some(6) r(1) ne tbl_get_SomeD [OF r(1)] by (auto simp: tbl_get_update)
  then show ?thesis using some k ne r by (auto simp: held_until_def claimed_row_def keyed_update)
qed

lemma claim_many_held:
  "held_until i l db \<Longrightarrow> \<forall>c\<in>set calls. fst c < l \<Longrightarrow>
   \<forall>x\<in>set (fst (claim_many calls db)). map_option run_id x \<noteq> Some i"
proof (induction calls arbitrary: db)
  case Nil
  then show ?case by simp
next
  case (Cons c calls)
  obtain t ts st owner lease where c: "c = (t, ts, st, owner, lease)" by (cases c) auto
  obtain res db' where cl: "claimNextQueuedRun t ts st owner lease db = (res, db')" by fastforce
  have "t < l" using Cons.prems(2) c by simp
  from held_not_claimed [OF Cons.prems(1) this cl] Cons.IH [of db'] Cons.prems(2)
  show ?case by (auto simp: c cl split: prod.splits)
qed

text \<open>
  C8: a leased run is handed to one worker at a time. Once a run has been claimed with a lease,
  as ingesting or projecting, no claim made before the lease runs out returns it again, however
  many claims of whatever kind other workers make in between.
\<close>

theorem claim_exclusive:
  assumes "run_reachable db" and "claimNextQueuedRun t ts st owner lease db = (Some r, db')"
    and "st = Ingesting \<or> st = Projecting" and "run_lease r = Some l"
    and "\<forall>c\<in>set calls. fst c < l"
  shows "\<forall>x\<in>set (fst (claim_many calls db')). map_option run_id x \<noteq> Some (run_id r)"
proof -
  have inv: "run_inv db" using assms(1) by (rule run_reachable_inv)
  then have k: "keyed run_id (rdb_runs db)" by (simp add: run_inv_def)
  have "run_step db db'" using assms(2) by (rule run_step.claim)
  then have "keyed run_id (rdb_runs db')" using run_step_inv [OF _ inv] by (simp add: run_inv_def)
  moreover have "tbl_get run_id (run_id r) (rdb_runs db') = Some r" by (rule claim_row [OF assms(2) k])
  moreover have "run_status r = st" using assms(2) by (cases rule: claim_cases) (auto simp: claimed_row_def)
  ultimately have "held_until (run_id r) l db'" using assms(3,4) by (auto simp: held_until_def)
  then show ?thesis using assms(5) by (rule claim_many_held)
qed

theorem claim_exclusive_witness:
  "Some ''r1'' \<notin> map_option run_id `
     set (fst (claim_many [(150, None, Ingesting, Some ''w2'', None), (160, None, Ingesting, Some ''w3'', None)]
      (snd (claimNextQueuedRun 100 None Ingesting (Some ''w1'') (Some 100) demo_runs))))"
proof -
  have c: "claimNextQueuedRun 100 None Ingesting (Some ''w1'') (Some 100) demo_runs = (Some demo_claimed,
      snd (claimNextQueuedRun 100 None Ingesting (Some ''w1'') (Some 100) demo_runs))"
    using demo_claim by (simp add: prod_eq_iff)
  show ?thesis
    using claim_exclusive [OF demo_runs_reachable c, of 200
      "[(150, None, Ingesting, Some ''w2'', None), (160, None, Ingesting, Some ''w3'', None)]"]
    by (force simp: demo_claimed_fields)
qed

subsection \<open>Stale claims\<close>

text \<open>
  C5: fencing. Once a run has been claimed again, the worker that held the earlier claim can no
  longer touch it: whatever steps were taken between the two claims and after the second one,
  its \<open>finishRun\<close>, \<open>updateRunProgress\<close> and \<open>failRun\<close> with the old token report failure and leave
  the database as it is.
\<close>

theorem stale_claim_is_fenced:
  assumes "run_reachable db0"
    and "claimNextQueuedRun t1 ts1 st1 owner1 lease1 db0 = (Some r1, db1)"
    and "run_step\<^sup>*\<^sup>* db1 db2"
    and "claimNextQueuedRun t2 ts2 st2 owner2 lease2 db2 = (Some r2, db3)"
    and "run_id r2 = run_id r1"
    and "run_step\<^sup>*\<^sup>* db3 db4"
    and "token = Some \<lparr>claim_owner = owner1, claim_attempt = run_attempt r1\<rparr>"
  shows "finishRun n1 n2 (run_id r1) d token db4 = (False, db4) \<and>
    updateRunProgress n1 (run_id r1) d lease token db4 = (False, db4) \<and>
    failRun n1 n2 n3 uuid (run_id r1) msg d code token db4 = Inr (False, db4)"
proof -
  let ?i = "run_id r1"
  have inv0: "run_inv db0" using assms(1) by (rule run_reachable_inv)
  have inv1: "run_inv db1" by (rule run_step_inv [OF run_step.claim [OF assms(2)] inv0])
  from run_steps_grow [OF assms(3) inv1] have inv2: "run_inv db2"
    and g12: "runs_grow (rdb_runs db1) (rdb_runs db2)" by auto
  have inv3: "run_inv db3" by (rule run_step_inv [OF run_step.claim [OF assms(4)] inv2])
  from run_steps_grow [OF assms(6) inv3] have inv4: "run_inv db4"
    and g34: "runs_grow (rdb_runs db3) (rdb_runs db4)" by auto
  have "tbl_get run_id ?i (rdb_runs db1) = Some r1"
    using claim_row [OF assms(2)] inv0 by (simp add: run_inv_def)
  then obtain r where r: "tbl_get run_id ?i (rdb_runs db2) = Some r" "run_attempt r1 \<le> run_attempt r"
    using g12 unfolding runs_grow_def by blast
  have "run_attempt r1 < run_attempt r2"
    using assms(4)
  proof (cases rule: claim_cases)
    case (some row)
    then have "run_id row = ?i" using assms(5) by (simp add: claimed_row_def)
    then have "row = r" using tbl_get_keyed [of run_id "rdb_runs db2" row] some(2) r(1) inv2
      by (simp add: run_inv_def)
    then show ?thesis using some(1) r(2) by (simp add: claimed_row_def)
  qed simp
  moreover have "tbl_get run_id ?i (rdb_runs db3) = Some r2"
    using claim_row [OF assms(4)] inv2 assms(5) by (simp add: run_inv_def)
  then obtain r' where "tbl_get run_id ?i (rdb_runs db4) = Some r'" "run_attempt r2 \<le> run_attempt r'"
    using g34 unfolding runs_grow_def by blast
  ultimately have "\<not> syncRunClaimPredicate ?i token x" if "x \<in> set (rdb_runs db4)" for x
    using stale_token [of db4 ?i r' "run_attempt r1" x owner1] inv4 that
    by (simp add: run_inv_def assms(7))
  from no_match_noop [of db4 ?i token, OF this] show ?thesis by simp
qed

definition demo_reclaimed :: sync_run where
  "demo_reclaimed = claimed_row 300 Ingesting (Some ''w2'') (Some 100) demo_claimed"

definition demo_after_claim :: run_db where
  "demo_after_claim = snd (claimNextQueuedRun 100 None Ingesting (Some ''w1'') (Some 100) demo_runs)"

definition demo_after_reclaim :: run_db where
  "demo_after_reclaim =
     snd (claimNextQueuedRun 300 (Some [RtSync]) Ingesting (Some ''w2'') (Some 100) demo_after_claim)"

lemma demo_claim_pair:
  "claimNextQueuedRun 100 None Ingesting (Some ''w1'') (Some 100) demo_runs = (Some demo_claimed, demo_after_claim)"
  using demo_claim by (simp add: prod_eq_iff demo_after_claim_def)

lemma demo_after_claim_runs:
  "rdb_runs demo_after_claim =
     [demo_claimed, queued_run 20 ''r2'' (demo_run_input\<lparr>ri_account := Some ''b''\<rparr>)]"
  using demo_claim_pair
proof (cases rule: claim_cases)
  case (some row)
  have "run_id (claimed_row 100 Ingesting (Some ''w1'') (Some 100) row) = ''r1''"
    using some(1) demo_claimed_fields(1) by simp
  then have "run_id row = ''r1''" by (simp add: claimed_row_def)
  then have "row = queued_run 10 ''r1'' demo_run_input"
    using some(2) by (auto simp: demo_runs_def queued_run_def)
  then show ?thesis using some(6)
    by (simp add: demo_runs_def tbl_update_def demo_claimed_def claimed_row_def queued_run_def)
qed simp

lemma demo_reclaim_pair:
  "claimNextQueuedRun 300 (Some [RtSync]) Ingesting (Some ''w2'') (Some 100) demo_after_claim =
     (Some demo_reclaimed, demo_after_reclaim)"
proof -
  have f: "filter (claimable (Some [RtSync]) Ingesting 300) (rdb_runs demo_after_claim) = rdb_runs demo_after_claim"
    by (simp add: demo_after_claim_runs claimable_def type_allowed_def demo_claimed_def claimed_row_def
        queued_run_def scheduled_at_of_def demo_run_input_def lease_until_def rat_trunc_def active_status_def)
  have o: "order_first (\<lambda>r. (run_scheduled_at r, run_queued_at r)) (rdb_runs demo_after_claim) = Some demo_claimed"
    by (simp add: order_first_def demo_after_claim_runs demo_claimed_def claimed_row_def queued_run_def
        scheduled_at_of_def demo_run_input_def)
  have "fst (claimNextQueuedRun 300 (Some [RtSync]) Ingesting (Some ''w2'') (Some 100) demo_after_claim) =
      Some demo_reclaimed"
    by (simp add: claimNextQueuedRun_def f o demo_reclaimed_def)
  then show ?thesis by (simp add: prod_eq_iff demo_after_reclaim_def)
qed

theorem stale_claim_is_fenced_witness:
  "finishRun 400 401 ''r1'' None (Some \<lparr>claim_owner = Some ''w1'', claim_attempt = 1\<rparr>) demo_after_reclaim =
     (False, demo_after_reclaim)"
proof -
  have "run_id demo_reclaimed = run_id demo_claimed"
    by (simp add: demo_reclaimed_def claimed_row_def)
  from stale_claim_is_fenced [OF demo_runs_reachable demo_claim_pair rtranclp.rtrancl_refl
      demo_reclaim_pair this rtranclp.rtrancl_refl refl, of 400 401 None None 402 "''e1''" "''x''" None]
  show ?thesis by (simp add: demo_claimed_fields)
qed

subsection \<open>Which run is claimed, and when\<close>

text \<open>
  C21: a claim is a priority queue's minimum. It succeeds exactly when some run is claimable at that
  time; the run it hands out is claimable and no claimable run is scheduled, or among equals queued,
  earlier. Its attempt goes up by one, and every other row is untouched.
\<close>

theorem claim_takes_earliest:
  assumes "run_reachable db" and "claimNextQueuedRun t ts st owner lease db = (res, db')"
  shows "(res = None \<longleftrightarrow> (\<forall>r\<in>set (rdb_runs db). \<not> claimable ts st t r)) \<and> (res = None \<longrightarrow> db' = db) \<and>
    (\<forall>c. res = Some c \<longrightarrow>
      (\<exists>row\<in>set (rdb_runs db). claimable ts st t row \<and> c = claimed_row t st owner lease row \<and>
        run_attempt c = run_attempt row + 1 \<and>
        (\<forall>r\<in>set (rdb_runs db). claimable ts st t r \<longrightarrow>
          (run_scheduled_at row, run_queued_at row) \<le> (run_scheduled_at r, run_queued_at r))) \<and>
      (\<forall>i. tbl_get run_id i (rdb_runs db') =
         (if i = run_id c then Some c else tbl_get run_id i (rdb_runs db))))"
  using assms(2)
proof (cases rule: claim_cases)
  case none
  then show ?thesis by simp
next
  case (some row)
  have k: "keyed run_id (rdb_runs db)" using run_reachable_inv [OF assms(1)] by (simp add: run_inv_def)
  have own: "tbl_get run_id (run_id row) (rdb_runs db) = Some row" using tbl_get_keyed [OF k some(2)] .
  have g: "tbl_get run_id i (rdb_runs db') =
      (if i = run_id row then Some (claimed_row t st owner lease row) else tbl_get run_id i (rdb_runs db))" for i
  proof (cases "i = run_id row")
    case True
    then show ?thesis using own by (simp add: some(6) tbl_get_update claimed_row_def)
  next
    case False
    then show ?thesis
      by (cases "tbl_get run_id i (rdb_runs db)") (auto simp: some(6) tbl_get_update dest: tbl_get_SomeD)
  qed
  moreover have "run_id (claimed_row t st owner lease row) = run_id row"
    "run_attempt (claimed_row t st owner lease row) = run_attempt row + 1"
    by (simp_all add: claimed_row_def)
  moreover have "\<exists>r\<in>set (rdb_runs db). claimable ts st t r" using some(2,3) by blast
  moreover have "\<forall>r\<in>set (rdb_runs db). claimable ts st t r \<longrightarrow>
      (run_scheduled_at row, run_queued_at row) \<le> (run_scheduled_at r, run_queued_at r)"
    using some(4) by blast
  ultimately have main: "\<exists>row'\<in>set (rdb_runs db). claimable ts st t row' \<and>
        claimed_row t st owner lease row = claimed_row t st owner lease row' \<and>
        run_attempt (claimed_row t st owner lease row) = run_attempt row' + 1 \<and>
        (\<forall>r\<in>set (rdb_runs db). claimable ts st t r \<longrightarrow>
          (run_scheduled_at row', run_queued_at row') \<le> (run_scheduled_at r, run_queued_at r))"
    using some(2,3) by blast
  moreover have "\<forall>i. tbl_get run_id i (rdb_runs db') =
      (if i = run_id (claimed_row t st owner lease row) then Some (claimed_row t st owner lease row)
       else tbl_get run_id i (rdb_runs db))"
    using g by (simp add: claimed_row_def)
  moreover have "res = None \<longleftrightarrow> (\<forall>r\<in>set (rdb_runs db). \<not> claimable ts st t r)"
    using some(1-3) by blast
  ultimately show ?thesis using some(1) by simp
qed

theorem claim_takes_earliest_witness:
  "\<exists>row\<in>set (rdb_runs demo_runs). demo_claimed = claimed_row 100 Ingesting (Some ''w1'') (Some 100) row \<and>
     claimable None Ingesting 100 row \<and> run_attempt demo_claimed = run_attempt row + 1"
  using claim_takes_earliest [OF demo_runs_reachable demo_claim_pair] by blast

lemma claimable_next_at:
  assumes "st = Ingesting \<or> st = Projecting"
  shows "claimable ts st t r \<longleftrightarrow>
    (type_allowed ts r \<and> (run_status r = Queued \<or> run_status r = st \<and> run_lease r \<noteq> None)) \<and>
    (\<exists>x. Some x = next_at_of st r \<and> x \<le> t)"
  using assms by (auto simp: claimable_def active_status_def next_at_of_def split: option.splits)

text \<open>
  C22: the wake-up time a worker sleeps until is exact. For the statuses the workers use, a claim at
  time \<open>t\<close> hands out a run if and only if \<open>getNextClaimableRunAt\<close> gives a time, and that time
  is at most \<open>t\<close>.
\<close>

theorem next_claimable_exact:
  assumes "st = Ingesting \<or> st = Projecting"
  shows "fst (claimNextQueuedRun t ts st owner lease db) \<noteq> None \<longleftrightarrow>
    (\<exists>m. getNextClaimableRunAt ts st db = Some m \<and> m \<le> t)"
proof -
  have "fst (claimNextQueuedRun t ts st owner lease db) \<noteq> None \<longleftrightarrow>
      (\<exists>r\<in>set (rdb_runs db). claimable ts st t r)"
    by (auto simp: claimNextQueuedRun_def order_first_None_iff filter_empty_conv split: option.split
        dest!: order_first_SomeD)
  also have "\<dots> \<longleftrightarrow> (\<exists>m. getNextClaimableRunAt ts st db = Some m \<and> m \<le> t)"
    unfolding getNextClaimableRunAt_def min_opt_le_iff
    using claimable_next_at [OF assms] by (fastforce simp: image_iff)
  finally show ?thesis .
qed

theorem next_claimable_exact_witness:
  "\<exists>m. getNextClaimableRunAt None Ingesting demo_runs = Some m \<and> m \<le> 100"
  using next_claimable_exact [of Ingesting 100 None "Some ''w1''" "Some 100" demo_runs] demo_claim by simp

subsection \<open>Failing and queueing\<close>

text \<open>
  C23: failing a run records its error exactly once and atomically. On a database the operations built,
  with an id not used by another error row, \<open>failRun\<close> always goes through; if the claim still matches, the
  run is failed, released and exactly one error row naming it and its source is added; if not, nothing
  changes. Either way every error row still refers to a run that exists.
\<close>

theorem failRun_records_once:
  assumes "run_reachable db" and "\<not> tbl_has err_id uuid (rdb_errors db)"
  shows "\<exists>ok db'. failRun n1 n2 n3 uuid i msg d code c db = Inr (ok, db') \<and> run_inv db' \<and>
    (ok \<longleftrightarrow> (\<exists>r\<in>set (rdb_runs db). syncRunClaimPredicate i c r)) \<and>
    (\<not> ok \<longrightarrow> db' = db) \<and>
    (ok \<longrightarrow> (\<exists>r r'. tbl_get run_id i (rdb_runs db) = Some r \<and> tbl_get run_id i (rdb_runs db') = Some r' \<and>
       run_status r' = Failed \<and> run_owner r' = None \<and> run_lease r' = None \<and> run_finished_at r' = Some n1 \<and>
       rdb_errors db' = rdb_errors db @ [\<lparr>err_id = uuid, err_run = i, err_platform = run_platform r,
         err_account = run_account r, err_code = code, err_message = msg, err_details = get_or d None,
         err_created_at = n3\<rparr>]))"
proof (cases "\<exists>r\<in>set (rdb_runs db). syncRunClaimPredicate i c r")
  case False
  then have "failRun n1 n2 n3 uuid i msg d code c db = Inr (False, db)" by (intro no_match_noop) auto
  then show ?thesis using False run_reachable_inv [OF assms(1)] by blast
next
  case True
  then obtain r where r: "r \<in> set (rdb_runs db)" "syncRunClaimPredicate i c r" by blast
  have inv: "run_inv db" using assms(1) by (rule run_reachable_inv)
  then have get: "tbl_get run_id i (rdb_runs db) = Some r"
    using tbl_get_keyed [of run_id "rdb_runs db" r] r by (simp add: run_inv_def syncRunClaimPredicate_def)
  then have upd: "0 < tbl_changes (syncRunClaimPredicate i c) (rdb_runs db)"
    using r by (auto simp: tbl_changes_pos)
  let ?f = "\<lambda>r. r\<lparr>run_status := Failed, run_finished_at := Some n1, run_owner := None,
                   run_lease := None, run_last_progress := Some n2, run_error_code := code,
                   run_details := get_or d (run_details r)\<rparr>"
  have g: "tbl_get run_id i (tbl_update (syncRunClaimPredicate i c) ?f (rdb_runs db)) = Some (?f r)"
    using get r(2) by (simp add: tbl_get_update)
  then have h: "tbl_has run_id i (tbl_update (syncRunClaimPredicate i c) ?f (rdb_runs db))"
    unfolding tbl_has_iff using tbl_get_SomeD [OF g] by blast
  let ?db = "db\<lparr>rdb_runs := tbl_update (syncRunClaimPredicate i c) ?f (rdb_runs db),
     rdb_errors := rdb_errors db @ [\<lparr>err_id = uuid, err_run = i, err_platform = run_platform r,
         err_account = run_account r, err_code = code, err_message = msg, err_details = get_or d None,
         err_created_at = n3\<rparr>]\<rparr>"
  have res: "failRun n1 n2 n3 uuid i msg d code c db = Inr (True, ?db)"
    using upd get h assms(2) by (simp add: failRun_def Let_def tbl_insert_def)
  have "run_inv ?db" using run_step_inv [OF run_step.fail [OF res] inv] .
  then show ?thesis using res g get True by auto
qed

theorem failRun_records_once_witness:
  "\<exists>ok db'. failRun 400 401 402 ''e1'' ''r1'' ''boom'' None None None demo_runs = Inr (ok, db') \<and> run_inv db' \<and> ok"
proof -
  have "\<exists>r\<in>set (rdb_runs demo_runs). syncRunClaimPredicate ''r1'' None r"
    by (simp add: demo_runs_def syncRunClaimPredicate_def queued_run_def)
  then show ?thesis
    using failRun_records_once [OF demo_runs_reachable, of "''e1''" 400 401 402 "''r1''" "''boom''" None None None]
    by (simp add: demo_runs_def tbl_has_def) blast
qed

lemma queueSyncRuns_rows:
  assumes "db_queueSyncRuns t uuids inputs db = Inr (ids, db')" and "length uuids = length inputs"
  shows "ids = uuids \<and> rdb_runs db' = rdb_runs db @ map2 (queued_run t) uuids inputs \<and>
    rdb_errors db' = rdb_errors db"
proof -
  have *: "queued_rows t uuids inputs = map2 (queued_run t) uuids inputs"
    by (simp add: queued_rows_def)
  have ids: "map run_id (map2 (queued_run t) us ins) = us" if "length us = length ins" for us ins
    using that by (induction us ins rule: list_induct2) (auto simp: queued_run_def)
  show ?thesis
    using assms ids [OF assms(2)]
    by (auto simp: db_queueSyncRuns_def Let_def insert_chunks_batch ebind_eq_Inr_iff *
        dest: insert_runs_app split: if_split_asm)
qed

text \<open>
  C24: queueing many runs at once is queueing each in order, whatever the batch size: on success the new
  rows are appended in the order of the inputs, queued, unowned and with no attempt, the ids returned are
  theirs, and none is scheduled before it was queued unless the caller named an earlier time.
\<close>

theorem queueSyncRuns_appends:
  assumes "db_queueSyncRuns t uuids inputs db = Inr (ids, db')" and "length uuids = length inputs"
  shows "ids = uuids \<and> rdb_runs db' = rdb_runs db @ map2 (queued_run t) uuids inputs \<and>
    rdb_errors db' = rdb_errors db \<and>
    (\<forall>i < length inputs. ri_scheduled_at (inputs ! i) = None \<longrightarrow>
       t \<le> run_scheduled_at (rdb_runs db' ! (length (rdb_runs db) + i)))"
proof -
  have "t \<le> scheduled_at_of t inp" if "ri_scheduled_at inp = None" for inp
    using that by (auto simp: scheduled_at_of_def split: option.split js_num.split)
  then show ?thesis using queueSyncRuns_rows [OF assms] assms(2) by (simp add: nth_append queued_run_def)
qed

theorem queueSyncRuns_appends_witness:
  "rdb_runs (demo_runs\<lparr>rdb_runs := rdb_runs demo_runs @ [queued_run 30 ''r3'' demo_run_input]\<rparr>) =
     rdb_runs demo_runs @ map2 (queued_run 30) [''r3''] [demo_run_input]"
proof -
  have "db_queueSyncRuns 30 [''r3''] [demo_run_input] demo_runs =
      Inr ([''r3''], demo_runs\<lparr>rdb_runs := rdb_runs demo_runs @ [queued_run 30 ''r3'' demo_run_input]\<rparr>)"
    by (simp add: db_queueSyncRuns_def insert_chunks_batch queued_rows_def tbl_insert_def tbl_has_def
        demo_runs_def queued_run_def)
  from queueSyncRuns_appends [OF this] show ?thesis by simp
qed

end
