(* ===== verification/Encoding.thy ===== *)
theory Encoding
  imports Prelude
begin

text \<open>
  The text encodings the database ids are made of: \<open>JSON.stringify\<close> of an array of strings, the
  UTF-8 bytes \<open>Buffer.from\<close> makes of a string, and their \<open>base64url\<close> form. A character of the model is a
  code unit below 256. Each encoding comes with a decoder and the round trip, so that the
  composed ids are injective.
\<close>

subsection \<open>JSON strings\<close>

definition hex_digit :: "nat \<Rightarrow> char" where
  "hex_digit n = (if n < 10 then char_of (48 + n) else char_of (87 + n))"

definition json_escape :: "char \<Rightarrow> string" where
  "json_escape c = (let n = (of_char c :: nat) in
     if n = 34 then [CHR 0x5C, CHR 0x22]
     else if n = 92 then [CHR 0x5C, CHR 0x5C]
     else if n = 8 then [CHR 0x5C, CHR ''b'']
     else if n = 9 then [CHR 0x5C, CHR ''t'']
     else if n = 10 then [CHR 0x5C, CHR ''n'']
     else if n = 12 then [CHR 0x5C, CHR ''f'']
     else if n = 13 then [CHR 0x5C, CHR ''r'']
     else if n < 32 then [CHR 0x5C, CHR ''u'', CHR ''0'', CHR ''0'', hex_digit (n div 16), hex_digit (n mod 16)]
     else [c])"

definition json_string :: "string \<Rightarrow> string" where
  "json_string s = [CHR 0x22] @ concat (map json_escape s) @ [CHR 0x22]"

fun json_string_array_tail :: "string list \<Rightarrow> string" where
  "json_string_array_tail [] = '']''"
| "json_string_array_tail (s # ss) = '','' @ json_string s @ json_string_array_tail ss"

fun json_string_array :: "string list \<Rightarrow> string" where
  "json_string_array [] = ''[]''"
| "json_string_array (s # ss) = ''['' @ json_string s @ json_string_array_tail ss"

definition hex_value :: "char \<Rightarrow> nat" where
  "hex_value c = (let n = of_char c in if n < 58 then n - 48 else n - 87)"

lemma hex_value_digit: "n < 16 \<Longrightarrow> hex_value (hex_digit n) = n"
  by (auto simp: hex_value_def hex_digit_def Let_def)

fun json_unescape :: "string \<Rightarrow> (char \<times> string) option" where
  "json_unescape (c # d # rest) =
     (if c \<noteq> CHR 0x5C then Some (c, d # rest)
      else if d = CHR ''b'' then Some (char_of (8::nat), rest)
      else if d = CHR ''t'' then Some (char_of (9::nat), rest)
      else if d = CHR ''n'' then Some (char_of (10::nat), rest)
      else if d = CHR ''f'' then Some (char_of (12::nat), rest)
      else if d = CHR ''r'' then Some (char_of (13::nat), rest)
      else if d = CHR ''u'' then Some (char_of (hex_value (rest ! 2) * 16 + hex_value (rest ! 3)), drop 4 rest)
      else Some (d, rest))"
| "json_unescape _ = None"

lemma char_of_of_charI: "of_char c = (n :: nat) \<Longrightarrow> char_of n = c"
  by auto

lemma json_unescape_escape:
  assumes "r \<noteq> []"
  shows "json_unescape (json_escape c @ r) = Some (c, r)"
proof -
  obtain d r' where r: "r = d # r'" using assms by (cases r) auto
  let ?n = "of_char c :: nat"
  have c: "c = char_of ?n" by simp
  have ne: "?n \<noteq> 92 \<Longrightarrow> c \<noteq> CHR 0x5C" by auto
  consider "?n = 34" | "?n = 92" | "?n \<in> {8, 9, 10, 12, 13}" | "?n < 32" "?n \<notin> {8, 9, 10, 12, 13}"
    | "?n \<ge> 32" "?n \<noteq> 34" "?n \<noteq> 92" by force
  then show ?thesis
  proof cases
    case 1
    have "c = CHR 0x22" by (rule of_char_eq_iff [where ?'a = nat, THEN iffD1]) (simp add: 1)
    then show ?thesis by (simp add: json_escape_def)
  next
    case 2
    have "c = CHR 0x5C" by (rule of_char_eq_iff [where ?'a = nat, THEN iffD1]) (simp add: 2)
    then show ?thesis by (simp add: json_escape_def)
  next
    case 3
    then show ?thesis by (auto simp: json_escape_def Let_def intro: char_of_of_charI)
  next
    case 4
    have "hex_value (hex_digit (?n div 16)) * 16 + hex_value (hex_digit (?n mod 16)) = ?n"
      using 4(1) by (simp add: hex_value_digit)
    then show ?thesis using 4 by (simp add: json_escape_def Let_def)
  next
    case 5
    then show ?thesis using ne by (simp add: json_escape_def Let_def r)
  qed
qed

lemma json_escape_hd: "\<exists>d ds. json_escape c = d # ds \<and> d \<noteq> CHR 0x22"
  by (auto simp: json_escape_def Let_def)

lemma json_body_inj:
  "concat (map json_escape s) @ CHR 0x22 # r = concat (map json_escape t) @ CHR 0x22 # r' \<Longrightarrow> s = t \<and> r = r'"
proof (induction s arbitrary: t)
  case Nil
  show ?case
  proof (cases t)
    case tl: Nil
    then show ?thesis using Nil.prems by simp
  next
    case (Cons c t')
    then show ?thesis using Nil.prems json_escape_hd [of c] by auto
  qed
next
  case (Cons c s)
  obtain d ds where d: "json_escape c = d # ds" "d \<noteq> CHR 0x22" using json_escape_hd by blast
  show ?case
  proof (cases t)
    case Nil
    then show ?thesis using Cons.prems d by simp
  next
    case (Cons c' t')
    let ?x = "concat (map json_escape s) @ CHR 0x22 # r"
    let ?y = "concat (map json_escape t') @ CHR 0x22 # r'"
    have "json_unescape (json_escape c @ ?x) = json_unescape (json_escape c' @ ?y)"
      using Cons.prems Cons by simp
    then have "c = c' \<and> ?x = ?y" by (simp add: json_unescape_escape)
    then show ?thesis using Cons.IH [of t'] Cons by simp
  qed
qed

lemma json_string_inj: "json_string s @ r = json_string t @ r' \<Longrightarrow> s = t \<and> r = r'"
  by (rule json_body_inj) (simp add: json_string_def)

lemma json_tail_inj: "json_string_array_tail ss = json_string_array_tail ts \<Longrightarrow> ss = ts"
proof (induction ss arbitrary: ts)
  case Nil
  then show ?case by (cases ts) auto
next
  case (Cons s ss)
  then obtain t ts' where ts: "ts = t # ts'" by (cases ts) auto
  then have "json_string s @ json_string_array_tail ss = json_string t @ json_string_array_tail ts'"
    using Cons.prems by simp
  from json_string_inj [OF this] Cons.IH ts show ?case by blast
qed

lemma json_string_array_inj: "json_string_array ss = json_string_array ts \<Longrightarrow> ss = ts"
proof -
  have tail: "json_string_array (x # xs) = ''['' @ json_string x @ json_string_array_tail xs" for x xs by simp
  assume "json_string_array ss = json_string_array ts"
  then show ?thesis
  proof (cases ss; cases ts)
    fix x xs y ys
    assume *: "ss = x # xs" "ts = y # ys"
    with \<open>json_string_array ss = json_string_array ts\<close>
    have "json_string x @ json_string_array_tail xs = json_string y @ json_string_array_tail ys" by simp
    from json_string_inj [OF this] json_tail_inj * show ?thesis by blast
  qed (auto simp: json_string_def)
qed

subsection \<open>UTF-8\<close>

fun utf8_bytes :: "string \<Rightarrow> nat list" where
  "utf8_bytes [] = []"
| "utf8_bytes (c # s) = (let n = of_char c in
     if n < 128 then n # utf8_bytes s else (192 + n div 64) # (128 + n mod 64) # utf8_bytes s)"

fun utf8_decode :: "nat list \<Rightarrow> nat list" where
  "utf8_decode (a # bs) =
     (if a < 128 then a # utf8_decode bs
      else case bs of [] \<Rightarrow> [] | b # rest \<Rightarrow> ((a - 192) * 64 + (b - 128)) # utf8_decode rest)"
| "utf8_decode [] = []"

lemma utf8_decode_bytes: "utf8_decode (utf8_bytes s) = map of_char s"
  by (induction s) (simp_all add: Let_def)

lemma utf8_inj: "utf8_bytes s = utf8_bytes t \<Longrightarrow> s = t"
proof -
  assume "utf8_bytes s = utf8_bytes t"
  then have "map (of_char :: char \<Rightarrow> nat) s = map of_char t" using utf8_decode_bytes by metis
  then show ?thesis by (simp add: inj_map_eq_map [OF inj_of_char])
qed

lemma utf8_bytes_bound: "\<forall>b\<in>set (utf8_bytes s). b < 256"
proof (induction s)
  case (Cons c s)
  have "(of_char c :: nat) div 64 < 4" by (rule less_mult_imp_div_less) simp
  moreover have "(of_char c :: nat) mod 64 < 64" by simp
  ultimately show ?case using Cons by (auto simp: Let_def simp del: mod_less_divisor)
qed simp

subsection \<open>base64url\<close>

fun sextets :: "nat list \<Rightarrow> nat list" where
  "sextets (a # b # c # rest) =
     [a div 4, (a mod 4) * 16 + b div 16, (b mod 16) * 4 + c div 64, c mod 64] @ sextets rest"
| "sextets [a, b] = [a div 4, (a mod 4) * 16 + b div 16, (b mod 16) * 4]"
| "sextets [a] = [a div 4, (a mod 4) * 16]"
| "sextets [] = []"

fun unsextets :: "nat list \<Rightarrow> nat list" where
  "unsextets (a # b # c # d # rest) =
     [a * 4 + b div 16, (b mod 16) * 16 + c div 4, (c mod 4) * 64 + d] @ unsextets rest"
| "unsextets [a, b, c] = [a * 4 + b div 16, (b mod 16) * 16 + c div 4]"
| "unsextets [a, b] = [a * 4 + b div 16]"
| "unsextets _ = []"

definition base64url_alphabet :: string where
  "base64url_alphabet = ''ABCDEFGHIJKLMNOPQRSTUVWXYZabcdefghijklmnopqrstuvwxyz0123456789-_''"

definition base64url :: "string \<Rightarrow> string" where
  "base64url s = map (\<lambda>n. base64url_alphabet ! n) (sextets (utf8_bytes s))"

lemma sextet_split:
  fixes a b c :: nat
  assumes "b < 256"
  shows "a div 4 * 4 + (a mod 4 * 16 + b div 16) div 16 = a"
    and "c < 256 \<Longrightarrow> (a mod 4 * 16 + b div 16) mod 16 * 16 + (b mod 16 * 4 + c div 64) div 4 = b"
    and "c < 256 \<Longrightarrow> (b mod 16 * 4 + c div 64) mod 4 * 64 + c mod 64 = c"
proof -
  have b: "b div 16 < 16" using assms by (intro less_mult_imp_div_less) simp
  have "(a mod 4 * 16 + b div 16) div 16 = a mod 4" using b by simp
  then show "a div 4 * 4 + (a mod 4 * 16 + b div 16) div 16 = a" by simp
  {
    assume "c < 256"
    then have c: "c div 64 < 4" by (intro less_mult_imp_div_less) simp
    have "(a mod 4 * 16 + b div 16) mod 16 = b div 16" using b by simp
    moreover have "(b mod 16 * 4 + c div 64) div 4 = b mod 16" using c by simp
    ultimately show "(a mod 4 * 16 + b div 16) mod 16 * 16 + (b mod 16 * 4 + c div 64) div 4 = b" by simp
    have "(b mod 16 * 4 + c div 64) mod 4 = c div 64" using c by simp
    then show "(b mod 16 * 4 + c div 64) mod 4 * 64 + c mod 64 = c" by simp
  }
qed

lemma unsextets_sextets: "\<forall>b\<in>set bs. b < 256 \<Longrightarrow> unsextets (sextets bs) = bs"
proof (induction bs rule: sextets.induct)
  case (1 a b c rest)
  then have "b < 256" "c < 256" "\<forall>b\<in>set rest. b < 256" by auto
  then show ?case using 1(1) sextet_split(1) [where a = a and b = b] sextet_split(2) [where a = a and b = b and c = c]
      sextet_split(3) [where b = b and c = c]
    by simp
next
  case (2 a b)
  then have "b < 256" by simp
  then show ?case
    using sextet_split(1) [where a = a and b = b] sextet_split(2) [where a = a and b = b and c = 0] by simp
next
  case (3 a)
  then show ?case by simp
qed simp

lemma sextet_less: "a < 256 \<Longrightarrow> a div 4 < 64" "b < 256 \<Longrightarrow> a mod 4 * 16 + b div 16 < 64"
  "c < 256 \<Longrightarrow> b mod 16 * 4 + c div 64 < 64" "a mod 4 * 16 < 64" "b mod 16 * 4 < 64" for a b c :: nat
proof -
  show "a < 256 \<Longrightarrow> a div 4 < 64" by (rule less_mult_imp_div_less) simp
  have m: "a mod 4 \<le> 3" "b mod 16 \<le> 15" using mod_less_divisor [of 4 a] mod_less_divisor [of 16 b] by simp_all
  then show "a mod 4 * 16 < 64" "b mod 16 * 4 < 64" by simp_all
  show "a mod 4 * 16 + b div 16 < 64" if "b < 256"
    using m less_mult_imp_div_less [of b 16 16] that by simp
  show "b mod 16 * 4 + c div 64 < 64" if "c < 256"
    using m less_mult_imp_div_less [of c 4 64] that by simp
qed

lemma sextets_bound: "\<forall>b\<in>set bs. b < 256 \<Longrightarrow> \<forall>x\<in>set (sextets bs). x < 64"
  by (induction bs rule: sextets.induct) (simp_all add: sextet_less)

lemma base64url_inj: "base64url s = base64url t \<Longrightarrow> s = t"
proof -
  assume eq: "base64url s = base64url t"
  let ?f = "\<lambda>n. base64url_alphabet ! n"
  have "distinct base64url_alphabet" "length base64url_alphabet = 64" by code_simp+
  then have inj: "inj_on ?f {..<64}" by (auto simp: inj_on_def nth_eq_iff_index_eq)
  have b: "set (sextets (utf8_bytes u)) \<subseteq> {..<64}" for u
    using sextets_bound [OF utf8_bytes_bound] by auto
  have "sextets (utf8_bytes s) = sextets (utf8_bytes t)"
    by (rule map_inj_on [OF eq [unfolded base64url_def]]) (use inj b in \<open>blast intro: inj_on_subset\<close>)
  then have "utf8_bytes s = utf8_bytes t" using unsextets_sextets utf8_bytes_bound by metis
  then show "s = t" by (rule utf8_inj)
qed

lemma encoded_array_inj:
  "base64url (json_string_array ss) = base64url (json_string_array ts) \<longleftrightarrow> ss = ts"
  using base64url_inj json_string_array_inj by blast

end
