(* ===== verification/SyncProofs.thy ===== *)
theory SyncProofs
  imports Platforms Table Encoding Json
begin

text \<open>
  Evidence of how far a source has been synchronised: the contracts of
  \<^verbatim>\<open>src/platforms/core/proofs.ts\<close>, and the tables \<open>sync_scopes\<close> and \<open>sync_proofs\<close> with
  \<open>upsertSyncProof\<close>, \<open>listSyncScopes\<close> and \<open>listSyncProofs\<close> of \<^verbatim>\<open>src/db/database.ts\<close>, next to
  the source accounts and checkpoints of the same file. The inputs hold JSON values, the rows what
  \<open>safeStringifyJson\<close> stores of them; a display name that may be absent and may be \<open>null\<close> is an
  option of an option.
\<close>

subsection \<open>Contracts\<close>

record proof_contract =
  pc_platform :: platform
  pc_proof_kind :: string
  pc_scope_kind :: string

definition proof_contract_list :: "(platform \<times> string \<times> string) list" where
  "proof_contract_list =
     [(Discord, ''discovery'', ''account''), (Discord, ''discovery'', ''conversation''),
      (Discord, ''latest_messages'', ''conversation''), (Discord, ''messages'', ''conversation''),
      (Gmail, ''messages'', ''account''),
      (LinkedIn, ''discovery'', ''account''), (LinkedIn, ''messages'', ''conversation''),
      (Slack, ''history'', ''conversation''), (Slack, ''messages'', ''conversation''),
      (Slack, ''replies'', ''conversation''),
      (Signal, ''messages'', ''account''), (WhatsApp, ''messages'', ''account'')]"

definition PROOF_KIND_CONTRACTS :: "proof_contract list" where
  "PROOF_KIND_CONTRACTS =
     map (\<lambda>(p, k, s). \<lparr>pc_platform = p, pc_proof_kind = k, pc_scope_kind = s\<rparr>) proof_contract_list"

definition listSyncProofKindContracts :: "platform option \<Rightarrow> proof_contract list" where
  "listSyncProofKindContracts platform =
     filter (\<lambda>c. platform = None \<or> Some (pc_platform c) = platform) PROOF_KIND_CONTRACTS"

datatype proof_status = PfPending | PfRunning | PfComplete | PfPartial | PfBlocked | PfFailed | PfStale

datatype sync_mode = ModeFull | ModeIncremental

record scope_input =
  si_kind :: string
  si_key :: string
  si_parent :: "(string \<times> string) option"
  si_display_name :: "string option option"
  si_metadata :: "json option"

record proof_input =
  pi_scope :: scope_input
  pi_kind :: string
  pi_status :: proof_status
  pi_mode :: "sync_mode option"
  pi_observed_at :: int
  pi_run_started_at :: "int option"
  pi_completed_at :: "int option"
  pi_fresh_until :: "int option"
  pi_resume_cursor :: "json option"
  pi_coverage :: "json option"
  pi_stats :: "json option"
  pi_error :: "json option"

definition getSyncProofKindContract :: "platform \<Rightarrow> proof_input \<Rightarrow> proof_contract option" where
  "getSyncProofKindContract platform proof =
     find (\<lambda>c. pc_platform c = platform \<and> pc_proof_kind c = pi_kind proof \<and>
               pc_scope_kind c = si_kind (pi_scope proof)) PROOF_KIND_CONTRACTS"

datatype proof_error = NoProofContract | ProofDb db_error

definition assertKnownSyncProofKindContract :: "platform \<Rightarrow> proof_input \<Rightarrow> proof_error + unit" where
  "assertKnownSyncProofKindContract platform proof =
     (case getSyncProofKindContract platform proof of Some _ \<Rightarrow> Inr () | None \<Rightarrow> Inl NoProofContract)"

subsection \<open>Scopes and proofs\<close>

record scope_row =
  sc_id :: string
  sc_platform :: platform
  sc_account :: string
  sc_kind :: string
  sc_key :: string
  sc_parent :: "string option"
  sc_display_name :: "string option"
  sc_metadata :: "json option"
  sc_first_discovered :: int
  sc_last_observed :: int
  sc_created_at :: int
  sc_updated_at :: int

record proof_row =
  pf_id :: string
  pf_platform :: platform
  pf_account :: string
  pf_scope :: string
  pf_kind :: string
  pf_status :: proof_status
  pf_mode :: "sync_mode option"
  pf_run_started_at :: "int option"
  pf_last_observed :: int
  pf_completed_at :: "int option"
  pf_fresh_until :: "int option"
  pf_resume_cursor :: "json option"
  pf_coverage :: "json option"
  pf_stats :: "json option"
  pf_error :: "json option"
  pf_created_at :: int
  pf_updated_at :: int

record proof_db =
  pdb_scopes :: "scope_row list"
  pdb_proofs :: "proof_row list"

definition buildSyncScopeId :: "platform \<Rightarrow> string \<Rightarrow> string \<Rightarrow> string \<Rightarrow> string" where
  "buildSyncScopeId platform accountKey scopeKind scopeKey =
     ''scope:'' @ base64url (json_string_array [platform_name platform, accountKey, scopeKind, scopeKey])"

definition buildSyncProofId :: "platform \<Rightarrow> string \<Rightarrow> string \<Rightarrow> string \<Rightarrow> string \<Rightarrow> string" where
  "buildSyncProofId platform accountKey scopeKind scopeKey proofKind =
     ''proof:'' @ base64url (json_string_array
        [platform_name platform, accountKey, scopeKind, scopeKey, proofKind])"

definition scope_unique :: "scope_row \<Rightarrow> platform \<times> string \<times> string \<times> string" where
  "scope_unique r = (sc_platform r, sc_account r, sc_kind r, sc_key r)"

definition proof_unique :: "proof_row \<Rightarrow> platform \<times> string \<times> string \<times> string" where
  "proof_unique r = (pf_platform r, pf_account r, pf_scope r, pf_kind r)"

text \<open>The parent of a scope is inserted as a placeholder; one that exists is only touched.\<close>

definition upsert_parent_scope ::
  "int \<Rightarrow> platform \<Rightarrow> string \<Rightarrow> proof_input \<Rightarrow> scope_row list \<Rightarrow> db_error + scope_row list" where
  "upsert_parent_scope timestamp platform accountKey proof scopes =
     (case si_parent (pi_scope proof) of
        None \<Rightarrow> Inr scopes
      | Some (kind, key) \<Rightarrow>
          tbl_upsert_pk sc_id scope_unique
            \<lparr>sc_id = buildSyncScopeId platform accountKey kind key, sc_platform = platform,
             sc_account = accountKey, sc_kind = kind, sc_key = key, sc_parent = None,
             sc_display_name = None, sc_metadata = None, sc_first_discovered = pi_observed_at proof,
             sc_last_observed = pi_observed_at proof, sc_created_at = timestamp, sc_updated_at = timestamp\<rparr>
            (\<lambda>r. r\<lparr>sc_last_observed := pi_observed_at proof, sc_updated_at := timestamp\<rparr>) scopes)"

text \<open>The scope's own row, made from what was stored before the call.\<close>

definition scope_values ::
  "int \<Rightarrow> platform \<Rightarrow> string \<Rightarrow> proof_input \<Rightarrow> scope_row option \<Rightarrow> scope_row" where
  "scope_values timestamp platform accountKey proof existingScope =
     (let scope = pi_scope proof;
          scopeId = buildSyncScopeId platform accountKey (si_kind scope) (si_key scope);
          parentScopeId = map_option (\<lambda>(kind, key). buildSyncScopeId platform accountKey kind key) (si_parent scope)
      in \<lparr>sc_id = scopeId, sc_platform = platform, sc_account = accountKey,
          sc_kind = si_kind scope, sc_key = si_key scope, sc_parent = parentScopeId,
          sc_display_name = (case si_display_name scope of
              None \<Rightarrow> Option.bind existingScope sc_display_name | Some d \<Rightarrow> d),
          sc_metadata = (case si_metadata scope of
              None \<Rightarrow> Option.bind existingScope sc_metadata | Some m \<Rightarrow> safeStringifyJson (Some m)),
          sc_first_discovered = (case existingScope of
              None \<Rightarrow> pi_observed_at proof | Some e \<Rightarrow> sc_first_discovered e),
          sc_last_observed = pi_observed_at proof, sc_created_at = timestamp, sc_updated_at = timestamp\<rparr>)"

definition overwrite_scope :: "scope_row \<Rightarrow> scope_row \<Rightarrow> scope_row" where
  "overwrite_scope v r = r\<lparr>sc_parent := sc_parent v, sc_display_name := sc_display_name v,
     sc_metadata := sc_metadata v, sc_first_discovered := sc_first_discovered v,
     sc_last_observed := sc_last_observed v, sc_updated_at := sc_updated_at v\<rparr>"

definition parent_known :: "scope_row list \<Rightarrow> scope_row \<Rightarrow> bool" where
  "parent_known scopes r \<longleftrightarrow> (case sc_parent r of None \<Rightarrow> True | Some p \<Rightarrow> tbl_has sc_id p scopes)"

definition proof_values ::
  "int \<Rightarrow> platform \<Rightarrow> string \<Rightarrow> proof_input \<Rightarrow> proof_row option \<Rightarrow> proof_row" where
  "proof_values timestamp platform accountKey proof existingProof =
     (let scope = pi_scope proof in
      \<lparr>pf_id = buildSyncProofId platform accountKey (si_kind scope) (si_key scope) (pi_kind proof),
       pf_platform = platform, pf_account = accountKey,
       pf_scope = buildSyncScopeId platform accountKey (si_kind scope) (si_key scope),
       pf_kind = pi_kind proof, pf_status = pi_status proof, pf_mode = pi_mode proof,
       pf_run_started_at = pi_run_started_at proof, pf_last_observed = pi_observed_at proof,
       pf_completed_at =
         (if pi_status proof = PfComplete
          then coalesce (Option.bind existingProof pf_completed_at)
                 (coalesce (pi_completed_at proof) (Some (pi_observed_at proof)))
          else pi_completed_at proof),
       pf_fresh_until = pi_fresh_until proof, pf_resume_cursor = safeStringifyJson (pi_resume_cursor proof),
       pf_coverage = safeStringifyJson (pi_coverage proof), pf_stats = safeStringifyJson (pi_stats proof),
       pf_error = safeStringifyJson (pi_error proof),
       pf_created_at = timestamp, pf_updated_at = timestamp\<rparr>)"

definition overwrite_proof :: "proof_row \<Rightarrow> proof_row \<Rightarrow> proof_row" where
  "overwrite_proof v r = v\<lparr>pf_id := pf_id r, pf_platform := pf_platform r, pf_account := pf_account r,
     pf_scope := pf_scope r, pf_kind := pf_kind r, pf_created_at := pf_created_at r\<rparr>"

definition upsertSyncProof ::
  "int \<Rightarrow> platform \<Rightarrow> string \<Rightarrow> proof_input \<Rightarrow> proof_db \<Rightarrow> proof_error + proof_db" where
  "upsertSyncProof timestamp platform accountKey proof db =
     ebind (assertKnownSyncProofKindContract platform proof) (\<lambda>_.
       let scopeId = buildSyncScopeId platform accountKey (si_kind (pi_scope proof)) (si_key (pi_scope proof));
           existingScope = tbl_get sc_id scopeId (pdb_scopes db);
           scope = scope_values timestamp platform accountKey proof existingScope
       in case upsert_parent_scope timestamp platform accountKey proof (pdb_scopes db) of
            Inl e \<Rightarrow> Inl (ProofDb e)
          | Inr scopes1 \<Rightarrow>
             (case tbl_upsert_pk sc_id scope_unique scope (overwrite_scope scope) scopes1 of
                Inl e \<Rightarrow> Inl (ProofDb e)
              | Inr scopes2 \<Rightarrow>
                  if \<not> parent_known scopes2 scope then Inl (ProofDb ForeignKeyViolation)
                  else let existingProof = tbl_get pf_id (buildSyncProofId platform accountKey
                             (si_kind (pi_scope proof)) (si_key (pi_scope proof)) (pi_kind proof)) (pdb_proofs db);
                           row = proof_values timestamp platform accountKey proof existingProof
                       in if \<not> tbl_has sc_id scopeId scopes2 then Inl (ProofDb ForeignKeyViolation)
                          else case tbl_upsert_pk pf_id proof_unique row (overwrite_proof row) (pdb_proofs db) of
                                 Inl e \<Rightarrow> Inl (ProofDb e)
                               | Inr proofs \<Rightarrow> Inr (db\<lparr>pdb_scopes := scopes2, pdb_proofs := proofs\<rparr>)))"

definition listSyncScopes :: "platform \<Rightarrow> string \<Rightarrow> proof_db \<Rightarrow> scope_row list" where
  "listSyncScopes platform accountKey db =
     sort_key (\<lambda>r. (sc_kind r, sc_key r))
       (filter (\<lambda>r. sc_platform r = platform \<and> sc_account r = accountKey) (pdb_scopes db))"

definition listSyncProofs :: "platform \<Rightarrow> string \<Rightarrow> proof_db \<Rightarrow> (scope_row \<times> proof_row) list" where
  "listSyncProofs platform accountKey db =
     sort_key (\<lambda>(s, p). (sc_kind s, sc_key s, pf_kind p))
       (concat (map (\<lambda>p. map (\<lambda>s. (s, p)) (filter (\<lambda>s. sc_id s = pf_scope p) (pdb_scopes db)))
          (filter (\<lambda>p. pf_platform p = platform \<and> pf_account p = accountKey) (pdb_proofs db))))"


subsection \<open>Ids and the invariant\<close>

lemma scope_id_inj [simp]:
  "buildSyncScopeId p a k y = buildSyncScopeId p' a' k' y' \<longleftrightarrow> p = p' \<and> a = a' \<and> k = k' \<and> y = y'"
  by (simp add: buildSyncScopeId_def encoded_array_inj del: json_string_array.simps)

lemma proof_id_inj [simp]:
  "buildSyncProofId p a k y q = buildSyncProofId p' a' k' y' q' \<longleftrightarrow>
     p = p' \<and> a = a' \<and> k = k' \<and> y = y' \<and> q = q'"
  by (simp add: buildSyncProofId_def encoded_array_inj del: json_string_array.simps)

definition scope_ok :: "scope_row \<Rightarrow> bool" where
  "scope_ok r \<longleftrightarrow> sc_id r = buildSyncScopeId (sc_platform r) (sc_account r) (sc_kind r) (sc_key r) \<and>
     (\<forall>q. sc_parent r = Some q \<longrightarrow> (\<exists>k y. q = buildSyncScopeId (sc_platform r) (sc_account r) k y))"

definition proof_ok :: "proof_row \<Rightarrow> bool" where
  "proof_ok r \<longleftrightarrow> (\<exists>k y. pf_scope r = buildSyncScopeId (pf_platform r) (pf_account r) k y \<and>
     pf_id r = buildSyncProofId (pf_platform r) (pf_account r) k y (pf_kind r))"

definition scopes_inv :: "scope_row list \<Rightarrow> bool" where
  "scopes_inv rows \<longleftrightarrow> keyed scope_unique rows \<and> (\<forall>r\<in>set rows. scope_ok r)"

definition proof_inv :: "proof_db \<Rightarrow> bool" where
  "proof_inv db \<longleftrightarrow> scopes_inv (pdb_scopes db) \<and> (\<forall>r\<in>set (pdb_scopes db). parent_known (pdb_scopes db) r) \<and>
     keyed proof_unique (pdb_proofs db) \<and>
     (\<forall>p\<in>set (pdb_proofs db). proof_ok p \<and> tbl_has sc_id (pf_scope p) (pdb_scopes db))"

lemma scope_ok_unique: "scope_ok r \<Longrightarrow> scope_ok r' \<Longrightarrow> sc_id r = sc_id r' \<longleftrightarrow> scope_unique r = scope_unique r'"
  by (auto simp: scope_ok_def scope_unique_def)

lemma proof_ok_unique: "proof_ok r \<Longrightarrow> proof_ok r' \<Longrightarrow> pf_id r = pf_id r' \<longleftrightarrow> proof_unique r = proof_unique r'"
  by (auto simp: proof_ok_def proof_unique_def)

lemma upsert_scope:
  assumes inv: "scopes_inv rows" and r: "scope_ok r"
    and upd: "\<And>x. sc_id (upd x) = sc_id x \<and> sc_platform (upd x) = sc_platform x \<and>
      sc_account (upd x) = sc_account x \<and> sc_kind (upd x) = sc_kind x \<and> sc_key (upd x) = sc_key x"
    and par: "\<And>x. sc_parent (upd x) = sc_parent x \<or> sc_parent (upd x) = sc_parent r"
  shows "tbl_upsert_pk sc_id scope_unique r upd rows = Inr (tbl_upsert sc_id r upd rows)"
    and "scopes_inv (tbl_upsert sc_id r upd rows)"
proof -
  have agree: "sc_id x = sc_id r \<longleftrightarrow> scope_unique x = scope_unique r" if "x \<in> set rows" for x
    using scope_ok_unique inv r that by (auto simp: scopes_inv_def)
  have has: "tbl_has sc_id (sc_id r) rows = tbl_has scope_unique (scope_unique r) rows"
    unfolding tbl_has_def list_ex_iff using agree by blast
  have same: "tbl_upsert scope_unique r upd rows = tbl_upsert sc_id r upd rows"
    using has agree by (auto simp: tbl_upsert_def tbl_update_def)
  show "tbl_upsert_pk sc_id scope_unique r upd rows = Inr (tbl_upsert sc_id r upd rows)"
    using agree by (simp add: tbl_upsert_pk_agree same)
  have "keyed scope_unique (tbl_upsert scope_unique r upd rows)"
    using inv upd by (intro keyed_upsert) (auto simp: scopes_inv_def scope_unique_def)
  moreover have "scope_ok x" if "x \<in> set (tbl_upsert sc_id r upd rows)" for x
  proof -
    from that show ?thesis
    proof (cases rule: tbl_upsert_cases)
      case (updated x')
      have x': "scope_ok x'" using updated(1) inv by (simp add: scopes_inv_def)
      then have "scope_unique x' = scope_unique r" using agree updated by blast
      then show ?thesis using x' r upd [of x'] par [of x'] updated(3)
        by (auto simp: scope_ok_def scope_unique_def)
    qed (use inv r in \<open>auto simp: scopes_inv_def\<close>)
  qed
  ultimately show "scopes_inv (tbl_upsert sc_id r upd rows)" by (simp add: scopes_inv_def same)
qed


text \<open>The same for a proof row.\<close>

lemma upsert_proof:
  assumes "keyed proof_unique rows" "\<forall>x\<in>set rows. proof_ok x" "proof_ok r"
  shows "tbl_upsert_pk pf_id proof_unique r (overwrite_proof r) rows = Inr (tbl_upsert pf_id r (overwrite_proof r) rows)"
    and "keyed proof_unique (tbl_upsert pf_id r (overwrite_proof r) rows)"
    and "\<forall>x\<in>set (tbl_upsert pf_id r (overwrite_proof r) rows). proof_ok x \<and>
      (pf_scope x = pf_scope r \<or> pf_scope x \<in> pf_scope ` set rows)"
proof -
  have agree: "pf_id x = pf_id r \<longleftrightarrow> proof_unique x = proof_unique r" if "x \<in> set rows" for x
    using proof_ok_unique assms that by auto
  have has: "tbl_has pf_id (pf_id r) rows = tbl_has proof_unique (proof_unique r) rows"
    unfolding tbl_has_def list_ex_iff using agree by blast
  have same: "tbl_upsert proof_unique r (overwrite_proof r) rows = tbl_upsert pf_id r (overwrite_proof r) rows"
    using has agree by (auto simp: tbl_upsert_def tbl_update_def)
  show "tbl_upsert_pk pf_id proof_unique r (overwrite_proof r) rows = Inr (tbl_upsert pf_id r (overwrite_proof r) rows)"
    using agree by (simp add: tbl_upsert_pk_agree same)
  have "keyed proof_unique (tbl_upsert proof_unique r (overwrite_proof r) rows)"
    using assms(1) by (intro keyed_upsert) (auto simp: proof_unique_def overwrite_proof_def)
  then show "keyed proof_unique (tbl_upsert pf_id r (overwrite_proof r) rows)" by (simp add: same)
  show "\<forall>x\<in>set (tbl_upsert pf_id r (overwrite_proof r) rows). proof_ok x \<and>
      (pf_scope x = pf_scope r \<or> pf_scope x \<in> pf_scope ` set rows)"
    using assms(2,3) by (auto simp: tbl_upsert_def set_tbl_update overwrite_proof_def proof_ok_def split: if_splits)
qed

definition parent_touched ::
  "int \<Rightarrow> platform \<Rightarrow> string \<Rightarrow> proof_input \<Rightarrow> scope_row list \<Rightarrow> scope_row list" where
  "parent_touched t platform accountKey proof rows =
     (case upsert_parent_scope t platform accountKey proof rows of Inl _ \<Rightarrow> rows | Inr rows' \<Rightarrow> rows')"

lemma parent_scope:
  assumes "scopes_inv rows"
  shows "upsert_parent_scope t p a inp rows = Inr (parent_touched t p a inp rows)"
    and "scopes_inv (parent_touched t p a inp rows)"
    and "\<And>i. tbl_has sc_id i (parent_touched t p a inp rows) \<longleftrightarrow> tbl_has sc_id i rows \<or>
      (\<exists>k y. si_parent (pi_scope inp) = Some (k, y) \<and> i = buildSyncScopeId p a k y)"
    and "\<forall>x\<in>set (parent_touched t p a inp rows). sc_parent x = None \<or> sc_parent x \<in> sc_parent ` set rows"
proof -
  let ?new = "\<lambda>k y. \<lparr>sc_id = buildSyncScopeId p a k y, sc_platform = p, sc_account = a, sc_kind = k,
    sc_key = y, sc_parent = None, sc_display_name = None, sc_metadata = None,
    sc_first_discovered = pi_observed_at inp, sc_last_observed = pi_observed_at inp,
    sc_created_at = t, sc_updated_at = t\<rparr>"
  let ?upd = "\<lambda>r. r\<lparr>sc_last_observed := pi_observed_at inp, sc_updated_at := t\<rparr>"
  have ok: "scope_ok (?new k y)" for k y by (simp add: scope_ok_def)
  have ups: "upsert_parent_scope t p a inp rows = Inr (tbl_upsert sc_id (?new k y) ?upd rows)"
    and inv: "scopes_inv (tbl_upsert sc_id (?new k y) ?upd rows)"
    if "si_parent (pi_scope inp) = Some (k, y)" for k y
    using that upsert_scope [OF assms ok [of k y], where upd = ?upd] by (simp_all add: upsert_parent_scope_def)
  have none: "upsert_parent_scope t p a inp rows = Inr rows" if "si_parent (pi_scope inp) = None"
    using that by (simp add: upsert_parent_scope_def)
  show "upsert_parent_scope t p a inp rows = Inr (parent_touched t p a inp rows)"
    using ups none by (cases "si_parent (pi_scope inp)") (auto simp: parent_touched_def)
  show "scopes_inv (parent_touched t p a inp rows)"
    using ups none inv assms by (cases "si_parent (pi_scope inp)") (auto simp: parent_touched_def)
  show "tbl_has sc_id i (parent_touched t p a inp rows) \<longleftrightarrow> tbl_has sc_id i rows \<or>
      (\<exists>k y. si_parent (pi_scope inp) = Some (k, y) \<and> i = buildSyncScopeId p a k y)" for i
    using ups none by (cases "si_parent (pi_scope inp)") (auto simp: parent_touched_def tbl_has_upsert)
  show "\<forall>x\<in>set (parent_touched t p a inp rows). sc_parent x = None \<or> sc_parent x \<in> sc_parent ` set rows"
    using ups none by (cases "si_parent (pi_scope inp)")
      (auto simp: parent_touched_def tbl_upsert_def set_tbl_update split: if_splits)
qed

lemma scope_values_ok: "scope_ok (scope_values t p a inp e)"
  by (auto simp: scope_ok_def scope_values_def Let_def)

lemma proof_values_ok: "proof_ok (proof_values t p a inp e)"
  by (auto simp: proof_ok_def proof_values_def Let_def)

text \<open>The state an accepted proof leads to.\<close>

definition proof_recorded :: "int \<Rightarrow> platform \<Rightarrow> string \<Rightarrow> proof_input \<Rightarrow> proof_db \<Rightarrow> proof_db" where
  "proof_recorded t p a inp db =
     (let kind = si_kind (pi_scope inp); key = si_key (pi_scope inp);
          scope = scope_values t p a inp (tbl_get sc_id (buildSyncScopeId p a kind key) (pdb_scopes db));
          row = proof_values t p a inp (tbl_get pf_id (buildSyncProofId p a kind key (pi_kind inp)) (pdb_proofs db))
      in db\<lparr>pdb_scopes := tbl_upsert sc_id scope (overwrite_scope scope) (parent_touched t p a inp (pdb_scopes db)),
            pdb_proofs := tbl_upsert pf_id row (overwrite_proof row) (pdb_proofs db)\<rparr>)"

lemma upsertSyncProof_eq:
  assumes inv: "proof_inv db"
  shows "upsertSyncProof t p a inp db =
     (if getSyncProofKindContract p inp = None then Inl NoProofContract else Inr (proof_recorded t p a inp db))"
    and "proof_inv (proof_recorded t p a inp db)"
proof -
  let ?kind = "si_kind (pi_scope inp)" and ?key = "si_key (pi_scope inp)"
  let ?scope = "scope_values t p a inp (tbl_get sc_id (buildSyncScopeId p a ?kind ?key) (pdb_scopes db))"
  let ?row = "proof_values t p a inp
     (tbl_get pf_id (buildSyncProofId p a ?kind ?key (pi_kind inp)) (pdb_proofs db))"
  let ?s1 = "parent_touched t p a inp (pdb_scopes db)"
  let ?s2 = "tbl_upsert sc_id ?scope (overwrite_scope ?scope) ?s1"
  have sinv: "scopes_inv (pdb_scopes db)" using inv by (simp add: proof_inv_def)
  note par = parent_scope [OF sinv, where t = t and p = p and a = a and inp = inp]
  have ow: "sc_id (overwrite_scope v x) = sc_id x" "sc_platform (overwrite_scope v x) = sc_platform x"
    "sc_account (overwrite_scope v x) = sc_account x" "sc_kind (overwrite_scope v x) = sc_kind x"
    "sc_key (overwrite_scope v x) = sc_key x" "sc_parent (overwrite_scope v x) = sc_parent v" for v x
    by (simp_all add: overwrite_scope_def)
  note ups = upsert_scope [OF par(2) scope_values_ok, where upd = "overwrite_scope ?scope", simplified ow, simplified]
  note upp = upsert_proof [OF _ _ proof_values_ok, of "pdb_proofs db"]
  have has2: "tbl_has sc_id i ?s2 \<longleftrightarrow> sc_id ?scope = i \<or> tbl_has sc_id i ?s1" for i
    by (rule tbl_has_upsert) (simp add: ow)
  have sid: "sc_id ?scope = buildSyncScopeId p a ?kind ?key" by (simp add: scope_values_def Let_def)
  have spar: "sc_parent ?scope = Some q \<Longrightarrow> tbl_has sc_id q ?s1" for q
    using par(3) by (auto simp: scope_values_def Let_def)
  have known: "parent_known ?s2 ?scope"
    using spar has2 by (auto simp: parent_known_def split: option.split)
  have scopeid: "tbl_has sc_id (buildSyncScopeId p a ?kind ?key) ?s2" using has2 sid by simp
  have pk: "keyed proof_unique (pdb_proofs db)" "\<forall>x\<in>set (pdb_proofs db). proof_ok x"
    using inv by (auto simp: proof_inv_def)
  show "upsertSyncProof t p a inp db =
     (if getSyncProofKindContract p inp = None then Inl NoProofContract else Inr (proof_recorded t p a inp db))"
    using par(1) ups(1) upp(1) [OF pk] known scopeid
    by (simp add: upsertSyncProof_def assertKnownSyncProofKindContract_def Let_def proof_recorded_def
        split: option.split)
  have "parent_known ?s2 x" if "x \<in> set ?s2" for x
  proof -
    have "sc_parent x = None \<or> sc_parent x = sc_parent ?scope \<or> sc_parent x \<in> sc_parent ` set (pdb_scopes db)"
      using that par(4) ow by (auto simp: tbl_upsert_def set_tbl_update split: if_splits)
    then show ?thesis
    proof (elim disjE)
      assume "sc_parent x \<in> sc_parent ` set (pdb_scopes db)"
      then obtain x' where x': "x' \<in> set (pdb_scopes db)" "sc_parent x = sc_parent x'" by auto
      then have "parent_known (pdb_scopes db) x'" using inv by (simp add: proof_inv_def)
      then show ?thesis using x'(2) has2 par(3) by (auto simp: parent_known_def split: option.splits)
    qed (use known in \<open>auto simp: parent_known_def\<close>)
  qed
  moreover have "tbl_has sc_id (pf_scope x) ?s2" "proof_ok x"
    if "x \<in> set (tbl_upsert pf_id ?row (overwrite_proof ?row) (pdb_proofs db))" for x
  proof -
    have x: "proof_ok x" "pf_scope x = pf_scope ?row \<or> pf_scope x \<in> pf_scope ` set (pdb_proofs db)"
      using upp(3) [OF pk] that by blast+
    have old: "tbl_has sc_id (pf_scope y) ?s2" if "y \<in> set (pdb_proofs db)" for y
      using inv that has2 par(3) by (auto simp: proof_inv_def)
    have new: "tbl_has sc_id (pf_scope ?row) ?s2" using scopeid by (simp add: proof_values_def Let_def)
    show "tbl_has sc_id (pf_scope x) ?s2" using x(2) old new by auto
    show "proof_ok x" by (rule x(1))
  qed
  ultimately show "proof_inv (proof_recorded t p a inp db)"
    using ups(2) upp(2) [OF pk] by (simp add: proof_inv_def proof_recorded_def Let_def)
qed


text \<open>
  Deleting the proofs and then the scopes of the sources a predicate selects, as
  \<open>resetSource\<close> and \<open>clearIntegrationRuntimeState\<close> do. The two foreign keys cascade; the rows a
  cascade could reach belong to the same source, so nothing but the selected rows goes.
\<close>

definition delete_proof_state :: "(platform \<Rightarrow> string \<Rightarrow> bool) \<Rightarrow> proof_db \<Rightarrow> nat \<times> proof_db" where
  "delete_proof_state sel db =
     (tbl_changes (\<lambda>r. sel (pf_platform r) (pf_account r)) (pdb_proofs db) +
      tbl_changes (\<lambda>r. sel (sc_platform r) (sc_account r)) (pdb_scopes db),
      db\<lparr>pdb_proofs := tbl_delete (\<lambda>r. sel (pf_platform r) (pf_account r)) (pdb_proofs db),
         pdb_scopes := tbl_delete (\<lambda>r. sel (sc_platform r) (sc_account r)) (pdb_scopes db)\<rparr>)"

inductive proof_step :: "proof_db \<Rightarrow> proof_db \<Rightarrow> bool" where
  upsert: "upsertSyncProof t p a inp db = Inr db' \<Longrightarrow> proof_step db db'"
| delete: "delete_proof_state sel db = (n, db') \<Longrightarrow> proof_step db db'"

inductive proof_reachable :: "proof_db \<Rightarrow> bool" where
  start: "proof_reachable \<lparr>pdb_scopes = [], pdb_proofs = []\<rparr>"
| step: "proof_reachable db \<Longrightarrow> proof_step db db' \<Longrightarrow> proof_reachable db'"

lemma scope_source:
  assumes "scopes_inv rows" "tbl_has sc_id (buildSyncScopeId p a k y) rows"
  obtains x where "x \<in> set rows" "sc_id x = buildSyncScopeId p a k y" "sc_platform x = p" "sc_account x = a"
proof -
  obtain x where "x \<in> set rows" "sc_id x = buildSyncScopeId p a k y" using assms(2) by (auto simp: tbl_has_iff)
  moreover then have "scope_ok x" using assms(1) by (simp add: scopes_inv_def)
  ultimately show thesis using that by (auto simp: scope_ok_def)
qed

lemma delete_proof_state_inv:
  assumes "proof_inv db"
  shows "proof_inv (snd (delete_proof_state sel db))"
proof -
  let ?db = "snd (delete_proof_state sel db)"
  have sinv: "scopes_inv (pdb_scopes db)" using assms by (simp add: proof_inv_def)
  have keep: "tbl_has sc_id (buildSyncScopeId p a k y) (pdb_scopes ?db)"
    if h: "tbl_has sc_id (buildSyncScopeId p a k y) (pdb_scopes db)" "\<not> sel p a" for p a k y
  proof -
    obtain x where "x \<in> set (pdb_scopes db)" "sc_id x = buildSyncScopeId p a k y" "sc_platform x = p" "sc_account x = a"
      by (rule scope_source [OF sinv h(1)])
    then have "x \<in> set (pdb_scopes ?db)" "sc_id x = buildSyncScopeId p a k y"
      using h(2) by (auto simp: delete_proof_state_def)
    then show ?thesis unfolding tbl_has_iff by (metis image_eqI)
  qed
  have "parent_known (pdb_scopes ?db) r" if r: "r \<in> set (pdb_scopes ?db)" for r
  proof (cases "sc_parent r")
    case (Some q)
    have rr: "r \<in> set (pdb_scopes db)" "\<not> sel (sc_platform r) (sc_account r)"
      using r by (auto simp: delete_proof_state_def)
    then have "scope_ok r" "parent_known (pdb_scopes db) r" using assms by (auto simp: proof_inv_def scopes_inv_def)
    then show ?thesis using keep rr(2) Some by (auto simp: scope_ok_def parent_known_def)
  qed (simp add: parent_known_def)
  moreover have "tbl_has sc_id (pf_scope x) (pdb_scopes ?db)" if x: "x \<in> set (pdb_proofs ?db)" for x
  proof -
    have xx: "x \<in> set (pdb_proofs db)" "\<not> sel (pf_platform x) (pf_account x)"
      using x by (auto simp: delete_proof_state_def)
    then have "proof_ok x" "tbl_has sc_id (pf_scope x) (pdb_scopes db)" using assms by (auto simp: proof_inv_def)
    then show ?thesis using keep xx(2) by (auto simp: proof_ok_def)
  qed
  ultimately show ?thesis using assms
    by (auto simp: proof_inv_def scopes_inv_def delete_proof_state_def intro: keyed_delete)
qed

lemma proof_step_inv: "proof_step db db' \<Longrightarrow> proof_inv db \<Longrightarrow> proof_inv db'"
proof (induction rule: proof_step.induct)
  case (upsert t p a inp db db')
  then show ?case using upsertSyncProof_eq [OF upsert.prems, of t p a inp] by (auto split: if_split_asm)
next
  case (delete sel db n db')
  then show ?case using delete_proof_state_inv [OF delete.prems, of sel] by simp
qed

lemma proof_reachable_inv: "proof_reachable db \<Longrightarrow> proof_inv db"
proof (induction rule: proof_reachable.induct)
  case start
  show ?case by (simp add: proof_inv_def scopes_inv_def)
next
  case (step db db')
  then show ?case by (blast intro: proof_step_inv)
qed

lemma recorded_proof_get:
  "tbl_get pf_id i (pdb_proofs (proof_recorded t p a inp db)) =
     (let own = buildSyncProofId p a (si_kind (pi_scope inp)) (si_key (pi_scope inp)) (pi_kind inp);
          old = tbl_get pf_id own (pdb_proofs db);
          row = proof_values t p a inp old
      in if i = own then Some (case old of None \<Rightarrow> row | Some x \<Rightarrow> overwrite_proof row x)
         else tbl_get pf_id i (pdb_proofs db))"
  by (auto simp: proof_recorded_def Let_def tbl_get_upsert overwrite_proof_def proof_values_def)

lemma recorded_scope_get:
  "tbl_get sc_id (buildSyncScopeId p a (si_kind (pi_scope inp)) (si_key (pi_scope inp)))
      (pdb_scopes (proof_recorded t p a inp db)) =
     (let own = buildSyncScopeId p a (si_kind (pi_scope inp)) (si_key (pi_scope inp));
          row = scope_values t p a inp (tbl_get sc_id own (pdb_scopes db))
      in Some (case tbl_get sc_id own (parent_touched t p a inp (pdb_scopes db)) of
           None \<Rightarrow> row | Some x \<Rightarrow> overwrite_scope row x))"
  by (simp add: proof_recorded_def Let_def tbl_get_upsert overwrite_scope_def scope_values_def)

subsection \<open>Properties\<close>

text \<open>
  C19: a proof is accepted exactly when its platform, scope kind and proof kind have a contract. On a
  database the operations built, an accepted proof never fails on a constraint, every scope's parent and
  every proof's scope still exist and no key is doubled; the proof's row then holds the status
  and values given, and no other proof changes.
\<close>

theorem sync_proof_accepted:
  assumes "proof_reachable db"
  shows "(upsertSyncProof t p a inp db = Inl NoProofContract \<longleftrightarrow>
      (p, pi_kind inp, si_kind (pi_scope inp)) \<notin> set proof_contract_list) \<and>
    (\<forall>e. upsertSyncProof t p a inp db = Inl e \<longrightarrow> e = NoProofContract) \<and>
    (\<forall>db'. upsertSyncProof t p a inp db = Inr db' \<longrightarrow> proof_inv db' \<and>
      (\<forall>i. if i = buildSyncProofId p a (si_kind (pi_scope inp)) (si_key (pi_scope inp)) (pi_kind inp)
           then \<exists>r. tbl_get pf_id i (pdb_proofs db') = Some r \<and> pf_status r = pi_status inp \<and>
             pf_last_observed r = pi_observed_at inp \<and> pf_resume_cursor r = safeStringifyJson (pi_resume_cursor inp) \<and>
             pf_updated_at r = t
           else tbl_get pf_id i (pdb_proofs db') = tbl_get pf_id i (pdb_proofs db)))"
proof -
  note inv = proof_reachable_inv [OF assms]
  have "getSyncProofKindContract p inp = None \<longleftrightarrow>
      (p, pi_kind inp, si_kind (pi_scope inp)) \<notin> set proof_contract_list"
    by (force simp: getSyncProofKindContract_def PROOF_KIND_CONTRACTS_def find_None_iff)
  then show ?thesis
    using upsertSyncProof_eq [OF inv, of t p a inp]
    by (auto simp: recorded_proof_get Let_def overwrite_proof_def proof_values_def
        split: if_split_asm option.split)
qed

definition demo_scope :: scope_input where
  "demo_scope = \<lparr>si_kind = ''conversation'', si_key = ''c1'', si_parent = Some (''account'', ''me''),
     si_display_name = Some (Some ''General''), si_metadata = None\<rparr>"

definition demo_proof :: proof_input where
  "demo_proof = \<lparr>pi_scope = demo_scope, pi_kind = ''messages'', pi_status = PfComplete, pi_mode = Some ModeFull,
     pi_observed_at = 50, pi_run_started_at = Some 40, pi_completed_at = None, pi_fresh_until = None,
     pi_resume_cursor = None, pi_coverage = None, pi_stats = None, pi_error = None\<rparr>"

abbreviation empty_proofs :: proof_db where
  "empty_proofs \<equiv> \<lparr>pdb_scopes = [], pdb_proofs = []\<rparr>"

lemma demo_contract: "getSyncProofKindContract Slack demo_proof \<noteq> None"
  by (simp add: getSyncProofKindContract_def PROOF_KIND_CONTRACTS_def proof_contract_list_def
      demo_proof_def demo_scope_def)

theorem sync_proof_accepted_witness:
  "\<exists>db'. upsertSyncProof 60 Slack ''me'' demo_proof empty_proofs = Inr db' \<and> proof_inv db' \<and>
     (\<exists>r. tbl_get pf_id (buildSyncProofId Slack ''me'' ''conversation'' ''c1'' ''messages'') (pdb_proofs db') = Some r \<and>
       pf_status r = PfComplete)"
proof -
  have "(Slack, pi_kind demo_proof, si_kind (pi_scope demo_proof)) \<in> set proof_contract_list"
    by (simp add: proof_contract_list_def demo_proof_def demo_scope_def)
  then obtain db' where "upsertSyncProof 60 Slack ''me'' demo_proof empty_proofs = Inr db'"
    using sync_proof_accepted [OF proof_reachable.start, of 60 Slack "''me''" demo_proof]
    by (metis sum.exhaust)
  moreover have "pi_status demo_proof = PfComplete" "pi_kind demo_proof = ''messages''"
    "si_kind (pi_scope demo_proof) = ''conversation''" "si_key (pi_scope demo_proof) = ''c1''"
    by (simp_all add: demo_proof_def demo_scope_def)
  ultimately show ?thesis
    using sync_proof_accepted [OF proof_reachable.start, of 60 Slack "''me''" demo_proof] by (metis (full_types))
qed



end
