(* ===== verification/Integrations.thy ===== *)
theory Integrations
  imports Platforms Table Json
begin

text \<open>
  The connected accounts of \<^verbatim>\<open>src/db/database.ts\<close>: the tables \<open>integration_states\<close> and
  \<open>auth_sessions\<close> with their operations, and the source accounts and checkpoints of a source.
  The platform of an integration is kept as the stored text, because rows of retired platforms
  may remain and the readers drop them (\<open>hasKnownPlatform\<close>). An argument that may be left out and
  may be \<open>null\<close> is an option of an option.
\<close>

subsection \<open>State\<close>

datatype auth_state = AsAuthenticated | AsAuthorized | AsBlocked | AsCancelled | AsCheckFailed | AsFailed
  | AsInProgress | AsMissing | AsNativeHelperMissing | AsNeedsAuth | AsNeedsFullDiskAccess | AsNotDetermined
  | AsOutdated | AsRequested | AsUnknown

datatype connection_kind = BrowserSession | LocalCli | NativeConnection | QrLink

datatype launch_strategy = ChromiumAuth | NativeAuth | QrNative | SystemSettings

datatype auth_session_state = SsRequested | SsInProgress | SsAuthenticated | SsFailed | SsCancelled

record integration_row =
  in_id :: string
  in_platform :: string
  in_account :: string
  in_display_name :: "string option"
  in_auth_state :: auth_state
  in_enabled :: bool
  in_connection :: connection_kind
  in_sync_capable :: bool
  in_launch_strategy :: "launch_strategy option"
  in_launch_target :: "string option"
  in_imported_from :: "string option"
  in_artifact_paths :: "json option"
  in_metadata :: "json option"
  in_last_seen :: int
  in_created_at :: int
  in_updated_at :: int

record auth_session =
  as_id :: string
  as_platform :: string
  as_account :: string
  as_integration :: string
  as_state :: auth_session_state
  as_native_pid :: "int option"
  as_requested_at :: int
  as_started_at :: "int option"
  as_finished_at :: "int option"
  as_keychain_service :: "string option"
  as_keychain_account :: "string option"
  as_result :: "json option"
  as_error :: "string option"
  as_created_at :: int
  as_updated_at :: int

record integration_db =
  idb_integrations :: "integration_row list"
  idb_sessions :: "auth_session list"

record integration_input =
  ii_platform :: string
  ii_account :: string
  ii_display_name :: "string option"
  ii_auth_state :: auth_state
  ii_enabled :: "bool option"
  ii_connection :: connection_kind
  ii_sync_capable :: "bool option"
  ii_launch_strategy :: "launch_strategy option"
  ii_launch_target :: "string option"
  ii_imported_from :: "string option"
  ii_artifact_paths :: "json option"
  ii_metadata :: "json option"

datatype integration_error =
  IntegrationNotFound | AuthSessionNotFound | IntegrationDb db_error

text \<open>The text \<open>platform:account\<close> that names a source.\<close>

definition source_key :: "string \<Rightarrow> string \<Rightarrow> string" where
  "source_key platform accountKey = platform @ '':'' @ accountKey"

definition in_source :: "integration_row \<Rightarrow> string \<times> string" where
  "in_source r = (in_platform r, in_account r)"

subsection \<open>Integrations\<close>

definition hasKnownPlatform :: "string \<Rightarrow> bool" where
  "hasKnownPlatform platform \<longleftrightarrow> parsePlatform platform \<noteq> None"

definition listIntegrationStates :: "integration_db \<Rightarrow> integration_row list" where
  "listIntegrationStates db =
     filter (\<lambda>r. hasKnownPlatform (in_platform r)) (sort_key in_source (idb_integrations db))"

definition listEnabledSyncTargets :: "integration_db \<Rightarrow> (string \<times> string) list" where
  "listEnabledSyncTargets db =
     filter (\<lambda>(p, _). hasKnownPlatform p)
       (map in_source (sort_key in_source (filter (\<lambda>r. in_enabled r \<and> in_sync_capable r) (idb_integrations db))))"

definition listEnabledSyncPlatforms :: "integration_db \<Rightarrow> string list" where
  "listEnabledSyncPlatforms db =
     filter hasKnownPlatform
       (sort (remdups (map in_platform (filter (\<lambda>r. in_enabled r \<and> in_sync_capable r) (idb_integrations db)))))"

definition getIntegrationState :: "string \<Rightarrow> string \<Rightarrow> integration_db \<Rightarrow> integration_row option" where
  "getIntegrationState platform accountKey db = tbl_get in_source (platform, accountKey) (idb_integrations db)"

definition integration_values :: "int \<Rightarrow> integration_input \<Rightarrow> integration_row" where
  "integration_values timestamp input =
     \<lparr>in_id = source_key (ii_platform input) (ii_account input),
      in_platform = ii_platform input, in_account = ii_account input,
      in_display_name = ii_display_name input, in_auth_state = ii_auth_state input,
      in_enabled = (ii_enabled input \<noteq> Some False), in_connection = ii_connection input,
      in_sync_capable = (ii_sync_capable input = Some True),
      in_launch_strategy = ii_launch_strategy input, in_launch_target = ii_launch_target input,
      in_imported_from = ii_imported_from input, in_artifact_paths = safeStringifyJson (ii_artifact_paths input),
      in_metadata = safeStringifyJson (ii_metadata input), in_last_seen = timestamp,
      in_created_at = timestamp, in_updated_at = timestamp\<rparr>"

text \<open>
  The conflict branch rewrites everything but platform, account and creation time, the id
  included. The foreign key of the sessions is deferred to the end of the transaction, by when
  the sessions of a row whose id changed have been moved to the new id.
\<close>

definition sessions_known :: "integration_row list \<Rightarrow> auth_session list \<Rightarrow> bool" where
  "sessions_known rows sessions \<longleftrightarrow> list_all (\<lambda>s. tbl_has in_id (as_integration s) rows) sessions"

definition upsertIntegrationState ::
  "int \<Rightarrow> integration_input \<Rightarrow> integration_db \<Rightarrow> integration_error + integration_db" where
  "upsertIntegrationState timestamp input db =
     (let v = integration_values timestamp input in
      case getIntegrationState (ii_platform input) (ii_account input) db of
        None \<Rightarrow>
          if tbl_has in_id (in_id v) (idb_integrations db) then Inl (IntegrationDb UniqueViolation)
          else if sessions_known (idb_integrations db @ [v]) (idb_sessions db)
               then Inr (db\<lparr>idb_integrations := idb_integrations db @ [v]\<rparr>)
               else Inl (IntegrationDb ForeignKeyViolation)
      | Some existing \<Rightarrow>
          if list_ex (\<lambda>r. in_id r = in_id v \<and> in_source r \<noteq> in_source v) (idb_integrations db)
          then Inl (IntegrationDb UniqueViolation)
          else
            let rows = tbl_update (\<lambda>r. in_source r = in_source v)
                  (\<lambda>r. v\<lparr>in_platform := in_platform r, in_account := in_account r, in_created_at := in_created_at r\<rparr>)
                  (idb_integrations db);
                sessions = (if in_id existing \<noteq> in_id v
                  then tbl_update (\<lambda>s. as_integration s = in_id existing)
                         (\<lambda>s. s\<lparr>as_integration := in_id v, as_updated_at := timestamp\<rparr>) (idb_sessions db)
                  else idb_sessions db)
            in if sessions_known rows sessions
               then Inr (db\<lparr>idb_integrations := rows, idb_sessions := sessions\<rparr>)
               else Inl (IntegrationDb ForeignKeyViolation))"

definition setIntegrationEnabled ::
  "int \<Rightarrow> string \<Rightarrow> string \<Rightarrow> bool \<Rightarrow> integration_db \<Rightarrow> integration_error + integration_db" where
  "setIntegrationEnabled timestamp platform accountKey enabled db =
     (if tbl_changes (\<lambda>r. in_source r = (platform, accountKey)) (idb_integrations db) = 0
      then Inl IntegrationNotFound
      else Inr (db\<lparr>idb_integrations := tbl_update (\<lambda>r. in_source r = (platform, accountKey))
              (\<lambda>r. r\<lparr>in_enabled := enabled, in_updated_at := timestamp\<rparr>) (idb_integrations db)\<rparr>))"

text \<open>Deleting an integration cascades to its sessions.\<close>

definition deleteIntegrationState :: "string \<Rightarrow> string \<Rightarrow> integration_db \<Rightarrow> integration_db" where
  "deleteIntegrationState platform accountKey db =
     (let gone = filter (\<lambda>r. in_source r = (platform, accountKey)) (idb_integrations db)
      in db\<lparr>idb_integrations := tbl_delete (\<lambda>r. in_source r = (platform, accountKey)) (idb_integrations db),
            idb_sessions := tbl_delete (\<lambda>s. tbl_has in_id (as_integration s) gone) (idb_sessions db)\<rparr>)"

subsection \<open>Auth sessions\<close>

definition session_order :: "auth_session \<Rightarrow> int \<times> int" where
  "session_order s = (- as_requested_at s, - as_created_at s)"

definition listAuthSessions :: "nat \<Rightarrow> integration_db \<Rightarrow> auth_session list" where
  "listAuthSessions limit db = take limit (sort_key session_order (idb_sessions db))"

definition getAuthSession :: "string \<Rightarrow> integration_db \<Rightarrow> auth_session option" where
  "getAuthSession sessionId db = tbl_get as_id sessionId (idb_sessions db)"

definition getLatestAuthSession :: "string \<Rightarrow> string \<Rightarrow> integration_db \<Rightarrow> auth_session option" where
  "getLatestAuthSession platform accountKey db =
     order_first session_order
       (filter (\<lambda>s. as_platform s = platform \<and> as_account s = accountKey) (idb_sessions db))"

definition createAuthSession ::
  "int \<Rightarrow> string \<Rightarrow> string option \<Rightarrow> platform \<Rightarrow> string \<Rightarrow> string \<Rightarrow> auth_session_state option \<Rightarrow>
   int option \<Rightarrow> json option \<Rightarrow> string option \<Rightarrow> integration_db \<Rightarrow>
   integration_error + string \<times> integration_db" where
  "createAuthSession now uuid inputId platform accountKey integrationStateId state requestedAt result errorSummary db =
     (let id = get_or inputId uuid;
          timestamp = get_or requestedAt now;
          row = \<lparr>as_id = id, as_platform = platform_name platform, as_account = accountKey,
                 as_integration = integrationStateId, as_state = get_or state SsRequested,
                 as_native_pid = None, as_requested_at = timestamp, as_started_at = None,
                 as_finished_at = None, as_keychain_service = None, as_keychain_account = None,
                 as_result = safeStringifyJson result, as_error = errorSummary, as_created_at = timestamp,
                 as_updated_at = timestamp\<rparr>
      in if tbl_has as_id id (idb_sessions db) then Inl (IntegrationDb UniqueViolation)
         else if \<not> tbl_has in_id integrationStateId (idb_integrations db) then Inl (IntegrationDb ForeignKeyViolation)
         else Inr (id, db\<lparr>idb_sessions := idb_sessions db @ [row]\<rparr>))"

definition updateAuthSessionState ::
  "int \<Rightarrow> string \<Rightarrow> auth_session_state \<Rightarrow> int option option \<Rightarrow> int option option \<Rightarrow> int option option \<Rightarrow>
   string option option \<Rightarrow> string option option \<Rightarrow> json option option \<Rightarrow> string option option \<Rightarrow>
   integration_db \<Rightarrow> integration_error + integration_db" where
  "updateAuthSessionState now sid state pid started finished service account result errorSummary db =
     (case getAuthSession sid db of
        None \<Rightarrow> Inl AuthSessionNotFound
      | Some current \<Rightarrow>
          Inr (db\<lparr>idb_sessions := tbl_update (\<lambda>s. as_id s = sid)
            (\<lambda>s. s\<lparr>as_state := state, as_native_pid := get_or pid (as_native_pid current),
                   as_started_at := get_or started (as_started_at current),
                   as_finished_at := get_or finished (as_finished_at current),
                   as_keychain_service := get_or service (as_keychain_service current),
                   as_keychain_account := get_or account (as_keychain_account current),
                   as_result := get_or (map_option safeStringifyJson result) (as_result current),
                   as_error := get_or errorSummary (as_error current),
                   as_updated_at := now\<rparr>) (idb_sessions db)\<rparr>))"

definition updateAuthSessionIdentity ::
  "int \<Rightarrow> string \<Rightarrow> string \<Rightarrow> string \<Rightarrow> integration_db \<Rightarrow> integration_error + integration_db" where
  "updateAuthSessionIdentity now sid accountKey integrationStateId db =
     (case getAuthSession sid db of
        None \<Rightarrow> Inl AuthSessionNotFound
      | Some _ \<Rightarrow>
          if \<not> tbl_has in_id integrationStateId (idb_integrations db) then Inl (IntegrationDb ForeignKeyViolation)
          else Inr (db\<lparr>idb_sessions := tbl_update (\<lambda>s. as_id s = sid)
            (\<lambda>s. s\<lparr>as_account := accountKey, as_integration := integrationStateId, as_updated_at := now\<rparr>)
            (idb_sessions db)\<rparr>))"

subsection \<open>Invariant\<close>

definition integration_inv :: "integration_db \<Rightarrow> bool" where
  "integration_inv db \<longleftrightarrow> keyed in_id (idb_integrations db) \<and> keyed in_source (idb_integrations db) \<and>
     keyed as_id (idb_sessions db) \<and> sessions_known (idb_integrations db) (idb_sessions db)"

inductive integration_step :: "integration_db \<Rightarrow> integration_db \<Rightarrow> bool" where
  upsert: "upsertIntegrationState t v db = Inr db' \<Longrightarrow> integration_step db db'"
| enable: "setIntegrationEnabled t p a e db = Inr db' \<Longrightarrow> integration_step db db'"
| delete: "integration_step db (deleteIntegrationState p a db)"
| create: "createAuthSession t u i p a q st r res e db = Inr (s, db') \<Longrightarrow> integration_step db db'"
| update: "updateAuthSessionState t s st pid b f ks ka res e db = Inr db' \<Longrightarrow> integration_step db db'"
| identity: "updateAuthSessionIdentity t s a q db = Inr db' \<Longrightarrow> integration_step db db'"

lemma sessions_known_iff:
  "sessions_known rows ss \<longleftrightarrow> (\<forall>s\<in>set ss. \<exists>r\<in>set rows. in_id r = as_integration s)"
  by (auto simp: sessions_known_def list_all_iff tbl_has_def list_ex_iff)

lemma keyed_rekey:
  assumes "keyed key rows" "keyed src rows" "\<forall>r\<in>set rows. key r = k \<longrightarrow> src r = s"
    "\<And>r. r \<in> set rows \<Longrightarrow> src r = s \<Longrightarrow> key (f r) = k"
  shows "keyed key (tbl_update (\<lambda>r. src r = s) f rows)"
  using assms
proof (induction rows)
  case (Cons r rows)
  then have ih: "keyed key (tbl_update (\<lambda>r. src r = s) f rows)" by (auto simp: keyed_def)
  have d: "key r \<notin> key ` set rows" "src r \<notin> src ` set rows" using Cons.prems(1,2) by (auto simp: keyed_def)
  show ?case
  proof (cases "src r = s")
    case True
    then have none: "\<forall>x\<in>set rows. src x \<noteq> s" using d(2) by (metis image_eqI)
    then have "tbl_update (\<lambda>r. src r = s) f rows = rows" by (auto intro: tbl_update_none)
    moreover have "key (f r) \<notin> key ` set rows" using Cons.prems(3,4) True none by auto
    ultimately show ?thesis using True ih by (simp add: keyed_def tbl_update_def)
  next
    case False
    have "key r \<notin> key ` set (tbl_update (\<lambda>r. src r = s) f rows)"
      using d(1) Cons.prems(3,4) False by (force simp: set_tbl_update)
    moreover have "tbl_update (\<lambda>r. src r = s) f (r # rows) = r # tbl_update (\<lambda>r. src r = s) f rows"
      using False by (simp add: tbl_update_def)
    ultimately show ?thesis using ih unfolding keyed_def by simp
  qed
qed simp


lemma keyed_in_source_update:
  "keyed in_source rows \<Longrightarrow> (\<And>r. in_source (f r) = in_source r) \<Longrightarrow> keyed in_source (tbl_update P f rows)"
  by (rule keyed_update) auto

definition stored_integration :: "int \<Rightarrow> integration_input \<Rightarrow> integration_row \<Rightarrow> integration_row" where
  "stored_integration t v r = (integration_values t v)\<lparr>in_platform := in_platform r,
     in_account := in_account r, in_created_at := in_created_at r\<rparr>"

lemma stored_integration_simps [simp]:
  "in_source (stored_integration t v r) = in_source r"
  "in_id (stored_integration t v r) = in_id (integration_values t v)"
  by (simp_all add: stored_integration_def in_source_def)

text \<open>
  The two successful outcomes of the upsert: a new row, or the row of the source rewritten with
  its sessions moved along.
\<close>

lemma upsert_cases:
  assumes "upsertIntegrationState t v db = Inr db'"
  obtains (inserted) "\<forall>r\<in>set (idb_integrations db). in_source r \<noteq> in_source (integration_values t v)"
      "\<not> tbl_has in_id (in_id (integration_values t v)) (idb_integrations db)"
      "idb_integrations db' = idb_integrations db @ [integration_values t v]"
      "idb_sessions db' = idb_sessions db"
  | (rewritten) e where "e \<in> set (idb_integrations db)" "in_source e = in_source (integration_values t v)"
      "\<forall>r\<in>set (idb_integrations db). in_id r = in_id (integration_values t v) \<longrightarrow>
         in_source r = in_source (integration_values t v)"
      "idb_integrations db' = tbl_update (\<lambda>r. in_source r = in_source (integration_values t v))
         (stored_integration t v) (idb_integrations db)"
      "idb_sessions db' = tbl_update (\<lambda>s. as_integration s = in_id e)
         (\<lambda>s. s\<lparr>as_integration := in_id (integration_values t v),
                as_updated_at := (if in_id e = in_id (integration_values t v) then as_updated_at s else t)\<rparr>)
         (idb_sessions db)"
      "sessions_known (idb_integrations db') (idb_sessions db')"
proof (cases "getIntegrationState (ii_platform v) (ii_account v) db")
  case None
  have src: "in_source (integration_values t v) = (ii_platform v, ii_account v)"
    by (simp add: in_source_def integration_values_def)
  have "\<not> tbl_has in_source (in_source (integration_values t v)) (idb_integrations db)"
    using None by (simp add: getIntegrationState_def src tbl_get_None_iff)
  moreover from assms have "\<not> tbl_has in_id (in_id (integration_values t v)) (idb_integrations db)"
    "db' = db\<lparr>idb_integrations := idb_integrations db @ [integration_values t v]\<rparr>"
    unfolding upsertIntegrationState_def Let_def None by (simp_all split: if_split_asm)
  ultimately show thesis by (intro inserted) (auto simp: tbl_has_def list_ex_iff)
next
  case (Some e)
  let ?v = "integration_values t v"
  have src: "in_source ?v = (ii_platform v, ii_account v)"
    by (simp add: in_source_def integration_values_def)
  have e: "e \<in> set (idb_integrations db)" "in_source e = in_source ?v"
    using tbl_get_SomeD [OF Some [unfolded getIntegrationState_def]] src by auto
  let ?rows = "tbl_update (\<lambda>r. in_source r = in_source ?v) (stored_integration t v) (idb_integrations db)"
  let ?moved = "tbl_update (\<lambda>s. as_integration s = in_id e)
    (\<lambda>s. s\<lparr>as_integration := in_id ?v, as_updated_at := t\<rparr>) (idb_sessions db)"
  have same: "tbl_update (\<lambda>s. as_integration s = in_id ?v)
      (as_integration_update (\<lambda>_. in_id ?v)) ss = ss" for ss
    by (induction ss) (auto simp: tbl_update_def)
  have db': "db' = db\<lparr>idb_integrations := ?rows,
      idb_sessions := (if in_id e \<noteq> in_id ?v then ?moved else idb_sessions db)\<rparr>"
    "\<not> list_ex (\<lambda>r. in_id r = in_id ?v \<and> in_source r \<noteq> in_source ?v) (idb_integrations db)"
    "sessions_known ?rows (if in_id e \<noteq> in_id ?v then ?moved else idb_sessions db)"
    using assms unfolding upsertIntegrationState_def Let_def Some
    by (simp_all add: stored_integration_def [abs_def] split: if_split_asm)
  show thesis
    using db' by (intro rewritten [of e]) (auto simp: e list_ex_iff same)
qed

lemma upsert_inv:
  assumes "upsertIntegrationState t v db = Inr db'" "integration_inv db"
  shows "integration_inv db'"
  using assms(1)
proof (cases rule: upsert_cases)
  case inserted
  then show ?thesis using assms(2)
    by (auto simp: integration_inv_def keyed_append_one tbl_has_iff sessions_known_iff)
next
  case (rewritten e)
  have "keyed in_id (idb_integrations db')"
    unfolding rewritten(4) using assms(2) rewritten(3)
    by (intro keyed_rekey [where k = "in_id (integration_values t v)"]) (auto simp: integration_inv_def)
  moreover have "keyed in_source (idb_integrations db')"
    unfolding rewritten(4) using assms(2) by (intro keyed_in_source_update) (auto simp: integration_inv_def)
  moreover have "keyed as_id (idb_sessions db')"
    unfolding rewritten(5) using assms(2) by (intro keyed_update) (auto simp: integration_inv_def)
  ultimately show ?thesis using rewritten(6) by (simp add: integration_inv_def)
qed

lemma upsert_fails:
  assumes "integration_inv db" "upsertIntegrationState t v db = Inl err"
  shows "err = IntegrationDb UniqueViolation \<and>
    (\<exists>r\<in>set (idb_integrations db). in_id r = in_id (integration_values t v) \<and>
       in_source r \<noteq> in_source (integration_values t v))"
proof (cases "getIntegrationState (ii_platform v) (ii_account v) db")
  case None
  have src: "in_source (integration_values t v) = (ii_platform v, ii_account v)"
    by (simp add: in_source_def integration_values_def)
  have nosrc: "\<not> tbl_has in_source (ii_platform v, ii_account v) (idb_integrations db)"
    using None by (simp add: getIntegrationState_def tbl_get_None_iff)
  have "sessions_known (idb_integrations db @ [integration_values t v]) (idb_sessions db)"
    using assms(1) by (auto simp: integration_inv_def sessions_known_iff)
  then show ?thesis
    using assms(2) nosrc unfolding upsertIntegrationState_def Let_def None
    by (auto simp: tbl_has_def list_ex_iff src split: if_split_asm)
next
  case (Some e)
  let ?v = "integration_values t v"
  have src: "in_source ?v = (ii_platform v, ii_account v)"
    by (simp add: in_source_def integration_values_def)
  have e: "e \<in> set (idb_integrations db)" "in_source e = in_source ?v"
    using tbl_get_SomeD [OF Some [unfolded getIntegrationState_def]] src by auto
  have known: "\<exists>r\<in>set (tbl_update (\<lambda>r. in_source r = in_source ?v) (stored_integration t v) (idb_integrations db)).
      in_id r = i" if i: "i = in_id ?v \<or> (\<exists>r\<in>set (idb_integrations db). in_id r = i \<and> in_id r \<noteq> in_id e)" for i
  proof (cases "i = in_id ?v")
    case True
    then show ?thesis using e by (force simp: set_tbl_update)
  next
    case False
    then obtain r where r: "r \<in> set (idb_integrations db)" "in_id r = i" "in_id r \<noteq> in_id e" using i by auto
    then have "in_source r \<noteq> in_source ?v"
      using assms(1) e keyed_unique [of in_source "idb_integrations db" r e] by (auto simp: integration_inv_def)
    then show ?thesis using r by (force simp: set_tbl_update)
  qed
  let ?ss = "if in_id e \<noteq> in_id ?v then tbl_update (\<lambda>s. as_integration s = in_id e)
    (\<lambda>s. s\<lparr>as_integration := in_id ?v, as_updated_at := t\<rparr>) (idb_sessions db) else idb_sessions db"
  have "as_integration s = in_id ?v \<or> (\<exists>r\<in>set (idb_integrations db). in_id r = as_integration s \<and> in_id r \<noteq> in_id e)"
    if h: "s \<in> set ?ss" for s
  proof -
    have old: "\<exists>r\<in>set (idb_integrations db). in_id r = as_integration s'" if "s' \<in> set (idb_sessions db)" for s'
      using assms(1) that by (auto simp: integration_inv_def sessions_known_iff)
    have "(s \<in> set (idb_sessions db) \<and> (as_integration s \<noteq> in_id e \<or> in_id e = in_id ?v)) \<or>
        as_integration s = in_id ?v"
    proof (cases "in_id e = in_id ?v")
      case False
      then obtain s0 where "s0 \<in> set (idb_sessions db)" "s = (if as_integration s0 = in_id e
          then s0\<lparr>as_integration := in_id ?v, as_updated_at := t\<rparr> else s0)"
        using h by (auto simp: tbl_update_def)
      then show ?thesis by (cases "as_integration s0 = in_id e") simp_all
    qed (use h in simp)
    then consider "s \<in> set (idb_sessions db)" "as_integration s \<noteq> in_id e \<or> in_id e = in_id ?v"
      | "as_integration s = in_id ?v" by blast
    then show ?thesis
    proof cases
      case 1
      obtain r where "r \<in> set (idb_integrations db)" "in_id r = as_integration s" using old [OF 1(1)] by blast
      then show ?thesis using 1(2) by (cases "as_integration s = in_id e") auto
    qed simp
  qed
  then have "sessions_known (tbl_update (\<lambda>r. in_source r = in_source ?v) (stored_integration t v) (idb_integrations db)) ?ss"
    using known unfolding sessions_known_iff by blast
  then show ?thesis using assms(2) unfolding upsertIntegrationState_def Let_def Some
    by (auto simp: stored_integration_def [abs_def] list_ex_iff split: if_split_asm)
qed

lemma sessions_known_update:
  assumes "sessions_known rows ss" "\<And>r. in_id (f r) = in_id r"
  shows "sessions_known (tbl_update P f rows) ss"
proof -
  have "\<exists>r\<in>set (tbl_update P f rows). in_id r = as_integration s" if h: "s \<in> set ss" for s
  proof -
    obtain r where "r \<in> set rows" "in_id r = as_integration s" using assms(1) h by (auto simp: sessions_known_iff)
    then show ?thesis using assms(2)
      by (intro bexI [of _ "if P r then f r else r"]) (auto simp: tbl_update_def)
  qed
  then show ?thesis by (simp add: sessions_known_iff)
qed

lemma sessions_known_same:
  "sessions_known rows ss \<Longrightarrow> (\<And>s. as_integration (g s) = as_integration s) \<Longrightarrow> sessions_known rows (tbl_update Q g ss)"
  by (auto simp: sessions_known_iff set_tbl_update)

lemma integration_step_inv: "integration_step db db' \<Longrightarrow> integration_inv db \<Longrightarrow> integration_inv db'"
proof (induction rule: integration_step.induct)
  case (upsert t v db db')
  then show ?case by (rule upsert_inv)
next
  case (enable t p a e db db')
  then show ?case
    by (auto simp: setIntegrationEnabled_def integration_inv_def in_source_def
        split: if_split_asm intro!: keyed_update sessions_known_update)
next
  case (delete db p a)
  have "\<exists>r\<in>set (idb_integrations db). in_source r \<noteq> (p, a) \<and> in_id r = as_integration s"
    if h: "s \<in> set (idb_sessions db)" "\<not> tbl_has in_id (as_integration s)
      (filter (\<lambda>r. in_source r = (p, a)) (idb_integrations db))" for s
  proof -
    obtain r where "r \<in> set (idb_integrations db)" "in_id r = as_integration s"
      using delete h(1) by (auto simp: integration_inv_def sessions_known_iff)
    then show ?thesis using h(2) by (auto simp: tbl_has_def list_ex_iff)
  qed
  then show ?case using delete
    by (auto simp: deleteIntegrationState_def Let_def integration_inv_def sessions_known_iff
        intro!: keyed_delete)
next
  case (create t u i p a q st r res e db s db')
  then show ?case
    by (auto simp: createAuthSession_def Let_def integration_inv_def keyed_append_one sessions_known_def
        split: if_split_asm)
next
  case (update t s st pid b f ks ka res e db db')
  then show ?case
    by (auto simp: updateAuthSessionState_def integration_inv_def split: option.split_asm
        intro!: keyed_update sessions_known_same)
next
  case (identity t s a q db db')
  then show ?case
    by (auto simp: updateAuthSessionIdentity_def integration_inv_def sessions_known_iff set_tbl_update
        tbl_has_def list_ex_iff split: option.split_asm if_split_asm intro!: keyed_update) blast
qed


subsection \<open>Source accounts and checkpoints\<close>

datatype source_mode = FullSync | IncrementalSync

record account_row =
  sa_id :: string
  sa_platform :: platform
  sa_account :: string
  sa_display_name :: "string option"
  sa_status :: string
  sa_metadata :: "string option"
  sa_created_at :: int
  sa_updated_at :: int

record checkpoint_row =
  cp_id :: string
  cp_platform :: platform
  cp_account :: string
  cp_cursor :: "json option"
  cp_raw_watermark :: int
  cp_mode :: source_mode
  cp_last_full_sync :: "int option"
  cp_last_success :: "int option"
  cp_last_error_at :: "int option"
  cp_last_error :: "string option"
  cp_created_at :: int
  cp_updated_at :: int

record account_input =
  ai_platform :: platform
  ai_account :: string
  ai_display_name :: "string option"
  ai_status :: "string option"
  ai_metadata :: "string option"

definition sa_source :: "account_row \<Rightarrow> platform \<times> string" where
  "sa_source r = (sa_platform r, sa_account r)"

definition cp_source :: "checkpoint_row \<Rightarrow> platform \<times> string" where
  "cp_source r = (cp_platform r, cp_account r)"

definition account_values :: "int \<Rightarrow> account_input \<Rightarrow> account_row" where
  "account_values timestamp input =
     \<lparr>sa_id = source_key (platform_name (ai_platform input)) (ai_account input),
      sa_platform = ai_platform input, sa_account = ai_account input,
      sa_display_name = ai_display_name input, sa_status = get_or (ai_status input) ''active'',
      sa_metadata = ai_metadata input, sa_created_at = timestamp, sa_updated_at = timestamp\<rparr>"

definition upsertSourceAccount :: "int \<Rightarrow> account_input \<Rightarrow> account_row list \<Rightarrow> db_error + account_row list" where
  "upsertSourceAccount timestamp input rows =
     (let v = account_values timestamp input in
      tbl_upsert_pk sa_id sa_source v
        (\<lambda>r. r\<lparr>sa_display_name := sa_display_name v, sa_status := sa_status v,
               sa_metadata := sa_metadata v, sa_updated_at := sa_updated_at v\<rparr>) rows)"

fun upsert_accounts :: "int \<Rightarrow> account_input list \<Rightarrow> account_row list \<Rightarrow> db_error + account_row list" where
  "upsert_accounts timestamp [] rows = Inr rows"
| "upsert_accounts timestamp (i # is) rows =
     ebind (upsertSourceAccount timestamp i rows) (upsert_accounts timestamp is)"

fun upsert_account_chunks ::
  "int \<Rightarrow> account_input list list \<Rightarrow> account_row list \<Rightarrow> db_error + account_row list" where
  "upsert_account_chunks timestamp [] rows = Inr rows"
| "upsert_account_chunks timestamp (c # cs) rows =
     ebind (upsert_accounts timestamp c rows) (upsert_account_chunks timestamp cs)"

text \<open>\<open>WRITE_BATCH_SIZE\<close> is 250; each chunk is one statement, which takes its rows in order.\<close>

definition upsertSourceAccounts ::
  "int \<Rightarrow> account_input list \<Rightarrow> account_row list \<Rightarrow> db_error + account_row list" where
  "upsertSourceAccounts timestamp inputs rows =
     (if inputs = [] then Inr rows
      else upsert_account_chunks timestamp (chunkArray inputs 250) rows)"

definition getSourceAccountDisplayName :: "platform \<Rightarrow> string \<Rightarrow> account_row list \<Rightarrow> string option" where
  "getSourceAccountDisplayName platform accountKey rows =
     Option.bind (tbl_get sa_source (platform, accountKey) rows) sa_display_name"

definition checkpoint_values ::
  "int \<Rightarrow> platform \<Rightarrow> string \<Rightarrow> source_mode \<Rightarrow> json option \<Rightarrow> int option \<Rightarrow> int option \<Rightarrow>
   string option \<Rightarrow> checkpoint_row" where
  "checkpoint_values timestamp platform accountKey mode cursor watermark lastSuccessAt lastError =
     \<lparr>cp_id = source_key (platform_name platform) accountKey, cp_platform = platform,
      cp_account = accountKey, cp_cursor = safeStringifyJson cursor, cp_raw_watermark = get_or watermark 0,
      cp_mode = mode, cp_last_full_sync = lastSuccessAt, cp_last_success = lastSuccessAt,
      cp_last_error_at = None, cp_last_error = lastError,
      cp_created_at = timestamp, cp_updated_at = timestamp\<rparr>"

definition upsertCheckpoint ::
  "int \<Rightarrow> platform \<Rightarrow> string \<Rightarrow> source_mode \<Rightarrow> json option \<Rightarrow> int option \<Rightarrow> int option \<Rightarrow>
   string option \<Rightarrow> checkpoint_row list \<Rightarrow> db_error + checkpoint_row list" where
  "upsertCheckpoint timestamp platform accountKey mode cursor watermark lastSuccessAt lastError rows =
     (let v = checkpoint_values timestamp platform accountKey mode cursor watermark lastSuccessAt lastError in
      tbl_upsert_pk cp_id cp_source v
        (\<lambda>r. r\<lparr>cp_cursor := cp_cursor v, cp_raw_watermark := cp_raw_watermark v, cp_mode := mode,
               cp_last_full_sync := (if mode = FullSync then cp_last_success v else cp_last_full_sync r),
               cp_last_success := cp_last_success v, cp_last_error := cp_last_error v,
               cp_updated_at := cp_updated_at v\<rparr>) rows)"

definition recordCheckpointError ::
  "int \<Rightarrow> int \<Rightarrow> platform \<Rightarrow> string \<Rightarrow> string \<Rightarrow> checkpoint_row list \<Rightarrow> checkpoint_row list" where
  "recordCheckpointError now1 now2 platform accountKey errorSummary rows =
     tbl_update (\<lambda>r. cp_source r = (platform, accountKey))
       (\<lambda>r. r\<lparr>cp_last_error_at := Some now1, cp_last_error := Some errorSummary, cp_updated_at := now2\<rparr>) rows"

definition getCheckpoint :: "platform \<Rightarrow> string \<Rightarrow> checkpoint_row list \<Rightarrow> checkpoint_row option" where
  "getCheckpoint platform accountKey rows = tbl_get cp_source (platform, accountKey) rows"

definition listCheckpointSummary :: "checkpoint_row list \<Rightarrow> checkpoint_row list" where
  "listCheckpointSummary rows = sort_key cp_source rows"

subsection \<open>Properties\<close>

text \<open>
  C18: renaming the stored id of an integration never orphans a session. The upsert of an integration
  fails only when another source's row holds the id \<open>platform:account\<close>; otherwise no id, no source and
  no session is doubled, and every session still refers to an integration of the source it
  referred to before, under the new id if the old row had another one.
\<close>

theorem upsert_keeps_sessions:
  assumes "integration_inv db"
  shows "case upsertIntegrationState t v db of
     Inl e \<Rightarrow> e = IntegrationDb UniqueViolation \<and>
       (\<exists>r\<in>set (idb_integrations db). in_id r = source_key (ii_platform v) (ii_account v) \<and>
          in_source r \<noteq> (ii_platform v, ii_account v))
   | Inr db' \<Rightarrow> integration_inv db' \<and>
       getIntegrationState (ii_platform v) (ii_account v) db' \<noteq> None \<and>
       (\<forall>s\<in>set (idb_sessions db). \<forall>r\<in>set (idb_integrations db). as_integration s = in_id r \<longrightarrow>
          (\<exists>s'\<in>set (idb_sessions db'). as_id s' = as_id s \<and> as_state s' = as_state s \<and>
             (\<exists>r'\<in>set (idb_integrations db'). in_id r' = as_integration s' \<and> in_source r' = in_source r)))"
proof (cases "upsertIntegrationState t v db")
  case (Inl err)
  let ?v = "integration_values t v"
  have src: "in_source ?v = (ii_platform v, ii_account v)"
    "in_id ?v = source_key (ii_platform v) (ii_account v)"
    by (simp_all add: in_source_def integration_values_def)
  show ?thesis
    using Inl upsert_fails [OF assms, of t v] by (simp add: src)
next
  case (Inr db')
  let ?v = "integration_values t v"
  have src: "in_source ?v = (ii_platform v, ii_account v)"
    by (simp add: in_source_def integration_values_def)
  have found: "getIntegrationState (ii_platform v) (ii_account v) db' \<noteq> None"
  proof -
    have "tbl_has in_source (in_source ?v) (idb_integrations db')"
      using Inr by (cases rule: upsert_cases) (auto simp: tbl_has_def list_ex_iff set_tbl_update)
    then show ?thesis unfolding getIntegrationState_def src tbl_get_None_iff by simp
  qed
  have "\<exists>s'\<in>set (idb_sessions db'). as_id s' = as_id s \<and> as_state s' = as_state s \<and>
      (\<exists>r'\<in>set (idb_integrations db'). in_id r' = as_integration s' \<and> in_source r' = in_source r)"
    if s: "s \<in> set (idb_sessions db)" "r \<in> set (idb_integrations db)" "as_integration s = in_id r" for s r
    using Inr
  proof (cases rule: upsert_cases)
    case inserted
    then show ?thesis using s by fastforce
  next
    case (rewritten e)
    show ?thesis
    proof (cases "in_source r = in_source ?v")
      case True
      have "r = e" using assms s(2) rewritten(1,2) True keyed_unique [of in_source] by (metis integration_inv_def)
      let ?s = "s\<lparr>as_integration := in_id ?v,
        as_updated_at := (if in_id e = in_id ?v then as_updated_at s else t)\<rparr>"
      have "?s \<in> set (idb_sessions db')" unfolding rewritten(5) set_tbl_update
        using s(1,3) \<open>r = e\<close> by (intro CollectI exI [of _ s]) simp
      moreover have "stored_integration t v e \<in> set (idb_integrations db')" unfolding rewritten(4) set_tbl_update
        using rewritten(1,2) by (intro CollectI exI [of _ e]) simp
      ultimately show ?thesis using \<open>r = e\<close>
        by (intro bexI [of _ ?s] conjI bexI [of _ "stored_integration t v e"]) simp_all
    next
      case False
      then have "in_id r \<noteq> in_id e"
        using assms s(2) rewritten(1,2) keyed_unique [of in_id "idb_integrations db"] by (metis integration_inv_def)
      then have "s \<in> set (idb_sessions db')" unfolding rewritten(5) using s by (force simp: set_tbl_update)
      moreover have "r \<in> set (idb_integrations db')" unfolding rewritten(4) using s(2) False by (force simp: set_tbl_update)
      ultimately show ?thesis using s(3) by metis
    qed
  qed
  then show ?thesis using Inr found upsert_inv [OF Inr assms] by simp
qed


definition demo_integration :: integration_input where
  "demo_integration = \<lparr>ii_platform = ''slack'', ii_account = ''work'', ii_display_name = None,
     ii_auth_state = AsAuthenticated, ii_enabled = None, ii_connection = BrowserSession,
     ii_sync_capable = Some True, ii_launch_strategy = None, ii_launch_target = None,
     ii_imported_from = None, ii_artifact_paths = None, ii_metadata = None\<rparr>"

text \<open>A database an older version left: the integration of \<open>slack:work\<close> under another id.\<close>

definition legacy_integrations :: integration_db where
  "legacy_integrations = \<lparr>idb_integrations = [(integration_values 1 demo_integration)\<lparr>in_id := ''legacy''\<rparr>],
     idb_sessions = [\<lparr>as_id = ''s1'', as_platform = ''slack'', as_account = ''work'', as_integration = ''legacy'',
        as_state = SsAuthenticated, as_native_pid = None, as_requested_at = 1, as_started_at = None,
        as_finished_at = None, as_keychain_service = None, as_keychain_account = None, as_result = None,
        as_error = None, as_created_at = 1, as_updated_at = 1\<rparr>]\<rparr>"

theorem upsert_keeps_sessions_witness:
  "\<exists>db'. upsertIntegrationState 9 demo_integration legacy_integrations = Inr db' \<and> integration_inv db' \<and>
     (\<exists>s'\<in>set (idb_sessions db'). as_id s' = ''s1'')"
proof -
  let ?v = "integration_values 1 demo_integration"
  have inv: "integration_inv legacy_integrations"
    by (simp add: integration_inv_def legacy_integrations_def keyed_def sessions_known_def)
  have src: "in_source ?v = (ii_platform demo_integration, ii_account demo_integration)"
    by (simp add: in_source_def integration_values_def)
  have "\<not> (\<exists>r\<in>set (idb_integrations legacy_integrations).
      in_source r \<noteq> (ii_platform demo_integration, ii_account demo_integration))"
    using src by (simp add: legacy_integrations_def in_source_def)
  then obtain db' where db': "upsertIntegrationState 9 demo_integration legacy_integrations = Inr db'"
    using upsert_keeps_sessions [OF inv, where t = 9 and v = demo_integration] by (auto split: sum.split_asm)
  have "\<exists>s\<in>set (idb_sessions legacy_integrations). \<exists>r\<in>set (idb_integrations legacy_integrations).
      as_id s = ''s1'' \<and> as_integration s = in_id r"
    by (simp add: legacy_integrations_def)
  then show ?thesis using upsert_keeps_sessions [OF inv, where t = 9 and v = demo_integration] db' by force
qed

end
