(* ===== verification/RunQueue.thy ===== *)
theory RunQueue
  imports SyncRuns Integrations
begin

text \<open>
  \<open>RunQueueService\<close> of \<^verbatim>\<open>src/runtime/run-queue.ts\<close>: queueing a manual sync of a source, resuming
  targets and rebuilding, on top of the run store (\<open>SyncRuns\<close>) and the integrations
  (\<open>Integrations\<close>). \<open>clock\<close> and \<open>fresh\<close> give the time and the random id of the \<open>k\<close>-th run
  queued in a call. The wake-up callbacks are part of the result.
\<close>

subsection \<open>The run store as an interface\<close>

text \<open>
  A client that queues a run for every target that has none active.
\<close>

fun queue_idle ::
  "('d \<Rightarrow> 't \<Rightarrow> bool) \<Rightarrow> (nat \<Rightarrow> 't \<Rightarrow> 'd \<Rightarrow> 'e + 'r \<times> 'd) \<Rightarrow> nat \<Rightarrow> 't list \<Rightarrow> 'd \<Rightarrow> 'e + 'r list \<times> 'd" where
  "queue_idle active queue k [] d = Inr ([], d)"
| "queue_idle active queue k (t # ts) d =
     (if active d t then queue_idle active queue k ts d
      else ebind (queue k t d) (\<lambda>(r, d').
             ebind (queue_idle active queue (Suc k) ts d') (\<lambda>(rs, d''). Inr (r # rs, d''))))"

locale run_store =
  fixes active :: "'d \<Rightarrow> 't \<Rightarrow> bool"
    and queue :: "nat \<Rightarrow> 't \<Rightarrow> 'd \<Rightarrow> 'e + 'r \<times> 'd"
    and active_runs :: "'d \<Rightarrow> 't \<Rightarrow> nat"
  assumes active_iff: "active d t \<longleftrightarrow> 0 < active_runs d t"
    and queue_adds: "queue k t d = Inr (r, d') \<Longrightarrow>
      active_runs d' u = active_runs d u + (if u = t then 1 else 0)"
begin

lemma queue_idle_runs:
  assumes "queue_idle active queue k ts d = Inr (rs, d')"
  shows "active_runs d' u = (if u \<in> set ts then max 1 (active_runs d u) else active_runs d u)"
  using assms
proof (induction ts arbitrary: k d rs)
  case Nil
  then show ?case by simp
next
  case (Cons t ts)
  show ?case
  proof (cases "active d t")
    case True
    then show ?thesis using Cons.IH [of k d rs] Cons.prems active_iff [of d t] by auto
  next
    case False
    then obtain r d1 rs' where q: "queue k t d = Inr (r, d1)"
      "queue_idle active queue (Suc k) ts d1 = Inr (rs', d')"
      using Cons.prems by (auto simp: ebind_eq_Inr_iff)
    then show ?thesis using Cons.IH [OF q(2)] queue_adds [OF q(1), of u] active_iff [of d t] False by auto
  qed
qed

lemma queue_idle_single:
  assumes "queue_idle active queue k ts d = Inr (rs, d')" "\<And>t. active_runs d t \<le> 1"
  shows "active_runs d' u \<le> 1" and "u \<in> set ts \<Longrightarrow> active_runs d' u = 1"
  using queue_idle_runs [OF assms(1), of u] assms(2) [of u] by auto

end

subsection \<open>Target keys\<close>

definition js_set_list :: "'a list \<Rightarrow> 'a list" where
  "js_set_list xs = rev (remdups (rev xs))"

lemma set_js_set_list [simp]: "set (js_set_list xs) = set xs"
  by (simp add: js_set_list_def)

lemma distinct_js_set_list [simp]: "distinct (js_set_list xs)"
  by (simp add: js_set_list_def)

definition index_of :: "char \<Rightarrow> string \<Rightarrow> int" where
  "index_of c s = (if c \<in> set s then int (length (takeWhile (\<lambda>x. x \<noteq> c) s)) else -1)"

definition parseRunTargetKey :: "string \<Rightarrow> (platform \<times> string) option" where
  "parseRunTargetKey targetKey =
     (let separatorIndex = index_of CHR '':'' targetKey in
      if separatorIndex \<le> 0 \<or> int (length targetKey) - 1 \<le> separatorIndex then None
      else let platform = take (nat separatorIndex) targetKey;
               accountKey = drop (nat separatorIndex + 1) targetKey
           in if \<not> isAdapterPlatform platform \<or> accountKey = [] then None
              else map_option (\<lambda>p. (p, accountKey)) (parsePlatform platform))"

lemma platform_name_plain: "CHR '':'' \<notin> set (platform_name p)" "platform_name p \<noteq> []"
  by (cases p; simp)+

lemma takeWhile_source_key: "takeWhile (\<lambda>x. x \<noteq> CHR '':'') (source_key (platform_name p) a) = platform_name p"
  by (cases p) (simp_all add: source_key_def)

lemma parse_source_key: "parseRunTargetKey (source_key (platform_name p) a) = (if a = [] then None else Some (p, a))"
proof -
  have "index_of CHR '':'' (source_key (platform_name p) a) = int (length (platform_name p))"
    unfolding index_of_def takeWhile_source_key by (simp add: source_key_def)
  moreover have "isAdapterPlatform (platform_name p)" by (simp add: isAdapterPlatform_iff isPlatform_iff)
  ultimately show ?thesis
    using platform_name_plain(2) [of p]
    by (cases a) (simp_all add: parseRunTargetKey_def Let_def source_key_def)
qed

lemma parse_target_SomeD:
  assumes "parseRunTargetKey s = Some (p, a)"
  shows "s = source_key (platform_name p) a \<and> a \<noteq> []"
proof -
  let ?i = "index_of CHR '':'' s"
  have i: "0 < ?i" "?i < int (length s) - 1" and p: "parsePlatform (take (nat ?i) s) = Some p"
    and a: "a = drop (nat ?i + 1) s" "a \<noteq> []"
    using assms by (auto simp: parseRunTargetKey_def Let_def split: if_split_asm)
  then have in_s: "CHR '':'' \<in> set s" by (auto simp: index_of_def split: if_split_asm)
  then have "nat ?i = length (takeWhile (\<lambda>x. x \<noteq> CHR '':'') s)" by (simp add: index_of_def)
  moreover have "dropWhile (\<lambda>x. x \<noteq> CHR '':'') s \<noteq> []" using in_s by (auto simp: dropWhile_eq_Nil_conv)
  then have "dropWhile (\<lambda>x. x \<noteq> CHR '':'') s = CHR '':'' # tl (dropWhile (\<lambda>x. x \<noteq> CHR '':'') s)"
    using hd_dropWhile [of "\<lambda>x. x \<noteq> CHR '':''" s] by (cases "dropWhile (\<lambda>x. x \<noteq> CHR '':'') s") auto
  ultimately have "s = take (nat ?i) s @ CHR '':'' # drop (nat ?i + 1) s"
    by (metis append_take_drop_id drop_Suc_Cons Suc_eq_plus1 dropWhile_eq_drop drop_Suc tl_drop)
  then show ?thesis using parsePlatform_SomeD [OF p] a by (simp add: source_key_def)
qed


subsection \<open>The service\<close>

record queue_db =
  qdb_runs :: run_db
  qdb_integrations :: integration_db

datatype wake = WakeIngest | WakeProjection

datatype queue_error = UnsupportedSyncSource | QueueDb db_error

record queue_result =
  qr_queued :: bool
  qr_run_id :: "string option"
  qr_run_ids :: "string list"
  qr_targets :: "string list"
  qr_wake :: "wake list"

definition listManualSyncTargets :: "platform \<Rightarrow> integration_db \<Rightarrow> string list" where
  "listManualSyncTargets source db =
     (let syncCapableTargets = map (\<lambda>(p, a). source_key p a)
            (filter (\<lambda>(p, a). isAdapterPlatform p \<and> p = platform_name source) (listEnabledSyncTargets db))
      in if syncCapableTargets \<noteq> [] then js_set_list syncCapableTargets
         else js_set_list (map (\<lambda>r. source_key (in_platform r) (in_account r))
           (filter (\<lambda>r. in_platform r = platform_name source \<and> in_enabled r \<and>
               (in_auth_state r = AsAuthenticated \<or> in_auth_state r = AsAuthorized))
             (listIntegrationStates db))))"

definition source_details :: "string \<Rightarrow> string \<Rightarrow> json" where
  "source_details source accountKey =
     JObj [(''source'', JStr source), (''accountKey'', JStr accountKey)]"

definition target_input :: "run_type \<Rightarrow> platform \<times> string \<Rightarrow> run_input" where
  "target_input runType target =
     \<lparr>ri_platform = Some (fst target), ri_account = Some (snd target), ri_type = runType,
      ri_trigger = ''cli'', ri_details = Some (source_details (platform_name (fst target)) (snd target)),
      ri_scheduled_at = None, ri_delay_ms = None\<rparr>"

definition target_active :: "run_db \<Rightarrow> platform \<times> string \<Rightarrow> bool" where
  "target_active db target = hasQueuedOrRunningRun (fst target) (Some (snd target)) db"

definition queue_target ::
  "(nat \<Rightarrow> int) \<Rightarrow> (nat \<Rightarrow> string) \<Rightarrow> run_type \<Rightarrow> nat \<Rightarrow> platform \<times> string \<Rightarrow> run_db \<Rightarrow>
   db_error + string \<times> run_db" where
  "queue_target clock fresh runType k target db =
     db_queueSyncRun (clock k) (fresh k) (target_input runType target) db"

definition queueSyncResume ::
  "(nat \<Rightarrow> int) \<Rightarrow> (nat \<Rightarrow> string) \<Rightarrow> (platform \<times> string) list \<Rightarrow> run_db \<Rightarrow>
   queue_error + queue_result \<times> run_db" where
  "queueSyncResume clock fresh targets db =
     (let uniqueTargets = js_set_list (map (\<lambda>(p, a). source_key (platform_name p) a) targets) in
      case queue_idle target_active (queue_target clock fresh RtSyncResume) 0
             (List.map_filter parseRunTargetKey uniqueTargets) db of
        Inl e \<Rightarrow> Inl (QueueDb e)
      | Inr (runIds, db') \<Rightarrow>
          Inr (\<lparr>qr_queued = (runIds \<noteq> []), qr_run_id = None, qr_run_ids = runIds,
                qr_targets = uniqueTargets, qr_wake = (if runIds \<noteq> [] then [WakeIngest] else [])\<rparr>, db'))"

definition idle_targets :: "run_db \<Rightarrow> string list \<Rightarrow> string list" where
  "idle_targets db targets =
     filter (\<lambda>k. case parseRunTargetKey k of None \<Rightarrow> False | Some t \<Rightarrow> \<not> target_active db t) targets"

definition desktop_details :: "string \<Rightarrow> json" where
  "desktop_details accountKey = source_details ''whatsapp_desktop'' accountKey"

definition queue_plain ::
  "int \<Rightarrow> string \<Rightarrow> string option \<Rightarrow> queue_db \<Rightarrow> queue_error + queue_result \<times> queue_db" where
  "queue_plain now uuid source db =
     (case db_queueSyncRun now uuid
         \<lparr>ri_platform = Option.bind source parsePlatform, ri_account = None, ri_type = RtSync,
          ri_trigger = ''cli'',
          ri_details = Some (JObj [(''source'', case source of None \<Rightarrow> JNull | Some s \<Rightarrow> JStr s)]),
          ri_scheduled_at = None, ri_delay_ms = None\<rparr> (qdb_runs db) of
        Inl e \<Rightarrow> Inl (QueueDb e)
      | Inr (runId, runs) \<Rightarrow>
          Inr (\<lparr>qr_queued = True, qr_run_id = Some runId, qr_run_ids = [runId],
                qr_targets = (case source of Some (c # cs) \<Rightarrow> [c # cs] | _ \<Rightarrow> []),
                qr_wake = [WakeIngest]\<rparr>, db\<lparr>qdb_runs := runs\<rparr>))"

definition queue_desktop :: "int \<Rightarrow> string \<Rightarrow> queue_db \<Rightarrow> queue_error + queue_result \<times> queue_db" where
  "queue_desktop now uuid db =
     (let accountKey = getDefaultAccountKeyForPlatform WhatsApp in
      if target_active (qdb_runs db) (WhatsApp, accountKey) then
        Inr (\<lparr>qr_queued = False, qr_run_id = None, qr_run_ids = [],
              qr_targets = [''whatsapp-desktop''], qr_wake = []\<rparr>, db)
      else case db_queueSyncRun now uuid
          ((target_input RtSync (WhatsApp, accountKey))\<lparr>ri_details := Some (desktop_details accountKey)\<rparr>)
          (qdb_runs db) of
            Inl e \<Rightarrow> Inl (QueueDb e)
          | Inr (runId, runs) \<Rightarrow>
              Inr (\<lparr>qr_queued = True, qr_run_id = Some runId, qr_run_ids = [runId],
                    qr_targets = [''whatsapp-desktop''], qr_wake = [WakeIngest]\<rparr>, db\<lparr>qdb_runs := runs\<rparr>))"

definition queue_manual ::
  "int \<Rightarrow> (nat \<Rightarrow> string) \<Rightarrow> string list \<Rightarrow> queue_db \<Rightarrow> queue_error + queue_result \<times> queue_db" where
  "queue_manual now fresh targets db =
     (let queuedTargets = idle_targets (qdb_runs db) targets;
          runInputs = map (target_input RtSync) (List.map_filter parseRunTargetKey queuedTargets)
      in case db_queueSyncRuns now (map fresh [0..<length runInputs]) runInputs (qdb_runs db) of
           Inl e \<Rightarrow> Inl (QueueDb e)
         | Inr (runIds, runs) \<Rightarrow>
             Inr (\<lparr>qr_queued = (runIds \<noteq> []),
                   qr_run_id = (case runIds of [] \<Rightarrow> None | i # _ \<Rightarrow> Some i),
                   qr_run_ids = runIds, qr_targets = queuedTargets,
                   qr_wake = (if runIds \<noteq> [] then [WakeIngest] else [])\<rparr>,
                  db\<lparr>qdb_runs := runs\<rparr>))"

text \<open>The empty text is falsy, so an empty source is no source.\<close>

definition queueSyncRun ::
  "int \<Rightarrow> (nat \<Rightarrow> string) \<Rightarrow> string option \<Rightarrow> queue_db \<Rightarrow> queue_error + queue_result \<times> queue_db" where
  "queueSyncRun now fresh source db =
     (if source = Some ''whatsapp-desktop'' then queue_desktop now (fresh 0) db
      else if source = None \<or> source = Some [] then queue_plain now (fresh 0) source db
      else if \<not> isAdapterPlatform (the source) then Inl UnsupportedSyncSource
      else let targets = listManualSyncTargets (the (parsePlatform (the source))) (qdb_integrations db)
           in if targets = [] then queue_plain now (fresh 0) source db
              else queue_manual now fresh targets db)"

lemma queueSyncRun_platform:
  "queueSyncRun now fresh (Some (platform_name p)) db =
     (let targets = listManualSyncTargets p (qdb_integrations db)
      in if targets = [] then queue_plain now (fresh 0) (Some (platform_name p)) db
         else queue_manual now fresh targets db)"
proof -
  have "platform_name p \<noteq> ''whatsapp-desktop''" "platform_name p \<noteq> []" by (cases p; simp)+
  moreover have "isAdapterPlatform (platform_name p)" by (simp add: isAdapterPlatform_iff isPlatform_iff)
  ultimately show ?thesis by (simp add: queueSyncRun_def)
qed

definition queueRebuild :: "int \<Rightarrow> string \<Rightarrow> run_db \<Rightarrow> queue_error + queue_result \<times> run_db" where
  "queueRebuild now uuid db =
     (case db_queueSyncRun now uuid
         \<lparr>ri_platform = None, ri_account = None, ri_type = RtRebuild, ri_trigger = ''cli'',
          ri_details = Some (JObj [(''trigger'', JStr ''cli'')]), ri_scheduled_at = None, ri_delay_ms = None\<rparr> db of
        Inl e \<Rightarrow> Inl (QueueDb e)
      | Inr (runId, runs) \<Rightarrow>
          Inr (\<lparr>qr_queued = True, qr_run_id = Some runId, qr_run_ids = [runId], qr_targets = [],
                qr_wake = [WakeProjection]\<rparr>, runs))"

subsection \<open>The run store provides the interface\<close>

definition active_run :: "platform \<times> string \<Rightarrow> sync_run \<Rightarrow> bool" where
  "active_run target r \<longleftrightarrow> run_platform r = Some (fst target) \<and> run_account r = Some (snd target) \<and>
     (run_status r = Queued \<or> run_status r = Ingesting)"

definition active_count :: "run_db \<Rightarrow> platform \<times> string \<Rightarrow> nat" where
  "active_count db target = length (filter (active_run target) (rdb_runs db))"

lemma target_active_count: "target_active db t \<longleftrightarrow> 0 < active_count db t"
  by (auto simp: target_active_def hasQueuedOrRunningRun_def active_count_def active_run_def
      list_ex_iff filter_empty_conv)

lemma active_run_queued:
  "active_run u (queued_run t i (target_input ty target)) \<longleftrightarrow> u = target"
  by (cases u; cases target) (auto simp: active_run_def queued_run_def target_input_def)

interpretation resume: run_store target_active "queue_target clock fresh ty" active_count
  for clock :: "nat \<Rightarrow> int" and fresh :: "nat \<Rightarrow> string" and ty :: run_type
proof
  show "target_active d t \<longleftrightarrow> 0 < active_count d t" for d t by (rule target_active_count)
  show "queue_target clock fresh ty k t d = Inr (r, d') \<Longrightarrow>
      active_count d' u = active_count d u + (if u = t then 1 else 0)" for k t d r d' u
    unfolding queue_target_def
    by (drule db_queueSyncRun_runs) (simp add: active_count_def active_run_queued)
qed

subsection \<open>Properties\<close>

text \<open>
  C27: target keys round-trip. A key parses to a platform and an account exactly when it is what
  \<open>platform:account\<close> prints for them with a non-empty account, whatever colons the account has.
\<close>

theorem target_key_roundtrip:
  "parseRunTargetKey s = Some (p, a) \<longleftrightarrow> s = source_key (platform_name p) a \<and> a \<noteq> []"
  using parse_target_SomeD [of s p a] parse_source_key [of p a] by auto

lemma target_key_parse_iff:
  "parseRunTargetKey (source_key (platform_name p) a) = Some t \<longleftrightarrow> t = (p, a) \<and> a \<noteq> []"
  by (auto simp: parse_source_key)

lemma resume_targets:
  "set (List.map_filter parseRunTargetKey (js_set_list (map (\<lambda>(p, a). source_key (platform_name p) a) targets))) =
     {(p, a). (p, a) \<in> set targets \<and> a \<noteq> []}"
  by (force simp: mem_map_filter target_key_parse_iff split: prod.splits)

definition single_active :: "run_db \<Rightarrow> bool" where
  "single_active db \<longleftrightarrow> (\<forall>t. active_count db t \<le> 1)"

lemma single_activeD: "single_active db \<Longrightarrow> active_count db t \<le> 1"
  unfolding single_active_def by blast

lemma single_activeI: "(\<And>t. active_count db t \<le> 1) \<Longrightarrow> single_active db"
  unfolding single_active_def by blast

text \<open>
  C16: resuming never doubles a sync. If no target had two runs queued or ingesting, none has after
  \<open>queueSyncResume\<close>; every target asked for with a non-empty account then has exactly one,
  every other target keeps what it had, and the ingest worker is woken exactly when a run was queued.
\<close>

theorem resume_queues_one_per_target:
  assumes "single_active db" and "queueSyncResume clock fresh targets db = Inr (res, db')"
  shows "single_active db' \<and>
    (\<forall>t. active_count db' t = (if t \<in> set targets \<and> snd t \<noteq> [] then 1 else active_count db t)) \<and>
    (qr_queued res \<longleftrightarrow> qr_wake res = [WakeIngest]) \<and> (qr_queued res \<longleftrightarrow> qr_run_ids res \<noteq> [])"
proof -
  let ?ts = "List.map_filter parseRunTargetKey
    (js_set_list (map (\<lambda>(p, a). source_key (platform_name p) a) targets))"
  obtain ids where q: "queue_idle target_active (queue_target clock fresh RtSyncResume) 0 ?ts db = Inr (ids, db')"
    and res: "qr_queued res = (ids \<noteq> [])" "qr_run_ids res = ids" "qr_wake res = (if ids \<noteq> [] then [WakeIngest] else [])"
    using assms(2) by (auto simp: queueSyncResume_def Let_def split: sum.split_asm)
  have le: "active_count db t \<le> 1" for t using assms(1) by (rule single_activeD)
  have mem: "t \<in> set ?ts \<longleftrightarrow> t \<in> set targets \<and> snd t \<noteq> []" for t
    unfolding resume_targets by (cases t) simp
  have cnt: "active_count db' t = (if t \<in> set targets \<and> snd t \<noteq> [] then 1 else active_count db t)" for t
    using resume.queue_idle_runs [OF q, of t] le [of t] mem [of t] by auto
  then have "single_active db'" using le by (intro single_activeI) auto
  then show ?thesis using cnt res by simp
qed

definition demo_clock :: "nat \<Rightarrow> int" where "demo_clock k = 100 + int k"

definition demo_fresh :: "nat \<Rightarrow> string" where "demo_fresh k = ''run'' @ dec_nat k"

lemma demo_single: "single_active \<lparr>rdb_runs = [], rdb_errors = []\<rparr>"
  by (simp add: single_active_def active_count_def)

theorem resume_queues_one_per_target_witness:
  "\<exists>res db'. queueSyncResume demo_clock demo_fresh [(Slack, ''a''), (Slack, ''a'')] \<lparr>rdb_runs = [], rdb_errors = []\<rparr> =
     Inr (res, db') \<and> active_count db' (Slack, ''a'') = 1"
proof -
  have ts: "List.map_filter parseRunTargetKey (js_set_list (map (\<lambda>(p, a). source_key (platform_name p) a)
      [(Slack, ''a''), (Slack, ''a'')])) = [(Slack, ''a'')]"
    using parse_source_key [of Slack "''a''"] by (simp add: js_set_list_def)
  obtain res db' where r: "queueSyncResume demo_clock demo_fresh [(Slack, ''a''), (Slack, ''a'')]
      \<lparr>rdb_runs = [], rdb_errors = []\<rparr> = Inr (res, db')"
    unfolding queueSyncResume_def Let_def ts
    by (simp add: target_active_def hasQueuedOrRunningRun_def queue_target_def db_queueSyncRun_def
        tbl_insert_def queued_run_def)
  from resume_queues_one_per_target [OF demo_single r] r show ?thesis by (auto split: if_split_asm)
qed

lemma active_count_append:
  "rdb_runs db' = rdb_runs db @ rows \<Longrightarrow>
     active_count db' t = active_count db t + length (filter (active_run t) rows)"
  by (simp add: active_count_def)

lemma active_rows:
  "length us = length ts \<Longrightarrow> distinct ts \<Longrightarrow>
     length (filter (active_run t) (map2 (queued_run n) us (map (target_input ty) ts))) = (if t \<in> set ts then 1 else 0)"
proof (induction us ts rule: list_induct2)
  case (Cons u us x ts)
  then show ?case by (auto simp: active_run_queued)
qed simp

lemma distinct_map_filter_parse: "distinct ks \<Longrightarrow> distinct (List.map_filter parseRunTargetKey ks)"
proof (induction ks)
  case (Cons k ks)
  have "t \<notin> set (List.map_filter parseRunTargetKey ks)" if "parseRunTargetKey k = Some t" for t
    using Cons.prems that parse_target_SomeD [of _ "fst t" "snd t"]
    by (auto simp: mem_map_filter)
  then show ?case using Cons by (auto split: option.split)
qed simp

text \<open>
  C17: a manual sync of a source queues exactly the targets that are idle. With a supported source that
  has targets, \<open>queueSyncRun\<close> returns the idle ones in order, each of them then has exactly one run queued or
  ingesting and none has two, the busy ones are left alone; a source that is no platform is refused.
\<close>

theorem manual_sync_queues_idle_targets:
  assumes "single_active (qdb_runs db)" and "source = platform_name p"
    and "targets = listManualSyncTargets p (qdb_integrations db)" and "targets \<noteq> []"
    and "queueSyncRun now fresh (Some source) db = Inr (res, db')"
  shows "qr_targets res = idle_targets (qdb_runs db) targets \<and>
    length (qr_run_ids res) = length (qr_targets res) \<and> (qr_queued res \<longleftrightarrow> qr_targets res \<noteq> []) \<and>
    single_active (qdb_runs db') \<and>
    (\<forall>t. active_count (qdb_runs db') t =
      (if source_key (platform_name (fst t)) (snd t) \<in> set targets \<and> snd t \<noteq> [] then 1
       else active_count (qdb_runs db) t))"
proof -
  let ?q = "idle_targets (qdb_runs db) targets"
  let ?ts = "List.map_filter parseRunTargetKey ?q"
  have "queue_manual now fresh targets db = Inr (res, db')"
    using assms(2-5) by (simp add: queueSyncRun_platform)
  then obtain runs ids where q: "db_queueSyncRuns now (map fresh [0..<length ?ts]) (map (target_input RtSync) ?ts) (qdb_runs db)
      = Inr (ids, runs)" and db': "db' = db\<lparr>qdb_runs := runs\<rparr>"
    and res: "qr_targets res = ?q" "qr_run_ids res = ids" "qr_queued res = (ids \<noteq> [])"
    by (auto simp: queue_manual_def Let_def split: sum.split_asm)
  have dist: "distinct ?ts"
    unfolding idle_targets_def assms(3) listManualSyncTargets_def Let_def
    by (intro distinct_map_filter_parse distinct_filter) (simp add: Let_def)
  have rows: "ids = map fresh [0..<length ?ts]"
    "rdb_runs runs = rdb_runs (qdb_runs db) @ map2 (queued_run now) (map fresh [0..<length ?ts]) (map (target_input RtSync) ?ts)"
    using queueSyncRuns_rows [OF q] by simp_all
  have mem: "t \<in> set ?ts \<longleftrightarrow> source_key (platform_name (fst t)) (snd t) \<in> set targets \<and> snd t \<noteq> [] \<and>
      active_count (qdb_runs db) t = 0" for t
  proof -
    have "t \<in> set ?ts \<longleftrightarrow> (\<exists>k\<in>set targets. parseRunTargetKey k = Some t \<and> \<not> target_active (qdb_runs db) t)"
      by (auto simp: mem_map_filter idle_targets_def)
    also have "\<dots> \<longleftrightarrow> source_key (platform_name (fst t)) (snd t) \<in> set targets \<and> snd t \<noteq> [] \<and>
        \<not> target_active (qdb_runs db) t"
      using parse_target_SomeD [of _ "fst t" "snd t"] target_key_parse_iff [of "fst t" "snd t" t] by auto
    finally show ?thesis by (simp add: target_active_count)
  qed
  have cnt: "active_count runs t = active_count (qdb_runs db) t + (if t \<in> set ?ts then 1 else 0)" for t
    using active_count_append [OF rows(2), of t] active_rows [OF _ dist, of "map fresh [0..<length ?ts]" t now RtSync]
    by simp
  have le: "active_count (qdb_runs db) t \<le> 1" for t using assms(1) by (rule single_activeD)
  have fin: "active_count runs t = (if source_key (platform_name (fst t)) (snd t) \<in> set targets \<and> snd t \<noteq> [] then 1
       else active_count (qdb_runs db) t)" for t
    using cnt [of t] mem [of t] le [of t] by auto
  have len: "length ?ts = length ?q"
    by (induction targets) (auto simp: idle_targets_def split: option.splits)
  have "single_active runs" using fin le by (intro single_activeI) auto
  then show ?thesis using fin len res rows(1) db' by auto
qed

theorem manual_sync_queues_idle_targets_witness:
  "\<exists>res db'. queueSyncRun 5 demo_fresh (Some ''slack'')
      \<lparr>qdb_runs = \<lparr>rdb_runs = [], rdb_errors = []\<rparr>, qdb_integrations = \<lparr>idb_integrations =
         [integration_values 1 demo_integration], idb_sessions = []\<rparr>\<rparr> = Inr (res, db') \<and>
     active_count (qdb_runs db') (Slack, ''work'') = 1"
proof -
  let ?db = "\<lparr>qdb_runs = \<lparr>rdb_runs = [], rdb_errors = []\<rparr>, qdb_integrations = \<lparr>idb_integrations =
         [integration_values 1 demo_integration], idb_sessions = []\<rparr>\<rparr>"
  have t: "listManualSyncTargets Slack (qdb_integrations ?db) = [source_key ''slack'' ''work'']"
    by (simp add: listManualSyncTargets_def listEnabledSyncTargets_def integration_values_def demo_integration_def
        in_source_def hasKnownPlatform_def parsePlatform_def platform_values_def isAdapterPlatform_iff
        isPlatform_iff js_set_list_def)
  have p: "parseRunTargetKey (source_key ''slack'' ''work'') = Some (Slack, ''work'')"
    using parse_source_key [of Slack "''work''"] by simp
  have i: "idle_targets (qdb_runs ?db) [source_key ''slack'' ''work''] = [source_key ''slack'' ''work'']"
    by (simp add: idle_targets_def p target_active_def hasQueuedOrRunningRun_def)
  obtain res db' where r: "queueSyncRun 5 demo_fresh (Some ''slack'') ?db = Inr (res, db')"
    using t i queueSyncRun_platform [of 5 demo_fresh Slack ?db]
    by (simp add: queue_manual_def Let_def p db_queueSyncRuns_def insert_chunks_batch queued_rows_def
        tbl_insert_def queued_run_def)
  from manual_sync_queues_idle_targets [OF _ _ refl _ r, of Slack] demo_single t r show ?thesis
    by (auto simp: )
qed

end
