(* ===== verification/RawSchemas.thy ===== *)
theory RawSchemas
  imports Json Platforms
begin

text \<open>
  The shapes of raw events: the canonical schemas and payload checks applied before a write, and the
  normalisation applied before projection, which also lifts the schemas of older adapters
  (\<^verbatim>\<open>src/runtime/projection/events.ts\<close>), with the schema names and provenance of
  \<^verbatim>\<open>src/core/types/provider.ts\<close>.
\<close>

datatype entity_kind = EkContact | EkConversation | EkCall | EkMessage | EkReaction | EkParticipant | EkTimeline

fun entity_name :: "entity_kind \<Rightarrow> string" where
  "entity_name EkContact = ''contact''"
| "entity_name EkConversation = ''conversation''"
| "entity_name EkCall = ''call''"
| "entity_name EkMessage = ''message''"
| "entity_name EkReaction = ''reaction''"
| "entity_name EkParticipant = ''participant''"
| "entity_name EkTimeline = ''timeline_event''"

definition entity_kinds :: "entity_kind list" where
  "entity_kinds = [EkContact, EkConversation, EkCall, EkMessage, EkReaction, EkParticipant, EkTimeline]"

fun canonical_event_kinds :: "entity_kind \<Rightarrow> string list" where
  "canonical_event_kinds EkContact = [''observed'', ''aliased'']"
| "canonical_event_kinds EkConversation = [''observed'', ''removed'']"
| "canonical_event_kinds EkCall = [''observed'', ''deleted'']"
| "canonical_event_kinds EkMessage = [''created'', ''updated'', ''deleted'', ''read_receipt'']"
| "canonical_event_kinds EkReaction = [''added'', ''removed'']"
| "canonical_event_kinds EkParticipant = [''joined'', ''left'']"
| "canonical_event_kinds EkTimeline = [''system_message'']"

text \<open>The version is always the default 1.\<close>

definition buildNormalizedRawEventSchema :: "string \<Rightarrow> string \<Rightarrow> string" where
  "buildNormalizedRawEventSchema entityKind eventKind = entityKind @ ''.'' @ eventKind @ ''@1''"

definition SUPPORTED_NORMALIZED_SCHEMAS :: "string list" where
  "SUPPORTED_NORMALIZED_SCHEMAS =
     concat (map (\<lambda>e. map (buildNormalizedRawEventSchema (entity_name e)) (canonical_event_kinds e)) entity_kinds)"

datatype schema_error = NotCanonicalSchema | PayloadNotObject | MissingField string | UnsupportedSchema
  | CannotUpcast

definition assertCanonicalNormalizedSchemaForWrite :: "string \<Rightarrow> schema_error + unit" where
  "assertCanonicalNormalizedSchemaForWrite schema =
     (if schema \<in> set SUPPORTED_NORMALIZED_SCHEMAS then Inr () else Inl NotCanonicalSchema)"

subsection \<open>Payload checks before a write\<close>

definition assertObjectPayload :: "json \<Rightarrow> schema_error + unit" where
  "assertObjectPayload payload = (if is_jobject payload then Inr () else Inl PayloadNotObject)"

definition assertStringField :: "json \<Rightarrow> string \<Rightarrow> schema_error + unit" where
  "assertStringField payload field =
     (case jstr (jget payload field) of
        None \<Rightarrow> Inl (MissingField field)
      | Some s \<Rightarrow> if js_trim s = [] then Inl (MissingField field) else Inr ())"

definition assertNumberField :: "json \<Rightarrow> string \<Rightarrow> schema_error + unit" where
  "assertNumberField payload field =
     (case jnum (jget payload field) of
        Some (Fin _) \<Rightarrow> Inr ()
      | _ \<Rightarrow> Inl (MissingField field))"

fun assertStringFields :: "json \<Rightarrow> string list \<Rightarrow> schema_error + unit" where
  "assertStringFields payload [] = Inr ()"
| "assertStringFields payload (f # fs) = ebind (assertStringField payload f) (\<lambda>_. assertStringFields payload fs)"

definition required_strings :: "string \<Rightarrow> string list option" where
  "required_strings schema =
     (if schema = ''contact.aliased@1'' then Some [''aliasSourceEntityKey'', ''canonicalSourceEntityKey'']
      else if schema = ''contact.observed@1'' then Some [''sourceEntityKey'']
      else if schema \<in> {''conversation.observed@1'', ''conversation.removed@1''} then Some [''sourceConversationKey'']
      else if schema = ''call.observed@1'' then Some [''sourceCallKey'', ''sourceConversationKey'']
      else if schema = ''call.deleted@1'' then Some [''sourceConversationKey'']
      else if schema \<in> {''message.created@1'', ''message.updated@1'', ''message.deleted@1'', ''message.read_receipt@1''}
        then Some [''sourceMessageKey'', ''sourceConversationKey'']
      else if schema \<in> {''reaction.added@1'', ''reaction.removed@1''}
        then Some [''sourceMessageKey'', ''sourceConversationKey'', ''emoji'']
      else if schema \<in> {''participant.joined@1'', ''participant.left@1''}
        then Some [''sourceConversationKey'', ''participantSourceKey'']
      else if schema = ''timeline_event.system_message@1'' then Some [''sourceEventKey'', ''sourceConversationKey'']
      else None)"

definition assertCanonicalRawEventPayloadForWrite ::
  "entity_kind \<Rightarrow> string \<Rightarrow> string option \<Rightarrow> json \<Rightarrow> schema_error + unit" where
  "assertCanonicalRawEventPayloadForWrite entityKind eventKind schema payload =
     (let normalizedSchema = get_or schema (buildNormalizedRawEventSchema (entity_name entityKind) eventKind) in
      ebind (assertCanonicalNormalizedSchemaForWrite normalizedSchema) (\<lambda>_.
      ebind (assertObjectPayload payload) (\<lambda>_.
        case required_strings normalizedSchema of
          None \<Rightarrow> Inl UnsupportedSchema
        | Some required \<Rightarrow>
            ebind (assertStringFields payload required) (\<lambda>_.
              if normalizedSchema = ''call.observed@1'' then assertNumberField payload ''startedAt'' else Inr ()))))"

definition resolveRawEventNormalizedSchema :: "entity_kind \<Rightarrow> string \<Rightarrow> string option \<Rightarrow> string" where
  "resolveRawEventNormalizedSchema entityKind eventKind schema =
     (let trimmed = js_trim (get_or schema []) in
      if trimmed \<noteq> [] then trimmed
      else buildNormalizedRawEventSchema (entity_name entityKind) eventKind)"

subsection \<open>Provenance\<close>

datatype acquisition_mode = AcqSync | AcqRealtime

record provenance =
  pv_api_version :: "string option"
  pv_adapter_version :: "string option"
  pv_mode :: "acquisition_mode option"

text \<open>Empty texts are falsy, so a provenance of empty texts alone is dropped.\<close>

definition truthy_text :: "string option \<Rightarrow> bool" where
  "truthy_text t \<longleftrightarrow> (case t of None \<Rightarrow> False | Some s \<Rightarrow> s \<noteq> [])"

definition normalizeRawEventProvenance :: "provenance option \<Rightarrow> provenance option" where
  "normalizeRawEventProvenance input =
     (case input of None \<Rightarrow> None
      | Some p \<Rightarrow> if truthy_text (pv_api_version p) \<or> truthy_text (pv_adapter_version p) \<or> pv_mode p \<noteq> None
                  then Some p else None)"

subsection \<open>Normalisation before projection\<close>

record projected_event =
  pe_entity :: entity_kind
  pe_kind :: string
  pe_schema :: string
  pe_payload :: json

definition projected :: "entity_kind \<Rightarrow> string \<Rightarrow> json \<Rightarrow> projected_event" where
  "projected e k payload =
     \<lparr>pe_entity = e, pe_kind = k, pe_schema = buildNormalizedRawEventSchema (entity_name e) k, pe_payload = payload\<rparr>"

text \<open>
  \<open>/^(contact|...|timeline_event)\.([a-z_]+)@1$/\<close>: the entity is the text up to the first dot, since no entity
  name has one.
\<close>

definition is_kind_char :: "char \<Rightarrow> bool" where
  "is_kind_char c = (let n = (of_char c :: nat) in 97 \<le> n \<and> n \<le> 122 \<or> n = 95)"

definition parseNormalizedSchema :: "string \<Rightarrow> (entity_kind \<times> string) option" where
  "parseNormalizedSchema schema =
     (let entity = takeWhile (\<lambda>c. c \<noteq> CHR ''.'') schema;
          rest = dropWhile (\<lambda>c. c \<noteq> CHR ''.'') schema;
          kind = takeWhile is_kind_char (drop 1 rest)
      in case find (\<lambda>e. entity_name e = entity) entity_kinds of
           None \<Rightarrow> None
         | Some e \<Rightarrow> if kind \<noteq> [] \<and> drop (Suc (length kind)) rest = ''@1'' then Some (e, kind) else None)"

definition field_update :: "json \<Rightarrow> (string \<times> json) list \<Rightarrow> json" where
  "field_update payload updates = JObj (fold (\<lambda>(k, v) m. map_set k v m) updates (js_spread (Some payload)))"

definition has_string :: "json \<Rightarrow> string \<Rightarrow> bool" where
  "has_string payload field \<longleftrightarrow> jstr (jget payload field) \<noteq> None"

definition has_number :: "json \<Rightarrow> string \<Rightarrow> bool" where
  "has_number payload field \<longleftrightarrow> jnum (jget payload field) \<noteq> None"

definition nullish_empty :: "json option \<Rightarrow> json option" where
  "nullish_empty j = (if j = None \<or> j = Some JNull then Some (JObj []) else j)"

definition buildSystemMessagePayload :: "json \<Rightarrow> string \<Rightarrow> schema_error + json" where
  "buildSystemMessagePayload payload legacyEventKind =
     (if has_string payload ''sourceEventKey'' \<and> has_string payload ''sourceConversationKey'' \<and> has_number payload ''eventAt''
      then Inr (field_update payload
        [(''eventKind'', JStr ''system_message''),
         (''metadata'', JObj (map_set ''legacyEventKind'' (JStr legacyEventKind)
            (js_spread (nullish_empty (jget payload ''metadata'')))))])
      else if has_string payload ''sourceMessageKey'' \<and> has_string payload ''sourceConversationKey'' \<and> has_number payload ''sentAt''
      then Inr (JObj
        [(''sourceEventKey'', the (jget payload ''sourceMessageKey'')),
         (''sourceConversationKey'', the (jget payload ''sourceConversationKey'')),
         (''eventKind'', JStr ''system_message''),
         (''eventAt'', the (jget payload ''sentAt'')),
         (''text'', optional_text (jstr (jget payload ''content''))),
         (''metadata'', JObj [(''legacyEventKind'', JStr legacyEventKind),
            (''sourceMessageKey'', the (jget payload ''sourceMessageKey''))])])
      else Inl CannotUpcast)"

definition present :: "string \<Rightarrow> json option \<Rightarrow> (string \<times> json) list" where
  "present k v = (case v of None \<Rightarrow> [] | Some j \<Rightarrow> [(k, j)])"

text \<open>A property set to \<open>undefined\<close> is lost when the payload is stored.\<close>

definition set_or_drop :: "string \<Rightarrow> json option \<Rightarrow> (string \<times> json) list \<Rightarrow> (string \<times> json) list" where
  "set_or_drop k v m = (case v of None \<Rightarrow> filter (\<lambda>(k', _). k' \<noteq> k) m | Some j \<Rightarrow> map_set k j m)"

definition participant_source :: "json \<Rightarrow> string" where
  "participant_source payload =
     (case jstr (jget payload ''subjectSourceKey'') of
        Some (c # cs) \<Rightarrow> c # cs
      | _ \<Rightarrow> (case jstr (jget payload ''actorSourceKey'') of Some (c # cs) \<Rightarrow> c # cs | _ \<Rightarrow> []))"

definition buildParticipantPayload :: "json \<Rightarrow> schema_error + json" where
  "buildParticipantPayload payload =
     (if \<not> has_string payload ''sourceConversationKey'' then Inl CannotUpcast
      else if participant_source payload = [] then Inl CannotUpcast
      else Inr (JObj ([(''sourceConversationKey'', the (jget payload ''sourceConversationKey'')),
        (''participantSourceKey'', JStr (participant_source payload))] @
        present ''eventAt'' (jget payload ''eventAt'') @
        [(''metadata'', JObj (set_or_drop ''legacyTimelineEventKind'' (jget payload ''eventKind'')
           (js_spread (nullish_empty (jget payload ''metadata'')))))])))"

definition upcast :: "(json \<Rightarrow> schema_error + json) \<Rightarrow> entity_kind \<Rightarrow> string \<Rightarrow> json \<Rightarrow> schema_error + projected_event" where
  "upcast build e k payload = ebind (build payload) (\<lambda>p. Inr (projected e k p))"

definition reaction_kind :: "json \<Rightarrow> string" where
  "reaction_kind payload = (if jget payload ''isActive'' = Some (JBool False) then ''removed'' else ''added'')"

definition canonicalizeProjectedSchema :: "string \<Rightarrow> json \<Rightarrow> schema_error + projected_event" where
  "canonicalizeProjectedSchema schema payload =
     (if schema = ''message.message_created@1'' then Inr (projected EkMessage ''created'' payload)
      else if schema = ''message.message_updated@1'' then Inr (projected EkMessage ''updated'' payload)
      else if schema = ''message.message_deleted@1'' then Inr (projected EkMessage ''deleted'' payload)
      else if schema = ''message.message_read_receipt@1'' then Inr (projected EkMessage ''read_receipt'' payload)
      else if schema = ''message.message_observed@1''
        then upcast (\<lambda>p. buildSystemMessagePayload p ''message_observed'') EkTimeline ''system_message'' payload
      else if schema = ''reaction.created@1'' then Inr (projected EkReaction (reaction_kind payload) payload)
      else if schema = ''reaction.reaction_added@1'' then Inr (projected EkReaction ''added'' payload)
      else if schema = ''reaction.reaction_removed@1'' then Inr (projected EkReaction ''removed'' payload)
      else if schema = ''timeline_event.linkedin_system_message@1''
        then upcast (\<lambda>p. buildSystemMessagePayload p ''linkedin_system_message'') EkTimeline ''system_message'' payload
      else if schema = ''timeline_event.linkedin_group_read_receipt@1''
        then upcast (\<lambda>p. buildSystemMessagePayload p ''linkedin_group_read_receipt'') EkTimeline ''system_message'' payload
      else if schema = ''timeline_event.linkedin_conversation_removed@1''
        then upcast (\<lambda>p. buildSystemMessagePayload p ''linkedin_conversation_removed'') EkTimeline ''system_message'' payload
      else if schema = ''timeline_event.participant_joined@1''
        then upcast buildParticipantPayload EkParticipant ''joined'' payload
      else if schema = ''timeline_event.participant_left@1''
        then upcast buildParticipantPayload EkParticipant ''left'' payload
      else (case parseNormalizedSchema schema of
          None \<Rightarrow> Inl UnsupportedSchema
        | Some (e, k) \<Rightarrow>
            if schema \<notin> set SUPPORTED_NORMALIZED_SCHEMAS then Inl UnsupportedSchema
            else Inr \<lparr>pe_entity = e, pe_kind = k, pe_schema = schema, pe_payload = payload\<rparr>))"

definition normalizeStoredRawEventForProjection ::
  "entity_kind \<Rightarrow> string \<Rightarrow> string option \<Rightarrow> json \<Rightarrow> schema_error + projected_event" where
  "normalizeStoredRawEventForProjection entityKind eventKind schema payload =
     canonicalizeProjectedSchema (resolveRawEventNormalizedSchema entityKind eventKind schema) payload"


subsection \<open>Facts\<close>

lemma supported_eq:
  "SUPPORTED_NORMALIZED_SCHEMAS =
     [''contact.observed@1'', ''contact.aliased@1'', ''conversation.observed@1'', ''conversation.removed@1'',
      ''call.observed@1'', ''call.deleted@1'', ''message.created@1'', ''message.updated@1'',
      ''message.deleted@1'', ''message.read_receipt@1'', ''reaction.added@1'', ''reaction.removed@1'',
      ''participant.joined@1'', ''participant.left@1'', ''timeline_event.system_message@1'']"
  by code_simp

lemma supported_iff: "s \<in> set SUPPORTED_NORMALIZED_SCHEMAS \<longleftrightarrow>
  (\<exists>e k. k \<in> set (canonical_event_kinds e) \<and> s = buildNormalizedRawEventSchema (entity_name e) k)"
proof -
  have "e \<in> set entity_kinds" for e by (cases e) (simp_all add: entity_kinds_def)
  then show ?thesis by (auto simp: SUPPORTED_NORMALIZED_SCHEMAS_def)
qed

lemma parse_supported:
  "list_all (\<lambda>e. list_all (\<lambda>k. parseNormalizedSchema (buildNormalizedRawEventSchema (entity_name e) k) = Some (e, k))
     (canonical_event_kinds e)) entity_kinds"
  by code_simp

lemma parse_build:
  "k \<in> set (canonical_event_kinds e) \<Longrightarrow>
     parseNormalizedSchema (buildNormalizedRawEventSchema (entity_name e) k) = Some (e, k)"
  using parse_supported by (cases e) (auto simp: list_all_iff entity_kinds_def)

definition legacy_schemas :: "string list" where
  "legacy_schemas = [''message.message_created@1'', ''message.message_updated@1'', ''message.message_deleted@1'',
     ''message.message_read_receipt@1'', ''message.message_observed@1'', ''reaction.created@1'',
     ''reaction.reaction_added@1'', ''reaction.reaction_removed@1'', ''timeline_event.linkedin_system_message@1'',
     ''timeline_event.linkedin_group_read_receipt@1'', ''timeline_event.linkedin_conversation_removed@1'',
     ''timeline_event.participant_joined@1'', ''timeline_event.participant_left@1'']"

lemma supported_not_legacy: "s \<in> set SUPPORTED_NORMALIZED_SCHEMAS \<Longrightarrow> s \<notin> set legacy_schemas"
proof -
  have "list_all (\<lambda>s. s \<notin> set legacy_schemas) SUPPORTED_NORMALIZED_SCHEMAS" by code_simp
  then show "s \<in> set SUPPORTED_NORMALIZED_SCHEMAS \<Longrightarrow> s \<notin> set legacy_schemas" by (simp add: list_all_iff)
qed

lemma canonicalize_plain:
  "s \<notin> set legacy_schemas \<Longrightarrow> canonicalizeProjectedSchema s payload =
     (case parseNormalizedSchema s of
        None \<Rightarrow> Inl UnsupportedSchema
      | Some (e, k) \<Rightarrow>
          if s \<notin> set SUPPORTED_NORMALIZED_SCHEMAS then Inl UnsupportedSchema
          else Inr \<lparr>pe_entity = e, pe_kind = k, pe_schema = s, pe_payload = payload\<rparr>)"
  by (simp add: canonicalizeProjectedSchema_def legacy_schemas_def)

lemma canonicalize_supported:
  assumes "k \<in> set (canonical_event_kinds e)" "s = buildNormalizedRawEventSchema (entity_name e) k"
  shows "canonicalizeProjectedSchema s payload = Inr (projected e k payload)"
proof -
  have s: "s \<in> set SUPPORTED_NORMALIZED_SCHEMAS" using assms by (auto simp: supported_iff)
  have "parseNormalizedSchema s = Some (e, k)" using parse_build assms by simp
  moreover have "projected e k payload = \<lparr>pe_entity = e, pe_kind = k, pe_schema = s, pe_payload = payload\<rparr>"
    by (simp add: projected_def assms)
  ultimately show ?thesis
    using s canonicalize_plain [OF supported_not_legacy [OF s]] by simp
qed

lemma trim_supported: "s \<in> set SUPPORTED_NORMALIZED_SCHEMAS \<Longrightarrow> js_trim s = s \<and> s \<noteq> []"
proof -
  have "list_all (\<lambda>s. js_trim s = s \<and> s \<noteq> []) SUPPORTED_NORMALIZED_SCHEMAS" by code_simp
  then show "s \<in> set SUPPORTED_NORMALIZED_SCHEMAS \<Longrightarrow> js_trim s = s \<and> s \<noteq> []" by (simp add: list_all_iff)
qed

text \<open>
  C31: what a write accepts, the projection reads unchanged. If the payload check passes for a
  schema, the stored event normalises without an error, under the same schema, with the payload as
  stored, and the entity and kind the schema names.
\<close>

theorem accepted_write_is_projectable:
  assumes "assertCanonicalRawEventPayloadForWrite e k (Some schema) payload = Inr ()"
  shows "\<exists>pe. normalizeStoredRawEventForProjection e' k' (Some schema) stored = Inr pe \<and>
    pe_schema pe = schema \<and> pe_payload pe = stored \<and>
    schema = buildNormalizedRawEventSchema (entity_name (pe_entity pe)) (pe_kind pe)"
proof -
  have s: "schema \<in> set SUPPORTED_NORMALIZED_SCHEMAS"
    using assms by (auto simp: assertCanonicalRawEventPayloadForWrite_def Let_def ebind_eq_Inr_iff
        assertCanonicalNormalizedSchemaForWrite_def split: if_split_asm)
  then obtain e0 k0 where ek: "k0 \<in> set (canonical_event_kinds e0)"
    "schema = buildNormalizedRawEventSchema (entity_name e0) k0" by (auto simp: supported_iff)
  have "resolveRawEventNormalizedSchema e' k' (Some schema) = schema"
    using trim_supported [OF s] by (simp add: resolveRawEventNormalizedSchema_def Let_def)
  then show ?thesis using canonicalize_supported [OF ek] ek(2)
    by (simp add: normalizeStoredRawEventForProjection_def projected_def)
qed

definition demo_message_payload :: json where
  "demo_message_payload = JObj [(''sourceMessageKey'', JStr ''m1''), (''sourceConversationKey'', JStr ''c1''),
     (''sentAt'', JNum (Fin 5)), (''content'', JStr ''hi'')]"

theorem accepted_write_is_projectable_witness:
  "\<exists>pe. normalizeStoredRawEventForProjection EkMessage ''created'' (Some ''message.created@1'') demo_message_payload = Inr pe \<and>
     pe_schema pe = ''message.created@1''"
proof -
  have "assertCanonicalRawEventPayloadForWrite EkMessage ''created'' (Some ''message.created@1'') demo_message_payload = Inr ()"
    by code_simp
  from accepted_write_is_projectable [OF this] show ?thesis by blast
qed

text \<open>
  C32: normalisation always ends in the canonical vocabulary. Whatever an event of an older adapter said,
  a payload that is accepted for projection has a supported schema, the entity and event kind of that
  schema, and for a lifted system message the keys of its event and conversation as texts.
\<close>

theorem projection_is_canonical:
  assumes "normalizeStoredRawEventForProjection e k schema payload = Inr pe"
  shows "pe_schema pe \<in> set SUPPORTED_NORMALIZED_SCHEMAS \<and>
    pe_schema pe = buildNormalizedRawEventSchema (entity_name (pe_entity pe)) (pe_kind pe) \<and>
    pe_kind pe \<in> set (canonical_event_kinds (pe_entity pe)) \<and>
    (resolveRawEventNormalizedSchema e k schema = ''message.message_observed@1'' \<longrightarrow>
      pe_entity pe = EkTimeline \<and> has_string (pe_payload pe) ''sourceEventKey'' \<and>
      has_string (pe_payload pe) ''sourceConversationKey'')"
proof -
  let ?s = "resolveRawEventNormalizedSchema e k schema"
  have c: "canonicalizeProjectedSchema ?s payload = Inr pe"
    using assms by (simp add: normalizeStoredRawEventForProjection_def)
  have kind: "pe_schema pe = buildNormalizedRawEventSchema (entity_name (pe_entity pe)) (pe_kind pe) \<and>
    pe_kind pe \<in> set (canonical_event_kinds (pe_entity pe))"
  proof (cases "?s \<in> set SUPPORTED_NORMALIZED_SCHEMAS")
    case True
    then obtain e0 k0 where ek: "k0 \<in> set (canonical_event_kinds e0)"
      "?s = buildNormalizedRawEventSchema (entity_name e0) k0" by (auto simp: supported_iff)
    then show ?thesis using c canonicalize_supported [OF ek] by (auto simp: projected_def)
  next
    case False
    then show ?thesis using c
      by (auto simp: canonicalizeProjectedSchema_def upcast_def projected_def reaction_kind_def
          ebind_eq_Inr_iff split: if_split_asm option.split_asm)
  qed
  moreover have "pe_schema pe \<in> set SUPPORTED_NORMALIZED_SCHEMAS" using kind by (auto simp: supported_iff)
  moreover have "pe_entity pe = EkTimeline \<and> has_string (pe_payload pe) ''sourceEventKey'' \<and>
      has_string (pe_payload pe) ''sourceConversationKey''" if s: "?s = ''message.message_observed@1''"
  proof -
    have "ebind (buildSystemMessagePayload payload ''message_observed'')
        (\<lambda>p. Inr (projected EkTimeline ''system_message'' p)) = Inr pe"
      using c by (simp add: s canonicalizeProjectedSchema_def upcast_def)
    then obtain p where p: "buildSystemMessagePayload payload ''message_observed'' = Inr p"
      "pe = projected EkTimeline ''system_message'' p" by (auto simp: ebind_eq_Inr_iff)
    then show ?thesis
      by (cases payload) (auto simp: buildSystemMessagePayload_def projected_def has_string_def field_update_def
          split: if_split_asm)
  qed
  ultimately show ?thesis by blast
qed

theorem projection_is_canonical_witness:
  "\<exists>pe. normalizeStoredRawEventForProjection EkMessage ''message_observed'' None demo_message_payload = Inr pe \<and>
     pe_entity pe = EkTimeline \<and> has_string (pe_payload pe) ''sourceEventKey''"
proof -
  have "\<exists>pe. normalizeStoredRawEventForProjection EkMessage ''message_observed'' None demo_message_payload = Inr pe"
    by (simp add: normalizeStoredRawEventForProjection_def resolveRawEventNormalizedSchema_def
        buildNormalizedRawEventSchema_def canonicalizeProjectedSchema_def upcast_def buildSystemMessagePayload_def
        demo_message_payload_def has_string_def has_number_def)
  then obtain pe where pe: "normalizeStoredRawEventForProjection EkMessage ''message_observed'' None demo_message_payload = Inr pe"
    by blast
  have "resolveRawEventNormalizedSchema EkMessage ''message_observed'' None = ''message.message_observed@1''" by code_simp
  then show ?thesis using projection_is_canonical [OF pe] pe by blast
qed

end
