(* ===== verification/RawEvents.thy ===== *)
theory RawEvents
  imports RawSchemas Table
begin

text \<open>
  The event log of \<^verbatim>\<open>src/db/database.ts\<close>: the table \<open>raw_events\<close> with \<open>insertRawEvent\<close>,
  \<open>insertRawEvents\<close> and the range queries, the quarantine of events that fail to project, and the
  projection state with its watermark and backlog. A row's \<open>rowid\<close> is the largest one plus one.
\<close>

record raw_input =
  ev_id :: string
  ev_platform :: platform
  ev_account :: string
  ev_entity :: entity_kind
  ev_kind :: string
  ev_external_event :: "string option"
  ev_external_entity :: "string option"
  ev_conversation :: "string option"
  ev_occurred_at :: "int option"
  ev_observed_at :: int
  ev_cursor :: "json option"
  ev_dedupe :: string
  ev_payload :: json
  ev_schema :: "string option"
  ev_provenance :: "provenance option"
  ev_source_version :: "string option"

record raw_row =
  rw_rowid :: nat
  rw_id :: string
  rw_platform :: platform
  rw_account :: string
  rw_entity :: entity_kind
  rw_kind :: string
  rw_external_event :: "string option"
  rw_external_entity :: "string option"
  rw_conversation :: "string option"
  rw_occurred_at :: "int option"
  rw_observed_at :: int
  rw_cursor :: "json option"
  rw_dedupe :: string
  rw_payload :: json
  rw_schema :: "string option"
  rw_provenance :: "provenance option"
  rw_source_version :: "string option"

definition rw_unique :: "raw_row \<Rightarrow> platform \<times> string \<times> string" where
  "rw_unique r = (rw_platform r, rw_account r, rw_dedupe r)"

subsection \<open>Inserting\<close>

definition buildRawEventValues :: "raw_input \<Rightarrow> schema_error + raw_row" where
  "buildRawEventValues event =
     (let normalizedSchema = resolveRawEventNormalizedSchema (ev_entity event) (ev_kind event) (ev_schema event) in
      ebind (assertCanonicalNormalizedSchemaForWrite normalizedSchema) (\<lambda>_.
      ebind (assertCanonicalRawEventPayloadForWrite (ev_entity event) (ev_kind event) (Some normalizedSchema)
              (ev_payload event)) (\<lambda>_.
        Inr \<lparr>rw_rowid = 0, rw_id = ev_id event, rw_platform = ev_platform event, rw_account = ev_account event,
             rw_entity = ev_entity event, rw_kind = ev_kind event,
             rw_external_event = ev_external_event event, rw_external_entity = ev_external_entity event,
             rw_conversation = ev_conversation event, rw_occurred_at = ev_occurred_at event,
             rw_observed_at = ev_observed_at event, rw_cursor = safeStringifyJson (ev_cursor event),
             rw_dedupe = ev_dedupe event, rw_payload = json_stored (ev_payload event),
             rw_schema = Some normalizedSchema,
             rw_provenance = normalizeRawEventProvenance (ev_provenance event),
             rw_source_version = ev_source_version event\<rparr>)))"

definition max_rowid :: "raw_row list \<Rightarrow> nat" where
  "max_rowid rows = foldr max (map rw_rowid rows) 0"

definition raw_conflict :: "raw_row \<Rightarrow> raw_row list \<Rightarrow> bool" where
  "raw_conflict r rows \<longleftrightarrow> tbl_has rw_id (rw_id r) rows \<or> tbl_has rw_unique (rw_unique r) rows"

definition insert_raw :: "raw_row \<Rightarrow> raw_row list \<Rightarrow> raw_row list" where
  "insert_raw r rows = (if raw_conflict r rows then rows else rows @ [r\<lparr>rw_rowid := max_rowid rows + 1\<rparr>])"

definition insertRawEvent :: "raw_input \<Rightarrow> raw_row list \<Rightarrow> schema_error + bool \<times> raw_row list" where
  "insertRawEvent event rows =
     ebind (buildRawEventValues event) (\<lambda>r. Inr (\<not> raw_conflict r rows, insert_raw r rows))"

fun build_all :: "raw_input list \<Rightarrow> schema_error + raw_row list" where
  "build_all [] = Inr []"
| "build_all (e # es) = ebind (buildRawEventValues e) (\<lambda>r. ebind (build_all es) (\<lambda>rs. Inr (r # rs)))"

fun insert_event_chunks :: "raw_input list list \<Rightarrow> raw_row list \<Rightarrow> schema_error + raw_row list" where
  "insert_event_chunks [] rows = Inr rows"
| "insert_event_chunks (c # cs) rows =
     ebind (build_all c) (\<lambda>vs. insert_event_chunks cs (fold insert_raw vs rows))"

record insert_result =
  ir_count :: nat
  ir_events :: "raw_input list"
  ir_rows :: "(nat \<times> raw_input) list"
  ir_first :: "nat option"
  ir_last :: "nat option"

definition unique_events :: "raw_input list \<Rightarrow> raw_input list" where
  "unique_events events = map snd (js_map_from (map (\<lambda>e. (ev_id e, e)) events))"

text \<open>The rows of one chunk of ids, in rowid order, folded into the ids found and the bounds.\<close>

definition collect_chunk ::
  "raw_row list \<Rightarrow> raw_input list \<Rightarrow> (string \<rightharpoonup> nat) \<times> nat option \<times> nat option \<Rightarrow>
   (string \<rightharpoonup> nat) \<times> nat option \<times> nat option" where
  "collect_chunk table chunk acc =
     (case acc of (ids, lo, hi) \<Rightarrow>
        let rows = sort_key rw_rowid (filter (\<lambda>r. rw_id r \<in> set (map ev_id chunk)) table) in
        if rows = [] then acc
        else (fold (\<lambda>r m. m(rw_id r \<mapsto> rw_rowid r)) rows ids,
              (case lo of None \<Rightarrow> Some (rw_rowid (hd rows))
               | Some f \<Rightarrow> if rw_rowid (hd rows) < f then Some (rw_rowid (hd rows)) else lo),
              (case hi of None \<Rightarrow> Some (rw_rowid (last rows))
               | Some l \<Rightarrow> if l < rw_rowid (last rows) then Some (rw_rowid (last rows)) else hi)))"

definition ingest_report :: "raw_input list \<Rightarrow> raw_row list \<Rightarrow> raw_row list \<Rightarrow> insert_result" where
  "ingest_report uniqueEvents table table' =
     (let candidateEvents = filter (\<lambda>e. \<not> tbl_has rw_id (ev_id e) table) uniqueEvents;
          (ids, lo, hi) = fold (collect_chunk table') (chunkArray candidateEvents 250) (Map.empty, None, None);
          insertedEvents = filter (\<lambda>e. ids (ev_id e) \<noteq> None) candidateEvents
      in \<lparr>ir_count = length insertedEvents, ir_events = insertedEvents,
          ir_rows = List.map_filter (\<lambda>e. map_option (\<lambda>i. (i, e)) (ids (ev_id e))) insertedEvents,
          ir_first = lo, ir_last = hi\<rparr>)"

definition insertRawEvents :: "raw_input list \<Rightarrow> raw_row list \<Rightarrow> schema_error + insert_result \<times> raw_row list" where
  "insertRawEvents events table =
     (if events = [] then Inr (\<lparr>ir_count = 0, ir_events = [], ir_rows = [], ir_first = None, ir_last = None\<rparr>, table)
      else let uniqueEvents = unique_events events in
        ebind (insert_event_chunks (chunkArray uniqueEvents 250) table) (\<lambda>table'.
          Inr (ingest_report uniqueEvents table table', table')))"

subsection \<open>Reading ranges\<close>

definition listRawEventsAfter :: "nat \<Rightarrow> nat option \<Rightarrow> raw_row list \<Rightarrow> raw_row list" where
  "listRawEventsAfter rowId limit rows =
     (let found = sort_key rw_rowid (filter (\<lambda>r. rowId < rw_rowid r) rows)
      in case limit of None \<Rightarrow> found | Some n \<Rightarrow> take n found)"

definition listRawEventsInRange :: "nat \<Rightarrow> nat \<Rightarrow> nat option \<Rightarrow> raw_row list \<Rightarrow> raw_row list" where
  "listRawEventsInRange startRowId endRowId limit rows =
     (if endRowId < startRowId then []
      else let found = sort_key rw_rowid (filter (\<lambda>r. startRowId \<le> rw_rowid r \<and> rw_rowid r \<le> endRowId) rows)
           in case limit of None \<Rightarrow> found | Some n \<Rightarrow> take n found)"

definition listRawEvents :: "raw_row list \<Rightarrow> raw_row list" where
  "listRawEvents rows = sort_key (\<lambda>r. (rw_observed_at r, rw_id r)) rows"

text \<open>An empty account key is falsy and so no restriction.\<close>

definition getRawEventRowIdRange :: "platform \<Rightarrow> string option \<Rightarrow> raw_row list \<Rightarrow> (nat \<times> nat) option" where
  "getRawEventRowIdRange platform accountKey rows =
     (let found = map rw_rowid (filter (\<lambda>r. rw_platform r = platform \<and>
            (accountKey = None \<or> accountKey = Some [] \<or> accountKey = Some (rw_account r))) rows)
      in if found = [] \<or> Min (set found) = 0 \<or> Max (set found) = 0 then None
         else Some (Min (set found), Max (set found)))"

subsection \<open>Quarantine\<close>

record failure_row =
  qf_rowid :: nat
  qf_event :: string
  qf_platform :: platform
  qf_account :: string
  qf_entity :: entity_kind
  qf_kind :: string
  qf_schema :: "string option"
  qf_source_version :: "string option"
  qf_message :: string
  qf_failed_at :: int

definition quarantineRawEventProjectionFailure ::
  "int \<Rightarrow> raw_row \<Rightarrow> string \<Rightarrow> failure_row list \<Rightarrow> failure_row list" where
  "quarantineRawEventProjectionFailure now event message rows =
     tbl_upsert qf_rowid
       \<lparr>qf_rowid = rw_rowid event, qf_event = rw_id event, qf_platform = rw_platform event,
        qf_account = rw_account event, qf_entity = rw_entity event, qf_kind = rw_kind event,
        qf_schema = rw_schema event, qf_source_version = rw_source_version event,
        qf_message = message, qf_failed_at = now\<rparr>
       (\<lambda>r. r\<lparr>qf_message := message, qf_failed_at := now\<rparr>) rows"

subsection \<open>Projection state\<close>

record projection_state =
  ps_watermark :: nat
  ps_last_projected :: "int option"
  ps_last_rebuild :: "int option"
  ps_updated_at :: int

text \<open>The table has at most the one row \<open>global\<close>.\<close>

definition db_upsertProjectionState ::
  "int \<Rightarrow> nat \<Rightarrow> int option \<Rightarrow> int option \<Rightarrow> projection_state option \<Rightarrow> projection_state option" where
  "db_upsertProjectionState now watermark lastProjectedAt lastRebuildAt state =
     Some \<lparr>ps_watermark = watermark, ps_last_projected = lastProjectedAt, ps_last_rebuild = lastRebuildAt,
           ps_updated_at = now\<rparr>"

definition getProjectionState ::
  "int \<Rightarrow> bool \<Rightarrow> projection_state option \<Rightarrow> projection_state \<times> projection_state option" where
  "getProjectionState now initialize state =
     (case state of
        Some row \<Rightarrow> (row, state)
      | None \<Rightarrow>
          (\<lparr>ps_watermark = 0, ps_last_projected = None, ps_last_rebuild = None, ps_updated_at = now\<rparr>,
           if initialize then db_upsertProjectionState now 0 None None state else state))"

definition getProjectionBacklog ::
  "int \<Rightarrow> bool \<Rightarrow> raw_row list \<Rightarrow> projection_state option \<Rightarrow> (nat \<times> nat \<times> nat) \<times> projection_state option" where
  "getProjectionBacklog now initialize rows state =
     (let (row, state') = getProjectionState now initialize state
      in ((ps_watermark row, max_rowid rows, max_rowid rows - ps_watermark row), state'))"


subsection \<open>The log only grows\<close>

definition raw_inv :: "raw_row list \<Rightarrow> bool" where
  "raw_inv rows \<longleftrightarrow> keyed rw_id rows \<and> keyed rw_unique rows \<and>
     sorted_wrt (<) (map rw_rowid rows) \<and> (\<forall>r\<in>set rows. 0 < rw_rowid r)"

lemma le_max_rowid: "r \<in> set rows \<Longrightarrow> rw_rowid r \<le> max_rowid rows"
  by (induction rows) (auto simp: max_rowid_def)

lemma insert_raw_inv: "raw_inv rows \<Longrightarrow> raw_inv (insert_raw r rows)"
proof -
  assume "raw_inv rows"
  moreover have "rw_unique (r\<lparr>rw_rowid := n\<rparr>) = rw_unique r" for n by (simp add: rw_unique_def)
  ultimately show ?thesis
    using le_max_rowid [of _ rows]
    by (fastforce simp: raw_inv_def insert_raw_def raw_conflict_def keyed_append_one sorted_wrt_append)
qed

lemma fold_insert_raw_inv: "raw_inv rows \<Longrightarrow> raw_inv (fold insert_raw vs rows)"
  by (induction vs arbitrary: rows) (simp_all add: insert_raw_inv)

lemma fold_insert_raw:
  assumes "distinct (map rw_id vs)"
  shows "\<exists>new. fold insert_raw vs rows = rows @ new \<and>
    map rw_id new = filter (\<lambda>i. \<not> tbl_has rw_id i rows \<and> tbl_has rw_id i (rows @ new)) (map rw_id vs) \<and>
    (\<forall>r\<in>set new. max_rowid rows < rw_rowid r) \<and>
    (\<forall>r\<in>set new. \<exists>v\<in>set vs. r = v\<lparr>rw_rowid := rw_rowid r\<rparr>)"
  using assms
proof (induction vs arbitrary: rows)
  case Nil
  then show ?case by simp
next
  case (Cons v vs)
  have d: "distinct (map rw_id vs)" "rw_id v \<notin> set (map rw_id vs)" using Cons.prems by auto
  show ?case
  proof (cases "raw_conflict v rows")
    case True
    obtain new where new: "fold insert_raw vs rows = rows @ new"
      "map rw_id new = filter (\<lambda>i. \<not> tbl_has rw_id i rows \<and> tbl_has rw_id i (rows @ new)) (map rw_id vs)"
      "\<forall>r\<in>set new. max_rowid rows < rw_rowid r" "\<forall>r\<in>set new. \<exists>v\<in>set vs. r = v\<lparr>rw_rowid := rw_rowid r\<rparr>"
      using Cons.IH [OF d(1), of rows] by blast
    have "set (map rw_id new) \<subseteq> set (map rw_id vs)" unfolding new(2) by auto
    then have "rw_id v \<notin> rw_id ` set new" using d(2) by auto
    then have "\<not> tbl_has rw_id (rw_id v) new" by (simp add: tbl_has_iff)
    moreover have "insert_raw v rows = rows" using True by (simp add: insert_raw_def)
    ultimately show ?thesis using new by (intro exI [of _ new]) auto
  next
    case False
    let ?v = "v\<lparr>rw_rowid := max_rowid rows + 1\<rparr>"
    obtain new where new: "fold insert_raw vs (rows @ [?v]) = (rows @ [?v]) @ new"
      "map rw_id new = filter (\<lambda>i. \<not> tbl_has rw_id i (rows @ [?v]) \<and> tbl_has rw_id i ((rows @ [?v]) @ new)) (map rw_id vs)"
      "\<forall>r\<in>set new. max_rowid (rows @ [?v]) < rw_rowid r" "\<forall>r\<in>set new. \<exists>v\<in>set vs. r = v\<lparr>rw_rowid := rw_rowid r\<rparr>"
      using Cons.IH [OF d(1), of "rows @ [?v]"] by blast
    have "max_rowid rows < max_rowid (rows @ [?v])"
      using le_max_rowid [of ?v "rows @ [?v]"] by simp
    moreover have "\<not> tbl_has rw_id (rw_id v) rows" using False by (simp add: raw_conflict_def)
    moreover have "filter (\<lambda>i. \<not> tbl_has rw_id i (rows @ [?v]) \<and> tbl_has rw_id i ((rows @ [?v]) @ new)) (map rw_id vs) =
        filter (\<lambda>i. \<not> tbl_has rw_id i rows \<and> tbl_has rw_id i (rows @ ?v # new)) (map rw_id vs)"
      using d(2) by (intro filter_cong) auto
    moreover have "insert_raw v rows = rows @ [?v]" using False by (simp add: insert_raw_def)
    ultimately show ?thesis using new by (intro exI [of _ "?v # new"]) auto
  qed
qed

lemma build_all_ids: "build_all es = Inr vs \<Longrightarrow> map rw_id vs = map ev_id es"
  by (induction es arbitrary: vs)
    (auto simp: ebind_eq_Inr_iff buildRawEventValues_def Let_def)

lemma build_all_append:
  "build_all (xs @ ys) = ebind (build_all xs) (\<lambda>vs. ebind (build_all ys) (\<lambda>ws. Inr (vs @ ws)))"
  by (induction xs) (auto simp: ebind_def split: sum.split)

lemma insert_event_chunks_concat:
  "insert_event_chunks cs rows = ebind (build_all (concat cs)) (\<lambda>vs. Inr (fold insert_raw vs rows))"
  by (induction cs arbitrary: rows) (auto simp: build_all_append ebind_def split: sum.split)

lemma fold_map_set_ids:
  "distinct (map fst m) \<Longrightarrow> \<forall>(k, e)\<in>set m. ev_id e = k \<Longrightarrow>
   (let m' = fold (\<lambda>(k, v) m. map_set k v m) (map (\<lambda>e. (ev_id e, e)) es) m in
     distinct (map fst m') \<and> (\<forall>(k, e)\<in>set m'. ev_id e = k) \<and>
     fst ` set m' = fst ` set m \<union> ev_id ` set es \<and> snd ` set m' \<subseteq> snd ` set m \<union> set es)"
proof (induction es arbitrary: m)
  case Nil
  then show ?case by simp
next
  case (Cons e es)
  let ?m = "map_set (ev_id e) e m"
  have d: "distinct (map fst ?m)" using Cons.prems(1) by (simp add: map_set_def distinct_update)
  have sub: "set ?m \<subseteq> insert (ev_id e, e) (set m)"
    unfolding map_set_def by (induction m) (auto split: if_split_asm)
  have keys: "fst ` set ?m = insert (ev_id e) (fst ` set m)" by (simp add: map_set_def dom_update)
  have ids: "\<forall>(k, e)\<in>set ?m. ev_id e = k" using Cons.prems(2) sub by fastforce
  have vals: "snd ` set ?m \<subseteq> insert e (snd ` set m)" using sub by fastforce
  let ?m' = "fold (\<lambda>(k, v) m. map_set k v m) (map (\<lambda>e. (ev_id e, e)) es) ?m"
  have ih: "distinct (map fst ?m')" "\<forall>(k, e)\<in>set ?m'. ev_id e = k" "fst ` set ?m' = fst ` set ?m \<union> ev_id ` set es"
    "snd ` set ?m' \<subseteq> snd ` set ?m \<union> set es"
    using Cons.IH [OF d ids] by (simp_all add: Let_def)
  note ih(4)
  also have "snd ` set ?m \<union> set es \<subseteq> snd ` set m \<union> set (e # es)" using vals by auto
  finally show ?case using ih(1-3) keys by (simp add: Let_def)
qed

lemma unique_events_ids:
  "distinct (map ev_id (unique_events es))"
  "ev_id ` set (unique_events es) = ev_id ` set es" "set (unique_events es) \<subseteq> set es"
proof -
  let ?m = "js_map_from (map (\<lambda>e. (ev_id e, e)) es)"
  have m: "distinct (map fst ?m)" "\<forall>(k, e)\<in>set ?m. ev_id e = k" "fst ` set ?m = ev_id ` set es"
    "snd ` set ?m \<subseteq> set es"
    using fold_map_set_ids [of "[]" es] by (simp_all add: js_map_from_def Let_def)
  have eq: "map ev_id (unique_events es) = map fst ?m"
    unfolding unique_events_def map_map by (rule map_cong) (use m(2) in auto)
  show "distinct (map ev_id (unique_events es))" using m(1) by (simp only: eq)
  have "set (map ev_id (unique_events es)) = set (map fst ?m)" by (simp only: eq)
  then show "ev_id ` set (unique_events es) = ev_id ` set es" using m(3) by simp
  show "set (unique_events es) \<subseteq> set es" using m(4) by (simp add: unique_events_def)
qed

subsection \<open>Collecting the new rows\<close>

definition collected :: "raw_row list \<Rightarrow> string set \<Rightarrow> (string \<rightharpoonup> nat) \<times> nat option \<times> nat option \<Rightarrow> bool" where
  "collected table seen acc \<longleftrightarrow> (case acc of (ids, lo, hi) \<Rightarrow>
     let found = {r \<in> set table. rw_id r \<in> seen} in
     (\<forall>i n. ids i = Some n \<longleftrightarrow> (\<exists>r\<in>found. rw_id r = i \<and> rw_rowid r = n)) \<and>
     lo = (if found = {} then None else Some (Min (rw_rowid ` found))) \<and>
     hi = (if found = {} then None else Some (Max (rw_rowid ` found))))"

lemma sort_key_hd_last:
  fixes f :: "'a \<Rightarrow> 'b::linorder"
  assumes "xs \<noteq> []"
  shows "f (hd (sort_key f xs)) = Min (f ` set xs)" "f (last (sort_key f xs)) = Max (f ` set xs)"
proof -
  let ?ys = "sort_key f xs"
  have set: "set ?ys = set xs" and srt: "sorted (map f ?ys)" by simp_all
  have ne: "?ys \<noteq> []" using assms set by (metis set_empty)
  then have "hd ?ys \<in> set xs" "last ?ys \<in> set xs" using set by (metis hd_in_set) (metis last_in_set ne set)
  moreover have "\<forall>x\<in>set xs. f (hd ?ys) \<le> f x"
  proof
    fix x assume "x \<in> set xs"
    then have "x \<in> set ?ys" using set by blast
    then show "f (hd ?ys) \<le> f x" using srt ne by (cases ?ys) auto
  qed
  moreover have "\<forall>x\<in>set xs. f x \<le> f (last ?ys)"
  proof
    fix x assume "x \<in> set xs"
    then obtain i where i: "i < length ?ys" "?ys ! i = x" using set by (metis in_set_conv_nth)
    have "map f ?ys ! i \<le> map f ?ys ! (length ?ys - 1)"
      using i(1) by (intro sorted_nth_mono [OF srt]) auto
    then show "f x \<le> f (last ?ys)" using i ne by (simp add: last_conv_nth)
  qed
  ultimately show "f (hd ?ys) = Min (f ` set xs)" "f (last ?ys) = Max (f ` set xs)"
    by (auto intro!: Min_eqI [symmetric] Max_eqI [symmetric])
qed

lemma fold_upd_rows:
  "distinct (map rw_id rs) \<Longrightarrow> fold (\<lambda>r m. m(rw_id r \<mapsto> rw_rowid r)) rs m i = Some n \<longleftrightarrow>
     (\<exists>r\<in>set rs. rw_id r = i \<and> rw_rowid r = n) \<or> i \<notin> rw_id ` set rs \<and> m i = Some n"
proof (induction rs arbitrary: m)
  case (Cons r rs)
  then have "rw_id r \<notin> rw_id ` set rs" by auto
  then show ?case using Cons.IH [of "m(rw_id r \<mapsto> rw_rowid r)"] Cons.prems by auto
qed simp

lemma Min_Un_insert:
  fixes A B :: "nat set"
  assumes "finite A" "finite B" "A \<noteq> {}" "B \<noteq> {}"
  shows "(if Min A < Min B then Min A else Min B) = Min (B \<union> A)" "(if Max B < Max A then Max A else Max B) = Max (B \<union> A)"
  using Min_Un [OF assms(2,4,1,3)] Max_Un [OF assms(2,4,1,3)] by (auto simp: min_def max_def)

lemma bound_step:
  fixes A B :: "nat set"
  assumes "finite A" "finite B" "B \<noteq> {}"
  shows "(case (if A = {} then None else Some (Min A)) of None \<Rightarrow> Some (Min B)
      | Some f \<Rightarrow> if Min B < f then Some (Min B) else (if A = {} then None else Some (Min A))) = Some (Min (A \<union> B))"
    and "(case (if A = {} then None else Some (Max A)) of None \<Rightarrow> Some (Max B)
      | Some l \<Rightarrow> if l < Max B then Some (Max B) else (if A = {} then None else Some (Max A))) = Some (Max (A \<union> B))"
  using Min_Un_insert [OF assms(2,1,3)] by (cases "A = {}"; simp split: if_splits; fail)+

lemma collect_chunk_step:
  assumes "keyed rw_id table" "collected table seen acc"
  shows "collected table (seen \<union> ev_id ` set chunk) (collect_chunk table chunk acc)"
proof -
  obtain ids lo hi where acc: "acc = (ids, lo, hi)" by (cases acc) auto
  let ?sel = "filter (\<lambda>r. rw_id r \<in> ev_id ` set chunk) table"
  let ?rows = "sort_key rw_rowid ?sel"
  let ?old = "{r \<in> set table. rw_id r \<in> seen}"
  let ?new = "{r \<in> set table. rw_id r \<in> ev_id ` set chunk}"
  have all: "{r \<in> set table. rw_id r \<in> seen \<union> ev_id ` set chunk} = ?old \<union> ?new" by auto
  have set: "set ?rows = ?new" by auto
  show ?thesis
  proof (cases "?new = {}")
    case True
    then have "?sel = []" using set by (metis set_empty set_sort)
    then have "collect_chunk table chunk acc = acc" by (simp add: collect_chunk_def acc Let_def)
    moreover have "{r \<in> set table. rw_id r \<in> seen \<union> ev_id ` set chunk} = ?old" using True by blast
    ultimately show ?thesis using assms(2) unfolding collected_def Let_def by (simp only:)
  next
    case False
    then have ne: "?sel \<noteq> []" "?rows \<noteq> []" using set by (metis set_empty set_sort)+
    have dist: "distinct (map rw_id ?rows)"
    proof -
      have "distinct (map rw_id ?sel)" using assms(1) by (simp add: keyed_def distinct_map_filter)
      then show ?thesis by (simp add: distinct_map)
    qed
    have lohi: "rw_rowid (hd ?rows) = Min (rw_rowid ` ?new)" "rw_rowid (last ?rows) = Max (rw_rowid ` ?new)"
      using sort_key_hd_last [OF ne(1), of rw_rowid] by simp_all
    have col: "collect_chunk table chunk acc =
        (fold (\<lambda>r m. m(rw_id r \<mapsto> rw_rowid r)) ?rows ids,
         (case lo of None \<Rightarrow> Some (Min (rw_rowid ` ?new))
          | Some f \<Rightarrow> if Min (rw_rowid ` ?new) < f then Some (Min (rw_rowid ` ?new)) else lo),
         (case hi of None \<Rightarrow> Some (Max (rw_rowid ` ?new))
          | Some l \<Rightarrow> if l < Max (rw_rowid ` ?new) then Some (Max (rw_rowid ` ?new)) else hi))"
      unfolding lohi [symmetric] using ne(2) by (simp add: collect_chunk_def acc Let_def)
    have old: "\<forall>i n. ids i = Some n \<longleftrightarrow> (\<exists>r\<in>?old. rw_id r = i \<and> rw_rowid r = n)"
      "lo = (if ?old = {} then None else Some (Min (rw_rowid ` ?old)))"
      "hi = (if ?old = {} then None else Some (Max (rw_rowid ` ?old)))"
      using assms(2) by (simp_all add: collected_def acc Let_def)
    have fin: "finite (rw_rowid ` ?old)" "finite (rw_rowid ` ?new)" by simp_all
    have "fold (\<lambda>r m. m(rw_id r \<mapsto> rw_rowid r)) ?rows ids i = Some n \<longleftrightarrow>
        (\<exists>r\<in>?old \<union> ?new. rw_id r = i \<and> rw_rowid r = n)" for i n
    proof -
      have uniq: "r = r'" if "r \<in> set table" "r' \<in> set table" "rw_id r = rw_id r'" for r r'
        using keyed_unique [OF assms(1) that] .
      show ?thesis
        unfolding fold_upd_rows [OF dist] set old(1) [rule_format] using uniq by blast
    qed
    moreover have "(case lo of None \<Rightarrow> Some (Min (rw_rowid ` ?new))
          | Some f \<Rightarrow> if Min (rw_rowid ` ?new) < f then Some (Min (rw_rowid ` ?new)) else lo) =
        Some (Min (rw_rowid ` (?old \<union> ?new)))"
      using bound_step(1) [OF fin] False unfolding old(2) image_Un image_is_empty by blast
    moreover have "(case hi of None \<Rightarrow> Some (Max (rw_rowid ` ?new))
          | Some l \<Rightarrow> if l < Max (rw_rowid ` ?new) then Some (Max (rw_rowid ` ?new)) else hi) =
        Some (Max (rw_rowid ` (?old \<union> ?new)))"
      using bound_step(2) [OF fin] False unfolding old(3) image_Un image_is_empty by blast
    ultimately show ?thesis using False unfolding collected_def Let_def all col by simp
  qed
qed

lemma collect_chunks:
  "keyed rw_id table \<Longrightarrow> collected table seen acc \<Longrightarrow>
   collected table (seen \<union> ev_id ` set (concat cs)) (fold (collect_chunk table) cs acc)"
proof (induction cs arbitrary: seen acc)
  case (Cons c cs)
  from Cons.IH [OF Cons.prems(1) collect_chunk_step [OF Cons.prems]]
  show ?case by (simp add: image_Un Un_assoc)
qed simp


lemma ingest_is_append:
  assumes "raw_inv table" and "insertRawEvents events table = Inr (res, table')"
  shows "raw_inv table' \<and> (\<exists>new. table' = table @ new \<and>
    map (\<lambda>(i, e). (i, ev_id e)) (ir_rows res) = map (\<lambda>r. (rw_rowid r, rw_id r)) new \<and>
    ir_count res = length new \<and> set (ir_events res) \<subseteq> set events \<and>
    (\<forall>e\<in>set events. tbl_has rw_id (ev_id e) table' \<or> ev_id e \<notin> ev_id ` set (ir_events res)) \<and>
    ir_first res = (if new = [] then None else Some (rw_rowid (hd new))) \<and>
    ir_last res = (if new = [] then None else Some (rw_rowid (last new))))"
proof (cases "events = []")
  case True
  then show ?thesis using assms by (auto simp: insertRawEvents_def intro!: exI [of _ "[]"])
next
  case False
  let ?uniq = "unique_events events"
  let ?cand = "filter (\<lambda>e. \<not> tbl_has rw_id (ev_id e) table) ?uniq"
  let ?acc = "fold (collect_chunk table') (chunkArray ?cand 250) (Map.empty, None, None)"
  obtain vs where vs: "build_all ?uniq = Inr vs" and t': "table' = fold insert_raw vs table"
    and report: "res = ingest_report ?uniq table table'"
    using assms(2) False
    by (auto simp: insertRawEvents_def Let_def insert_event_chunks_concat concat_chunkArray ebind_eq_Inr_iff)
  obtain ids lo hi where acc: "?acc = (ids, lo, hi)" by (cases ?acc) auto
  let ?ins = "filter (\<lambda>e. ids (ev_id e) \<noteq> None) ?cand"
  have res: "res = \<lparr>ir_count = length ?ins, ir_events = ?ins,
      ir_rows = List.map_filter (\<lambda>e. map_option (\<lambda>i. (i, e)) (ids (ev_id e))) ?ins, ir_first = lo, ir_last = hi\<rparr>"
    by (simp add: report ingest_report_def acc Let_def)
  have vids: "map rw_id vs = map ev_id ?uniq" by (rule build_all_ids [OF vs])
  have dv: "distinct (map rw_id vs)" unfolding vids by (rule unique_events_ids)
  obtain new where new: "table' = table @ new"
    "map rw_id new = filter (\<lambda>i. \<not> tbl_has rw_id i table \<and> tbl_has rw_id i table') (map ev_id ?uniq)"
  proof -
    obtain new where "fold insert_raw vs table = table @ new"
      "map rw_id new = filter (\<lambda>i. \<not> tbl_has rw_id i table \<and> tbl_has rw_id i (table @ new)) (map rw_id vs)"
      using fold_insert_raw [OF dv, of table] by blast
    then show thesis by (intro that [of new]) (simp_all only: t' vids)
  qed
  have inv: "raw_inv table'" unfolding t' by (rule fold_insert_raw_inv [OF assms(1)])
  then have k: "keyed rw_id table'" by (simp add: raw_inv_def)
  have "collected table' {} (Map.empty, None, None)" by (simp add: collected_def)
  from collect_chunks [OF k this, of "chunkArray ?cand 250"]
  have col: "collected table' (ev_id ` set ?cand) (ids, lo, hi)"
    by (simp add: acc concat_chunkArray)
  have newids: "rw_id ` set new = {i. i \<in> ev_id ` set ?uniq \<and> \<not> tbl_has rw_id i table \<and> tbl_has rw_id i table'}"
    using arg_cong [OF new(2), of set] by auto
  have found: "{r \<in> set table'. rw_id r \<in> ev_id ` set ?cand} = set new"
  proof -
    have "r \<in> set new" if "r \<in> set table'" "rw_id r \<in> ev_id ` set ?cand" for r
    proof -
      have "\<not> tbl_has rw_id (rw_id r) table" using that(2) by auto
      then have "r \<notin> set table" unfolding tbl_has_iff by blast
      then show ?thesis using that(1) by (simp add: new(1))
    qed
    moreover have "r \<in> set table'" "rw_id r \<in> ev_id ` set ?cand" if "r \<in> set new" for r
    proof -
      show "r \<in> set table'" using that by (simp add: new(1))
      have "rw_id r \<in> {i. i \<in> ev_id ` set ?uniq \<and> \<not> tbl_has rw_id i table \<and> tbl_has rw_id i table'}"
        using that unfolding newids [symmetric] by blast
      then show "rw_id r \<in> ev_id ` set ?cand" by auto
    qed
    ultimately show ?thesis by blast
  qed
  have ids: "ids i = Some n \<longleftrightarrow> (\<exists>r\<in>set new. rw_id r = i \<and> rw_rowid r = n)" for i n
    using col unfolding collected_def Let_def found by blast
  have lohi: "lo = (if new = [] then None else Some (Min (rw_rowid ` set new)))"
    "hi = (if new = [] then None else Some (Max (rw_rowid ` set new)))"
    using col unfolding collected_def Let_def found by simp_all
  have isSome: "ids i \<noteq> None \<longleftrightarrow> i \<in> rw_id ` set new" for i using ids [of i] by auto
  have insids: "map ev_id ?ins = map rw_id new"
  proof -
    have "map ev_id ?ins = filter (\<lambda>i. \<not> tbl_has rw_id i table \<and> ids i \<noteq> None) (map ev_id ?uniq)"
      by (simp add: filter_map comp_def conj_commute)
    also have "\<dots> = map rw_id new"
      unfolding new(2)
    proof (rule filter_cong [OF refl])
      fix i assume "i \<in> set (map ev_id ?uniq)"
      then have "i \<in> rw_id ` set new \<longleftrightarrow> \<not> tbl_has rw_id i table \<and> tbl_has rw_id i table'"
        unfolding newids by simp
      then show "(\<not> tbl_has rw_id i table \<and> ids i \<noteq> None) \<longleftrightarrow> (\<not> tbl_has rw_id i table \<and> tbl_has rw_id i table')"
        unfolding isSome by blast
    qed
    finally show ?thesis .
  qed
  have rows: "map (\<lambda>(i, e). (i, ev_id e)) (List.map_filter (\<lambda>e. map_option (\<lambda>i. (i, e)) (ids (ev_id e))) es) =
      map (\<lambda>r. (rw_rowid r, rw_id r)) rs" if "map ev_id es = map rw_id rs" "set rs \<subseteq> set new" for es rs
    using that
  proof (induction es arbitrary: rs)
    case (Cons e es)
    then obtain r rs' where r: "rs = r # rs'" "rw_id r = ev_id e" "map ev_id es = map rw_id rs'" by (cases rs) auto
    then have "ids (ev_id e) = Some (rw_rowid r)" using ids Cons.prems(2) by auto
    then show ?case using Cons.IH [OF r(3)] Cons.prems(2) r by simp
  qed simp
  have srt: "sorted (map rw_rowid new)"
    using inv by (auto simp: raw_inv_def new(1) sorted_wrt_append intro: strict_sorted_imp_sorted)
  have ends: "new \<noteq> [] \<Longrightarrow> Min (rw_rowid ` set new) = rw_rowid (hd new)"
    "new \<noteq> [] \<Longrightarrow> Max (rw_rowid ` set new) = rw_rowid (last new)"
    using sort_key_hd_last [of new rw_rowid] sort_key_id_if_sorted [OF srt] by simp_all
  have len: "length ?ins = length new" using arg_cong [OF insids, of length] by simp
  have sub: "set ?ins \<subseteq> set events" using unique_events_ids(3) [of events] by auto
  have rest: "tbl_has rw_id (ev_id e) table' \<or> ev_id e \<notin> ev_id ` set ?ins" for e
  proof -
    have "ev_id ` set ?ins = rw_id ` set new" using arg_cong [OF insids, of set] by simp
    then show ?thesis by (auto simp: new(1) tbl_has_iff)
  qed
  have rr: "map (\<lambda>(i, e). (i, ev_id e)) (ir_rows res) = map (\<lambda>r. (rw_rowid r, rw_id r)) new"
    using rows [OF insids] by (simp add: res)
  have fl: "ir_first res = (if new = [] then None else Some (rw_rowid (hd new)))"
    "ir_last res = (if new = [] then None else Some (rw_rowid (last new)))"
    using lohi ends by (simp_all add: res)
  show ?thesis using inv new(1) rr fl len sub rest by (auto simp: res)
qed



definition demo_event :: raw_input where
  "demo_event = \<lparr>ev_id = ''e1'', ev_platform = Slack, ev_account = ''a'', ev_entity = EkMessage, ev_kind = ''created'',
     ev_external_event = None, ev_external_entity = None, ev_conversation = None, ev_occurred_at = None,
     ev_observed_at = 9, ev_cursor = None, ev_dedupe = ''d1'', ev_payload = demo_message_payload,
     ev_schema = None, ev_provenance = None, ev_source_version = None\<rparr>"

definition demo_row :: raw_row where
  "demo_row = (case buildRawEventValues demo_event of Inl _ \<Rightarrow> undefined | Inr r \<Rightarrow> r)"

lemma demo_row_built: "buildRawEventValues demo_event = Inr demo_row" "rw_id demo_row = ''e1''"
proof -
  have "assertCanonicalRawEventPayloadForWrite EkMessage ''created'' (Some ''message.created@1'') demo_message_payload = Inr ()"
    "assertCanonicalNormalizedSchemaForWrite ''message.created@1'' = Inr ()"
    "resolveRawEventNormalizedSchema EkMessage ''created'' None = ''message.created@1''" by code_simp+
  then have "\<exists>r. buildRawEventValues demo_event = Inr r \<and> rw_id r = ''e1''"
    by (simp add: buildRawEventValues_def demo_event_def)
  then show "buildRawEventValues demo_event = Inr demo_row" "rw_id demo_row = ''e1''"
    by (auto simp: demo_row_def)
qed

lemma demo_ingest:
  "\<exists>res. insertRawEvents [demo_event, demo_event] [] = Inr (res, [demo_row\<lparr>rw_rowid := 1\<rparr>]) \<and>
     raw_inv [demo_row\<lparr>rw_rowid := 1\<rparr>]"
proof -
  have u: "unique_events [demo_event, demo_event] = [demo_event]"
    by (simp add: unique_events_def js_map_from_def map_set_def)
  have r: "insertRawEvents [demo_event, demo_event] [] =
      Inr (ingest_report [demo_event] [] [demo_row\<lparr>rw_rowid := 1\<rparr>], [demo_row\<lparr>rw_rowid := 1\<rparr>])"
    by (simp add: insertRawEvents_def u insert_event_chunks_concat concat_chunkArray demo_row_built insert_raw_def
        raw_conflict_def max_rowid_def)
  have "raw_inv []" by (simp add: raw_inv_def)
  from ingest_is_append [OF this r] r show ?thesis by auto
qed


end
