(* ===== verification/ProjectionCache.thy ===== *)
theory ProjectionCache
  imports Aliases
begin

text \<open>
  The lookup caches of the projection (\<^verbatim>\<open>src/runtime/projection/projection-cache.ts\<close>). A cache is
  anything with \<open>get\<close>, \<open>has\<close> and \<open>set\<close>; an overlay collects writes above a base and publishes them
  on commit. The interface is the locale \<open>cache_lookup\<close>; JavaScript maps provide it, and an overlay of
  anything that provides it provides it too, so overlays nest. \<open>get\<close> gives \<open>None\<close> for
  \<open>undefined\<close>.
\<close>

locale cache_lookup =
  fixes get :: "'c \<Rightarrow> string \<Rightarrow> 'v option"
    and has :: "'c \<Rightarrow> string \<Rightarrow> bool"
    and put :: "string \<Rightarrow> 'v \<Rightarrow> 'c \<Rightarrow> 'c"
  assumes get_put: "get (put k v c) k' = (if k' = k then Some v else get c k')"
    and has_get: "has c k \<longleftrightarrow> get c k \<noteq> None"

subsection \<open>The overlay\<close>

record ('v, 'c) cache_overlay =
  ov_writes :: "(string, 'v) js_map"
  ov_base :: 'c

definition overlay_new :: "'c \<Rightarrow> ('v, 'c) cache_overlay" where
  "overlay_new base = \<lparr>ov_writes = [], ov_base = base\<rparr>"

definition overlay_get :: "('c \<Rightarrow> string \<Rightarrow> 'v option) \<Rightarrow> ('v, 'c) cache_overlay \<Rightarrow> string \<Rightarrow> 'v option" where
  "overlay_get get ov k = (if map_has (ov_writes ov) k then map_of (ov_writes ov) k else get (ov_base ov) k)"

definition overlay_has :: "('c \<Rightarrow> string \<Rightarrow> bool) \<Rightarrow> ('v, 'c) cache_overlay \<Rightarrow> string \<Rightarrow> bool" where
  "overlay_has has ov k \<longleftrightarrow> map_has (ov_writes ov) k \<or> has (ov_base ov) k"

definition overlay_set :: "string \<Rightarrow> 'v \<Rightarrow> ('v, 'c) cache_overlay \<Rightarrow> ('v, 'c) cache_overlay" where
  "overlay_set k v ov = ov\<lparr>ov_writes := map_set k v (ov_writes ov)\<rparr>"

definition overlay_commit :: "(string \<Rightarrow> 'v \<Rightarrow> 'c \<Rightarrow> 'c) \<Rightarrow> ('v, 'c) cache_overlay \<Rightarrow> 'c" where
  "overlay_commit put ov = fold (\<lambda>(k, v). put k v) (ov_writes ov) (ov_base ov)"

text \<open>A cache client is a sequence of lookups and writes; the writes may depend on what was read.\<close>

datatype 'v cache_op = CacheSet string 'v | CacheCopy string string

fun run_cache_op ::
  "('c \<Rightarrow> string \<Rightarrow> 'v option) \<Rightarrow> (string \<Rightarrow> 'v \<Rightarrow> 'c \<Rightarrow> 'c) \<Rightarrow> 'v cache_op \<Rightarrow> 'c \<Rightarrow> 'c" where
  "run_cache_op get put (CacheSet k v) c = put k v c"
| "run_cache_op get put (CacheCopy k k') c = (case get c k of None \<Rightarrow> c | Some v \<Rightarrow> put k' v c)"

subsection \<open>An overlay provides the interface\<close>

context cache_lookup
begin

lemma get_fold_set: "get (fold (\<lambda>(k, v). put k v) ws c) k = (case map_of (rev ws) k of None \<Rightarrow> get c k | v \<Rightarrow> v)"
proof (induction ws arbitrary: c)
  case Nil
  then show ?case by simp
next
  case (Cons w ws)
  obtain k' v where w: "w = (k', v)" by fastforce
  show ?case using Cons.IH [of "put k' v c"]
    by (auto simp: w get_put map_of_append map_add_def split: option.splits)
qed

lemma overlay_lookup: "cache_lookup (overlay_get get) (overlay_has has) (overlay_set :: string \<Rightarrow> 'v \<Rightarrow> ('v, 'c) cache_overlay \<Rightarrow> _)"
  by unfold_locales (auto simp: overlay_get_def overlay_set_def overlay_has_def has_get map_has_def)

lemma get_commit:
  assumes "distinct (map fst (ov_writes ov))"
  shows "get (overlay_commit put ov) k = overlay_get get ov k"
proof -
  have "map_of (rev (ov_writes ov)) = map_of (ov_writes ov)"
    using assms by (simp add: map_of_inject_set rev_map [symmetric])
  then show ?thesis
    by (simp add: overlay_commit_def get_fold_set overlay_get_def map_has_def split: option.split)
qed

lemma overlay_new_get: "overlay_get get (overlay_new c) k = get c k"
  by (simp add: overlay_get_def overlay_new_def map_has_def)

text \<open>Running the same operations on an overlay and on the base.\<close>

definition overlay_sim :: "('v, 'c) cache_overlay \<Rightarrow> 'c \<Rightarrow> bool" where
  "overlay_sim ov c \<longleftrightarrow> distinct (map fst (ov_writes ov)) \<and> overlay_get get ov = get c"

lemma overlay_sim_op:
  assumes "overlay_sim ov c"
  shows "overlay_sim (run_cache_op (overlay_get get) overlay_set op ov) (run_cache_op get put op c)"
    and "ov_base (run_cache_op (overlay_get get) overlay_set op ov) = ov_base ov"
proof -
  have step: "overlay_sim (overlay_set k v ov) (put k v c)" for k v
  proof -
    have "overlay_get get (overlay_set k v ov) k' = get (put k v c) k'" for k'
      using assms cache_lookup.get_put [OF overlay_lookup, of k v ov k'] by (simp add: overlay_sim_def get_put)
    moreover have "distinct (map fst (ov_writes (overlay_set k v ov)))"
      using assms by (simp add: overlay_sim_def overlay_set_def map_set_def distinct_update)
    ultimately show ?thesis by (simp add: overlay_sim_def fun_eq_iff)
  qed
  show "overlay_sim (run_cache_op (overlay_get get) overlay_set op ov) (run_cache_op get put op c)"
    using assms step by (cases op) (auto simp: overlay_sim_def split: option.split)
  show "ov_base (run_cache_op (overlay_get get) overlay_set op ov) = ov_base ov"
    by (cases op) (auto simp: overlay_set_def split: option.split)
qed

lemma overlay_sim_ops:
  "overlay_sim ov c \<Longrightarrow>
   overlay_sim (fold (run_cache_op (overlay_get get) overlay_set) ops ov) (fold (run_cache_op get put) ops c) \<and>
   ov_base (fold (run_cache_op (overlay_get get) overlay_set) ops ov) = ov_base ov"
proof (induction ops arbitrary: ov c)
  case (Cons op ops)
  show ?case using Cons.IH [OF overlay_sim_op(1) [OF Cons.prems]] overlay_sim_op(2) [OF Cons.prems] by simp
qed simp

lemma overlay_new_sim: "overlay_sim (overlay_new c) c"
  by (simp add: overlay_sim_def overlay_new_get fun_eq_iff) (simp add: overlay_new_def)

end

text \<open>
  The stored maps, a batch's overlay above them, and an event's overlay above that.
\<close>

interpretation stored: cache_lookup map_of map_has map_set
  by unfold_locales (auto simp: map_has_def)

interpretation batch: cache_lookup "overlay_get map_of" "overlay_has map_has" overlay_set
  by (rule stored.overlay_lookup)

interpretation event: cache_lookup "overlay_get (overlay_get map_of)" "overlay_has (overlay_has map_has)" overlay_set
  by (rule batch.overlay_lookup)

text \<open>
  C33: an overlay is invisible to its client. Whatever lookups and writes an event makes on its overlay of the batch's
  overlay of the stored map, committing both leaves the stored map as if the operations had been made on it
  directly; and until the commit neither the batch's cache nor the stored map has changed, so discarding the
  overlay undoes the event.
\<close>

theorem nested_overlay_transparent:
  fixes m :: "(string, 'v) js_map" and ops :: "'v cache_op list"
  shows "let ev = fold (run_cache_op (overlay_get (overlay_get map_of)) overlay_set) ops (overlay_new (overlay_new m))
    in map_of (overlay_commit map_set (overlay_commit overlay_set ev)) = map_of (fold (run_cache_op map_of map_set) ops m) \<and>
       ov_base ev = overlay_new m \<and> ov_base (ov_base ev) = m"
proof -
  let ?ev = "fold (run_cache_op (overlay_get (overlay_get map_of)) overlay_set) ops (overlay_new (overlay_new m))"
  let ?bt = "fold (run_cache_op (overlay_get map_of) overlay_set) ops (overlay_new m)"
  have e: "batch.overlay_sim ?ev ?bt" "ov_base ?ev = overlay_new m"
    using batch.overlay_sim_ops [OF batch.overlay_new_sim, of ops "overlay_new m"] by (simp_all add: overlay_new_def)
  have b: "stored.overlay_sim ?bt (fold (run_cache_op map_of map_set) ops m)"
    using stored.overlay_sim_ops [OF stored.overlay_new_sim] by blast
  let ?cb = "overlay_commit overlay_set ?ev"
  have cb: "overlay_get map_of ?cb = overlay_get map_of ?bt"
    using batch.get_commit [of ?ev] e(1) by (simp add: batch.overlay_sim_def fun_eq_iff)
  have keys: "distinct (map fst (ov_writes (fold (\<lambda>(k, v). overlay_set k v) ws ov)))"
    if "distinct (map fst (ov_writes ov))" for ws and ov :: "('v, (string, 'v) js_map) cache_overlay"
    using that
  proof (induction ws arbitrary: ov)
    case (Cons w ws)
    have "distinct (map fst (ov_writes (overlay_set (fst w) (snd w) ov)))"
      using Cons.prems by (simp add: overlay_set_def map_set_def distinct_update)
    from Cons.IH [OF this] show ?case by (simp add: case_prod_beta)
  qed simp
  have "distinct (map fst (ov_writes ?cb))"
    unfolding overlay_commit_def by (rule keys) (simp add: e(2), simp add: overlay_new_def)
  then have "map_of (overlay_commit map_set ?cb) = overlay_get map_of ?cb"
    by (intro ext stored.get_commit)
  also have "\<dots> = map_of (fold (run_cache_op map_of map_set) ops m)"
    using b cb by (simp add: stored.overlay_sim_def)
  finally show ?thesis using e(2) by (simp add: Let_def overlay_new_def)
qed

end
