(* ===== verification/Payloads.thy ===== *)
theory Payloads
  imports Json
begin

text \<open>
  The payloads of the canonical events (\<^verbatim>\<open>src/core/types/provider.ts\<close>) as the projection reads them:
  \<open>JSON.parse\<close> followed by a cast, so a field may be missing (\<open>None\<close>, JavaScript's \<open>undefined\<close>),
  \<open>null\<close> (\<open>Some None\<close>) or present. A field the code passes through \<open>normalizeText\<close> may hold
  anything, and what is no string reads as \<open>null\<close>. A field that is bound to a column or used as a key
  as it is has to have its declared type; otherwise reading the payload fails, and with it the event.
\<close>

datatype payload_error = BadField string

definition js_truthy :: "json option \<Rightarrow> bool" where
  "js_truthy v = (case v of
       None \<Rightarrow> False
     | Some JNull \<Rightarrow> False
     | Some (JBool b) \<Rightarrow> b
     | Some (JNum n) \<Rightarrow> n \<noteq> Fin 0 \<and> n \<noteq> NaN
     | Some (JStr s) \<Rightarrow> s \<noteq> []
     | Some _ \<Rightarrow> True)"

definition flag :: "json \<Rightarrow> string \<Rightarrow> bool" where
  "flag j k = js_truthy (jget j k)"

definition loose_text :: "json \<Rightarrow> string \<Rightarrow> string option option" where
  "loose_text j k = (case jget j k of
       None \<Rightarrow> None
     | Some (JStr s) \<Rightarrow> Some (Some s)
     | Some _ \<Rightarrow> Some None)"

definition field_text :: "json \<Rightarrow> string \<Rightarrow> payload_error + string option option" where
  "field_text j k = (case jget j k of
       None \<Rightarrow> Inr None
     | Some JNull \<Rightarrow> Inr (Some None)
     | Some (JStr s) \<Rightarrow> Inr (Some (Some s))
     | Some _ \<Rightarrow> Inl (BadField k))"

definition field_num :: "json \<Rightarrow> string \<Rightarrow> payload_error + rat option option" where
  "field_num j k = (case jget j k of
       None \<Rightarrow> Inr None
     | Some JNull \<Rightarrow> Inr (Some None)
     | Some (JNum (Fin x)) \<Rightarrow> Inr (Some (Some x))
     | Some _ \<Rightarrow> Inl (BadField k))"

definition need_text :: "json \<Rightarrow> string \<Rightarrow> payload_error + string" where
  "need_text j k = (case jget j k of Some (JStr s) \<Rightarrow> Inr s | _ \<Rightarrow> Inl (BadField k))"

definition need_num :: "json \<Rightarrow> string \<Rightarrow> payload_error + rat" where
  "need_num j k = (case jget j k of Some (JNum (Fin x)) \<Rightarrow> Inr x | _ \<Rightarrow> Inl (BadField k))"

text \<open>\<open>value ?? null\<close>.\<close>

definition or_null :: "'a option option \<Rightarrow> 'a option" where
  "or_null v = (case v of None \<Rightarrow> None | Some x \<Rightarrow> x)"

lemma or_null_simps [simp]: "or_null None = None" "or_null (Some x) = x"
  by (simp_all add: or_null_def)

fun read_list :: "('j \<Rightarrow> 'e + 'a) \<Rightarrow> 'j list \<Rightarrow> 'e + 'a list" where
  "read_list f [] = Inr []"
| "read_list f (j # js) = ebind (f j) (\<lambda>x. ebind (read_list f js) (\<lambda>xs. Inr (x # xs)))"

definition need_list :: "(json \<Rightarrow> payload_error + 'a) \<Rightarrow> json \<Rightarrow> string \<Rightarrow> payload_error + 'a list" where
  "need_list f j k = (case jget j k of Some (JArr js) \<Rightarrow> read_list f js | _ \<Rightarrow> Inl (BadField k))"

subsection \<open>Contacts\<close>

record handle_input =
  hi_type :: string
  hi_value :: string
  hi_deterministic :: bool

record contact_payload =
  cp_source :: string
  cp_display_name :: "string option option"
  cp_photo_url :: "string option option"
  cp_company :: "string option option"
  cp_handles :: "handle_input list"
  cp_profile_url :: "string option option"

definition read_handle :: "json \<Rightarrow> payload_error + handle_input" where
  "read_handle j =
     ebind (need_text j ''type'') (\<lambda>t.
     ebind (need_text j ''value'') (\<lambda>v.
       Inr \<lparr>hi_type = t, hi_value = v, hi_deterministic = flag j ''deterministic''\<rparr>))"

definition read_contact :: "json \<Rightarrow> payload_error + contact_payload" where
  "read_contact j =
     ebind (need_text j ''sourceEntityKey'') (\<lambda>source.
     ebind (need_list read_handle j ''handles'') (\<lambda>handles.
       (case jget j ''fields'' of
          None \<Rightarrow> Inl (BadField ''fields'')
        | Some JNull \<Rightarrow> Inl (BadField ''fields'')
        | Some given \<Rightarrow>
            Inr \<lparr>cp_source = source, cp_display_name = loose_text given ''display_name'',
                 cp_photo_url = loose_text given ''photo_url'', cp_company = loose_text given ''company'',
                 cp_handles = handles, cp_profile_url = loose_text j ''sourceProfileUrl''\<rparr>)))"

record alias_payload =
  ap_alias :: string
  ap_canonical :: string

definition read_alias :: "json \<Rightarrow> payload_error + alias_payload" where
  "read_alias j =
     ebind (need_text j ''aliasSourceEntityKey'') (\<lambda>a.
     ebind (need_text j ''canonicalSourceEntityKey'') (\<lambda>c. Inr \<lparr>ap_alias = a, ap_canonical = c\<rparr>))"

subsection \<open>Conversations and participants\<close>

record participant_input =
  vi_source :: "string option"
  vi_self :: bool

record conversation_payload =
  vp_source :: string
  vp_type :: "string option option"
  vp_display_name :: "string option option"
  vp_native :: "string option option"
  vp_service :: "string option option"
  vp_topic :: "string option option"
  vp_unread :: "rat option option"
  vp_removal :: "string option option"
  vp_participants :: "participant_input list"

definition read_participant_input :: "json \<Rightarrow> payload_error + participant_input" where
  "read_participant_input j =
     (if j = JNull then Inl (BadField ''participants'')
      else ebind (field_text j ''sourceEntityKey'') (\<lambda>k. Inr \<lparr>vi_source = or_null k, vi_self = flag j ''isSelf''\<rparr>))"

definition read_conversation :: "json \<Rightarrow> payload_error + conversation_payload" where
  "read_conversation j =
     ebind (need_text j ''sourceConversationKey'') (\<lambda>source.
     ebind (field_text j ''conversationType'') (\<lambda>type.
     ebind (field_num j ''unreadCount'') (\<lambda>unread.
     ebind (need_list read_participant_input j ''participants'') (\<lambda>participants.
       Inr \<lparr>vp_source = source, vp_type = type, vp_display_name = loose_text j ''displayName'',
            vp_native = loose_text j ''nativeConversationKey'', vp_service = loose_text j ''service'',
            vp_topic = loose_text j ''topic'', vp_unread = unread, vp_removal = loose_text j ''removalReason'',
            vp_participants = participants\<rparr>))))"

record participant_payload =
  pp_conversation :: string
  pp_participant :: "string option"
  pp_event_at :: "rat option option"
  pp_self :: bool
  pp_role :: "string option option"

definition read_participant :: "json \<Rightarrow> payload_error + participant_payload" where
  "read_participant j =
     ebind (need_text j ''sourceConversationKey'') (\<lambda>conversation.
     ebind (field_text j ''participantSourceKey'') (\<lambda>participant.
     ebind (field_num j ''eventAt'') (\<lambda>eventAt.
       Inr \<lparr>pp_conversation = conversation, pp_participant = or_null participant, pp_event_at = eventAt,
            pp_self = flag j ''isSelf'', pp_role = loose_text j ''role''\<rparr>)))"

subsection \<open>Messages and reactions\<close>

record message_payload =
  mp_source :: string
  mp_conversation :: string
  mp_sender :: "string option option"
  mp_sent_at :: "rat option option"
  mp_content :: "string option option"
  mp_service :: "string option option"
  mp_status :: "string option option"
  mp_from_me :: bool
  mp_delivered_at :: "rat option"
  mp_read_at :: "rat option"
  mp_edited_at :: "rat option"
  mp_deleted_at :: "rat option"
  mp_reply_to :: "string option"
  mp_edited :: bool
  mp_deleted :: bool
  mp_attachments :: "json list option"

text \<open>\<open>payload.attachments\<close> is iterated; \<open>null\<close> and \<open>undefined\<close> count as none, but only \<open>undefined\<close> as not given.\<close>

definition read_attachments :: "json \<Rightarrow> payload_error + json list option" where
  "read_attachments j = (case jget j ''attachments'' of
       None \<Rightarrow> Inr None
     | Some JNull \<Rightarrow> Inr (Some [])
     | Some (JArr js) \<Rightarrow> Inr (Some js)
     | Some _ \<Rightarrow> Inl (BadField ''attachments''))"

definition read_message :: "json \<Rightarrow> payload_error + message_payload" where
  "read_message j =
     ebind (need_text j ''sourceMessageKey'') (\<lambda>source.
     ebind (need_text j ''sourceConversationKey'') (\<lambda>conversation.
     ebind (field_text j ''senderSourceKey'') (\<lambda>sender.
     ebind (field_num j ''sentAt'') (\<lambda>sentAt.
     ebind (field_text j ''content'') (\<lambda>content.
     ebind (field_num j ''deliveredAt'') (\<lambda>deliveredAt.
     ebind (field_num j ''readAt'') (\<lambda>readAt.
     ebind (field_num j ''editedAt'') (\<lambda>editedAt.
     ebind (field_num j ''deletedAt'') (\<lambda>deletedAt.
     ebind (read_attachments j) (\<lambda>attachments.
       Inr \<lparr>mp_source = source, mp_conversation = conversation, mp_sender = sender, mp_sent_at = sentAt,
            mp_content = content, mp_service = loose_text j ''service'', mp_status = loose_text j ''status'',
            mp_from_me = flag j ''isFromMe'', mp_delivered_at = or_null deliveredAt, mp_read_at = or_null readAt,
            mp_edited_at = or_null editedAt, mp_deleted_at = or_null deletedAt,
            mp_reply_to = or_null (loose_text j ''replyToSourceMessageKey''),
            mp_edited = flag j ''isEdited'', mp_deleted = flag j ''isDeleted'', mp_attachments = attachments\<rparr>))))))))))"

record reaction_payload =
  rp_message :: string
  rp_conversation :: string
  rp_reactor :: "string option option"
  rp_emoji :: string
  rp_type :: "string option option"
  rp_timestamp :: "rat option"
  rp_active :: bool

definition read_reaction :: "json \<Rightarrow> payload_error + reaction_payload" where
  "read_reaction j =
     ebind (need_text j ''sourceMessageKey'') (\<lambda>message.
     ebind (need_text j ''sourceConversationKey'') (\<lambda>conversation.
     ebind (need_text j ''emoji'') (\<lambda>emoji.
     ebind (field_text j ''reactorSourceKey'') (\<lambda>reactor.
     ebind (field_num j ''timestamp'') (\<lambda>timestamp.
       Inr \<lparr>rp_message = message, rp_conversation = conversation, rp_reactor = reactor, rp_emoji = emoji,
            rp_type = loose_text j ''reactionType'', rp_timestamp = or_null timestamp,
            rp_active = flag j ''isActive''\<rparr>)))))"

subsection \<open>Timeline events and calls\<close>

record timeline_payload =
  tp_source :: string
  tp_conversation :: string
  tp_kind :: "string option"
  tp_actor :: "string option"
  tp_subject :: "string option"
  tp_event_at :: "rat option option"
  tp_text :: "string option option"
  tp_metadata :: "json option"

definition read_timeline :: "json \<Rightarrow> payload_error + timeline_payload" where
  "read_timeline j =
     ebind (need_text j ''sourceEventKey'') (\<lambda>source.
     ebind (need_text j ''sourceConversationKey'') (\<lambda>conversation.
     ebind (field_text j ''eventKind'') (\<lambda>kind.
     ebind (field_text j ''actorSourceKey'') (\<lambda>actor.
     ebind (field_text j ''subjectSourceKey'') (\<lambda>subject.
     ebind (field_num j ''eventAt'') (\<lambda>eventAt.
       Inr \<lparr>tp_source = source, tp_conversation = conversation, tp_kind = or_null kind, tp_actor = or_null actor,
            tp_subject = or_null subject, tp_event_at = eventAt, tp_text = loose_text j ''text'',
            tp_metadata = jget j ''metadata''\<rparr>))))))"

record call_payload =
  lp_source :: string
  lp_conversation :: string
  lp_provider :: "string option option"
  lp_provider_type :: "json option"
  lp_direction :: "string option option"
  lp_medium :: "string option option"
  lp_status :: "string option option"
  lp_started_at :: "rat option option"
  lp_answered_at :: "json option"
  lp_ended_at :: "rat option"
  lp_duration :: "rat option"
  lp_initiator :: "string option"
  lp_remote :: "string option"
  lp_remote_address :: "json option"
  lp_remote_name :: "json option"
  lp_cause :: "string option"
  lp_metadata :: "json option"

definition read_call :: "json \<Rightarrow> payload_error + call_payload" where
  "read_call j =
     ebind (need_text j ''sourceCallKey'') (\<lambda>source.
     ebind (need_text j ''sourceConversationKey'') (\<lambda>conversation.
     ebind (field_text j ''provider'') (\<lambda>provider.
     ebind (field_text j ''direction'') (\<lambda>direction.
     ebind (field_text j ''medium'') (\<lambda>medium.
     ebind (field_text j ''status'') (\<lambda>status.
     ebind (field_num j ''startedAt'') (\<lambda>startedAt.
     ebind (field_num j ''endedAt'') (\<lambda>endedAt.
     ebind (field_num j ''durationSeconds'') (\<lambda>duration.
     ebind (field_text j ''initiatorSourceKey'') (\<lambda>initiator.
     ebind (field_text j ''primaryRemoteSourceKey'') (\<lambda>remote.
     ebind (field_text j ''disconnectedCause'') (\<lambda>cause.
       Inr \<lparr>lp_source = source, lp_conversation = conversation, lp_provider = provider,
            lp_provider_type = jget j ''providerCallType'', lp_direction = direction, lp_medium = medium,
            lp_status = status, lp_started_at = startedAt, lp_answered_at = jget j ''answeredAt'',
            lp_ended_at = or_null endedAt, lp_duration = or_null duration, lp_initiator = or_null initiator,
            lp_remote = or_null remote, lp_remote_address = jget j ''remoteAddress'',
            lp_remote_name = jget j ''remoteDisplayName'', lp_cause = or_null cause,
            lp_metadata = jget j ''metadata''\<rparr>))))))))))))"

record call_delete_payload =
  dp_conversation :: string
  dp_provider :: "string option"
  dp_direction :: "string option"

definition read_call_delete :: "json \<Rightarrow> payload_error + call_delete_payload" where
  "read_call_delete j =
     ebind (need_text j ''sourceConversationKey'') (\<lambda>conversation.
       Inr \<lparr>dp_conversation = conversation, dp_provider = or_null (loose_text j ''provider''),
            dp_direction = or_null (loose_text j ''direction'')\<rparr>)"

end
