(* ===== verification/ProjText.thy ===== *)
theory ProjText
  imports Payloads Phone
begin

text \<open>
  The text rules of the projector (\<^verbatim>\<open>src/runtime/projection/projector.ts\<close>): ids, handles, display names
  (the JavaScript rules and the SQL rules), call summaries, attachment labels and locations. What the code
  takes from the runtime is the record \<open>proj_env\<close>: the hexadecimal SHA-256 digest, the collation order of
  \<open>localeCompare\<close>, the printing of a number that is no integer, and the bullet character U+2022, which is
  outside the code units the model's strings have.
\<close>

record proj_env =
  pe_sha256 :: "string \<Rightarrow> string"
  pe_locale_le :: "string \<Rightarrow> string \<Rightarrow> bool"
  pe_show_fraction :: "rat \<Rightarrow> string"
  pe_bullet :: string

definition hashId :: "proj_env \<Rightarrow> string \<Rightarrow> string \<Rightarrow> string" where
  "hashId env tag value = tag @ ''_'' @ take 24 (pe_sha256 env value)"

definition show_number :: "proj_env \<Rightarrow> rat \<Rightarrow> string" where
  "show_number env x = (if x = of_int \<lfloor>x\<rfloor> then dec_int \<lfloor>x\<rfloor> else pe_show_fraction env x)"

text \<open>\<open>value.includes (part)\<close>.\<close>

definition str_includes :: "string \<Rightarrow> string \<Rightarrow> bool" where
  "str_includes s part \<longleftrightarrow> sublist part s"

subsection \<open>Handles\<close>

definition normalizeHandle :: "string \<Rightarrow> string \<Rightarrow> string" where
  "normalizeHandle type value =
     (let trimmed = js_trim value in
      if type = ''email'' then js_lower trimmed
      else if type = ''phone'' then normalizePhone trimmed
      else js_lower trimmed)"

definition inferHandleFromSourceEntityKey :: "string option \<Rightarrow> (string \<times> string) option" where
  "inferHandleFromSourceEntityKey sourceEntityKey = (case sourceEntityKey of
       None \<Rightarrow> None
     | Some key \<Rightarrow>
         if \<not> starts_with ''imessage:'' key then None
         else let identifier = js_trim (drop 9 key) in
           if identifier = [] then None
           else let type = (if str_includes identifier ''@'' then ''email'' else ''phone'') in
             Some (type, normalizeHandle type identifier))"

subsection \<open>Text and display names\<close>

definition normalizeText :: "string option \<Rightarrow> string option" where
  "normalizeText value = (case value of
       None \<Rightarrow> None
     | Some s \<Rightarrow> (let trimmed = js_trim s in if trimmed = [] then None else Some trimmed))"

definition json_text :: "json option \<Rightarrow> string option" where
  "json_text v = normalizeText (jstr v)"

text \<open>\<open>/^\+?[\d\s().-]{6,}$/\<close>.\<close>

definition phone_char :: "char \<Rightarrow> bool" where
  "phone_char c \<longleftrightarrow> is_digit c \<or> is_ws c \<or> c \<in> set ''().-''"

definition raw_phone_pattern :: "string \<Rightarrow> bool" where
  "raw_phone_pattern s =
     (let rest = (if starts_with ''+'' s then drop 1 s else s)
      in 6 \<le> length rest \<and> list_all phone_char rest)"

definition is_lower_hex :: "char \<Rightarrow> bool" where
  "is_lower_hex c \<longleftrightarrow> is_digit c \<or> c \<in> set ''abcdef''"

fun match_classes :: "(char \<Rightarrow> bool) list \<Rightarrow> string \<Rightarrow> bool" where
  "match_classes [] [] \<longleftrightarrow> True"
| "match_classes (p # ps) (c # cs) \<longleftrightarrow> p c \<and> match_classes ps cs"
| "match_classes _ _ \<longleftrightarrow> False"

definition uuid_classes :: "(char \<Rightarrow> bool) \<Rightarrow> (char \<Rightarrow> bool) \<Rightarrow> (char \<Rightarrow> bool) \<Rightarrow> (char \<Rightarrow> bool) list" where
  "uuid_classes hex version variant =
     replicate 8 hex @ [\<lambda>c. c = CHR ''-''] @ replicate 4 hex @ [\<lambda>c. c = CHR ''-''] @
     [version] @ replicate 3 hex @ [\<lambda>c. c = CHR ''-''] @ [variant] @ replicate 3 hex @ [\<lambda>c. c = CHR ''-''] @
     replicate 12 hex"

definition signal_uuid_pattern :: "string \<Rightarrow> bool" where
  "signal_uuid_pattern s =
     match_classes (uuid_classes is_lower_hex (\<lambda>c. c \<in> set ''12345'') (\<lambda>c. c \<in> set ''89ab'')) s"

definition identifier_prefixes :: "string list" where
  "identifier_prefixes = [''contacts:'', ''imessage:'', ''signal:'', ''whatsapp:'', ''linkedin:'', ''slack:'', ''urn:li:'']"

definition isRawIdentifierDisplayName :: "string option \<Rightarrow> bool" where
  "isRawIdentifierDisplayName value = (case normalizeText value of
       None \<Rightarrow> False
     | Some normalized \<Rightarrow>
         (let lower = js_lower normalized in
            raw_phone_pattern normalized \<or> str_includes lower ''@'' \<or>
            list_ex (\<lambda>p. starts_with p lower) identifier_prefixes \<or> signal_uuid_pattern lower))"

definition mergeObservedDisplayName :: "string option \<Rightarrow> string option \<Rightarrow> string option" where
  "mergeObservedDisplayName existingName incomingName =
     (case (normalizeText existingName, normalizeText incomingName) of
        (existing, None) \<Rightarrow> existing
      | (None, incoming) \<Rightarrow> incoming
      | (Some e, Some i) \<Rightarrow>
          if \<not> isRawIdentifierDisplayName (Some e) \<and> isRawIdentifierDisplayName (Some i) then Some e else Some i)"

definition mergeAliasedDisplayName :: "string option \<Rightarrow> string option \<Rightarrow> string option" where
  "mergeAliasedDisplayName existingName incomingName =
     (case (normalizeText existingName, normalizeText incomingName) of
        (existing, None) \<Rightarrow> existing
      | (None, incoming) \<Rightarrow> incoming
      | (Some e, Some i) \<Rightarrow>
          if isRawIdentifierDisplayName (Some e) \<and> \<not> isRawIdentifierDisplayName (Some i) then Some i else Some e)"

definition mergeAliasedTextField :: "string option \<Rightarrow> string option \<Rightarrow> string option" where
  "mergeAliasedTextField existingValue incomingValue = coalesce (normalizeText existingValue) (normalizeText incomingValue)"

subsection \<open>The same rules in SQL\<close>

text \<open>\<open>TRIM\<close> strips spaces only, \<open>LOWER\<close> and \<open>LIKE\<close> fold ASCII letters only.\<close>

definition sql_trim :: "string \<Rightarrow> string" where
  "sql_trim s = (let sp = (\<lambda>c. c = CHR '' '') in rev (dropWhile sp (rev (dropWhile sp s))))"

definition sql_lower :: "string \<Rightarrow> string" where
  "sql_lower = map (\<lambda>c. let n = (of_char c :: nat) in if 65 \<le> n \<and> n \<le> 90 then char_of (n + 32) else c)"

definition is_ascii_letter :: "char \<Rightarrow> bool" where
  "is_ascii_letter c = (let n = (of_char c :: nat) in 65 \<le> n \<and> n \<le> 90 \<or> 97 \<le> n \<and> n \<le> 122)"

definition is_any_hex :: "char \<Rightarrow> bool" where
  "is_any_hex c \<longleftrightarrow> is_lower_hex c \<or> c \<in> set ''ABCDEF''"

definition nonEmptySql :: "string option \<Rightarrow> string option" where
  "nonEmptySql value = (case value of None \<Rightarrow> None | Some s \<Rightarrow> if sql_trim s = [] then None else Some (sql_trim s))"

definition isRawIdentifierDisplayNameSql :: "string option \<Rightarrow> bool" where
  "isRawIdentifierDisplayNameSql value = (case nonEmptySql value of
       None \<Rightarrow> False
     | Some t \<Rightarrow>
         (starts_with ''+'' t \<and> 1 < length t \<and> is_digit (t ! 1) \<or> is_digit (hd t)) \<and> \<not> list_ex is_ascii_letter t \<or>
         str_includes (sql_lower t) ''@'' \<or>
         list_ex (\<lambda>p. starts_with p (sql_lower t)) identifier_prefixes \<or>
         length t = 36 \<and> match_classes (uuid_classes is_any_hex is_any_hex is_any_hex) t)"

definition isHumanDisplayNameSql :: "string option \<Rightarrow> bool" where
  "isHumanDisplayNameSql value \<longleftrightarrow> nonEmptySql value \<noteq> None \<and> \<not> isRawIdentifierDisplayNameSql value"

subsection \<open>Calls\<close>

definition humanizeCallProvider :: "string option \<Rightarrow> string" where
  "humanizeCallProvider provider =
     (if provider = Some ''telephony'' then ''Phone''
      else if provider = Some ''facetime'' then ''FaceTime''
      else if provider = Some ''whatsapp'' then ''WhatsApp''
      else if provider = Some ''signal'' then ''Signal''
      else if provider = Some ''slack'' then ''Slack''
      else if provider = Some ''linkedin'' then ''LinkedIn''
      else '''')"

definition humanizeCallMedium :: "string option \<Rightarrow> string" where
  "humanizeCallMedium medium =
     (if medium = Some ''audio'' then ''''
      else if medium = Some ''video'' then '' video''
      else if medium = Some ''screen_share'' then '' screen share''
      else '''')"

definition formatCallDuration :: "proj_env \<Rightarrow> rat \<Rightarrow> string" where
  "formatCallDuration env durationSeconds =
     (if durationSeconds < 60 then show_number env durationSeconds @ ''s''
      else let minutes = \<lfloor>durationSeconds / 60\<rfloor>;
               seconds = durationSeconds - of_int (60 * minutes)
           in if minutes < 60
              then (if 0 < seconds then dec_int minutes @ ''m '' @ show_number env seconds @ ''s''
                    else dec_int minutes @ ''m'')
              else let hours = minutes div 60; remainingMinutes = minutes mod 60
                   in if 0 < remainingMinutes then dec_int hours @ ''h '' @ dec_int remainingMinutes @ ''m''
                      else dec_int hours @ ''h'')"

definition ch_upper :: "char \<Rightarrow> char" where
  "ch_upper c = (let n = (of_char c :: nat) in if 97 \<le> n \<and> n \<le> 122 then char_of (n - 32) else c)"

definition call_base :: "call_payload \<Rightarrow> string" where
  "call_base payload =
     (let provider = humanizeCallProvider (or_null (lp_provider payload));
          base = js_trim (provider @ humanizeCallMedium (or_null (lp_medium payload)) @ '' call'')
      in if provider = [] \<and> base \<noteq> [] then ch_upper (hd base) # tl base else base)"

definition buildCallSummary :: "proj_env \<Rightarrow> call_payload \<Rightarrow> string" where
  "buildCallSummary env payload =
     (let base = call_base payload; status = or_null (lp_status payload) in
      if status = Some ''missed'' then ''Missed '' @ base
      else if status = Some ''declined'' then ''Declined '' @ base
      else if status = Some ''canceled'' then ''Canceled '' @ base
      else if status = Some ''blocked'' then ''Blocked '' @ base
      else if status = Some ''failed'' then ''Failed '' @ base
      else if status = Some ''ongoing'' then ''Ongoing '' @ base
      else if status = Some ''completed''
        then (case lp_duration payload of
                Some d \<Rightarrow> if 0 < d then base @ '' '' @ pe_bullet env @ '' '' @ formatCallDuration env d else base
              | None \<Rightarrow> base)
      else base)"

definition inferTimelineSystemKind :: "timeline_payload \<Rightarrow> string" where
  "inferTimelineSystemKind payload =
     (case json_text (Option.bind (tp_metadata payload) (\<lambda>m. jget m ''systemKind'')) of
        Some kind \<Rightarrow> kind
      | None \<Rightarrow> ''provider_notice'')"

subsection \<open>Numbers in attachment descriptions\<close>

definition digits_value :: "string \<Rightarrow> nat" where
  "digits_value = foldl (\<lambda>a c. 10 * a + (of_char c - 48)) 0"

definition decimal_exponent :: "string \<Rightarrow> int option" where
  "decimal_exponent s =
     (if s = [] then Some 0
      else if hd s \<noteq> CHR ''e'' \<and> hd s \<noteq> CHR ''E'' then None
      else let r = tl s; ds = (if starts_with ''+'' r \<or> starts_with ''-'' r then tl r else r) in
        if \<not> all_digits ds then None
        else Some (if starts_with ''-'' r then - int (digits_value ds) else int (digits_value ds)))"

definition unsigned_decimal :: "string \<Rightarrow> rat option" where
  "unsigned_decimal s =
     (let ip = takeWhile is_digit s; r = dropWhile is_digit s;
          fp = (if starts_with ''.'' r then takeWhile is_digit (tl r) else []);
          r' = (if starts_with ''.'' r then dropWhile is_digit (tl r) else r)
      in if ip = [] \<and> fp = [] then None
         else map_option (\<lambda>e. of_nat (digits_value (ip @ fp)) *
                (if 0 \<le> e then 10 ^ nat e else 1 / 10 ^ nat (- e)) / 10 ^ length fp) (decimal_exponent r'))"

definition based_digit :: "char \<Rightarrow> nat" where
  "based_digit c = (let n = of_char c in
     if is_digit c then n - 48 else if 97 \<le> n \<and> n \<le> 102 then n - 87 else if 65 \<le> n \<and> n \<le> 70 then n - 55 else 16)"

definition based_number :: "nat \<Rightarrow> string \<Rightarrow> rat option" where
  "based_number base s =
     (if s \<noteq> [] \<and> list_all (\<lambda>c. based_digit c < base) s
      then Some (of_nat (foldl (\<lambda>a c. base * a + based_digit c) 0 s)) else None)"

text \<open>\<open>Number (text)\<close> on text that is not blank; no result stands for \<open>NaN\<close> and for the infinities.\<close>

definition js_number :: "string \<Rightarrow> rat option" where
  "js_number text =
     (let s = js_trim text in
      if starts_with ''0x'' s \<or> starts_with ''0X'' s then based_number 16 (drop 2 s)
      else if starts_with ''0o'' s \<or> starts_with ''0O'' s then based_number 8 (drop 2 s)
      else if starts_with ''0b'' s \<or> starts_with ''0B'' s then based_number 2 (drop 2 s)
      else let value = (if starts_with ''-'' s then map_option uminus (unsigned_decimal (tl s))
                        else if starts_with ''+'' s then unsigned_decimal (tl s) else unsigned_decimal s)
           in case value of Some x \<Rightarrow> if \<bar>x\<bar> < 2 ^ 1024 then Some x else None | None \<Rightarrow> None)"

definition normalizeInteger :: "json option \<Rightarrow> int option" where
  "normalizeInteger value = (case value of
       Some (JNum (Fin x)) \<Rightarrow> Some (rat_trunc x)
     | Some (JStr s) \<Rightarrow> if js_trim s \<noteq> [] then map_option rat_trunc (js_number s) else None
     | _ \<Rightarrow> None)"

subsection \<open>Attachments\<close>

definition normalizeAttachmentObject :: "json option \<Rightarrow> json option" where
  "normalizeAttachmentObject value = (case value of Some v \<Rightarrow> if is_js_object v then Some v else None | None \<Rightarrow> None)"

definition isGenericAttachmentPlaceholder :: "string option \<Rightarrow> bool" where
  "isGenericAttachmentPlaceholder value = (case value of
       None \<Rightarrow> False
     | Some s \<Rightarrow> js_lower (js_trim s) = ''[attachment]'' \<or> js_lower (js_trim s) = ''[attachments]'')"

definition normalizeMimeLabel :: "string option \<Rightarrow> string option" where
  "normalizeMimeLabel value = (case map_option js_lower (normalizeText value) of
       None \<Rightarrow> None
     | Some normalized \<Rightarrow>
         if normalized = ''application/pdf'' then Some ''pdf''
         else if starts_with ''image/'' normalized then Some ''image''
         else if starts_with ''audio/'' normalized then Some ''audio''
         else if starts_with ''video/'' normalized then Some ''video''
         else if starts_with ''text/'' normalized then Some ''text''
         else None)"

definition text_at :: "json \<Rightarrow> string \<Rightarrow> string option" where
  "text_at j k = json_text (jget j k)"

definition normalizeAttachmentLabel :: "json \<Rightarrow> string option" where
  "normalizeAttachmentLabel attachment =
     (let kind = map_option js_lower (text_at attachment ''kind'') in
      if kind \<noteq> None \<and> kind \<noteq> Some ''attachment'' \<and> kind \<noteq> Some ''file'' then kind
      else coalesce (normalizeMimeLabel (coalesce (text_at attachment ''mime_type'') (text_at attachment ''mimetype'')))
             (if kind = Some ''file'' then Some ''file'' else None))"

definition buildAttachmentOnlyContent :: "json list \<Rightarrow> string option" where
  "buildAttachmentOnlyContent attachments =
     (case List.map_filter (\<lambda>a. normalizeAttachmentObject (Some a)) attachments of
        [] \<Rightarrow> None
      | [attachment] \<Rightarrow>
          (case coalesce (text_at attachment ''filename'') (coalesce (text_at attachment ''name'') (text_at attachment ''title'')) of
             Some filename \<Rightarrow> Some (''[attachment: '' @ filename @ '']'')
           | None \<Rightarrow>
               (case normalizeAttachmentLabel attachment of
                  Some label \<Rightarrow> Some (''['' @ label @ '' attachment]'')
                | None \<Rightarrow> Some ''[attachment]''))
      | normalizedAttachments \<Rightarrow> Some (''['' @ dec_nat (length normalizedAttachments) @ '' attachments]''))"

text \<open>
  The content of a projected message: \<open>None\<close> when it is \<open>undefined\<close>. Blank content that is not empty
  is kept as it is, since \<open>normalizeText (content) ?? content\<close> falls back on it.
\<close>

definition resolveProjectedMessageContent :: "message_payload \<Rightarrow> string option option" where
  "resolveProjectedMessageContent payload =
     (let normalizedContent = (case normalizeText (or_null (mp_content payload)) of
            Some t \<Rightarrow> Some (Some t) | None \<Rightarrow> mp_content payload)
      in if or_null normalizedContent \<notin> {None, Some []} \<and> \<not> isGenericAttachmentPlaceholder (or_null normalizedContent)
         then normalizedContent
         else case buildAttachmentOnlyContent (get_or (mp_attachments payload) []) of
                Some label \<Rightarrow> Some (Some label)
              | None \<Rightarrow> normalizedContent)"

record attachment_projection =
  ia_local :: "string option"
  ia_remote :: "string option"
  ia_access_kind :: "string option"
  ia_access_ref :: "json option"
  ia_preview_ref :: "json option"
  ia_availability :: string
  ia_provider_metadata :: json

definition attachment_preview_url :: "json \<Rightarrow> string option" where
  "attachment_preview_url attachment =
     coalesce (text_at attachment ''previewUrl'') (coalesce (text_at attachment ''preview_url'')
       (coalesce (text_at attachment ''thumb_url'') (text_at attachment ''image_url'')))"

definition inferAttachmentProjection :: "json \<Rightarrow> attachment_projection" where
  "inferAttachmentProjection attachment =
     (let localPath = coalesce (text_at attachment ''local_path'')
            (coalesce (text_at attachment ''path'') (text_at attachment ''filename_path''));
          remoteUrl = coalesce (text_at attachment ''remote_url'')
            (coalesce (text_at attachment ''url'') (text_at attachment ''download_url''));
          providerFetchRef = coalesce (normalizeAttachmentObject (jget attachment ''provider_fetch''))
            (normalizeAttachmentObject (jget attachment ''download_ref''));
          accessKind = coalesce (text_at attachment ''access_kind'')
            (if localPath \<noteq> None then Some ''local_path''
             else if providerFetchRef \<noteq> None then Some ''provider_fetch''
             else if remoteUrl \<noteq> None then Some ''remote_url'' else None);
          accessRef = coalesce (normalizeAttachmentObject (jget attachment ''access_ref''))
            (if accessKind = Some ''local_path'' \<and> localPath \<noteq> None
             then map_option (\<lambda>p. JObj [(''path'', JStr p)]) localPath
             else if accessKind = Some ''provider_fetch'' \<and> providerFetchRef \<noteq> None then providerFetchRef
             else if accessKind = Some ''remote_url'' \<and> remoteUrl \<noteq> None
             then map_option (\<lambda>u. JObj [(''url'', JStr u)]) remoteUrl
             else None)
      in \<lparr>ia_local = localPath, ia_remote = remoteUrl, ia_access_kind = accessKind, ia_access_ref = accessRef,
          ia_preview_ref = coalesce (normalizeAttachmentObject (jget attachment ''preview_ref''))
            (map_option (\<lambda>u. JObj [(''url'', JStr u)]) (attachment_preview_url attachment)),
          ia_availability = get_or (text_at attachment ''availability_status'')
            (if accessKind \<noteq> None then ''available'' else ''metadata_only''),
          ia_provider_metadata = get_or (normalizeAttachmentObject (jget attachment ''provider_metadata'')) attachment\<rparr>)"

subsection \<open>Normal forms\<close>

lemma of_char_ch_lower: "(of_char (ch_lower c) :: nat) = (let n = of_char c in if 65 \<le> n \<and> n \<le> 90 \<or> 192 \<le> n \<and> n \<le> 222 \<and> n \<noteq> 215 then n + 32 else n)"
  by (simp add: ch_lower_def Let_def)

lemma is_ws_ch_lower [simp]: "is_ws (ch_lower c) = is_ws c"
  by (auto simp: is_ws_def of_char_ch_lower Let_def)

lemma ch_lower_idem [simp]: "ch_lower (ch_lower c) = ch_lower c"
  by (subst (1) ch_lower_def) (auto simp: of_char_ch_lower Let_def)

lemma dropWhile_ws_lower: "dropWhile is_ws (map ch_lower s) = map ch_lower (dropWhile is_ws s)"
  by (simp add: dropWhile_map comp_def)

lemma js_trim_lower: "js_trim (js_lower s) = js_lower (js_trim s)"
  by (simp add: js_trim_def js_lower_def dropWhile_ws_lower rev_map)

lemma js_lower_idem [simp]: "js_lower (js_lower s) = js_lower s"
  by (simp add: js_lower_def)

lemma normalizeHandle_idem: "normalizeHandle type (normalizeHandle type v) = normalizeHandle type v"
proof (cases "type = ''phone''")
  case True
  have "js_trim (normalizePhone v) = normalizePhone v" for v
  proof -
    obtain d where "list_all is_digit d" "normalizePhone v = d \<or> normalizePhone v = CHR ''+'' # d"
      using normalizePhone_normal_form [of v] by blast
    then show ?thesis by (auto simp: trim_digits trim_plus_digits)
  qed
  then show ?thesis using True normalizePhone_normal_form [of "js_trim v"] by (simp add: normalizeHandle_def)
next
  case False
  then show ?thesis by (simp add: normalizeHandle_def js_trim_lower Let_def)
qed

subsection \<open>Histories of names\<close>

lemma normalizeText_idem: "normalizeText value = Some t \<Longrightarrow> normalizeText (Some t) = Some t"
  by (auto simp: normalizeText_def Let_def split: option.splits if_splits)

definition nonblank_names :: "string option list \<Rightarrow> string list" where
  "nonblank_names names = List.map_filter normalizeText names"

definition human_names :: "string option list \<Rightarrow> string list" where
  "human_names names = filter (\<lambda>t. \<not> isRawIdentifierDisplayName (Some t)) (nonblank_names names)"

lemma names_snoc:
  "nonblank_names (names @ [x]) = nonblank_names names @ (case normalizeText x of None \<Rightarrow> [] | Some t \<Rightarrow> [t])"
  "human_names (names @ [x]) = human_names names @
     (case normalizeText x of None \<Rightarrow> [] | Some t \<Rightarrow> if isRawIdentifierDisplayName (Some t) then [] else [t])"
  by (auto simp: human_names_def nonblank_names_def List.map_filter_def split: option.split)

lemma nonblank_normal: "t \<in> set (nonblank_names names) \<Longrightarrow> normalizeText (Some t) = Some t"
  by (auto simp: nonblank_names_def List.map_filter_def intro: normalizeText_idem)

lemma human_nonblank: "t \<in> set (human_names names) \<Longrightarrow> t \<in> set (nonblank_names names) \<and> \<not> isRawIdentifierDisplayName (Some t)"
  by (simp add: human_names_def)

lemma no_human: "human_names names = [] \<Longrightarrow> t \<in> set (nonblank_names names) \<Longrightarrow> isRawIdentifierDisplayName (Some t)"
  by (auto simp: human_names_def filter_empty_conv)

lemma normalizeText_None [simp]: "normalizeText None = None"
  by (simp add: normalizeText_def)

lemma mergeObserved_step:
  "mergeObservedDisplayName None x = normalizeText x"
  "normalizeText (Some e) = Some e \<Longrightarrow> mergeObservedDisplayName (Some e) x =
     (case normalizeText x of None \<Rightarrow> Some e
      | Some i \<Rightarrow> if \<not> isRawIdentifierDisplayName (Some e) \<and> isRawIdentifierDisplayName (Some i) then Some e else Some i)"
  by (auto simp: mergeObservedDisplayName_def split: option.split)

lemma mergeAliased_step:
  "mergeAliasedDisplayName None x = normalizeText x"
  "normalizeText (Some e) = Some e \<Longrightarrow> mergeAliasedDisplayName (Some e) x =
     (case normalizeText x of None \<Rightarrow> Some e
      | Some i \<Rightarrow> if isRawIdentifierDisplayName (Some e) \<and> \<not> isRawIdentifierDisplayName (Some i) then Some i else Some e)"
  by (auto simp: mergeAliasedDisplayName_def split: option.split)

lemma name_cases:
  obtains (human) "human_names names \<noteq> []" "nonblank_names names \<noteq> []"
  | (raw) "human_names names = []" "nonblank_names names \<noteq> []"
  | (none) "human_names names = []" "nonblank_names names = []"
  by (auto simp: human_names_def)

lemma name_facts:
  "human_names names \<noteq> [] \<Longrightarrow> normalizeText (Some (last (human_names names))) = Some (last (human_names names))"
  "human_names names \<noteq> [] \<Longrightarrow> normalizeText (Some (hd (human_names names))) = Some (hd (human_names names))"
  "human_names names \<noteq> [] \<Longrightarrow> \<not> isRawIdentifierDisplayName (Some (last (human_names names)))"
  "human_names names \<noteq> [] \<Longrightarrow> \<not> isRawIdentifierDisplayName (Some (hd (human_names names)))"
  "nonblank_names names \<noteq> [] \<Longrightarrow> normalizeText (Some (last (nonblank_names names))) = Some (last (nonblank_names names))"
  "nonblank_names names \<noteq> [] \<Longrightarrow> normalizeText (Some (hd (nonblank_names names))) = Some (hd (nonblank_names names))"
  "human_names names = [] \<Longrightarrow> nonblank_names names \<noteq> [] \<Longrightarrow> isRawIdentifierDisplayName (Some (last (nonblank_names names)))"
  "human_names names = [] \<Longrightarrow> nonblank_names names \<noteq> [] \<Longrightarrow> isRawIdentifierDisplayName (Some (hd (nonblank_names names)))"
  using human_nonblank [OF last_in_set] human_nonblank [OF hd_in_set] nonblank_normal no_human
    last_in_set hd_in_set by metis+

lemma observed_history:
  "foldl mergeObservedDisplayName None names =
    (if human_names names \<noteq> [] then Some (last (human_names names))
     else if nonblank_names names \<noteq> [] then Some (last (nonblank_names names)) else None)"
proof (induction names rule: rev_induct)
  case Nil
  show ?case by (simp add: human_names_def nonblank_names_def List.map_filter_def)
next
  case (snoc x names)
  then show ?case
    by (cases names rule: name_cases)
      (auto simp: names_snoc mergeObserved_step name_facts split: option.split)
qed

lemma aliased_history:
  "foldl mergeAliasedDisplayName None names =
    (if human_names names \<noteq> [] then Some (hd (human_names names))
     else if nonblank_names names \<noteq> [] then Some (hd (nonblank_names names)) else None)"
proof (induction names rule: rev_induct)
  case Nil
  show ?case by (simp add: human_names_def nonblank_names_def List.map_filter_def)
next
  case (snoc x names)
  then show ?case
    by (cases names rule: name_cases)
      (auto simp: names_snoc mergeAliased_step name_facts split: option.split)
qed
text \<open>
  C34: the display name a contact ends up with. After any sequence of observed names the contact has the last name
  that is no raw identifier (a phone number, an address, a provider key), or, if there was none, the last name that
  is not blank; under the rule for aliased identities it keeps the first such name instead. A raw identifier never
  replaces a human name, in either rule and in whatever order the names arrive.
\<close>

theorem display_name_history:
  "foldl mergeObservedDisplayName None names =
     (if human_names names \<noteq> [] then Some (last (human_names names))
      else if nonblank_names names \<noteq> [] then Some (last (nonblank_names names)) else None) \<and>
   foldl mergeAliasedDisplayName None names =
     (if human_names names \<noteq> [] then Some (hd (human_names names))
      else if nonblank_names names \<noteq> [] then Some (hd (nonblank_names names)) else None)"
  by (rule conjI [OF observed_history aliased_history])

end
