(* ===== verification/ProjTables.thy ===== *)
theory ProjTables
  imports ProjText ContactMerge Platforms
begin

text \<open>
  The tables the projection derives from the raw events (\<^verbatim>\<open>src/db/schema.ts\<close>), the lookup caches, and the
  state a handler of \<^verbatim>\<open>src/runtime/projection/projector.ts\<close> works on. A table is a list of rows in rowid order. Columns that
  every statement of the projection fills with the same constant (the kind \<open>person\<close>, \<open>archived\<close>, the
  metadata of a contact source) are left out; integer flags are truth values; times are rationals, since a payload
  may hold any number. The constraints of the schema (primary keys, \<open>UNIQUE\<close>, \<open>NOT NULL\<close>, foreign keys
  with their \<open>ON DELETE\<close> actions) are written out where a statement can meet them.
\<close>

subsection \<open>Rows\<close>

record contact_row =
  ct_id :: string
  ct_name :: "string option"
  ct_photo :: "string option"
  ct_company :: "string option"
  ct_created :: rat
  ct_updated :: rat

record contact_source =
  cs_id :: string
  cs_contact :: string
  cs_platform :: platform
  cs_account :: string
  cs_key :: string
  cs_profile :: "string option"
  cs_first_seen :: rat
  cs_last_seen :: rat

record handle_row =
  ch_id :: string
  ch_contact :: string
  ch_type :: string
  ch_value :: string
  ch_normalized :: string
  ch_platform :: "platform option"
  ch_account :: "string option"
  ch_deterministic :: bool
  ch_created :: rat
  ch_updated :: rat

record conversation_row =
  cv_id :: string
  cv_platform :: platform
  cv_account :: string
  cv_key :: string
  cv_native :: "string option"
  cv_type :: string
  cv_active :: bool
  cv_removal :: "string option"
  cv_service :: "string option"
  cv_name :: "string option"
  cv_topic :: "string option"
  cv_participant_names :: "string option"
  cv_last_id :: "string option"
  cv_last_at :: "rat option"
  cv_last_preview :: "string option"
  cv_unread :: rat
  cv_created :: rat
  cv_updated :: rat

record participant_row =
  pt_conversation :: string
  pt_contact :: string
  pt_key :: "string option"
  pt_name :: "string option"
  pt_role :: "string option"
  pt_self :: bool
  pt_active :: bool
  pt_joined :: "rat option"
  pt_left :: "rat option"
  pt_updated :: rat

record message_row =
  ms_id :: string
  ms_platform :: platform
  ms_account :: string
  ms_key :: string
  ms_conversation :: string
  ms_sender :: "string option"
  ms_sender_key :: "string option"
  ms_sender_name :: "string option"
  ms_conversation_name :: "string option"
  ms_sent_at :: rat
  ms_service :: "string option"
  ms_status :: "string option"
  ms_from_me :: bool
  ms_content :: "string option"
  ms_delivered_at :: "rat option"
  ms_read_at :: "rat option"
  ms_edited_at :: "rat option"
  ms_deleted_at :: "rat option"
  ms_reply_to :: "string option"
  ms_deleted :: bool
  ms_edited :: bool
  ms_attachments :: nat
  ms_reactions :: nat
  ms_created :: rat
  ms_updated :: rat

record attachment_row =
  at_id :: string
  at_message :: string
  at_platform :: platform
  at_account :: string
  at_key :: string
  at_kind :: "string option"
  at_mime :: "string option"
  at_filename :: "string option"
  at_title :: "string option"
  at_local :: "string option"
  at_remote :: "string option"
  at_size :: "int option"
  at_text :: "string option"
  at_access_kind :: "string option"
  at_access_ref :: "json option"
  at_preview_ref :: "json option"
  at_availability :: "string option"
  at_provider_metadata :: "json option"
  at_metadata :: "json option"
  at_created :: rat
  at_updated :: rat

record reaction_row =
  re_id :: string
  re_message :: string
  re_platform :: platform
  re_account :: string
  re_key :: string
  re_reactor :: "string option"
  re_reactor_key :: "string option"
  re_reactor_name :: "string option"
  re_emoji :: string
  re_type :: "string option"
  re_active :: bool
  re_created :: rat
  re_updated :: rat

record timeline_row =
  tl_id :: string
  tl_platform :: platform
  tl_account :: string
  tl_conversation :: string
  tl_key :: string
  tl_kind :: string
  tl_actor :: "string option"
  tl_actor_key :: "string option"
  tl_actor_name :: "string option"
  tl_subject :: "string option"
  tl_subject_key :: "string option"
  tl_event_at :: rat
  tl_text :: "string option"
  tl_system_kind :: "string option"
  tl_call_provider :: "string option"
  tl_call_direction :: "string option"
  tl_call_status :: "string option"
  tl_call_medium :: "string option"
  tl_call_started :: "rat option"
  tl_call_ended :: "rat option"
  tl_call_duration :: "rat option"
  tl_call_cause :: "string option"
  tl_metadata :: "json option"
  tl_created :: rat
  tl_updated :: rat

record alias_row =
  al_platform :: platform
  al_account :: string
  al_alias :: string
  al_canonical :: string
  al_former :: "string option"
  al_contact :: "string option"
  al_observed :: rat

text \<open>
  The full-text indexes are the ids they hold entries for; of the local attachment files the projection only moves
  or drops the rows, so the rows are their attachment and, for the cache, the variant, for the content its text.
\<close>

record proj_db =
  pj_contacts :: "contact_row list"
  pj_sources :: "contact_source list"
  pj_handles :: "handle_row list"
  pj_conversations :: "conversation_row list"
  pj_participants :: "participant_row list"
  pj_messages :: "message_row list"
  pj_attachments :: "attachment_row list"
  pj_reactions :: "reaction_row list"
  pj_timeline :: "timeline_row list"
  pj_aliases :: "alias_row list"
  pj_memories :: "memory_row list"
  pj_fts :: "string list"
  pj_fts_queue :: "string list"
  pj_attachment_cache :: "(string \<times> string) list"
  pj_attachment_content :: "(string \<times> string option) list"
  pj_attachment_fts :: "string list"

subsection \<open>Caches and change sets\<close>

record proj_cache =
  pc_merges :: "(string, string) js_map"
  pc_sources :: "(string, string) js_map"
  pc_handles :: "(string, string) js_map"
  pc_conversations :: "(string, string) js_map"
  pc_names :: "(string, string option) js_map"
  pc_conversation_names :: "(string, string option) js_map"

definition createProjectionCache :: proj_cache where
  "createProjectionCache = \<lparr>pc_merges = [], pc_sources = [], pc_handles = [], pc_conversations = [],
     pc_names = [], pc_conversation_names = []\<rparr>"

text \<open>A JavaScript set: the members in the order they were added.\<close>

definition set_add :: "'a \<Rightarrow> 'a list \<Rightarrow> 'a list" where
  "set_add x xs = (if x \<in> set xs then xs else xs @ [x])"

lemma set_set_add [simp]: "set (set_add x xs) = insert x (set xs)"
  by (auto simp: set_add_def)

record proj_changes =
  pd_contacts :: "string list"
  pd_conversations :: "string list"
  pd_summaries :: "string list"
  pd_messages :: "string list"
  pd_attachments :: bool
  pd_reactions :: bool

definition createProjectionChangeSet :: proj_changes where
  "createProjectionChangeSet = \<lparr>pd_contacts = [], pd_conversations = [], pd_summaries = [], pd_messages = [],
     pd_attachments = False, pd_reactions = False\<rparr>"

definition mergeProjectionChangeSet :: "proj_changes \<Rightarrow> proj_changes \<Rightarrow> proj_changes" where
  "mergeProjectionChangeSet source target =
     \<lparr>pd_contacts = fold set_add (pd_contacts source) (pd_contacts target),
      pd_conversations = fold set_add (pd_conversations source) (pd_conversations target),
      pd_summaries = fold set_add (pd_summaries source) (pd_summaries target),
      pd_messages = fold set_add (pd_messages source) (pd_messages target),
      pd_attachments = (pd_attachments target \<or> pd_attachments source),
      pd_reactions = (pd_reactions target \<or> pd_reactions source)\<rparr>"

lemma set_fold_set_add [simp]: "set (fold set_add xs ys) = set xs \<union> set ys"
  by (induction xs arbitrary: ys) auto

subsection \<open>Handlers as state transformers that may throw\<close>

datatype proj_error = ProjConstraint db_error | NotNullViolation | ProjPayload payload_error | ProjAliasCycle string
  | AliasNotVerified | AliasConflict | NotAnObject

record proj_state =
  ps_db :: proj_db
  ps_cache :: proj_cache
  ps_changes :: proj_changes

type_synonym 'a step = "proj_state \<Rightarrow> proj_error + 'a \<times> proj_state"

definition sbind :: "'a step \<Rightarrow> ('a \<Rightarrow> 'b step) \<Rightarrow> 'b step" where
  "sbind m f = (\<lambda>s. ebind (m s) (\<lambda>(x, s'). f x s'))"

definition sret :: "'a \<Rightarrow> 'a step" where
  "sret x = (\<lambda>s. Inr (x, s))"

definition on_db :: "(proj_db \<Rightarrow> proj_db) \<Rightarrow> unit step" where
  "on_db f = (\<lambda>s. Inr ((), s\<lparr>ps_db := f (ps_db s)\<rparr>))"

definition try_db :: "(proj_db \<Rightarrow> proj_error + proj_db) \<Rightarrow> unit step" where
  "try_db f = (\<lambda>s. ebind (f (ps_db s)) (\<lambda>db. Inr ((), s\<lparr>ps_db := db\<rparr>)))"

definition on_cache :: "(proj_cache \<Rightarrow> proj_cache) \<Rightarrow> unit step" where
  "on_cache f = (\<lambda>s. Inr ((), s\<lparr>ps_cache := f (ps_cache s)\<rparr>))"

definition on_changes :: "(proj_changes \<Rightarrow> proj_changes) \<Rightarrow> unit step" where
  "on_changes f = (\<lambda>s. Inr ((), s\<lparr>ps_changes := f (ps_changes s)\<rparr>))"

definition from_db :: "(proj_db \<Rightarrow> 'a) \<Rightarrow> 'a step" where
  "from_db f = (\<lambda>s. Inr (f (ps_db s), s))"

definition from_cache :: "(proj_cache \<Rightarrow> 'a) \<Rightarrow> 'a step" where
  "from_cache f = (\<lambda>s. Inr (f (ps_cache s), s))"

definition lift_error :: "proj_error + 'a \<Rightarrow> 'a step" where
  "lift_error r = (\<lambda>s. ebind r (\<lambda>x. Inr (x, s)))"

definition map_error :: "('e \<Rightarrow> proj_error) \<Rightarrow> 'e + 'a \<Rightarrow> proj_error + 'a" where
  "map_error f r = (case r of Inl e \<Rightarrow> Inl (f e) | Inr x \<Rightarrow> Inr x)"

fun for_each :: "('a \<Rightarrow> unit step) \<Rightarrow> 'a list \<Rightarrow> unit step" where
  "for_each f [] = sret ()"
| "for_each f (x # xs) = sbind (f x) (\<lambda>_. for_each f xs)"

fun fold_err :: "('a \<Rightarrow> 's \<Rightarrow> 'e + 's) \<Rightarrow> 'a list \<Rightarrow> 's \<Rightarrow> 'e + 's" where
  "fold_err f [] s = Inr s"
| "fold_err f (x # xs) s = ebind (f x s) (fold_err f xs)"

lemmas step_defs = sbind_def sret_def on_db_def try_db_def on_cache_def on_changes_def from_db_def from_cache_def
  lift_error_def

text \<open>A property that every step of a handler keeps, the handler keeps.\<close>

definition keeps :: "(proj_state \<Rightarrow> bool) \<Rightarrow> 'a step \<Rightarrow> bool" where
  "keeps P m \<longleftrightarrow> (\<forall>s x s'. P s \<longrightarrow> m s = Inr (x, s') \<longrightarrow> P s')"

lemma keeps_sbind: "keeps P m \<Longrightarrow> (\<And>x. keeps P (f x)) \<Longrightarrow> keeps P (sbind m f)"
proof -
  assume m: "keeps P m" and f: "\<And>x. keeps P (f x)"
  show "keeps P (sbind m f)"
    unfolding keeps_def
  proof (intro allI impI)
    fix s x s'
    assume P: "P s" and r: "sbind m f s = Inr (x, s')"
    from r obtain y t where y: "m s = Inr (y, t)" "f y t = Inr (x, s')"
      by (cases "m s") (auto simp: sbind_def)
    have "P t" using m P y(1) unfolding keeps_def by blast
    then show "P s'" using f [of y] y(2) unfolding keeps_def by blast
  qed
qed

lemma keeps_sret [simp]: "keeps P (sret x)"
  by (simp add: keeps_def sret_def)

lemma keeps_from [simp]: "keeps P (from_db f)" "keeps P (from_cache g)" "keeps P (lift_error r)"
  by (auto simp: keeps_def from_db_def from_cache_def lift_error_def ebind_eq_Inr_iff)

lemma keeps_for_each: "(\<And>x. x \<in> set xs \<Longrightarrow> keeps P (f x)) \<Longrightarrow> keeps P (for_each f xs)"
  by (induction xs) (simp_all add: keeps_sbind)

subsection \<open>Foreign keys\<close>

definition fk_error :: "bool \<Rightarrow> proj_error + unit" where
  "fk_error ok = (if ok then Inr () else Inl (ProjConstraint ForeignKeyViolation))"

definition contact_known :: "proj_db \<Rightarrow> string \<Rightarrow> bool" where
  "contact_known db c = tbl_has ct_id c (pj_contacts db)"

definition conversation_known :: "proj_db \<Rightarrow> string \<Rightarrow> bool" where
  "conversation_known db c = tbl_has cv_id c (pj_conversations db)"

definition message_known :: "proj_db \<Rightarrow> string \<Rightarrow> bool" where
  "message_known db m = tbl_has ms_id m (pj_messages db)"

definition opt_known :: "(string \<Rightarrow> bool) \<Rightarrow> string option \<Rightarrow> bool" where
  "opt_known known r = (case r of None \<Rightarrow> True | Some x \<Rightarrow> known x)"

subsection \<open>Deletions with their cascades\<close>

definition delete_attachments :: "(attachment_row \<Rightarrow> bool) \<Rightarrow> proj_db \<Rightarrow> proj_db" where
  "delete_attachments P db =
     (let gone = map at_id (filter P (pj_attachments db)) in
      db\<lparr>pj_attachments := tbl_delete P (pj_attachments db),
         pj_attachment_cache := filter (\<lambda>c. fst c \<notin> set gone) (pj_attachment_cache db),
         pj_attachment_content := filter (\<lambda>c. fst c \<notin> set gone) (pj_attachment_content db)\<rparr>)"

definition delete_messages :: "(message_row \<Rightarrow> bool) \<Rightarrow> proj_db \<Rightarrow> proj_db" where
  "delete_messages P db =
     (let gone = map ms_id (filter P (pj_messages db));
          db' = delete_attachments (\<lambda>a. at_message a \<in> set gone) db
      in db'\<lparr>pj_messages := map (\<lambda>m. case ms_reply_to m of Some r \<Rightarrow> if r \<in> set gone then m\<lparr>ms_reply_to := None\<rparr> else m | None \<Rightarrow> m)
                 (tbl_delete P (pj_messages db')),
              pj_reactions := tbl_delete (\<lambda>r. re_message r \<in> set gone) (pj_reactions db')\<rparr>)"

definition delete_conversation :: "string \<Rightarrow> proj_db \<Rightarrow> proj_db" where
  "delete_conversation c db =
     (let db' = delete_messages (\<lambda>m. ms_conversation m = c) db in
      db'\<lparr>pj_conversations := tbl_delete (\<lambda>r. cv_id r = c) (pj_conversations db'),
          pj_participants := tbl_delete (\<lambda>p. pt_conversation p = c) (pj_participants db'),
          pj_timeline := tbl_delete (\<lambda>t. tl_conversation t = c) (pj_timeline db')\<rparr>)"

definition unlink :: "string \<Rightarrow> string option \<Rightarrow> string option" where
  "unlink c r = (if r = Some c then None else r)"

definition delete_contact :: "string \<Rightarrow> proj_db \<Rightarrow> proj_db" where
  "delete_contact c db =
     db\<lparr>pj_contacts := tbl_delete (\<lambda>r. ct_id r = c) (pj_contacts db),
        pj_sources := tbl_delete (\<lambda>r. cs_contact r = c) (pj_sources db),
        pj_handles := tbl_delete (\<lambda>r. ch_contact r = c) (pj_handles db),
        pj_participants := tbl_delete (\<lambda>p. pt_contact p = c) (pj_participants db),
        pj_messages := map (\<lambda>m. m\<lparr>ms_sender := unlink c (ms_sender m)\<rparr>) (pj_messages db),
        pj_reactions := map (\<lambda>r. r\<lparr>re_reactor := unlink c (re_reactor r)\<rparr>) (pj_reactions db),
        pj_timeline := map (\<lambda>t. t\<lparr>tl_actor := unlink c (tl_actor t), tl_subject := unlink c (tl_subject t)\<rparr>)
          (pj_timeline db)\<rparr>"

definition clearProjectedState :: "proj_db \<Rightarrow> proj_db" where
  "clearProjectedState db =
     db\<lparr>pj_aliases := [], pj_fts := [], pj_fts_queue := [], pj_timeline := [], pj_attachments := [],
        pj_attachment_cache := [], pj_attachment_content := [], pj_reactions := [], pj_participants := [],
        pj_messages := [], pj_conversations := [], pj_handles := [], pj_sources := [], pj_contacts := []\<rparr>"

end
