(* ===== verification/ProjStubs.thy ===== *)
theory ProjStubs
  imports ProjTables
begin

text \<open>
  Identity resolution and stubs (\<^verbatim>\<open>src/runtime/projection/projector.ts\<close>): a handler that meets a source key it has
  not seen creates a stub row under an id hashed from the key, and remembers the id in the caches.
\<close>

definition source_ref :: "platform \<Rightarrow> string \<Rightarrow> string \<Rightarrow> string" where
  "source_ref platform accountKey key = platform_name platform @ '':'' @ accountKey @ '':'' @ key"

definition handle_ref :: "string \<Rightarrow> string \<Rightarrow> string" where
  "handle_ref type normalizedValue = type @ '':'' @ normalizedValue"

definition resolveCanonicalContactId :: "proj_cache \<Rightarrow> string option \<Rightarrow> proj_error + string option" where
  "resolveCanonicalContactId cache contactId =
     (if contactId = None \<or> contactId = Some [] then Inr None
      else case resolve_alias (pc_merges cache) (the contactId) of
             Inl c \<Rightarrow> Inl (ProjAliasCycle c)
           | Inr y \<Rightarrow> Inr (Some y))"

definition resolve_step :: "string option \<Rightarrow> string option step" where
  "resolve_step contactId = (\<lambda>s. lift_error (resolveCanonicalContactId (ps_cache s) contactId) s)"

text \<open>A name the cache has not got yet is cached as unknown.\<close>

definition cache_source :: "string \<Rightarrow> string \<Rightarrow> unit step" where
  "cache_source key contactId = on_cache (\<lambda>c. c\<lparr>pc_sources := map_set key contactId (pc_sources c)\<rparr>)"

definition cache_handle :: "string \<Rightarrow> string \<Rightarrow> unit step" where
  "cache_handle key contactId = on_cache (\<lambda>c. c\<lparr>pc_handles := map_set key contactId (pc_handles c)\<rparr>)"

definition cache_name :: "string \<Rightarrow> string option \<Rightarrow> unit step" where
  "cache_name contactId name = on_cache (\<lambda>c. c\<lparr>pc_names := map_set contactId name (pc_names c)\<rparr>)"

definition cache_conversation_name :: "string \<Rightarrow> string option \<Rightarrow> unit step" where
  "cache_conversation_name conversationId name =
     on_cache (\<lambda>c. c\<lparr>pc_conversation_names := map_set conversationId name (pc_conversation_names c)\<rparr>)"

definition default_name :: "string \<Rightarrow> proj_cache \<Rightarrow> proj_cache" where
  "default_name contactId c = (if map_has (pc_names c) contactId then c else c\<lparr>pc_names := map_set contactId None (pc_names c)\<rparr>)"

definition default_conversation_name :: "string \<Rightarrow> proj_cache \<Rightarrow> proj_cache" where
  "default_conversation_name conversationId c =
     (if map_has (pc_conversation_names c) conversationId then c
      else c\<lparr>pc_conversation_names := map_set conversationId None (pc_conversation_names c)\<rparr>)"

definition cached_name :: "proj_cache \<Rightarrow> string \<Rightarrow> string option" where
  "cached_name c contactId = (case map_of (pc_names c) contactId of None \<Rightarrow> None | Some n \<Rightarrow> n)"

definition cached_conversation_name :: "proj_cache \<Rightarrow> string \<Rightarrow> string option" where
  "cached_conversation_name c conversationId = (case map_of (pc_conversation_names c) conversationId of None \<Rightarrow> None | Some n \<Rightarrow> n)"

subsection \<open>Contacts\<close>

definition stub_contact :: "string \<Rightarrow> rat \<Rightarrow> contact_row" where
  "stub_contact contactId observedAt =
     \<lparr>ct_id = contactId, ct_name = None, ct_photo = None, ct_company = None, ct_created = observedAt, ct_updated = observedAt\<rparr>"

definition insert_contact :: "contact_row \<Rightarrow> proj_db \<Rightarrow> proj_db" where
  "insert_contact r db = db\<lparr>pj_contacts := tbl_insert_ignore ct_id r (pj_contacts db)\<rparr>"

definition ensureContactStub ::
  "proj_env \<Rightarrow> platform \<Rightarrow> string \<Rightarrow> string option \<Rightarrow> rat \<Rightarrow> string option step" where
  "ensureContactStub env platform accountKey sourceEntityKey observedAt =
     (case sourceEntityKey of
        None \<Rightarrow> sret None
      | Some [] \<Rightarrow> sret None
      | Some key \<Rightarrow>
          (let sourceKey = source_ref platform accountKey key in
           sbind (from_cache (\<lambda>c. map_of (pc_sources c) sourceKey)) (\<lambda>known.
           sbind (resolve_step known) (\<lambda>existingContactId.
           sbind (resolve_step (Some (get_or existingContactId (hashId env ''contact'' sourceKey)))) (\<lambda>resolved.
           let contactId = get_or resolved (hashId env ''contact'' sourceKey) in
           sbind (cache_source sourceKey contactId) (\<lambda>_.
           sbind (on_cache (default_name contactId)) (\<lambda>_.
           sbind (on_db (insert_contact (stub_contact contactId observedAt))) (\<lambda>_.
             sret (Some contactId)))))))))"

definition resolveOrEnsureContact ::
  "proj_env \<Rightarrow> platform \<Rightarrow> string \<Rightarrow> string option \<Rightarrow> rat \<Rightarrow> string option step" where
  "resolveOrEnsureContact env platform accountKey sourceEntityKey observedAt =
     (case sourceEntityKey of
        None \<Rightarrow> sret None
      | Some [] \<Rightarrow> sret None
      | Some key \<Rightarrow>
          (let directKey = source_ref platform accountKey key;
               contactsLocalKey = ''contacts:local:'' @ key in
           sbind (from_cache (\<lambda>c. coalesce (map_of (pc_sources c) directKey) (map_of (pc_sources c) contactsLocalKey))) (\<lambda>known.
           sbind (resolve_step known) (\<lambda>existingContactId.
             case existingContactId of
               Some c \<Rightarrow> sbind (cache_source directKey c) (\<lambda>_. sret (Some c))
             | None \<Rightarrow>
                 sbind (case inferHandleFromSourceEntityKey sourceEntityKey of
                          None \<Rightarrow> sret None
                        | Some (type, normalizedValue) \<Rightarrow>
                            sbind (from_cache (\<lambda>c. map_of (pc_handles c) (handle_ref type normalizedValue))) resolve_step) (\<lambda>handleContactId.
                 case handleContactId of
                   Some c \<Rightarrow> sbind (cache_source directKey c) (\<lambda>_. sret (Some c))
                 | None \<Rightarrow> ensureContactStub env platform accountKey sourceEntityKey observedAt)))))"

subsection \<open>Conversations and messages\<close>

definition stub_conversation :: "string \<Rightarrow> platform \<Rightarrow> string \<Rightarrow> string \<Rightarrow> rat \<Rightarrow> conversation_row" where
  "stub_conversation conversationId platform accountKey key observedAt =
     \<lparr>cv_id = conversationId, cv_platform = platform, cv_account = accountKey, cv_key = key, cv_native = None,
      cv_type = ''dm'', cv_active = True, cv_removal = None, cv_service = None, cv_name = None, cv_topic = None,
      cv_participant_names = None, cv_last_id = None, cv_last_at = None, cv_last_preview = None, cv_unread = 0,
      cv_created = observedAt, cv_updated = observedAt\<rparr>"

definition cv_unique :: "conversation_row \<Rightarrow> platform \<times> string \<times> string" where
  "cv_unique r = (cv_platform r, cv_account r, cv_key r)"

text \<open>\<open>INSERT ... ON CONFLICT DO NOTHING\<close> on a table with a second unique key.\<close>

definition insert_nothing :: "('r \<Rightarrow> 'p) \<Rightarrow> ('r \<Rightarrow> 'k) \<Rightarrow> 'r \<Rightarrow> 'r list \<Rightarrow> 'r list" where
  "insert_nothing pk uniq r rows =
     (if tbl_has pk (pk r) rows \<or> tbl_has uniq (uniq r) rows then rows else rows @ [r])"

definition ensureConversationStub ::
  "proj_env \<Rightarrow> platform \<Rightarrow> string \<Rightarrow> string \<Rightarrow> rat \<Rightarrow> string step" where
  "ensureConversationStub env platform accountKey sourceConversationKey observedAt =
     (let mapKey = source_ref platform accountKey sourceConversationKey in
      sbind (from_cache (\<lambda>c. map_of (pc_conversations c) mapKey)) (\<lambda>existingConversationId.
      let conversationId = get_or existingConversationId (hashId env ''conversation'' mapKey) in
      sbind (on_cache (\<lambda>c. c\<lparr>pc_conversations := map_set mapKey conversationId (pc_conversations c)\<rparr>)) (\<lambda>_.
      sbind (on_cache (default_conversation_name conversationId)) (\<lambda>_.
      sbind (on_db (\<lambda>db. db\<lparr>pj_conversations := insert_nothing cv_id cv_unique
               (stub_conversation conversationId platform accountKey sourceConversationKey observedAt) (pj_conversations db)\<rparr>)) (\<lambda>_.
        sret conversationId)))))"

definition ms_unique :: "message_row \<Rightarrow> platform \<times> string \<times> string" where
  "ms_unique r = (ms_platform r, ms_account r, ms_key r)"

definition stub_message :: "string \<Rightarrow> platform \<Rightarrow> string \<Rightarrow> string \<Rightarrow> string \<Rightarrow> rat \<Rightarrow> message_row" where
  "stub_message messageId platform accountKey key conversationId observedAt =
     \<lparr>ms_id = messageId, ms_platform = platform, ms_account = accountKey, ms_key = key,
      ms_conversation = conversationId, ms_sender = None, ms_sender_key = None, ms_sender_name = None,
      ms_conversation_name = None, ms_sent_at = observedAt, ms_service = None, ms_status = None,
      ms_from_me = False, ms_content = None, ms_delivered_at = None, ms_read_at = None, ms_edited_at = None,
      ms_deleted_at = None, ms_reply_to = None, ms_deleted = False, ms_edited = False, ms_attachments = 0,
      ms_reactions = 0, ms_created = observedAt, ms_updated = observedAt\<rparr>"

text \<open>The foreign key is checked only when a row is inserted.\<close>

definition insert_message_stub :: "message_row \<Rightarrow> proj_db \<Rightarrow> proj_error + proj_db" where
  "insert_message_stub r db =
     (if tbl_has ms_id (ms_id r) (pj_messages db) \<or> tbl_has ms_unique (ms_unique r) (pj_messages db) then Inr db
      else ebind (fk_error (conversation_known db (ms_conversation r))) (\<lambda>_.
        Inr (db\<lparr>pj_messages := pj_messages db @ [r]\<rparr>)))"

definition whatsapp_message_id :: "platform \<Rightarrow> string \<Rightarrow> string \<Rightarrow> proj_db \<Rightarrow> string option" where
  "whatsapp_message_id platform accountKey platformMessageId db =
     (if platform = WhatsApp
      then map_option ms_id (find (\<lambda>m. ms_unique m = (platform, accountKey, platformMessageId)) (pj_messages db))
      else None)"

definition ensureMessageStub ::
  "proj_env \<Rightarrow> platform \<Rightarrow> string \<Rightarrow> string \<Rightarrow> string \<Rightarrow> rat \<Rightarrow> (string \<times> string) step" where
  "ensureMessageStub env platform accountKey sourceConversationKey platformMessageId observedAt =
     sbind (from_db (whatsapp_message_id platform accountKey platformMessageId)) (\<lambda>existingMessage.
     let messageId = get_or existingMessage (hashId env ''message'' (source_ref platform accountKey platformMessageId)) in
     sbind (ensureConversationStub env platform accountKey sourceConversationKey observedAt) (\<lambda>conversationId.
     sbind (try_db (insert_message_stub
              (stub_message messageId platform accountKey platformMessageId conversationId observedAt))) (\<lambda>_.
       sret (messageId, conversationId))))"

subsection \<open>Looking contacts up in the projected tables\<close>

definition findProjectedContactIdBySourceKey :: "string \<Rightarrow> proj_db \<Rightarrow> string option" where
  "findProjectedContactIdBySourceKey sourceEntityKey db =
     (let same = (\<lambda>k. case k of None \<Rightarrow> False | Some v \<Rightarrow> sql_lower v = sql_lower sourceEntityKey) in
      case find (\<lambda>m. same (ms_sender_key m) \<and> ms_sender m \<noteq> None) (pj_messages db) of
        Some m \<Rightarrow> (if ms_sender m = Some [] then map_option pt_contact (find (\<lambda>p. same (pt_key p)) (pj_participants db))
                   else ms_sender m)
      | None \<Rightarrow> map_option pt_contact (find (\<lambda>p. same (pt_key p)) (pj_participants db)))"

definition handle_alias_keys :: "string \<times> string \<Rightarrow> string list" where
  "handle_alias_keys handle = (case handle of (type, normalizedValue) \<Rightarrow>
     if type = ''phone''
     then map (\<lambda>v. ''imessage:'' @ v)
       (filter (\<lambda>v. v \<noteq> []) (case toE164 normalizedValue of
          None \<Rightarrow> [normalizedValue]
        | Some e \<Rightarrow> if e = normalizedValue then [e] else [normalizedValue, e]))
     else if type = ''email'' then [''imessage:'' @ normalizedValue]
     else [])"

definition first_contact :: "proj_db \<Rightarrow> string list \<Rightarrow> string option" where
  "first_contact db keys =
     (case List.map_filter (\<lambda>k. case findProjectedContactIdBySourceKey k db of Some [] \<Rightarrow> None | c \<Rightarrow> c) keys of
        [] \<Rightarrow> None | c # _ \<Rightarrow> Some c)"

definition findProjectedContactIdByKnownHandleAliases :: "(string \<times> string) list \<Rightarrow> proj_db \<Rightarrow> string option" where
  "findProjectedContactIdByKnownHandleAliases deterministicHandles db =
     first_contact db (concat (map handle_alias_keys deterministicHandles))"

text \<open>The sender's name for one message: the contact's name if it is human, else the participant's.\<close>

definition latest_participant :: "string \<Rightarrow> string option \<Rightarrow> proj_db \<Rightarrow> participant_row option" where
  "latest_participant conversationId contactId db =
     order_first (\<lambda>p. - pt_updated p)
       (filter (\<lambda>p. pt_conversation p = conversationId \<and> Some (pt_contact p) = contactId \<and> pt_active p) (pj_participants db))"

definition resolveProjectedSenderName :: "proj_cache \<Rightarrow> string \<Rightarrow> string option \<Rightarrow> proj_db \<Rightarrow> string option" where
  "resolveProjectedSenderName cache conversationId senderContactId db =
     (case senderContactId of
        None \<Rightarrow> None
      | Some [] \<Rightarrow> None
      | Some sender \<Rightarrow>
          (let contactName = cached_name cache sender;
               participantName = Option.bind (latest_participant conversationId senderContactId db) pt_name in
           if contactName \<noteq> None \<and> \<not> isRawIdentifierDisplayName contactName then contactName
           else if participantName \<noteq> None \<and> \<not> isRawIdentifierDisplayName participantName then participantName
           else coalesce contactName participantName))"

end
