(* ===== verification/ProjEvents.thy ===== *)
theory ProjEvents
  imports ProjStubs RawSchemas
begin

text \<open>
  The event handlers of \<^verbatim>\<open>src/runtime/projection/projector.ts\<close>, one per entity kind, in the order the file has them.
  An event carries its platform, account, kind, observation time and payload. An update that leaves a column out
  because the payload's field is \<open>undefined\<close> keeps the column.
\<close>

record proj_event =
  pv_platform :: platform
  pv_account :: string
  pv_kind :: string
  pv_observed_at :: rat
  pv_payload :: json

definition read_payload :: "(json \<Rightarrow> payload_error + 'p) \<Rightarrow> proj_event \<Rightarrow> 'p step" where
  "read_payload reader event = lift_error (map_error ProjPayload (reader (pv_payload event)))"

definition event_stub :: "proj_env \<Rightarrow> proj_event \<Rightarrow> string option \<Rightarrow> string option step" where
  "event_stub env event key = resolveOrEnsureContact env (pv_platform event) (pv_account event) key (pv_observed_at event)"

definition event_conversation :: "proj_env \<Rightarrow> proj_event \<Rightarrow> string \<Rightarrow> string step" where
  "event_conversation env event key =
     ensureConversationStub env (pv_platform event) (pv_account event) key (pv_observed_at event)"

definition dirty_conversation :: "string \<Rightarrow> unit step" where
  "dirty_conversation c = on_changes (\<lambda>d. d\<lparr>pd_conversations := set_add c (pd_conversations d)\<rparr>)"

definition dirty_summary :: "string \<Rightarrow> unit step" where
  "dirty_summary c = on_changes (\<lambda>d. d\<lparr>pd_summaries := set_add c (pd_summaries d)\<rparr>)"

definition dirty_message :: "string \<Rightarrow> unit step" where
  "dirty_message m = on_changes (\<lambda>d. d\<lparr>pd_messages := set_add m (pd_messages d)\<rparr>)"

definition dirty_contact :: "string \<Rightarrow> unit step" where
  "dirty_contact c = on_changes (\<lambda>d. d\<lparr>pd_contacts := set_add c (pd_contacts d)\<rparr>)"

definition touch_reactions :: "unit step" where
  "touch_reactions = on_changes (\<lambda>d. d\<lparr>pd_reactions := True\<rparr>)"

definition touch_attachments :: "unit step" where
  "touch_attachments = on_changes (\<lambda>d. d\<lparr>pd_attachments := True\<rparr>)"

subsection \<open>Contact observations\<close>

fun insort_by :: "('a \<Rightarrow> 'a \<Rightarrow> bool) \<Rightarrow> 'a \<Rightarrow> 'a list \<Rightarrow> 'a list" where
  "insort_by le x [] = [x]"
| "insort_by le x (y # ys) = (if le x y then x # y # ys else y # insort_by le x ys)"

text \<open>A stable sort, as \<open>Array.prototype.sort\<close> with a consistent comparator.\<close>

definition sort_by :: "('a \<Rightarrow> 'a \<Rightarrow> bool) \<Rightarrow> 'a list \<Rightarrow> 'a list" where
  "sort_by le xs = foldr (insort_by le) xs []"

definition deterministic_handles :: "proj_env \<Rightarrow> contact_payload \<Rightarrow> (string \<times> string) list" where
  "deterministic_handles env payload =
     sort_by (\<lambda>a b. pe_locale_le env (handle_ref (fst a) (snd a)) (handle_ref (fst b) (snd b)))
       (map (\<lambda>h. (hi_type h, normalizeHandle (hi_type h) (hi_value h))) (filter hi_deterministic (cp_handles payload)))"

definition known_handle_contact :: "(string \<times> string) list \<Rightarrow> proj_cache \<Rightarrow> string option" where
  "known_handle_contact handles c =
     (case List.map_filter (\<lambda>(t, v). case map_of (pc_handles c) (handle_ref t v) of Some [] \<Rightarrow> None | x \<Rightarrow> x) handles of
        [] \<Rightarrow> None | x # _ \<Rightarrow> Some x)"

definition identity_contact ::
  "proj_env \<Rightarrow> string \<Rightarrow> (string \<times> string) list \<Rightarrow> proj_cache \<Rightarrow> proj_db \<Rightarrow> string" where
  "identity_contact env sourceKey handles c db =
     (let existingContactId = known_handle_contact handles c;
          existingAliased = (if existingContactId = None then findProjectedContactIdByKnownHandleAliases handles db else None);
          preferredIdentity = (case handles of [] \<Rightarrow> sourceKey | (t, v) # _ \<Rightarrow> handle_ref t v)
      in get_or (coalesce (map_of (pc_sources c) sourceKey) (coalesce existingContactId existingAliased))
           (hashId env ''contact'' preferredIdentity))"

definition observed_name ::
  "bool \<Rightarrow> string option \<Rightarrow> string option option \<Rightarrow> string option" where
  "observed_name isAliased existingName given =
     (if isAliased then mergeAliasedDisplayName existingName (normalizeText (or_null given))
      else case given of
             None \<Rightarrow> existingName
           | Some n \<Rightarrow> mergeObservedDisplayName existingName (normalizeText n))"

definition observed_text ::
  "bool \<Rightarrow> string option \<Rightarrow> string option option \<Rightarrow> string option" where
  "observed_text isAliased existing given = (case given of
       None \<Rightarrow> existing
     | Some t \<Rightarrow> if isAliased then mergeAliasedTextField existing t else normalizeText t)"

definition update_contact ::
  "string \<Rightarrow> bool \<Rightarrow> string option \<Rightarrow> contact_payload \<Rightarrow> rat \<Rightarrow> proj_db \<Rightarrow> proj_db" where
  "update_contact contactId isAliased resolvedName payload observedAt db =
     db\<lparr>pj_contacts := tbl_update (\<lambda>r. ct_id r = contactId)
       (\<lambda>r. r\<lparr>ct_name := (if cp_display_name payload = None then ct_name r else resolvedName),
              ct_photo := observed_text isAliased (ct_photo r) (cp_photo_url payload),
              ct_company := observed_text isAliased (ct_company r) (cp_company payload),
              ct_updated := observedAt\<rparr>) (pj_contacts db)\<rparr>"

definition cs_unique :: "contact_source \<Rightarrow> platform \<times> string \<times> string" where
  "cs_unique r = (cs_platform r, cs_account r, cs_key r)"

definition upsert_contact_source ::
  "proj_env \<Rightarrow> proj_event \<Rightarrow> string \<Rightarrow> contact_payload \<Rightarrow> string \<Rightarrow> proj_db \<Rightarrow> proj_error + proj_db" where
  "upsert_contact_source env event sourceKey payload contactId db =
     (let profile = normalizeText (or_null (cp_profile_url payload)) in
      ebind (map_error ProjConstraint (tbl_upsert_pk cs_unique cs_id
          \<lparr>cs_id = hashId env ''contact_source'' sourceKey, cs_contact = contactId, cs_platform = pv_platform event,
           cs_account = pv_account event, cs_key = cp_source payload, cs_profile = profile,
           cs_first_seen = pv_observed_at event, cs_last_seen = pv_observed_at event\<rparr>
          (\<lambda>r. r\<lparr>cs_contact := contactId, cs_profile := profile, cs_last_seen := pv_observed_at event\<rparr>)
          (pj_sources db))) (\<lambda>rows.
      ebind (fk_error (contact_known db contactId)) (\<lambda>_. Inr (db\<lparr>pj_sources := rows\<rparr>))))"

definition upsert_handle :: "proj_env \<Rightarrow> proj_event \<Rightarrow> string \<Rightarrow> handle_input \<Rightarrow> proj_db \<Rightarrow> proj_error + proj_db" where
  "upsert_handle env event contactId handle db =
     (let normalizedValue = normalizeHandle (hi_type handle) (hi_value handle);
          existing = (if pv_platform event = WhatsApp
            then find (\<lambda>r. ch_contact r = contactId \<and> ch_type r = hi_type handle \<and> ch_normalized r = normalizedValue) (pj_handles db)
            else None);
          handleId = get_or (map_option ch_id existing)
            (hashId env ''handle'' (contactId @ '':'' @ hi_type handle @ '':'' @ normalizedValue))
      in if \<not> tbl_has ch_id handleId (pj_handles db) \<and> \<not> contact_known db contactId then Inl (ProjConstraint ForeignKeyViolation)
         else Inr (db\<lparr>pj_handles := tbl_upsert ch_id
           \<lparr>ch_id = handleId, ch_contact = contactId, ch_type = hi_type handle, ch_value = hi_value handle,
            ch_normalized = normalizedValue, ch_platform = Some (pv_platform event), ch_account = Some (pv_account event),
            ch_deterministic = hi_deterministic handle, ch_created = pv_observed_at event, ch_updated = pv_observed_at event\<rparr>
           (\<lambda>r. r\<lparr>ch_value := hi_value handle, ch_platform := Some (pv_platform event),
                  ch_account := Some (pv_account event), ch_deterministic := hi_deterministic handle,
                  ch_updated := pv_observed_at event\<rparr>) (pj_handles db)\<rparr>))"

definition observed_contact :: "string \<Rightarrow> contact_payload \<Rightarrow> rat \<Rightarrow> contact_row" where
  "observed_contact contactId payload observedAt =
     \<lparr>ct_id = contactId, ct_name = normalizeText (or_null (cp_display_name payload)),
      ct_photo = normalizeText (or_null (cp_photo_url payload)), ct_company = normalizeText (or_null (cp_company payload)),
      ct_created = observedAt, ct_updated = observedAt\<rparr>"

text \<open>The contact's identity is settled; its row, its source and its handles follow.\<close>

definition store_contact ::
  "proj_env \<Rightarrow> proj_event \<Rightarrow> contact_payload \<Rightarrow> string \<Rightarrow> string option \<Rightarrow> string \<Rightarrow> bool \<Rightarrow> unit step" where
  "store_contact env event payload sourceKey existingSource contactId isAliased =
     sbind (on_db (insert_contact (observed_contact contactId payload (pv_observed_at event)))) (\<lambda>_.
     sbind (\<lambda>s. Inr (coalesce (Option.bind (tbl_get ct_id contactId (pj_contacts (ps_db s))) ct_name)
                       (cached_name (ps_cache s) contactId), s)) (\<lambda>existingName.
     let resolvedName = observed_name isAliased existingName (cp_display_name payload) in
     sbind (cache_name contactId resolvedName) (\<lambda>_.
     sbind (on_db (update_contact contactId isAliased resolvedName payload (pv_observed_at event))) (\<lambda>_.
     sbind (try_db (upsert_contact_source env event sourceKey payload contactId)) (\<lambda>_.
     sbind (for_each (\<lambda>h. try_db (upsert_handle env event contactId h)) (cp_handles payload)) (\<lambda>_.
       if existingSource \<noteq> Some contactId \<or> existingName \<noteq> resolvedName then dirty_contact contactId else sret ()))))))"

definition projectContactObservation :: "proj_env \<Rightarrow> proj_event \<Rightarrow> unit step" where
  "projectContactObservation env event =
     sbind (read_payload read_contact event) (\<lambda>payload.
     let sourceKey = source_ref (pv_platform event) (pv_account event) (cp_source payload);
         handles = deterministic_handles env payload in
     sbind (from_cache (\<lambda>c. map_of (pc_sources c) sourceKey)) (\<lambda>existingSource.
     sbind (\<lambda>s. Inr (identity_contact env sourceKey handles (ps_cache s) (ps_db s), s)) (\<lambda>identityContactId.
     sbind (resolve_step (Some identityContactId)) (\<lambda>resolved.
       case resolved of
         None \<Rightarrow> lift_error (Inl NotNullViolation)
       | Some contactId \<Rightarrow>
           sbind (cache_source sourceKey contactId) (\<lambda>_.
           sbind (for_each (\<lambda>(t, v). cache_handle (handle_ref t v) contactId) handles) (\<lambda>_.
             store_contact env event payload sourceKey existingSource contactId (identityContactId \<noteq> contactId)))))))"

subsection \<open>Conversation observations\<close>

definition is_removed :: "proj_event \<Rightarrow> bool" where
  "is_removed event \<longleftrightarrow> pv_kind event = ''removed''"

definition update_conversation :: "proj_event \<Rightarrow> string \<Rightarrow> conversation_payload \<Rightarrow> conversation_row \<Rightarrow> conversation_row" where
  "update_conversation event type payload r =
     r\<lparr>cv_native := get_or (map_option normalizeText (vp_native payload)) (cv_native r),
       cv_type := type, cv_active := (\<not> is_removed event),
       cv_removal := (if is_removed event then normalizeText (or_null (vp_removal payload)) else None),
       cv_service := get_or (map_option normalizeText (vp_service payload)) (cv_service r),
       cv_name := get_or (map_option normalizeText (vp_display_name payload)) (cv_name r),
       cv_topic := get_or (map_option normalizeText (vp_topic payload)) (cv_topic r),
       cv_unread := (case vp_unread payload of Some (Some n) \<Rightarrow> n | _ \<Rightarrow> cv_unread r),
       cv_updated := pv_observed_at event\<rparr>"

text \<open>The type column is left alone when the payload has no type, and may not be set to \<open>null\<close>.\<close>

definition store_conversation :: "proj_event \<Rightarrow> conversation_payload \<Rightarrow> string \<Rightarrow> proj_db \<Rightarrow> proj_error + proj_db" where
  "store_conversation event payload conversationId db =
     (if vp_type payload = Some None \<and> conversation_known db conversationId then Inl NotNullViolation
      else Inr (db\<lparr>pj_conversations := tbl_update (\<lambda>r. cv_id r = conversationId)
        (\<lambda>r. update_conversation event (get_or (or_null (vp_type payload)) (cv_type r)) payload r) (pj_conversations db)\<rparr>))"

definition close_participants :: "string \<Rightarrow> rat \<Rightarrow> proj_db \<Rightarrow> proj_db" where
  "close_participants conversationId observedAt db =
     db\<lparr>pj_participants := tbl_update (\<lambda>p. pt_conversation p = conversationId)
       (\<lambda>p. p\<lparr>pt_active := False, pt_left := Some observedAt, pt_updated := observedAt\<rparr>) (pj_participants db)\<rparr>"

definition pt_unique :: "participant_row \<Rightarrow> string \<times> string \<times> string option" where
  "pt_unique r = (pt_conversation r, pt_contact r, pt_key r)"

text \<open>Both foreign keys are checked when a participant is inserted; an update touches neither.\<close>

definition upsert_participant :: "participant_row \<Rightarrow> (participant_row \<Rightarrow> participant_row) \<Rightarrow> proj_db \<Rightarrow> proj_error + proj_db" where
  "upsert_participant r upd db =
     (if \<not> tbl_has pt_unique (pt_unique r) (pj_participants db) \<and>
         \<not> (conversation_known db (pt_conversation r) \<and> contact_known db (pt_contact r))
      then Inl (ProjConstraint ForeignKeyViolation)
      else Inr (db\<lparr>pj_participants := tbl_upsert pt_unique r upd (pj_participants db)\<rparr>))"

definition observe_participant :: "proj_env \<Rightarrow> proj_event \<Rightarrow> string \<Rightarrow> participant_input \<Rightarrow> unit step" where
  "observe_participant env event conversationId participant =
     sbind (event_stub env event (vi_source participant)) (\<lambda>contact.
       case contact of
         None \<Rightarrow> sret ()
       | Some contactId \<Rightarrow>
           sbind (from_cache (\<lambda>c. cached_name c contactId)) (\<lambda>name.
           let leftAt = (if is_removed event then Some (pv_observed_at event) else None) in
             try_db (upsert_participant
               \<lparr>pt_conversation = conversationId, pt_contact = contactId, pt_key = vi_source participant, pt_name = name,
                pt_role = None, pt_self = vi_self participant, pt_active = (\<not> is_removed event),
                pt_joined = Some (pv_observed_at event), pt_left = leftAt, pt_updated = pv_observed_at event\<rparr>
               (\<lambda>r. r\<lparr>pt_name := name, pt_self := vi_self participant, pt_active := (\<not> is_removed event),
                      pt_left := leftAt, pt_updated := pv_observed_at event\<rparr>))))"

definition projectConversationObservation :: "proj_env \<Rightarrow> proj_event \<Rightarrow> unit step" where
  "projectConversationObservation env event =
     sbind (read_payload read_conversation event) (\<lambda>payload.
     sbind (event_conversation env event (vp_source payload)) (\<lambda>conversationId.
     sbind (try_db (store_conversation event payload conversationId)) (\<lambda>_.
     sbind (from_cache (\<lambda>c. case vp_display_name payload of
              Some n \<Rightarrow> normalizeText n | None \<Rightarrow> cached_conversation_name c conversationId)) (\<lambda>resolvedName.
     sbind (cache_conversation_name conversationId resolvedName) (\<lambda>_.
     sbind (if is_removed event then on_db (close_participants conversationId (pv_observed_at event)) else sret ()) (\<lambda>_.
     sbind (for_each (observe_participant env event conversationId) (vp_participants payload)) (\<lambda>_.
       dirty_conversation conversationId)))))))"

end
