(* ===== verification/ProjMessages.thy ===== *)
theory ProjMessages
  imports ProjEvents
begin

text \<open>
  The handlers of messages with their attachments, of reactions, participants, timeline events and calls
  (\<^verbatim>\<open>src/runtime/projection/projector.ts\<close>).
\<close>

subsection \<open>Attachments of a message\<close>

definition at_unique :: "attachment_row \<Rightarrow> platform \<times> string \<times> string" where
  "at_unique r = (at_platform r, at_account r, at_key r)"

definition attachment_source_key :: "string \<Rightarrow> nat \<Rightarrow> json \<Rightarrow> string" where
  "attachment_source_key sourceMessageKey index attachment =
     (case text_at attachment ''sourceAttachmentKey'' of
        Some key \<Rightarrow> key
      | None \<Rightarrow> sourceMessageKey @ '':'' @
          get_or (coalesce (text_at attachment ''id'') (text_at attachment ''url'')) (dec_nat index))"

definition attachment_id_for :: "proj_env \<Rightarrow> proj_event \<Rightarrow> string \<Rightarrow> string \<Rightarrow> proj_db \<Rightarrow> string" where
  "attachment_id_for env event messageId key db =
     (let existing = (if pv_platform event = WhatsApp
            then find (\<lambda>a. at_unique a = (pv_platform event, pv_account event, key)) (pj_attachments db) else None)
      in get_or (map_option at_id existing) (hashId env ''attachment'' (messageId @ '':'' @ key)))"

definition describe_attachment :: "json \<Rightarrow> rat \<Rightarrow> attachment_row \<Rightarrow> attachment_row" where
  "describe_attachment attachment observedAt r =
     (let inferred = inferAttachmentProjection attachment in
      r\<lparr>at_kind := text_at attachment ''kind'',
        at_mime := coalesce (text_at attachment ''mime_type'') (text_at attachment ''mimetype''),
        at_filename := coalesce (text_at attachment ''filename'') (text_at attachment ''name''),
        at_title := text_at attachment ''title'',
        at_local := ia_local inferred, at_remote := ia_remote inferred,
        at_size := coalesce (normalizeInteger (jget attachment ''size_bytes'')) (normalizeInteger (jget attachment ''size'')),
        at_text := coalesce (text_at attachment ''text_content'') (text_at attachment ''text''),
        at_access_kind := ia_access_kind inferred, at_access_ref := ia_access_ref inferred,
        at_preview_ref := ia_preview_ref inferred, at_availability := Some (ia_availability inferred),
        at_provider_metadata := Some (ia_provider_metadata inferred), at_metadata := Some attachment,
        at_updated := observedAt\<rparr>)"

definition new_attachment :: "string \<Rightarrow> string \<Rightarrow> proj_event \<Rightarrow> string \<Rightarrow> json \<Rightarrow> attachment_row" where
  "new_attachment attachmentId messageId event key attachment =
     describe_attachment attachment (pv_observed_at event)
       \<lparr>at_id = attachmentId, at_message = messageId, at_platform = pv_platform event, at_account = pv_account event,
        at_key = key, at_kind = None, at_mime = None, at_filename = None, at_title = None, at_local = None,
        at_remote = None, at_size = None, at_text = None, at_access_kind = None, at_access_ref = None,
        at_preview_ref = None, at_availability = None, at_provider_metadata = None, at_metadata = None,
        at_created = pv_observed_at event, at_updated = pv_observed_at event\<rparr>"

definition upsert_attachment ::
  "proj_event \<Rightarrow> string \<Rightarrow> string \<Rightarrow> string \<Rightarrow> json \<Rightarrow> proj_db \<Rightarrow> proj_error + proj_db" where
  "upsert_attachment event messageId attachmentId key attachment db =
     ebind (map_error ProjConstraint (tbl_upsert_pk at_unique at_id
         (new_attachment attachmentId messageId event key attachment)
         (describe_attachment attachment (pv_observed_at event)) (pj_attachments db))) (\<lambda>rows.
     ebind (fk_error (tbl_has at_id attachmentId (pj_attachments db) \<or> message_known db messageId)) (\<lambda>_.
       Inr (db\<lparr>pj_attachments := rows\<rparr>)))"

text \<open>The loop over the payload's attachments; it returns the ids the message is to keep.\<close>

fun store_attachments ::
  "proj_env \<Rightarrow> proj_event \<Rightarrow> string \<Rightarrow> string \<Rightarrow> nat \<Rightarrow> json list \<Rightarrow> string list step" where
  "store_attachments env event sourceMessageKey messageId index [] = sret []"
| "store_attachments env event sourceMessageKey messageId index (a # as) =
     (let attachment = get_or (normalizeAttachmentObject (Some a)) (JObj []);
          key = attachment_source_key sourceMessageKey index attachment in
      sbind (from_db (attachment_id_for env event messageId key)) (\<lambda>attachmentId.
      sbind (try_db (upsert_attachment event messageId attachmentId key attachment)) (\<lambda>_.
      sbind (store_attachments env event sourceMessageKey messageId (Suc index) as) (\<lambda>ids.
        sret (attachmentId # ids)))))"

definition drop_attachments :: "string \<Rightarrow> string list \<Rightarrow> proj_db \<Rightarrow> proj_db" where
  "drop_attachments messageId desired db =
     (let gone = (\<lambda>a. at_message a = messageId \<and> at_id a \<notin> set desired);
          ids = map at_id (filter gone (pj_attachments db))
      in (delete_attachments gone db)\<lparr>pj_attachment_fts := filter (\<lambda>a. a \<notin> set ids) (pj_attachment_fts db)\<rparr>)"

definition projectMessageAttachments :: "proj_env \<Rightarrow> proj_event \<Rightarrow> message_payload \<Rightarrow> string \<Rightarrow> unit step" where
  "projectMessageAttachments env event payload messageId =
     sbind (store_attachments env event (mp_source payload) messageId 0 (get_or (mp_attachments payload) [])) (\<lambda>desired.
     sbind (from_db (\<lambda>db. list_ex (\<lambda>a. at_message a = messageId \<and> at_id a \<notin> set desired) (pj_attachments db))) (\<lambda>removed.
     sbind (on_db (drop_attachments messageId desired)) (\<lambda>_.
       if mp_attachments payload \<noteq> None \<or> removed then touch_attachments else sret ())))"

subsection \<open>Messages\<close>

definition drop_reactions :: "string \<Rightarrow> proj_db \<Rightarrow> proj_db" where
  "drop_reactions messageId db = db\<lparr>pj_reactions := tbl_delete (\<lambda>r. re_message r = messageId) (pj_reactions db)\<rparr>"

definition tombstone_message :: "string \<Rightarrow> message_payload \<Rightarrow> rat \<Rightarrow> proj_db \<Rightarrow> proj_db" where
  "tombstone_message messageId payload observedAt db =
     db\<lparr>pj_messages := tbl_update (\<lambda>m. ms_id m = messageId)
       (\<lambda>m. m\<lparr>ms_deleted_at := Some (get_or (coalesce (mp_deleted_at payload) (or_null (mp_sent_at payload))) observedAt),
              ms_deleted := True, ms_updated := observedAt\<rparr>) (pj_messages db)\<rparr>"

definition update_message ::
  "proj_event \<Rightarrow> message_payload \<Rightarrow> string \<Rightarrow> string option \<Rightarrow> string option \<Rightarrow> string option \<Rightarrow> string option \<Rightarrow>
   message_row \<Rightarrow> message_row" where
  "update_message event payload conversationId sender senderName conversationName replyTo m =
     m\<lparr>ms_platform := pv_platform event, ms_account := pv_account event, ms_key := mp_source payload,
       ms_conversation := conversationId, ms_sender := sender, ms_sender_key := get_or (mp_sender payload) (ms_sender_key m),
       ms_sender_name := senderName, ms_conversation_name := conversationName,
       ms_sent_at := get_or (or_null (mp_sent_at payload)) (ms_sent_at m),
       ms_service := normalizeText (or_null (mp_service payload)), ms_status := normalizeText (or_null (mp_status payload)),
       ms_from_me := mp_from_me payload,
       ms_content := get_or (resolveProjectedMessageContent payload) (ms_content m),
       ms_delivered_at := mp_delivered_at payload, ms_read_at := mp_read_at payload, ms_edited_at := mp_edited_at payload,
       ms_deleted_at := mp_deleted_at payload, ms_reply_to := replyTo, ms_deleted := mp_deleted payload,
       ms_edited := mp_edited payload, ms_updated := pv_observed_at event\<rparr>"

text \<open>The update by id has to respect the second unique key, the column \<open>sent_at\<close> and the three foreign keys.\<close>

definition store_message ::
  "proj_event \<Rightarrow> message_payload \<Rightarrow> string \<Rightarrow> string \<Rightarrow> string option \<Rightarrow> string option \<Rightarrow> string option \<Rightarrow>
   string option \<Rightarrow> proj_db \<Rightarrow> proj_error + proj_db" where
  "store_message event payload messageId conversationId sender senderName conversationName replyTo db =
     (if \<not> message_known db messageId then Inr db
      else if mp_sent_at payload = Some None then Inl NotNullViolation
      else if list_ex (\<lambda>m. ms_id m \<noteq> messageId \<and> ms_unique m = (pv_platform event, pv_account event, mp_source payload))
                (pj_messages db) then Inl (ProjConstraint UniqueViolation)
      else ebind (fk_error (conversation_known db conversationId \<and> opt_known (contact_known db) sender \<and>
                              opt_known (message_known db) replyTo)) (\<lambda>_.
        Inr (db\<lparr>pj_messages := tbl_update (\<lambda>m. ms_id m = messageId)
          (update_message event payload conversationId sender senderName conversationName replyTo) (pj_messages db)\<rparr>)))"

definition reply_stub :: "proj_env \<Rightarrow> proj_event \<Rightarrow> message_payload \<Rightarrow> string option step" where
  "reply_stub env event payload = (case mp_reply_to payload of
       None \<Rightarrow> sret None
     | Some [] \<Rightarrow> sret None
     | Some key \<Rightarrow>
         sbind (ensureMessageStub env (pv_platform event) (pv_account event) (mp_conversation payload) key (pv_observed_at event))
           (\<lambda>(m, _). sret (Some m)))"

definition is_tombstone :: "proj_event \<Rightarrow> string \<Rightarrow> proj_db \<Rightarrow> bool" where
  "is_tombstone event messageId db \<longleftrightarrow>
     pv_platform event = WhatsApp \<and>
     (case tbl_get ms_id messageId (pj_messages db) of None \<Rightarrow> False | Some m \<Rightarrow> ms_deleted m)"

definition write_message :: "proj_env \<Rightarrow> proj_event \<Rightarrow> message_payload \<Rightarrow> string \<Rightarrow> string \<Rightarrow> unit step" where
  "write_message env event payload messageId conversationId =
     sbind (event_stub env event (or_null (mp_sender payload))) (\<lambda>sender.
     sbind (\<lambda>s. Inr (resolveProjectedSenderName (ps_cache s) conversationId sender (ps_db s), s)) (\<lambda>senderName.
     sbind (reply_stub env event payload) (\<lambda>replyTo.
     sbind (from_cache (\<lambda>c. cached_conversation_name c conversationId)) (\<lambda>conversationName.
     sbind (try_db (store_message event payload messageId conversationId sender senderName conversationName replyTo)) (\<lambda>_.
     sbind (dirty_summary conversationId) (\<lambda>_.
     sbind (dirty_message messageId) (\<lambda>_.
       projectMessageAttachments env event payload messageId)))))))"

definition projectMessageEvent :: "proj_env \<Rightarrow> proj_event \<Rightarrow> unit step" where
  "projectMessageEvent env event =
     sbind (read_payload read_message event) (\<lambda>payload.
     sbind (ensureMessageStub env (pv_platform event) (pv_account event) (mp_conversation payload) (mp_source payload)
              (pv_observed_at event)) (\<lambda>(messageId, conversationId).
     sbind (if pv_kind event = ''deleted'' \<or> mp_deleted payload
            then sbind (on_db (drop_reactions messageId)) (\<lambda>_. touch_reactions) else sret ()) (\<lambda>_.
       if pv_kind event = ''deleted'' then
         sbind (on_db (tombstone_message messageId payload (pv_observed_at event))) (\<lambda>_.
         sbind (dirty_summary conversationId) (\<lambda>_. dirty_message messageId))
       else sbind (from_db (is_tombstone event messageId)) (\<lambda>tombstone.
         if tombstone then sret () else write_message env event payload messageId conversationId))))"

subsection \<open>Reactions\<close>

definition re_unique :: "reaction_row \<Rightarrow> platform \<times> string \<times> string" where
  "re_unique r = (re_platform r, re_account r, re_key r)"

definition reaction_suffix :: "reaction_payload \<Rightarrow> string" where
  "reaction_suffix payload = '':'' @ get_or (or_null (rp_reactor payload)) ''__me__'' @ '':'' @ rp_emoji payload"

definition reaction_id :: "proj_env \<Rightarrow> proj_event \<Rightarrow> reaction_payload \<Rightarrow> string \<Rightarrow> proj_db \<Rightarrow> string" where
  "reaction_id env event payload messageId db =
     (let existing = (if pv_platform event = WhatsApp
            then find (\<lambda>r. re_unique r = (pv_platform event, pv_account event, rp_message payload @ reaction_suffix payload))
                   (pj_reactions db) else None)
      in get_or (map_option re_id existing) (hashId env ''reaction'' (messageId @ reaction_suffix payload)))"

definition upsert_reaction ::
  "proj_env \<Rightarrow> proj_event \<Rightarrow> reaction_payload \<Rightarrow> string \<Rightarrow> string option \<Rightarrow> string option \<Rightarrow> proj_db \<Rightarrow> proj_error + proj_db" where
  "upsert_reaction env event payload messageId reactor reactorName db =
     (case rp_timestamp payload of
        None \<Rightarrow> Inl NotNullViolation
      | Some timestamp \<Rightarrow>
          (let reactionId = reaction_id env event payload messageId db in
           ebind (map_error ProjConstraint (tbl_upsert_pk re_unique re_id
             \<lparr>re_id = reactionId, re_message = messageId, re_platform = pv_platform event, re_account = pv_account event,
              re_key = rp_message payload @ reaction_suffix payload, re_reactor = reactor, re_reactor_key = or_null (rp_reactor payload),
              re_reactor_name = reactorName, re_emoji = rp_emoji payload, re_type = normalizeText (or_null (rp_type payload)),
              re_active = rp_active payload, re_created = timestamp, re_updated = pv_observed_at event\<rparr>
             (\<lambda>r. r\<lparr>re_reactor := reactor, re_reactor_key := get_or (rp_reactor payload) (re_reactor_key r), re_reactor_name := reactorName,
                    re_type := normalizeText (or_null (rp_type payload)), re_active := rp_active payload,
                    re_updated := pv_observed_at event\<rparr>) (pj_reactions db))) (\<lambda>rows.
           ebind (fk_error (opt_known (contact_known db) reactor \<and>
                             (tbl_has re_id reactionId (pj_reactions db) \<or> message_known db messageId))) (\<lambda>_.
             Inr (db\<lparr>pj_reactions := rows\<rparr>)))))"

definition name_of_contact :: "string option \<Rightarrow> proj_cache \<Rightarrow> string option" where
  "name_of_contact contact c = (case contact of None \<Rightarrow> None | Some [] \<Rightarrow> None | Some x \<Rightarrow> cached_name c x)"

definition projectReactionEvent :: "proj_env \<Rightarrow> proj_event \<Rightarrow> unit step" where
  "projectReactionEvent env event =
     sbind (read_payload read_reaction event) (\<lambda>payload.
     sbind (ensureMessageStub env (pv_platform event) (pv_account event) (rp_conversation payload) (rp_message payload)
              (pv_observed_at event)) (\<lambda>(messageId, _).
     sbind (event_stub env event (or_null (rp_reactor payload))) (\<lambda>reactor.
     sbind (from_cache (name_of_contact reactor)) (\<lambda>reactorName.
     sbind (try_db (upsert_reaction env event payload messageId reactor reactorName)) (\<lambda>_.
     sbind touch_reactions (\<lambda>_. dirty_message messageId))))))"

subsection \<open>Participants joining and leaving\<close>

definition projectParticipantEvent :: "proj_env \<Rightarrow> proj_event \<Rightarrow> unit step" where
  "projectParticipantEvent env event =
     sbind (read_payload read_participant event) (\<lambda>payload.
     sbind (event_conversation env event (pp_conversation payload)) (\<lambda>conversationId.
     sbind (event_stub env event (pp_participant payload)) (\<lambda>contact.
       case contact of
         None \<Rightarrow> sret ()
       | Some contactId \<Rightarrow>
           sbind (from_cache (\<lambda>c. cached_name c contactId)) (\<lambda>name.
           let joinedAt = (if pv_kind event = ''joined'' then or_null (pp_event_at payload) else None);
               leftAt = (if pv_kind event = ''left'' then pp_event_at payload else Some None);
               role = normalizeText (or_null (pp_role payload));
               active = (pv_kind event \<noteq> ''left'') in
           sbind (try_db (upsert_participant
               \<lparr>pt_conversation = conversationId, pt_contact = contactId, pt_key = pp_participant payload, pt_name = name,
                pt_role = role, pt_self = pp_self payload, pt_active = active, pt_joined = joinedAt,
                pt_left = or_null leftAt, pt_updated = pv_observed_at event\<rparr>
               (\<lambda>r. r\<lparr>pt_name := name, pt_role := role, pt_self := pp_self payload, pt_active := active,
                      pt_joined := coalesce joinedAt (pt_joined r), pt_left := get_or leftAt (pt_left r),
                      pt_updated := pv_observed_at event\<rparr>))) (\<lambda>_.
           sbind (dirty_conversation conversationId) (\<lambda>_. dirty_summary conversationId))))))"

subsection \<open>Timeline events and calls\<close>

definition tl_unique :: "timeline_row \<Rightarrow> platform \<times> string \<times> string" where
  "tl_unique r = (tl_platform r, tl_account r, tl_key r)"

definition timeline_id :: "proj_env \<Rightarrow> proj_event \<Rightarrow> string \<Rightarrow> proj_db \<Rightarrow> string" where
  "timeline_id env event key db =
     (let existing = (if pv_platform event = WhatsApp
            then find (\<lambda>t. tl_unique t = (pv_platform event, pv_account event, key)) (pj_timeline db) else None)
      in get_or (map_option tl_id existing)
           (hashId env ''timeline_event'' (source_ref (pv_platform event) (pv_account event) key)))"

text \<open>The upsert keeps identity, conversation, kind and creation time of a row that is there.\<close>

definition overwrite_timeline :: "timeline_row \<Rightarrow> timeline_row \<Rightarrow> timeline_row" where
  "overwrite_timeline v r = v\<lparr>tl_id := tl_id r, tl_platform := tl_platform r, tl_account := tl_account r,
     tl_conversation := tl_conversation r, tl_key := tl_key r, tl_kind := tl_kind r, tl_created := tl_created r\<rparr>"

definition upsert_timeline ::
  "(timeline_row \<Rightarrow> timeline_row \<Rightarrow> timeline_row) \<Rightarrow> timeline_row \<Rightarrow> proj_db \<Rightarrow> proj_error + proj_db" where
  "upsert_timeline overwrite v db =
     ebind (map_error ProjConstraint (tbl_upsert_pk tl_unique tl_id v (overwrite v) (pj_timeline db))) (\<lambda>rows.
     ebind (fk_error (opt_known (contact_known db) (tl_actor v) \<and> opt_known (contact_known db) (tl_subject v) \<and>
                       (tbl_has tl_id (tl_id v) (pj_timeline db) \<or> conversation_known db (tl_conversation v)))) (\<lambda>_.
       Inr (db\<lparr>pj_timeline := rows\<rparr>)))"

definition project_timeline_row ::
  "proj_env \<Rightarrow> proj_event \<Rightarrow> string \<Rightarrow> string \<Rightarrow> string option \<Rightarrow> string option \<Rightarrow>
   (timeline_row \<Rightarrow> timeline_row \<Rightarrow> timeline_row) \<Rightarrow>
   (string \<Rightarrow> string \<Rightarrow> string option \<Rightarrow> string option \<Rightarrow> string option \<Rightarrow> timeline_row) \<Rightarrow> unit step" where
  "project_timeline_row env event conversationKey key actorKey subjectKey overwrite row =
     sbind (event_conversation env event conversationKey) (\<lambda>conversationId.
     sbind (event_stub env event actorKey) (\<lambda>actor.
     sbind (event_stub env event subjectKey) (\<lambda>subject.
     sbind (from_cache (name_of_contact actor)) (\<lambda>actorName.
     sbind (from_db (timeline_id env event key)) (\<lambda>timelineId.
     sbind (try_db (upsert_timeline overwrite (row timelineId conversationId actor subject actorName))) (\<lambda>_.
     sbind (dirty_conversation conversationId) (\<lambda>_. dirty_summary conversationId)))))))"

definition projectTimelineEvent :: "proj_env \<Rightarrow> proj_event \<Rightarrow> unit step" where
  "projectTimelineEvent env event =
     sbind (read_payload read_timeline event) (\<lambda>payload.
       case (tp_kind payload, or_null (tp_event_at payload)) of
         (Some kind, Some eventAt) \<Rightarrow>
           project_timeline_row env event (tp_conversation payload) (tp_source payload) (tp_actor payload) (tp_subject payload)
             overwrite_timeline
             (\<lambda>timelineId conversationId actor subject actorName.
               \<lparr>tl_id = timelineId, tl_platform = pv_platform event, tl_account = pv_account event,
                tl_conversation = conversationId, tl_key = tp_source payload, tl_kind = kind, tl_actor = actor,
                tl_actor_key = tp_actor payload, tl_actor_name = actorName, tl_subject = subject,
                tl_subject_key = tp_subject payload, tl_event_at = eventAt,
                tl_text = normalizeText (or_null (tp_text payload)),
                tl_system_kind = Some (inferTimelineSystemKind payload), tl_call_provider = None, tl_call_direction = None,
                tl_call_status = None, tl_call_medium = None, tl_call_started = None, tl_call_ended = None,
                tl_call_duration = None, tl_call_cause = None,
                tl_metadata = (if js_truthy (tp_metadata payload) then tp_metadata payload else None),
                tl_created = pv_observed_at event, tl_updated = pv_observed_at event\<rparr>)
       | _ \<Rightarrow> lift_error (Inl NotNullViolation))"

definition call_metadata :: "call_payload \<Rightarrow> json" where
  "call_metadata payload =
     JObj (fold (\<lambda>(k, v). map_set k v)
       [(''providerCallType'', json_or_null (lp_provider_type payload)),
        (''answeredAt'', json_or_null (lp_answered_at payload)),
        (''endedAt'', (case lp_ended_at payload of None \<Rightarrow> JNull | Some x \<Rightarrow> JNum (Fin x))),
        (''disconnectedCause'', optional_text (lp_cause payload)),
        (''remoteAddress'', json_or_null (lp_remote_address payload)),
        (''remoteDisplayName'', json_or_null (lp_remote_name payload))]
       (js_spread (lp_metadata payload)))"

definition overwrite_call :: "call_payload \<Rightarrow> timeline_row \<Rightarrow> timeline_row \<Rightarrow> timeline_row" where
  "overwrite_call payload v r =
     (overwrite_timeline v r)\<lparr>tl_call_provider := get_or (lp_provider payload) (tl_call_provider r),
       tl_call_direction := get_or (lp_direction payload) (tl_call_direction r),
       tl_call_status := get_or (lp_status payload) (tl_call_status r),
       tl_call_medium := get_or (lp_medium payload) (tl_call_medium r)\<rparr>"

definition projectCallEvent :: "proj_env \<Rightarrow> proj_event \<Rightarrow> unit step" where
  "projectCallEvent env event =
     sbind (read_payload read_call event) (\<lambda>payload.
       case or_null (lp_started_at payload) of
         Some startedAt \<Rightarrow>
           project_timeline_row env event (lp_conversation payload) (lp_source payload) (lp_initiator payload) (lp_remote payload)
             (overwrite_call payload)
             (\<lambda>timelineId conversationId actor subject actorName.
               \<lparr>tl_id = timelineId, tl_platform = pv_platform event, tl_account = pv_account event,
                tl_conversation = conversationId, tl_key = lp_source payload, tl_kind = ''system_message'', tl_actor = actor,
                tl_actor_key = lp_initiator payload, tl_actor_name = actorName, tl_subject = subject,
                tl_subject_key = lp_remote payload, tl_event_at = startedAt,
                tl_text = Some (buildCallSummary env payload), tl_system_kind = Some ''call'',
                tl_call_provider = or_null (lp_provider payload), tl_call_direction = or_null (lp_direction payload),
                tl_call_status = or_null (lp_status payload), tl_call_medium = or_null (lp_medium payload),
                tl_call_started = Some startedAt, tl_call_ended = lp_ended_at payload,
                tl_call_duration = lp_duration payload, tl_call_cause = lp_cause payload,
                tl_metadata = Some (call_metadata payload),
                tl_created = pv_observed_at event, tl_updated = pv_observed_at event\<rparr>)
       | None \<Rightarrow> lift_error (Inl NotNullViolation))"

definition call_matches :: "string \<Rightarrow> call_delete_payload \<Rightarrow> timeline_row \<Rightarrow> bool" where
  "call_matches conversationId payload t \<longleftrightarrow>
     tl_conversation t = conversationId \<and> tl_system_kind t = Some ''call'' \<and>
     (dp_provider payload \<in> {None, Some []} \<or> tl_call_provider t = dp_provider payload) \<and>
     (dp_direction payload \<in> {None, Some []} \<or> tl_call_direction t = dp_direction payload)"

definition projectCallDeleteEvent :: "proj_env \<Rightarrow> proj_event \<Rightarrow> unit step" where
  "projectCallDeleteEvent env event =
     sbind (read_payload read_call_delete event) (\<lambda>payload.
     sbind (event_conversation env event (dp_conversation payload)) (\<lambda>conversationId.
     sbind (on_db (\<lambda>db. db\<lparr>pj_timeline := tbl_delete (call_matches conversationId payload) (pj_timeline db)\<rparr>)) (\<lambda>_.
     sbind (dirty_conversation conversationId) (\<lambda>_. dirty_summary conversationId))))"

end
