(* ===== verification/IdentityAlias.thy ===== *)
theory IdentityAlias
  imports ProjMessages
begin

text \<open>
  WhatsApp identity aliases (\<^verbatim>\<open>src/runtime/projection/identity-alias.ts\<close>): a verified mapping from a hidden id (LID) to a
  phone identity moves everything projected under the hidden id to the phone identity, merging the rows that
  exist under both, and later events are canonicalised before they are projected.
\<close>

subsection \<open>Keys\<close>

text \<open>\<open>/^(whatsapp:)?(\d+@lid)(:.*)?$/\<close>; the dot matches no line terminator.\<close>

definition is_newline :: "char \<Rightarrow> bool" where
  "is_newline c = (let n = (of_char c :: nat) in n = 10 \<or> n = 13)"

definition lid_match :: "string \<Rightarrow> (string \<times> string \<times> string) option" where
  "lid_match s =
     (let pre = (if starts_with ''whatsapp:'' s then ''whatsapp:'' else []); r = drop (length pre) s;
          ds = takeWhile is_digit r; r' = dropWhile is_digit r; rest = drop 4 r'
      in if ds \<noteq> [] \<and> starts_with ''@lid'' r' \<and> (rest = [] \<or> starts_with '':'' rest \<and> \<not> list_ex is_newline rest)
         then Some (pre, ds @ ''@lid'', rest) else None)"

definition digits_then :: "string \<Rightarrow> string \<Rightarrow> bool" where
  "digits_then ending s \<longleftrightarrow> takeWhile is_digit s \<noteq> [] \<and> dropWhile is_digit s = ending"

definition assertWhatsAppAlias :: "platform \<Rightarrow> alias_payload \<Rightarrow> proj_error + unit" where
  "assertWhatsAppAlias platform payload =
     (if platform \<noteq> WhatsApp \<or>
         \<not> (starts_with ''whatsapp:'' (ap_alias payload) \<and> digits_then ''@lid'' (drop 9 (ap_alias payload))) \<or>
         \<not> (starts_with ''whatsapp:'' (ap_canonical payload) \<and> digits_then ''@s.whatsapp.net'' (drop 9 (ap_canonical payload)))
      then Inl AliasNotVerified else Inr ())"

definition find_alias :: "string \<Rightarrow> string \<Rightarrow> proj_db \<Rightarrow> alias_row option" where
  "find_alias accountKey aliasKey db =
     find (\<lambda>a. al_platform a = WhatsApp \<and> al_account a = accountKey \<and> al_alias a = aliasKey) (pj_aliases db)"

definition canonicalizeWhatsAppSourceKey :: "string \<Rightarrow> proj_db \<Rightarrow> string \<Rightarrow> string" where
  "canonicalizeWhatsAppSourceKey accountKey db s = (case lid_match s of
       None \<Rightarrow> s
     | Some (pre, lid, rest) \<Rightarrow>
         (case find_alias accountKey (''whatsapp:'' @ lid) db of
            None \<Rightarrow> s
          | Some row \<Rightarrow> pre @ drop 9 (al_canonical row) @ rest))"

subsection \<open>Payloads\<close>

fun json_mentions :: "string \<Rightarrow> json \<Rightarrow> bool" where
  "json_mentions part (JStr s) = str_includes s part"
| "json_mentions part (JArr js) = list_ex (json_mentions part) js"
| "json_mentions part (JObj kvs) = list_ex (\<lambda>(k, v). str_includes k part \<or> json_mentions part v) kvs"
| "json_mentions part _ = False"

definition canonical_json :: "string \<Rightarrow> proj_db \<Rightarrow> json \<Rightarrow> json" where
  "canonical_json accountKey db j = (case j of
       JStr s \<Rightarrow> (case lid_match s of
           None \<Rightarrow> j
         | Some (pre, lid, rest) \<Rightarrow> JStr (pre @ canonicalizeWhatsAppSourceKey accountKey db lid @ rest))
     | _ \<Rightarrow> j)"

definition canonical_keys :: "string list" where
  "canonical_keys = [''sourceEntityKey'', ''sourceConversationKey'', ''sourceMessageKey'', ''senderSourceKey'',
     ''replyToSourceMessageKey'', ''reactorSourceKey'', ''participantSourceKey'', ''sourceEventKey'', ''sourceCallKey'',
     ''actorSourceKey'', ''subjectSourceKey'', ''initiatorSourceKey'', ''primaryRemoteSourceKey'']"

text \<open>\<open>{...item, key: canonical (item.key)}\<close>; a key the item lacks stays away once the object is printed.\<close>

definition canonical_member :: "string \<Rightarrow> proj_db \<Rightarrow> string \<Rightarrow> json \<Rightarrow> json" where
  "canonical_member accountKey db key item =
     JObj (map (\<lambda>(k, v). (k, if k = key then canonical_json accountKey db v else v)) (js_spread (Some item)))"

definition canonical_participant :: "string \<Rightarrow> proj_db \<Rightarrow> json \<Rightarrow> proj_error + json" where
  "canonical_participant accountKey db p =
     (if p = JNull then Inl NotAnObject else Inr (canonical_member accountKey db ''sourceEntityKey'' p))"

definition canonical_handle :: "string \<Rightarrow> proj_db \<Rightarrow> json \<Rightarrow> proj_error + json" where
  "canonical_handle accountKey db h =
     (if h = JNull then Inl NotAnObject
      else Inr (if jget h ''type'' = Some (JStr ''whatsapp_jid'') then canonical_member accountKey db ''value'' h else h))"

definition canonical_attachment :: "string \<Rightarrow> proj_db \<Rightarrow> json \<Rightarrow> proj_error + json" where
  "canonical_attachment accountKey db a =
     (if a = JNull then Inl NotAnObject else Inr (canonical_member accountKey db ''sourceAttachmentKey'' a))"

text \<open>One field of the payload: a key field, or one of the three lists.\<close>

definition canonical_field :: "string \<Rightarrow> proj_db \<Rightarrow> string \<times> json \<Rightarrow> proj_error + string \<times> json" where
  "canonical_field accountKey db kv = (case kv of
       (k, JArr js) \<Rightarrow>
         (if k = ''participants'' then ebind (read_list (canonical_participant accountKey db) js) (\<lambda>js'. Inr (k, JArr js'))
          else if k = ''handles'' then ebind (read_list (canonical_handle accountKey db) js) (\<lambda>js'. Inr (k, JArr js'))
          else if k = ''attachments'' then ebind (read_list (canonical_attachment accountKey db) js) (\<lambda>js'. Inr (k, JArr js'))
          else Inr (k, JArr js))
     | (k, v) \<Rightarrow> Inr (k, if k \<in> set canonical_keys then canonical_json accountKey db v else v))"

definition canonicalizeWhatsAppPayload :: "platform \<Rightarrow> string \<Rightarrow> json \<Rightarrow> proj_db \<Rightarrow> proj_error + json" where
  "canonicalizeWhatsAppPayload platform accountKey payload db =
     (if platform \<noteq> WhatsApp \<or> \<not> json_mentions ''@lid'' payload then Inr payload
      else case payload of
             JObj kvs \<Rightarrow> ebind (read_list (canonical_field accountKey db) kvs) (\<lambda>kvs'. Inr (JObj kvs'))
           | JArr js \<Rightarrow> Inr payload
           | _ \<Rightarrow> Inl NotAnObject)"

subsection \<open>Merging rows\<close>

text \<open>The row that stays keeps its id and takes the columns of the row observed later.\<close>

definition merge_message :: "message_row \<Rightarrow> message_row \<Rightarrow> message_row" where
  "merge_message from into =
     (if ms_updated into < ms_updated from then from else into)
       \<lparr>ms_id := ms_id into, ms_created := min (ms_created from) (ms_created into),
        ms_deleted := (ms_deleted from \<or> ms_deleted into),
        ms_deleted_at := coalesce (ms_deleted_at from) (ms_deleted_at into)\<rparr>"

definition merge_attachment :: "attachment_row \<Rightarrow> attachment_row \<Rightarrow> attachment_row" where
  "merge_attachment from into =
     (if at_updated into < at_updated from then from else into)
       \<lparr>at_id := at_id into, at_created := min (at_created from) (at_created into)\<rparr>"

definition merge_reaction :: "reaction_row \<Rightarrow> reaction_row \<Rightarrow> reaction_row" where
  "merge_reaction from into =
     (if re_updated into < re_updated from then from else into)
       \<lparr>re_id := re_id into, re_created := min (re_created from) (re_created into)\<rparr>"

definition merge_timeline :: "timeline_row \<Rightarrow> timeline_row \<Rightarrow> timeline_row" where
  "merge_timeline from into =
     (if tl_updated into < tl_updated from then from else into)
       \<lparr>tl_id := tl_id into, tl_created := min (tl_created from) (tl_created into)\<rparr>"

definition replace_row :: "('r \<Rightarrow> string) \<Rightarrow> 'r \<Rightarrow> 'r list \<Rightarrow> 'r list" where
  "replace_row key r rows = tbl_update (\<lambda>x. key x = key r) (\<lambda>_. r) rows"

text \<open>The foreign keys of a row that is written back.\<close>

definition message_fks :: "proj_db \<Rightarrow> message_row \<Rightarrow> bool" where
  "message_fks db m \<longleftrightarrow> conversation_known db (ms_conversation m) \<and> opt_known (contact_known db) (ms_sender m) \<and>
     opt_known (message_known db) (ms_reply_to m)"

definition reaction_fks :: "proj_db \<Rightarrow> reaction_row \<Rightarrow> bool" where
  "reaction_fks db r \<longleftrightarrow> message_known db (re_message r) \<and> opt_known (contact_known db) (re_reactor r)"

definition timeline_fks :: "proj_db \<Rightarrow> timeline_row \<Rightarrow> bool" where
  "timeline_fks db t \<longleftrightarrow> conversation_known db (tl_conversation t) \<and> opt_known (contact_known db) (tl_actor t) \<and>
     opt_known (contact_known db) (tl_subject t)"

subsection \<open>Participants\<close>

datatype participant_field = ByContact | ByConversation

definition participant_at :: "participant_field \<Rightarrow> participant_row \<Rightarrow> string" where
  "participant_at field p = (case field of ByContact \<Rightarrow> pt_contact p | ByConversation \<Rightarrow> pt_conversation p)"

definition moved_participant :: "participant_field \<Rightarrow> string \<Rightarrow> string \<Rightarrow> string \<Rightarrow> participant_row \<Rightarrow> participant_row" where
  "moved_participant field into alias canonical p =
     (let p' = (case field of ByContact \<Rightarrow> p\<lparr>pt_contact := into\<rparr> | ByConversation \<Rightarrow> p\<lparr>pt_conversation := into\<rparr>)
      in if pt_key p' = Some alias then p'\<lparr>pt_key := Some canonical\<rparr> else p')"

definition overwrite_participant :: "participant_row \<Rightarrow> participant_row \<Rightarrow> participant_row" where
  "overwrite_participant v r =
     (if pt_updated r \<le> pt_updated v
      then v\<lparr>pt_conversation := pt_conversation r, pt_contact := pt_contact r, pt_key := pt_key r\<rparr> else r)"

text \<open>A source key that is \<open>NULL\<close> conflicts with nothing.\<close>

definition move_participant ::
  "participant_field \<Rightarrow> string \<Rightarrow> string \<Rightarrow> string \<Rightarrow> participant_row \<Rightarrow> proj_db \<Rightarrow> proj_error + proj_db" where
  "move_participant field into alias canonical p db =
     (let rows = tbl_delete (\<lambda>x. pt_unique x = pt_unique p) (pj_participants db);
          p' = moved_participant field into alias canonical p in
      if pt_key p' \<noteq> None \<and> tbl_has pt_unique (pt_unique p') rows
      then Inr (db\<lparr>pj_participants := tbl_update (\<lambda>x. pt_unique x = pt_unique p') (overwrite_participant p') rows\<rparr>)
      else ebind (fk_error (conversation_known db (pt_conversation p') \<and> contact_known db (pt_contact p'))) (\<lambda>_.
        Inr (db\<lparr>pj_participants := rows @ [p']\<rparr>)))"

definition migrateParticipants ::
  "participant_field \<Rightarrow> string \<Rightarrow> string \<Rightarrow> string \<Rightarrow> string \<Rightarrow> string option \<Rightarrow> proj_db \<Rightarrow> proj_error + proj_db" where
  "migrateParticipants field from into alias canonical accountKey db =
     (let inAccount = (\<lambda>p acc. pt_key p = Some alias \<and>
            list_ex (\<lambda>c. cv_id c = pt_conversation p \<and> cv_platform c = WhatsApp \<and> cv_account c = acc) (pj_conversations db));
          rows = filter (\<lambda>p. participant_at field p = from \<and>
            (case accountKey of None \<Rightarrow> True | Some [] \<Rightarrow> True | Some acc \<Rightarrow> inAccount p acc)) (pj_participants db)
      in fold_err (move_participant field into alias canonical) rows db)"

subsection \<open>Contacts\<close>

definition find_source_contact :: "proj_env \<Rightarrow> string \<Rightarrow> proj_cache \<Rightarrow> proj_db \<Rightarrow> string \<Rightarrow> string option" where
  "find_source_contact env sourcePrefix c db key =
     coalesce (map_of (pc_sources c) (sourcePrefix @ key))
       (map_option ct_id (tbl_get ct_id (hashId env ''contact'' (sourcePrefix @ key)) (pj_contacts db)))"

definition foreign_source :: "string \<Rightarrow> string \<Rightarrow> contact_source \<Rightarrow> bool" where
  "foreign_source account contact r \<longleftrightarrow> cs_contact r = contact \<and> \<not> (cs_platform r = WhatsApp \<and> cs_account r = account)"

definition copy_contact :: "string \<Rightarrow> string \<Rightarrow> proj_db \<Rightarrow> proj_db" where
  "copy_contact from into db =
     (case tbl_get ct_id from (pj_contacts db) of
        None \<Rightarrow> db
      | Some r \<Rightarrow> insert_contact (r\<lparr>ct_id := into\<rparr>) db)"

definition claim_source :: "proj_env \<Rightarrow> string \<Rightarrow> string \<Rightarrow> string \<Rightarrow> string \<Rightarrow> rat \<Rightarrow> proj_db \<Rightarrow> proj_error + proj_db" where
  "claim_source env sourcePrefix account canonical contact observedAt db =
     (let r = \<lparr>cs_id = hashId env ''contact_source'' (sourcePrefix @ canonical), cs_contact = contact, cs_platform = WhatsApp,
               cs_account = account, cs_key = canonical, cs_profile = None, cs_first_seen = observedAt, cs_last_seen = observedAt\<rparr>
      in if tbl_has cs_id (cs_id r) (pj_sources db) \<or> tbl_has cs_unique (cs_unique r) (pj_sources db) then Inr db
         else ebind (fk_error (contact_known db contact)) (\<lambda>_. Inr (db\<lparr>pj_sources := pj_sources db @ [r]\<rparr>)))"

text \<open>An update that sets a reference to a contact: the foreign key matters when a row matches.\<close>

definition relink :: "bool \<Rightarrow> ('r \<Rightarrow> bool) \<Rightarrow> ('r \<Rightarrow> 'r) \<Rightarrow> 'r list \<Rightarrow> proj_error + 'r list" where
  "relink known P f rows = ebind (fk_error (known \<or> \<not> list_ex P rows)) (\<lambda>_. Inr (tbl_update P f rows))"

definition of_alias :: "bool \<Rightarrow> string \<Rightarrow> string \<Rightarrow> platform \<Rightarrow> string \<Rightarrow> string option \<Rightarrow> bool" where
  "of_alias shared account alias platform accountKey key \<longleftrightarrow>
     (shared \<longrightarrow> platform = WhatsApp \<and> accountKey = account \<and> key = Some alias)"

definition relink_contact :: "bool \<Rightarrow> string \<Rightarrow> string \<Rightarrow> string \<Rightarrow> string \<Rightarrow> proj_db \<Rightarrow> proj_error + proj_db" where
  "relink_contact shared account alias old new db =
     (let known = contact_known db new in
      ebind (relink known (\<lambda>r. cs_contact r = old \<and> of_alias shared account alias (cs_platform r) (cs_account r) (Some (cs_key r)))
               (\<lambda>r. r\<lparr>cs_contact := new\<rparr>) (pj_sources db)) (\<lambda>sources.
      ebind (relink known (\<lambda>m. ms_sender m = Some old \<and> of_alias shared account alias (ms_platform m) (ms_account m) (ms_sender_key m))
               (\<lambda>m. m\<lparr>ms_sender := Some new\<rparr>) (pj_messages db)) (\<lambda>messages.
      ebind (relink known (\<lambda>r. re_reactor r = Some old \<and> of_alias shared account alias (re_platform r) (re_account r) (re_reactor_key r))
               (\<lambda>r. r\<lparr>re_reactor := Some new\<rparr>) (pj_reactions db)) (\<lambda>reactions.
      ebind (relink known (\<lambda>t. tl_actor t = Some old \<and> of_alias shared account alias (tl_platform t) (tl_account t) (tl_actor_key t))
               (\<lambda>t. t\<lparr>tl_actor := Some new\<rparr>) (pj_timeline db)) (\<lambda>timeline1.
      ebind (relink known (\<lambda>t. tl_subject t = Some old \<and> of_alias shared account alias (tl_platform t) (tl_account t) (tl_subject_key t))
               (\<lambda>t. t\<lparr>tl_subject := Some new\<rparr>) timeline1) (\<lambda>timeline.
      ebind (if shared then Inr (pj_handles db)
             else relink known (\<lambda>h. ch_contact h = old) (\<lambda>h. h\<lparr>ch_contact := new\<rparr>) (pj_handles db)) (\<lambda>handles.
        Inr (db\<lparr>pj_sources := sources, pj_messages := messages, pj_reactions := reactions, pj_timeline := timeline,
                pj_handles := handles,
                pj_memories := (if shared then pj_memories db
                  else tbl_update (\<lambda>m. mem_contact m = old) (\<lambda>m. m\<lparr>mem_contact := new\<rparr>) (pj_memories db))\<rparr>))))))))"

definition fill_contact :: "string \<Rightarrow> string \<Rightarrow> proj_db \<Rightarrow> proj_db" where
  "fill_contact old new db =
     (let from = tbl_get ct_id old (pj_contacts db) in
      db\<lparr>pj_contacts := tbl_update (\<lambda>r. ct_id r = new)
        (\<lambda>r. r\<lparr>ct_name := coalesce (ct_name r) (Option.bind from ct_name),
               ct_photo := coalesce (ct_photo r) (Option.bind from ct_photo),
               ct_company := coalesce (ct_company r) (Option.bind from ct_company)\<rparr>) (pj_contacts db)\<rparr>)"

definition move_contact :: "bool \<Rightarrow> string \<Rightarrow> string \<Rightarrow> string \<Rightarrow> string \<Rightarrow> string \<Rightarrow> proj_db \<Rightarrow> proj_error + proj_db" where
  "move_contact shared account alias canonical old new db =
     ebind (relink_contact shared account alias old new db) (\<lambda>db1.
     ebind (migrateParticipants ByContact old new alias canonical (if shared then Some account else None) db1) (\<lambda>db2.
       Inr (let db3 = fill_contact old new db2 in if shared then db3 else delete_contact old db3)))"

subsection \<open>Conversations\<close>

definition whatsapp_conversation :: "string \<Rightarrow> string \<Rightarrow> proj_db \<Rightarrow> conversation_row option" where
  "whatsapp_conversation account key db = find (\<lambda>c. cv_unique c = (WhatsApp, account, key)) (pj_conversations db)"

definition move_conversation :: "string \<Rightarrow> string \<Rightarrow> string \<Rightarrow> string \<Rightarrow> proj_db \<Rightarrow> proj_error + proj_db" where
  "move_conversation old new alias canonical db =
     (if old = new
      then Inr (db\<lparr>pj_conversations := tbl_update (\<lambda>c. cv_id c = new) (\<lambda>c. c\<lparr>cv_key := canonical\<rparr>) (pj_conversations db)\<rparr>)
      else ebind (migrateParticipants ByConversation old new alias canonical None db) (\<lambda>db1.
        Inr (delete_conversation old
          (db1\<lparr>pj_messages := tbl_update (\<lambda>m. ms_conversation m = old) (\<lambda>m. m\<lparr>ms_conversation := new\<rparr>) (pj_messages db1),
               pj_timeline := tbl_update (\<lambda>t. tl_conversation t = old) (\<lambda>t. t\<lparr>tl_conversation := new\<rparr>) (pj_timeline db1)\<rparr>))))"

subsection \<open>Messages with their attachments\<close>

definition rekey :: "string \<Rightarrow> string \<Rightarrow> string \<Rightarrow> string" where
  "rekey lidPrefix pn key = pn @ '':'' @ drop (length lidPrefix) key"

text \<open>The files and extracted text of the losing row move over where the winner has none of its own.\<close>

definition move_artifacts :: "string \<Rightarrow> string \<Rightarrow> proj_db \<Rightarrow> proj_db" where
  "move_artifacts from into db =
     (let cache = map (\<lambda>(a, v). if a = from \<and> (into, v) \<notin> set (pj_attachment_cache db) then (into, v) else (a, v))
            (pj_attachment_cache db);
          content = map (\<lambda>(a, t). if a = from \<and> into \<notin> fst ` set (pj_attachment_content db) then (into, t) else (a, t))
            (pj_attachment_content db);
          others = filter (\<lambda>a. a \<noteq> from \<and> a \<noteq> into) (pj_attachment_fts db);
          indexed = (case map_of content into of Some (Some t) \<Rightarrow> [into] | _ \<Rightarrow> [])
      in db\<lparr>pj_attachment_cache := cache, pj_attachment_content := content, pj_attachment_fts := others @ indexed\<rparr>)"

definition migrateAttachment :: "attachment_row \<Rightarrow> string \<Rightarrow> string \<Rightarrow> proj_db \<Rightarrow> proj_error + proj_db" where
  "migrateAttachment row messageId key db =
     ebind (fk_error (message_known db messageId)) (\<lambda>_.
       case find (\<lambda>a. at_unique a = (WhatsApp, at_account row, key)) (pj_attachments db) of
         Some existing \<Rightarrow>
           if at_id existing \<noteq> at_id row then
             let merged = merge_attachment (row\<lparr>at_message := messageId, at_key := key\<rparr>) existing;
                 db1 = db\<lparr>pj_attachments := replace_row at_id merged (pj_attachments db)\<rparr>
             in Inr (delete_attachments (\<lambda>a. at_id a = at_id row) (move_artifacts (at_id row) (at_id existing) db1))
           else Inr (db\<lparr>pj_attachments := tbl_update (\<lambda>a. at_id a = at_id row)
                  (\<lambda>a. a\<lparr>at_message := messageId, at_key := key\<rparr>) (pj_attachments db)\<rparr>)
       | None \<Rightarrow> Inr (db\<lparr>pj_attachments := tbl_update (\<lambda>a. at_id a = at_id row)
                  (\<lambda>a. a\<lparr>at_message := messageId, at_key := key\<rparr>) (pj_attachments db)\<rparr>))"

definition migrate_attachments :: "string \<Rightarrow> string \<Rightarrow> string \<Rightarrow> string \<Rightarrow> proj_db \<Rightarrow> proj_error + proj_db" where
  "migrate_attachments lidPrefix pn from into db =
     fold_err (\<lambda>a. migrateAttachment a into
         (if starts_with lidPrefix (at_key a) then rekey lidPrefix pn (at_key a) else at_key a))
       (filter (\<lambda>a. at_message a = from) (pj_attachments db)) db"

text \<open>
  The row is the one that was read before the loop began, and what is written back of it is what was read then.
\<close>

definition migrate_message ::
  "string \<Rightarrow> string \<Rightarrow> string \<Rightarrow> message_row \<Rightarrow> proj_db \<times> string list \<Rightarrow> proj_error + proj_db \<times> string list" where
  "migrate_message account lidPrefix pn row acc = (case acc of (db, winners) \<Rightarrow>
     let key = rekey lidPrefix pn (ms_key row);
         found = find (\<lambda>m. ms_unique m = (WhatsApp, account, key)) (pj_messages db);
         winner = get_or (map_option ms_id found) (ms_id row) in
     ebind (migrate_attachments lidPrefix pn (ms_id row) winner db) (\<lambda>db1.
       case found of
         Some existing \<Rightarrow>
           if ms_id existing \<noteq> ms_id row then
             let merged = merge_message (row\<lparr>ms_key := key, ms_conversation := ms_conversation existing\<rparr>) existing in
             ebind (fk_error (message_fks db1 merged)) (\<lambda>_.
               let db2 = db1\<lparr>pj_messages := tbl_update (\<lambda>m. ms_reply_to m = Some (ms_id row)) (\<lambda>m. m\<lparr>ms_reply_to := Some (ms_id existing)\<rparr>)
                         (replace_row ms_id merged (pj_messages db1)),
                       pj_reactions := tbl_update (\<lambda>r. re_message r = ms_id row) (\<lambda>r. r\<lparr>re_message := ms_id existing\<rparr>) (pj_reactions db1),
                       pj_fts := filter (\<lambda>m. m \<noteq> ms_id row) (pj_fts db1),
                       pj_fts_queue := filter (\<lambda>m. m \<noteq> ms_id row) (pj_fts_queue db1)\<rparr>
               in Inr (delete_messages (\<lambda>m. ms_id m = ms_id row) db2, winners @ [winner]))
           else Inr (db1\<lparr>pj_messages := tbl_update (\<lambda>m. ms_id m = ms_id row) (\<lambda>m. m\<lparr>ms_key := key\<rparr>) (pj_messages db1)\<rparr>,
                  winners @ [winner])
       | None \<Rightarrow> Inr (db1\<lparr>pj_messages := tbl_update (\<lambda>m. ms_id m = ms_id row) (\<lambda>m. m\<lparr>ms_key := key\<rparr>) (pj_messages db1)\<rparr>,
                  winners @ [winner])))"

definition migrate_messages :: "string \<Rightarrow> string \<Rightarrow> string \<Rightarrow> proj_db \<Rightarrow> proj_error + proj_db \<times> string list" where
  "migrate_messages account lid pn db =
     (let lidPrefix = lid @ '':'' in
      fold_err (migrate_message account lidPrefix pn)
        (filter (\<lambda>m. ms_platform m = WhatsApp \<and> ms_account m = account \<and> starts_with lidPrefix (ms_key m)) (pj_messages db)) (db, []))"

subsection \<open>References, reactions and timeline events\<close>

definition canonical_references :: "string \<Rightarrow> string \<Rightarrow> string \<Rightarrow> proj_db \<Rightarrow> proj_db" where
  "canonical_references account alias canonical db =
     (let own = (\<lambda>p a k. p = WhatsApp \<and> a = account \<and> k = Some alias) in
      db\<lparr>pj_messages := tbl_update (\<lambda>m. own (ms_platform m) (ms_account m) (ms_sender_key m))
             (\<lambda>m. m\<lparr>ms_sender_key := Some canonical\<rparr>) (pj_messages db),
         pj_reactions := tbl_update (\<lambda>r. own (re_platform r) (re_account r) (re_reactor_key r))
             (\<lambda>r. r\<lparr>re_reactor_key := Some canonical\<rparr>) (pj_reactions db),
         pj_timeline := tbl_update (\<lambda>t. own (tl_platform t) (tl_account t) (tl_subject_key t))
             (\<lambda>t. t\<lparr>tl_subject_key := Some canonical\<rparr>)
           (tbl_update (\<lambda>t. own (tl_platform t) (tl_account t) (tl_actor_key t))
             (\<lambda>t. t\<lparr>tl_actor_key := Some canonical\<rparr>) (pj_timeline db))\<rparr>)"

definition migrate_reaction ::
  "string \<Rightarrow> reaction_row \<Rightarrow> proj_db \<times> string list \<Rightarrow> proj_error + proj_db \<times> string list" where
  "migrate_reaction account row acc = (case acc of (db, touched) \<Rightarrow>
     case tbl_get ms_id (re_message row) (pj_messages db) of
       None \<Rightarrow> Inl NotAnObject
     | Some m \<Rightarrow>
         (let key = ms_key m @ '':'' @ get_or (re_reactor_key row) ''__me__'' @ '':'' @ re_emoji row in
          case find (\<lambda>r. re_unique r = (WhatsApp, account, key)) (pj_reactions db) of
            Some existing \<Rightarrow>
              if re_id existing \<noteq> re_id row then
                let merged = merge_reaction (row\<lparr>re_key := key\<rparr>) existing in
                ebind (fk_error (reaction_fks db merged)) (\<lambda>_.
                  Inr (db\<lparr>pj_reactions := tbl_delete (\<lambda>r. re_id r = re_id row) (replace_row re_id merged (pj_reactions db))\<rparr>,
                       touched @ [re_message row]))
              else Inr (db\<lparr>pj_reactions := tbl_update (\<lambda>r. re_id r = re_id row) (\<lambda>r. r\<lparr>re_key := key\<rparr>) (pj_reactions db)\<rparr>,
                     touched @ [re_message row])
          | None \<Rightarrow> Inr (db\<lparr>pj_reactions := tbl_update (\<lambda>r. re_id r = re_id row) (\<lambda>r. r\<lparr>re_key := key\<rparr>) (pj_reactions db)\<rparr>,
                     touched @ [re_message row])))"

text \<open>\<open>LIKE\<close> compares without regard to case; the digits and the sign of a LID are no wildcards.\<close>

definition migrate_reactions :: "string \<Rightarrow> string \<Rightarrow> string \<Rightarrow> proj_db \<Rightarrow> proj_error + proj_db \<times> string list" where
  "migrate_reactions account lid alias db =
     fold_err (migrate_reaction account)
       (filter (\<lambda>r. re_platform r = WhatsApp \<and> re_account r = account \<and>
          (starts_with (sql_lower (lid @ '':'')) (sql_lower (re_key r)) \<or> str_includes (re_key r) alias)) (pj_reactions db)) (db, [])"

definition migrate_timeline_row :: "string \<Rightarrow> string \<Rightarrow> string \<Rightarrow> timeline_row \<Rightarrow> proj_db \<Rightarrow> proj_error + proj_db" where
  "migrate_timeline_row account lidPrefix pn row db =
     (let key = rekey lidPrefix pn (tl_key row) in
      case find (\<lambda>t. tl_unique t = (WhatsApp, account, key)) (pj_timeline db) of
        Some existing \<Rightarrow>
          if tl_id existing \<noteq> tl_id row then
            let merged = merge_timeline (row\<lparr>tl_key := key\<rparr>) existing in
            ebind (fk_error (timeline_fks db merged)) (\<lambda>_.
              Inr (db\<lparr>pj_timeline := tbl_delete (\<lambda>t. tl_id t = tl_id row) (replace_row tl_id merged (pj_timeline db))\<rparr>))
          else Inr (db\<lparr>pj_timeline := tbl_update (\<lambda>t. tl_id t = tl_id row) (\<lambda>t. t\<lparr>tl_key := key\<rparr>) (pj_timeline db)\<rparr>)
      | None \<Rightarrow> Inr (db\<lparr>pj_timeline := tbl_update (\<lambda>t. tl_id t = tl_id row) (\<lambda>t. t\<lparr>tl_key := key\<rparr>) (pj_timeline db)\<rparr>))"

definition migrate_timeline :: "string \<Rightarrow> string \<Rightarrow> string \<Rightarrow> proj_db \<Rightarrow> proj_error + proj_db" where
  "migrate_timeline account lid pn db =
     fold_err (migrate_timeline_row account (lid @ '':'') pn)
       (filter (\<lambda>t. tl_platform t = WhatsApp \<and> tl_account t = account \<and>
          starts_with (sql_lower (lid @ '':'')) (sql_lower (tl_key t))) (pj_timeline db)) db"

subsection \<open>The whole migration\<close>

definition alias_contacts ::
  "proj_env \<Rightarrow> string \<Rightarrow> string \<Rightarrow> string \<Rightarrow> rat \<Rightarrow> string option \<Rightarrow> bool \<Rightarrow> string option \<Rightarrow> unit step" where
  "alias_contacts env account alias canonical observedAt oldContact shared newContact =
     (case newContact of
        None \<Rightarrow> sret ()
      | Some new \<Rightarrow>
          (let sourcePrefix = ''whatsapp:'' @ account @ '':'' in
           sbind (cache_source (sourcePrefix @ alias) new) (\<lambda>_.
           sbind (cache_source (sourcePrefix @ canonical) new) (\<lambda>_.
           sbind (try_db (claim_source env sourcePrefix account canonical new observedAt)) (\<lambda>_.
           sbind (case oldContact of
                    None \<Rightarrow> sret ()
                  | Some old \<Rightarrow>
                      if old \<noteq> new then
                        sbind (if shared then sret () else on_cache (\<lambda>c. c\<lparr>pc_merges := map_set old new (pc_merges c)\<rparr>)) (\<lambda>_.
                        sbind (try_db (move_contact shared account alias canonical old new)) (\<lambda>_. dirty_contact old))
                      else try_db (migrateParticipants ByContact old new alias canonical (Some account))) (\<lambda>_.
             dirty_contact new))))))"

definition alias_conversations :: "string \<Rightarrow> string \<Rightarrow> string \<Rightarrow> unit step" where
  "alias_conversations account alias canonical =
     sbind (from_db (whatsapp_conversation account alias)) (\<lambda>oldConversation.
     sbind (from_db (whatsapp_conversation account canonical)) (\<lambda>canonicalConversation.
       case oldConversation of
         None \<Rightarrow> sret ()
       | Some old \<Rightarrow>
           (let id = cv_id (get_or canonicalConversation old); sourcePrefix = ''whatsapp:'' @ account @ '':'' in
            sbind (try_db (move_conversation (cv_id old) id alias canonical)) (\<lambda>_.
            sbind (on_cache (\<lambda>c. c\<lparr>pc_conversations := map_set (sourcePrefix @ canonical) id
                     (map_set (sourcePrefix @ alias) id (pc_conversations c))\<rparr>)) (\<lambda>_.
            sbind (dirty_conversation id) (\<lambda>_. dirty_summary id))))))"

definition alias_rows :: "string \<Rightarrow> string \<Rightarrow> string \<Rightarrow> unit step" where
  "alias_rows account alias canonical =
     (let lid = drop 9 alias; pn = drop 9 canonical in
      sbind (\<lambda>s. ebind (migrate_messages account lid pn (ps_db s)) (\<lambda>(db, ids). Inr (ids, s\<lparr>ps_db := db\<rparr>))) (\<lambda>winners.
      sbind (for_each dirty_message winners) (\<lambda>_.
      sbind (on_db (canonical_references account alias canonical)) (\<lambda>_.
      sbind (\<lambda>s. ebind (migrate_reactions account lid alias (ps_db s)) (\<lambda>(db, ids). Inr (ids, s\<lparr>ps_db := db\<rparr>))) (\<lambda>touched.
      sbind (for_each dirty_message touched) (\<lambda>_.
      sbind (try_db (migrate_timeline account lid pn)) (\<lambda>_.
      sbind touch_attachments (\<lambda>_. touch_reactions))))))))"

definition alias_targets ::
  "proj_env \<Rightarrow> string \<Rightarrow> string \<Rightarrow> string \<Rightarrow> proj_cache \<Rightarrow> proj_db \<Rightarrow> string option \<times> bool \<times> string option" where
  "alias_targets env account alias canonical c db =
     (let sourcePrefix = ''whatsapp:'' @ account @ '':'';
          oldContact = find_source_contact env sourcePrefix c db alias;
          shared = (case oldContact of None \<Rightarrow> False | Some old \<Rightarrow> list_ex (foreign_source account old) (pj_sources db));
          newContact = coalesce (find_source_contact env sourcePrefix c db canonical)
            (if shared then Some (hashId env ''contact'' (sourcePrefix @ canonical)) else oldContact)
      in (oldContact, shared, newContact))"

definition record_alias ::
  "string \<Rightarrow> string \<Rightarrow> string \<Rightarrow> rat \<Rightarrow> string option \<Rightarrow> bool \<Rightarrow> string option \<Rightarrow> proj_db \<Rightarrow> proj_db" where
  "record_alias account alias canonical observedAt oldContact shared newContact db =
     (let db1 = (case (oldContact, newContact) of
            (Some old, Some new) \<Rightarrow> if shared then copy_contact old new db else db
          | _ \<Rightarrow> db)
      in db1\<lparr>pj_aliases := pj_aliases db1 @
           [\<lparr>al_platform = WhatsApp, al_account = account, al_alias = alias, al_canonical = canonical,
             al_former = (if shared then None else oldContact), al_contact = newContact, al_observed = observedAt\<rparr>]\<rparr>)"

definition projectWhatsAppIdentityAlias :: "proj_env \<Rightarrow> proj_event \<Rightarrow> unit step" where
  "projectWhatsAppIdentityAlias env event =
     sbind (read_payload read_alias event) (\<lambda>payload.
     sbind (lift_error (assertWhatsAppAlias (pv_platform event) payload)) (\<lambda>_.
     let account = pv_account event; alias = ap_alias payload; canonical = ap_canonical payload in
     sbind (from_db (find_alias account alias)) (\<lambda>prior.
       case prior of
         Some row \<Rightarrow> if al_canonical row \<noteq> canonical then lift_error (Inl AliasConflict) else sret ()
       | None \<Rightarrow>
           sbind (\<lambda>s. Inr (alias_targets env account alias canonical (ps_cache s) (ps_db s), s)) (\<lambda>(oldContact, shared, newContact).
           sbind (on_db (record_alias account alias canonical (pv_observed_at event) oldContact shared newContact)) (\<lambda>_.
           sbind (alias_contacts env account alias canonical (pv_observed_at event) oldContact shared newContact) (\<lambda>_.
           sbind (alias_conversations account alias canonical) (\<lambda>_.
             alias_rows account alias canonical)))))))"

end
