(* ===== verification/ProjRefresh.thy ===== *)
theory ProjRefresh
  imports ProjMessages
begin

text \<open>
  The denormalised columns (\<^verbatim>\<open>src/runtime/projection/projector.ts\<close>): after the events of a batch have been
  applied, the names, summaries and counters of the rows in the change set are computed anew by SQL updates, in
  chunks of ids. Where the SQL leaves an order open (\<open>GROUP_CONCAT\<close>, ties of \<open>ORDER BY\<close>) the model takes
  the order of the rows.
\<close>

definition SQL_CHUNK_SIZE :: nat where
  "SQL_CHUNK_SIZE = 200"

definition in_chunks :: "(string list \<Rightarrow> 's \<Rightarrow> 's) \<Rightarrow> string list \<Rightarrow> 's \<Rightarrow> 's" where
  "in_chunks stmt ids s = fold stmt (chunkArray ids SQL_CHUNK_SIZE) s"

definition order_last :: "('r \<Rightarrow> 'k::linorder) \<Rightarrow> 'r list \<Rightarrow> 'r option" where
  "order_last key rows = (case rev (sort_key key rows) of [] \<Rightarrow> None | r # _ \<Rightarrow> Some r)"

definition contact_name_of :: "proj_db \<Rightarrow> string option \<Rightarrow> string option" where
  "contact_name_of db c = Option.bind (Option.bind c (\<lambda>x. tbl_get ct_id x (pj_contacts db))) ct_name"

definition conversation_name_of :: "proj_db \<Rightarrow> string \<Rightarrow> string option" where
  "conversation_name_of db c = Option.bind (tbl_get cv_id c (pj_conversations db)) cv_name"

subsection \<open>Conversation summaries\<close>

definition latest_message :: "proj_db \<Rightarrow> string \<Rightarrow> message_row option" where
  "latest_message db c =
     order_last (\<lambda>m. (ms_sent_at m, ms_updated m, ms_id m)) (filter (\<lambda>m. ms_conversation m = c) (pj_messages db))"

definition latest_system_message :: "proj_db \<Rightarrow> string \<Rightarrow> timeline_row option" where
  "latest_system_message db c =
     order_last (\<lambda>t. (tl_event_at t, tl_updated t, tl_id t))
       (filter (\<lambda>t. tl_conversation t = c \<and> tl_kind t = ''system_message'') (pj_timeline db))"

definition unread_messages :: "proj_db \<Rightarrow> string \<Rightarrow> nat" where
  "unread_messages db c =
     length (filter (\<lambda>m. ms_conversation m = c \<and> \<not> ms_from_me m \<and> \<not> ms_deleted m \<and> ms_read_at m = None) (pj_messages db))"

definition system_is_latest :: "message_row option \<Rightarrow> timeline_row option \<Rightarrow> bool" where
  "system_is_latest m t =
     (case (t, m) of (None, _) \<Rightarrow> False | (Some _, None) \<Rightarrow> True | (Some t', Some m') \<Rightarrow> ms_sent_at m' < tl_event_at t')"

definition summarize_conversation :: "proj_db \<Rightarrow> conversation_row \<Rightarrow> conversation_row" where
  "summarize_conversation db r =
     (let m = latest_message db (cv_id r); t = latest_system_message db (cv_id r) in
      r\<lparr>cv_last_id := (if system_is_latest m t then None else map_option ms_id m),
        cv_last_at := (if system_is_latest m t then map_option tl_event_at t else map_option ms_sent_at m),
        cv_last_preview := (if system_is_latest m t then Option.bind t tl_text else Option.bind m ms_content),
        cv_unread := (if \<not> cv_active r then 0 else of_nat (unread_messages db (cv_id r)))\<rparr>)"

definition refreshConversationSummariesForIds :: "string list \<Rightarrow> proj_db \<Rightarrow> proj_db" where
  "refreshConversationSummariesForIds = in_chunks (\<lambda>chunk db.
     db\<lparr>pj_conversations := tbl_update (\<lambda>r. cv_id r \<in> set chunk) (summarize_conversation db) (pj_conversations db)\<rparr>)"

subsection \<open>Names\<close>

definition in_opt :: "string option \<Rightarrow> string list \<Rightarrow> bool" where
  "in_opt x ids = (case x of None \<Rightarrow> False | Some i \<Rightarrow> i \<in> set ids)"

definition refreshContactFanoutForIds :: "string list \<Rightarrow> proj_db \<Rightarrow> proj_db" where
  "refreshContactFanoutForIds = in_chunks (\<lambda>chunk db.
     db\<lparr>pj_messages := tbl_update (\<lambda>m. in_opt (ms_sender m) chunk)
          (\<lambda>m. m\<lparr>ms_sender_name := contact_name_of db (ms_sender m)\<rparr>) (pj_messages db),
        pj_participants := tbl_update (\<lambda>p. pt_contact p \<in> set chunk)
          (\<lambda>p. p\<lparr>pt_name := contact_name_of db (Some (pt_contact p))\<rparr>) (pj_participants db),
        pj_timeline := tbl_update (\<lambda>t. in_opt (tl_actor t) chunk)
          (\<lambda>t. t\<lparr>tl_actor_name := contact_name_of db (tl_actor t)\<rparr>) (pj_timeline db),
        pj_reactions := tbl_update (\<lambda>r. in_opt (re_reactor r) chunk)
          (\<lambda>r. r\<lparr>re_reactor_name := contact_name_of db (re_reactor r)\<rparr>) (pj_reactions db)\<rparr>)"

definition expandDirtyConversationIds :: "proj_db \<Rightarrow> proj_changes \<Rightarrow> proj_changes" where
  "expandDirtyConversationIds db changes =
     in_chunks (\<lambda>chunk d. d\<lparr>pd_conversations := fold set_add
         (map pt_conversation (filter (\<lambda>p. pt_contact p \<in> set chunk) (pj_participants db))) (pd_conversations d)\<rparr>)
       (pd_contacts changes) changes"

text \<open>In a direct conversation with one other active participant the conversation's name names that participant.\<close>

definition single_other :: "proj_db \<Rightarrow> string \<Rightarrow> bool" where
  "single_other db c \<longleftrightarrow>
     map_option cv_type (tbl_get cv_id c (pj_conversations db)) = Some ''dm'' \<and>
     length (filter (\<lambda>p. pt_conversation p = c \<and> pt_active p \<and> \<not> pt_self p) (pj_participants db)) = 1"

definition dm_name :: "proj_db \<Rightarrow> bool \<Rightarrow> string \<Rightarrow> string option" where
  "dm_name db own c = (if \<not> own \<and> single_other db c then nonEmptySql (conversation_name_of db c) else None)"

fun first_human :: "string option list \<Rightarrow> string option" where
  "first_human [] = None"
| "first_human (n # ns) = (if isHumanDisplayNameSql n then n else first_human ns)"

fun first_given :: "string option list \<Rightarrow> string option" where
  "first_given [] = None"
| "first_given (n # ns) = coalesce n (first_given ns)"

definition participant_display_name :: "proj_db \<Rightarrow> participant_row \<Rightarrow> string option" where
  "participant_display_name db p =
     (let contactName = nonEmptySql (contact_name_of db (Some (pt_contact p)));
          dmName = dm_name db (pt_self p) (pt_conversation p);
          currentName = nonEmptySql (pt_name p)
      in coalesce (first_human [contactName, dmName, currentName]) (first_given [contactName, currentName]))"

fun join_with :: "string \<Rightarrow> string list \<Rightarrow> string" where
  "join_with sep [] = ''''"
| "join_with sep [s] = s"
| "join_with sep (s # ss) = s @ sep @ join_with sep ss"

definition active_names :: "proj_db \<Rightarrow> string \<Rightarrow> string list" where
  "active_names db c =
     List.map_filter (\<lambda>p. if pt_conversation p = c \<and> pt_active p \<and> pt_name p \<noteq> Some [] then pt_name p else None)
       (pj_participants db)"

definition participant_names :: "proj_db \<Rightarrow> string \<Rightarrow> string option" where
  "participant_names db c = (case active_names db c of [] \<Rightarrow> None | ns \<Rightarrow> Some (join_with '' | '' ns))"

definition refreshParticipantNamesForIds :: "string list \<Rightarrow> proj_db \<Rightarrow> proj_db" where
  "refreshParticipantNamesForIds = in_chunks (\<lambda>chunk db.
     let db' = db\<lparr>pj_participants := tbl_update (\<lambda>p. pt_conversation p \<in> set chunk)
           (\<lambda>p. p\<lparr>pt_name := participant_display_name db p\<rparr>) (pj_participants db)\<rparr>
     in db'\<lparr>pj_conversations := tbl_update (\<lambda>r. cv_id r \<in> set chunk)
           (\<lambda>r. r\<lparr>cv_participant_names := participant_names db' (cv_id r)\<rparr>) (pj_conversations db')\<rparr>)"

definition sender_display_name :: "proj_db \<Rightarrow> message_row \<Rightarrow> string option" where
  "sender_display_name db m =
     (let contactName = nonEmptySql (contact_name_of db (ms_sender m));
          participantName = nonEmptySql (Option.bind (latest_participant (ms_conversation m) (ms_sender m) db) pt_name);
          dmName = dm_name db (ms_from_me m) (ms_conversation m);
          currentName = nonEmptySql (ms_sender_name m)
      in coalesce (first_human [contactName, participantName, dmName, currentName])
           (first_given [contactName, participantName, currentName]))"

definition refreshMessageSenderNamesForIds :: "string list \<Rightarrow> proj_db \<Rightarrow> proj_db" where
  "refreshMessageSenderNamesForIds = in_chunks (\<lambda>chunk db.
     db\<lparr>pj_messages := tbl_update (\<lambda>m. ms_conversation m \<in> set chunk)
       (\<lambda>m. m\<lparr>ms_sender_name := sender_display_name db m\<rparr>) (pj_messages db)\<rparr>)"

definition replaceable_name :: "conversation_row \<Rightarrow> bool" where
  "replaceable_name r = (case cv_name r of
       None \<Rightarrow> True
     | Some n \<Rightarrow> n = [] \<or> n = cv_key r \<or> starts_with ''+'' n \<or> starts_with ''imessage:'' (sql_lower n) \<or> str_includes n ''@'')"

definition refreshConversationNamesForIds :: "string list \<Rightarrow> proj_db \<Rightarrow> proj_db" where
  "refreshConversationNamesForIds = in_chunks (\<lambda>chunk db.
     db\<lparr>pj_conversations := tbl_update
       (\<lambda>r. cv_id r \<in> set chunk \<and> replaceable_name r \<and> cv_type r = ''dm'' \<and>
            cv_participant_names r \<noteq> None \<and> cv_participant_names r \<noteq> Some [])
       (\<lambda>r. r\<lparr>cv_name := cv_participant_names r\<rparr>) (pj_conversations db)\<rparr>)"

definition refreshMessageConversationNamesForIds :: "string list \<Rightarrow> proj_db \<Rightarrow> proj_db" where
  "refreshMessageConversationNamesForIds = in_chunks (\<lambda>chunk db.
     db\<lparr>pj_messages := tbl_update (\<lambda>m. ms_conversation m \<in> set chunk)
       (\<lambda>m. m\<lparr>ms_conversation_name := conversation_name_of db (ms_conversation m)\<rparr>) (pj_messages db)\<rparr>)"

subsection \<open>Counters\<close>

definition expandDirtyMessageIds :: "proj_db \<Rightarrow> proj_changes \<Rightarrow> proj_changes" where
  "expandDirtyMessageIds db changes =
     in_chunks (\<lambda>chunk d. d\<lparr>pd_messages := fold set_add
         (map ms_id (filter (\<lambda>m. in_opt (ms_sender m) chunk) (pj_messages db))) (pd_messages d)\<rparr>)
       (pd_contacts changes)
       (in_chunks (\<lambda>chunk d. d\<lparr>pd_messages := fold set_add
           (map ms_id (filter (\<lambda>m. ms_conversation m \<in> set chunk) (pj_messages db))) (pd_messages d)\<rparr>)
         (pd_conversations changes) changes)"

definition attachment_count :: "proj_db \<Rightarrow> string \<Rightarrow> nat" where
  "attachment_count db m = length (filter (\<lambda>a. at_message a = m) (pj_attachments db))"

definition reaction_count :: "proj_db \<Rightarrow> string \<Rightarrow> nat" where
  "reaction_count db m = length (filter (\<lambda>r. re_message r = m \<and> re_active r) (pj_reactions db))"

definition refreshAttachmentCountsForIds :: "string list \<Rightarrow> proj_db \<Rightarrow> proj_db" where
  "refreshAttachmentCountsForIds = in_chunks (\<lambda>chunk db.
     db\<lparr>pj_messages := tbl_update (\<lambda>m. ms_id m \<in> set chunk)
       (\<lambda>m. m\<lparr>ms_attachments := attachment_count db (ms_id m)\<rparr>) (pj_messages db)\<rparr>)"

definition refreshReactionCountsForIds :: "string list \<Rightarrow> proj_db \<Rightarrow> proj_db" where
  "refreshReactionCountsForIds = in_chunks (\<lambda>chunk db.
     db\<lparr>pj_messages := tbl_update (\<lambda>m. ms_id m \<in> set chunk)
       (\<lambda>m. m\<lparr>ms_reactions := reaction_count db (ms_id m)\<rparr>) (pj_messages db)\<rparr>)"

subsection \<open>The final pass of a batch\<close>

definition syncContactNameCache :: "proj_db \<Rightarrow> string list \<Rightarrow> proj_cache \<Rightarrow> proj_cache" where
  "syncContactNameCache db = in_chunks (\<lambda>chunk c.
     c\<lparr>pc_names := fold (\<lambda>r. map_set (ct_id r) (ct_name r)) (filter (\<lambda>r. ct_id r \<in> set chunk) (pj_contacts db)) (pc_names c)\<rparr>)"

definition syncConversationNameCache :: "proj_db \<Rightarrow> string list \<Rightarrow> proj_cache \<Rightarrow> proj_cache" where
  "syncConversationNameCache db = in_chunks (\<lambda>chunk c.
     c\<lparr>pc_conversation_names := fold (\<lambda>r. map_set (cv_id r) (cv_name r))
       (filter (\<lambda>r. cv_id r \<in> set chunk) (pj_conversations db)) (pc_conversation_names c)\<rparr>)"

definition finalize_names :: "proj_state \<Rightarrow> proj_state" where
  "finalize_names s =
     (let changes = expandDirtyConversationIds (ps_db s) (ps_changes s);
          ids = pd_conversations changes;
          db1 = refreshConversationNamesForIds ids (refreshParticipantNamesForIds ids (ps_db s));
          db2 = refreshMessageConversationNamesForIds ids (refreshMessageSenderNamesForIds ids db1)
      in \<lparr>ps_db = db2, ps_cache = syncConversationNameCache db1 ids (ps_cache s),
          ps_changes = changes\<lparr>pd_summaries := fold set_add ids (pd_summaries changes)\<rparr>\<rparr>)"

definition finalize_counts :: "proj_changes \<Rightarrow> proj_db \<Rightarrow> proj_db" where
  "finalize_counts changes db =
     (let db1 = (if pd_attachments changes then refreshAttachmentCountsForIds (pd_messages changes) db else db)
      in if pd_reactions changes then refreshReactionCountsForIds (pd_messages changes) db1 else db1)"

definition finalizeDeferredProjection :: "bool \<Rightarrow> proj_state \<Rightarrow> proj_state" where
  "finalizeDeferredProjection initialProjection s =
     (let db0 = refreshContactFanoutForIds (pd_contacts (ps_changes s)) (ps_db s);
          s1 = finalize_names (s\<lparr>ps_db := db0, ps_cache := syncContactNameCache db0 (pd_contacts (ps_changes s)) (ps_cache s)\<rparr>);
          db3 = refreshConversationSummariesForIds (pd_summaries (ps_changes s1)) (ps_db s1);
          changes = (if initialProjection then ps_changes s1 else expandDirtyMessageIds db3 (ps_changes s1))
      in \<lparr>ps_db = finalize_counts changes db3, ps_cache = ps_cache s1, ps_changes = changes\<rparr>)"

end
