(* ===== verification/Projector.thy ===== *)
theory Projector
  imports IdentityAlias ProjRefresh RawEvents
begin

text \<open>
  The projector as a whole (\<^verbatim>\<open>src/runtime/projection/projector.ts\<close>): a batch of raw events becomes rows of the projected
  tables, event by event under a savepoint and a cache overlay; ranges of the log are projected batch by batch
  behind a watermark; a rebuild starts from nothing. The overlays are represented by the contents they show
  (\<open>nested_overlay_transparent\<close> of the theory \<open>ProjectionCache\<close>): an event that throws leaves the state it
  found. Texts of errors come from the argument \<open>explain\<close>.
\<close>

record engine =
  en_raw :: "raw_row list"
  en_failures :: "failure_row list"
  en_state :: "projection_state option"
  en_db :: proj_db
  en_cache :: "proj_cache option"
  en_decisions :: "decision_row list"

subsection \<open>The stored caches\<close>

definition decided_aliases :: "engine \<Rightarrow> (string \<times> string) list" where
  "decided_aliases e = listContactMergeAliases \<lparr>mdb_contacts = [], mdb_decisions = en_decisions e, mdb_memories = []\<rparr>"

definition observed_aliases :: "proj_db \<Rightarrow> (string \<times> string) list" where
  "observed_aliases db = List.map_filter (\<lambda>a. case (al_former a, al_contact a) of
       (Some f, Some c) \<Rightarrow> if f \<noteq> c then Some (f, c) else None | _ \<Rightarrow> None) (pj_aliases db)"

fun hydrate_contacts :: "proj_cache \<Rightarrow> (string \<times> string) list \<Rightarrow> proj_error + (string, string) js_map" where
  "hydrate_contacts c [] = Inr []"
| "hydrate_contacts c ((k, contact) # rest) =
     ebind (resolveCanonicalContactId c (Some contact)) (\<lambda>canonical.
     ebind (hydrate_contacts c rest) (\<lambda>m. Inr ((k, get_or canonical contact) # m)))"

definition hydrateProjectionCache :: "engine \<Rightarrow> proj_error + proj_cache" where
  "hydrateProjectionCache e =
     (let db = en_db e;
          c = createProjectionCache\<lparr>pc_merges := js_map_from (decided_aliases e @ observed_aliases db)\<rparr>
      in ebind (hydrate_contacts c (map (\<lambda>r. (source_ref (cs_platform r) (cs_account r) (cs_key r), cs_contact r)) (pj_sources db))) (\<lambda>sources.
         ebind (hydrate_contacts c (map (\<lambda>r. (handle_ref (ch_type r) (ch_normalized r), ch_contact r))
                  (filter ch_deterministic (pj_handles db)))) (\<lambda>handles.
           Inr (c\<lparr>pc_sources := js_map_from sources, pc_handles := js_map_from handles,
                  pc_conversations := js_map_from (map (\<lambda>r. (source_ref (cv_platform r) (cv_account r) (cv_key r), cv_id r)) (pj_conversations db)),
                  pc_names := js_map_from (map (\<lambda>r. (ct_id r, ct_name r)) (pj_contacts db)),
                  pc_conversation_names := js_map_from (map (\<lambda>r. (cv_id r, cv_name r)) (pj_conversations db))\<rparr>))))"

definition getProjectionCache :: "engine \<Rightarrow> proj_error + proj_cache" where
  "getProjectionCache e = (case en_cache e of Some c \<Rightarrow> Inr c | None \<Rightarrow> hydrateProjectionCache e)"

definition resetProjectionCache :: "engine \<Rightarrow> proj_cache" where
  "resetProjectionCache e = createProjectionCache\<lparr>pc_merges := js_map_from (decided_aliases e)\<rparr>"

subsection \<open>Shaping\<close>

definition mode_text :: "acquisition_mode \<Rightarrow> string" where
  "mode_text m = (case m of AcqSync \<Rightarrow> ''sync'' | AcqRealtime \<Rightarrow> ''realtime'')"

definition named_part :: "string \<Rightarrow> string option \<Rightarrow> string list" where
  "named_part label value = (if truthy_text value then [label @ '' '' @ the value] else [])"

definition describeRawEventContext :: "raw_row \<Rightarrow> string" where
  "describeRawEventContext event =
     join_with '', ''
       ([''row '' @ dec_nat (rw_rowid event), ''event '' @ rw_id event,
         platform_name (rw_platform event) @ ''/'' @ rw_account event,
         entity_name (rw_entity event) @ '':'' @ rw_kind event] @
        named_part ''schema'' (rw_schema event) @ named_part ''sourceVersion'' (rw_source_version event) @
        (case rw_provenance event of
           None \<Rightarrow> []
         | Some p \<Rightarrow> named_part ''providerApiVersion'' (pv_api_version p) @
             named_part ''acquisitionMode'' (map_option mode_text (pv_mode p))))"

record shaped_event =
  se_raw :: raw_row
  se_entity :: entity_kind
  se_event :: proj_event

definition shape_event :: "raw_row \<Rightarrow> schema_error + shaped_event" where
  "shape_event event =
     ebind (normalizeStoredRawEventForProjection (rw_entity event) (rw_kind event) (rw_schema event) (rw_payload event)) (\<lambda>n.
       Inr \<lparr>se_raw = event, se_entity = pe_entity n,
            se_event = \<lparr>pv_platform = rw_platform event, pv_account = rw_account event, pv_kind = pe_kind n,
              pv_observed_at = of_int (rw_observed_at event), pv_payload = json_stored (pe_payload n)\<rparr>\<rparr>)"

definition normalization_message :: "(schema_error + proj_error \<Rightarrow> string) \<Rightarrow> raw_row \<Rightarrow> schema_error \<Rightarrow> string" where
  "normalization_message explain event e =
     ''Failed to normalize raw event ('' @ describeRawEventContext event @ ''): '' @ explain (Inl e)"

text \<open>The events of a batch that can be shaped, and the quarantine rows of those that cannot.\<close>

fun shape_events ::
  "(schema_error + proj_error \<Rightarrow> string) \<Rightarrow> int \<Rightarrow> raw_row list \<Rightarrow> failure_row list \<Rightarrow> shaped_event list \<times> failure_row list" where
  "shape_events explain now [] failures = ([], failures)"
| "shape_events explain now (r # rs) failures =
     (case shape_event r of
        Inl e \<Rightarrow> shape_events explain now rs
                  (quarantineRawEventProjectionFailure now r (normalization_message explain r e) failures)
      | Inr se \<Rightarrow> (case shape_events explain now rs failures of (ses, failures') \<Rightarrow> (se # ses, failures')))"

subsection \<open>One event\<close>

definition project_entity :: "proj_env \<Rightarrow> entity_kind \<Rightarrow> proj_event \<Rightarrow> unit step" where
  "project_entity env entity event =
     (case entity of
        EkContact \<Rightarrow> projectContactObservation env event
      | EkConversation \<Rightarrow> projectConversationObservation env event
      | EkCall \<Rightarrow> if pv_kind event = ''deleted'' then projectCallDeleteEvent env event else projectCallEvent env event
      | EkMessage \<Rightarrow> projectMessageEvent env event
      | EkReaction \<Rightarrow> projectReactionEvent env event
      | EkParticipant \<Rightarrow> projectParticipantEvent env event
      | EkTimeline \<Rightarrow> projectTimelineEvent env event)"

definition project_shaped :: "proj_env \<Rightarrow> shaped_event \<Rightarrow> unit step" where
  "project_shaped env se =
     (let event = se_event se in
      if se_entity se = EkContact \<and> pv_kind event = ''aliased'' then projectWhatsAppIdentityAlias env event
      else sbind (\<lambda>s. ebind (canonicalizeWhatsAppPayload (pv_platform event) (pv_account event) (pv_payload event) (ps_db s))
                      (\<lambda>payload. Inr (payload, s))) (\<lambda>payload.
        project_entity env (se_entity se) (event\<lparr>pv_payload := payload\<rparr>)))"

definition with_changes :: "proj_changes \<Rightarrow> proj_state \<Rightarrow> proj_state" where
  "with_changes d s = s\<lparr>ps_changes := d\<rparr>"

definition project_event ::
  "proj_env \<Rightarrow> shaped_event \<Rightarrow> proj_state \<times> (raw_row \<times> proj_error) list \<Rightarrow> proj_state \<times> (raw_row \<times> proj_error) list" where
  "project_event env se acc = (case acc of (s, failures) \<Rightarrow>
     case project_shaped env se (with_changes createProjectionChangeSet s) of
       Inl e \<Rightarrow> (s, failures @ [(se_raw se, e)])
     | Inr (_, s') \<Rightarrow> (with_changes (mergeProjectionChangeSet (ps_changes s') (ps_changes s)) s', failures))"

definition project_events :: "proj_env \<Rightarrow> shaped_event list \<Rightarrow> proj_state \<Rightarrow> proj_state \<times> (raw_row \<times> proj_error) list" where
  "project_events env ses s = fold (project_event env) ses (s, [])"

subsection \<open>A batch\<close>

record batch_input =
  bi_events :: "raw_row list"
  bi_watermark :: "nat option"
  bi_rebuild_at :: "int option"
  bi_initial :: bool
  bi_reset :: bool
  bi_clear :: bool

definition upsertProjectionState ::
  "int \<Rightarrow> nat \<Rightarrow> int option \<Rightarrow> int option \<Rightarrow> projection_state option \<Rightarrow> projection_state option" where
  "upsertProjectionState now watermark lastProjectedAt lastRebuildAt state =
     (case state of
        None \<Rightarrow> Some \<lparr>ps_watermark = watermark, ps_last_projected = lastProjectedAt, ps_last_rebuild = lastRebuildAt,
                       ps_updated_at = now\<rparr>
      | Some row \<Rightarrow> Some \<lparr>ps_watermark = max (ps_watermark row) watermark, ps_last_projected = lastProjectedAt,
                       ps_last_rebuild = coalesce lastRebuildAt (ps_last_rebuild row), ps_updated_at = now\<rparr>)"

definition enqueue_fts :: "string list \<Rightarrow> proj_db \<Rightarrow> proj_db" where
  "enqueue_fts ids db = db\<lparr>pj_fts_queue := fold set_add (filter (\<lambda>i. i \<noteq> []) ids) (pj_fts_queue db)\<rparr>"

definition quarantine_all ::
  "(schema_error + proj_error \<Rightarrow> string) \<Rightarrow> int \<Rightarrow> (raw_row \<times> proj_error) list \<Rightarrow> failure_row list \<Rightarrow> failure_row list" where
  "quarantine_all explain now fs = fold (\<lambda>(r, e). quarantineRawEventProjectionFailure now r (explain (Inr e))) fs"

definition run_batch ::
  "proj_env \<Rightarrow> batch_input \<Rightarrow> shaped_event list \<Rightarrow> proj_cache \<Rightarrow> proj_db \<Rightarrow> proj_state \<times> (raw_row \<times> proj_error) list" where
  "run_batch env input shaped cache db =
     (let s0 = \<lparr>ps_db = (if bi_clear input then clearProjectedState db else db), ps_cache = cache,
                ps_changes = createProjectionChangeSet\<rparr>
      in case project_events env shaped s0 of (s, failures) \<Rightarrow> (finalizeDeferredProjection (bi_initial input) s, failures))"

definition projectEventBatch ::
  "proj_env \<Rightarrow> (schema_error + proj_error \<Rightarrow> string) \<Rightarrow> int \<Rightarrow> batch_input \<Rightarrow> engine \<Rightarrow> proj_error + nat \<times> engine" where
  "projectEventBatch env explain now input e =
     ebind (if bi_reset input then Inr (resetProjectionCache e) else getProjectionCache e) (\<lambda>cache.
     case shape_events explain now (bi_events input) (en_failures e) of (shaped, failures1) \<Rightarrow>
     case run_batch env input shaped cache (en_db e) of (s, failed) \<Rightarrow>
       Inr (length shaped - length failed,
            e\<lparr>en_failures := quarantine_all explain now failed failures1,
              en_state := (case bi_watermark input of
                  None \<Rightarrow> en_state e
                | Some w \<Rightarrow> upsertProjectionState now w (Some now) (bi_rebuild_at input) (en_state e)),
              en_db := enqueue_fts (pd_messages (ps_changes s)) (ps_db s),
              en_cache := Some (ps_cache s)\<rparr>))"

subsection \<open>Ranges behind the watermark\<close>

datatype projection_mode = Realtime | Deferred | Rebuild

definition watermark :: "engine \<Rightarrow> nat" where
  "watermark e = (case en_state e of None \<Rightarrow> 0 | Some row \<Rightarrow> ps_watermark row)"

definition init_state :: "int \<Rightarrow> engine \<Rightarrow> engine" where
  "init_state now e = e\<lparr>en_state := snd (getProjectionState now True (en_state e))\<rparr>"

record range_result =
  rr_contacts :: nat
  rr_conversations :: nat
  rr_messages :: nat
  rr_raw :: nat
  rr_applied :: nat
  rr_watermark :: nat
  rr_completed :: bool
  rr_next :: "nat option"
  rr_start :: "nat option"
  rr_end :: "nat option"

definition summarizeResult ::
  "engine \<Rightarrow> nat \<Rightarrow> nat \<Rightarrow> nat option \<Rightarrow> nat option \<Rightarrow> bool \<Rightarrow> nat option \<Rightarrow> bool \<Rightarrow> range_result" where
  "summarizeResult e applied w startRow endRow completed nextStart includeOverview =
     \<lparr>rr_contacts = (if includeOverview then length (pj_contacts (en_db e)) else 0),
      rr_conversations = (if includeOverview then length (pj_conversations (en_db e)) else 0),
      rr_messages = (if includeOverview then length (pj_messages (en_db e)) else 0),
      rr_raw = (if includeOverview then length (en_raw e) else 0),
      rr_applied = applied, rr_watermark = w, rr_completed = completed, rr_next = nextStart,
      rr_start = startRow, rr_end = endRow\<rparr>"

definition committed_watermark :: "projection_mode \<Rightarrow> nat \<Rightarrow> nat \<Rightarrow> nat \<Rightarrow> nat option" where
  "committed_watermark mode startRow current appliedEnd =
     (if mode = Realtime then (if startRow = current + 1 then Some (max current appliedEnd) else None)
      else Some (max current appliedEnd))"

definition projectRangeInternal ::
  "proj_env \<Rightarrow> (schema_error + proj_error \<Rightarrow> string) \<Rightarrow> int \<Rightarrow> projection_mode \<Rightarrow> nat \<Rightarrow> nat \<Rightarrow> nat option \<Rightarrow> bool \<Rightarrow>
   engine \<Rightarrow> proj_error + range_result \<times> engine" where
  "projectRangeInternal env explain now mode startRow endRow limit includeOverview e0 =
     (let e = init_state now e0; current = watermark e in
      if endRow < startRow then Inr (summarizeResult e 0 current None None True None includeOverview, e)
      else let events = listRawEventsInRange startRow endRow limit (en_raw e) in
        if events = [] then Inr (summarizeResult e 0 current (Some startRow) (Some endRow) True None includeOverview, e)
        else let appliedEnd = rw_rowid (last events);
                 completed = (endRow \<le> appliedEnd);
                 committed = committed_watermark mode startRow current appliedEnd in
          ebind (projectEventBatch env explain now
              \<lparr>bi_events = events, bi_watermark = committed,
               bi_rebuild_at = (if mode = Rebuild then Some now else None),
               bi_initial = (mode \<noteq> Realtime \<and> current = 0), bi_reset = False, bi_clear = False\<rparr> e) (\<lambda>(applied, e').
            Inr (summarizeResult e' applied (get_or committed (watermark e')) (Some startRow) (Some endRow) completed
                   (if completed then None else Some (appliedEnd + 1)) includeOverview, e')))"

text \<open>The loop advances its start row past the events it has applied, so it ends.\<close>

function realtime_loop ::
  "proj_env \<Rightarrow> (schema_error + proj_error \<Rightarrow> string) \<Rightarrow> int \<Rightarrow> nat \<Rightarrow> nat \<Rightarrow> nat option \<Rightarrow> bool \<Rightarrow> range_result \<Rightarrow>
   engine \<Rightarrow> proj_error + range_result \<times> engine" where
  "realtime_loop env explain now current endRow batchSize includeOverview acc e =
     (if endRow < current then Inr (acc, e)
      else case projectRangeInternal env explain now Realtime current endRow batchSize includeOverview e of
             Inl err \<Rightarrow> Inl err
           | Inr (result, e') \<Rightarrow>
               (let acc' = result\<lparr>rr_applied := rr_applied acc + rr_applied result\<rparr> in
                case rr_next result of
                  None \<Rightarrow> Inr (acc', e')
                | Some nextStart \<Rightarrow>
                    if rr_completed result \<or> nextStart \<le> current then Inr (acc', e')
                    else realtime_loop env explain now nextStart endRow batchSize includeOverview acc' e'))"
  by pat_completeness auto
termination
  by (relation "measure (\<lambda>(env, explain, now, current, endRow, rest). Suc endRow - current)") auto

declare realtime_loop.simps [simp del]

definition projectRealtimeRange ::
  "proj_env \<Rightarrow> (schema_error + proj_error \<Rightarrow> string) \<Rightarrow> int \<Rightarrow> nat \<Rightarrow> nat \<Rightarrow> nat option \<Rightarrow> bool \<Rightarrow> engine \<Rightarrow>
   proj_error + range_result \<times> engine" where
  "projectRealtimeRange env explain now startRow endRow batchSize includeOverview e0 =
     (let e = init_state now e0 in
      ebind (realtime_loop env explain now startRow endRow batchSize includeOverview
               (summarizeResult e 0 (watermark e) None None True None includeOverview) e) (\<lambda>(result, e').
        Inr (result\<lparr>rr_completed := True, rr_next := None, rr_start := Some startRow, rr_end := Some endRow\<rparr>, e')))"

definition projectDeferredRange ::
  "proj_env \<Rightarrow> (schema_error + proj_error \<Rightarrow> string) \<Rightarrow> int \<Rightarrow> nat \<Rightarrow> nat \<Rightarrow> nat option \<Rightarrow> bool \<Rightarrow> engine \<Rightarrow>
   proj_error + range_result \<times> engine" where
  "projectDeferredRange env explain now startRow endRow limit includeOverview e =
     projectRangeInternal env explain now Deferred startRow endRow limit includeOverview e"

definition projectPendingRawEvents ::
  "proj_env \<Rightarrow> (schema_error + proj_error \<Rightarrow> string) \<Rightarrow> int \<Rightarrow> nat option \<Rightarrow> engine \<Rightarrow> proj_error + range_result \<times> engine" where
  "projectPendingRawEvents env explain now limit e0 =
     (case getProjectionBacklog now True (en_raw e0) (en_state e0) of ((current, maxRowid, pending), state) \<Rightarrow>
        let e = e0\<lparr>en_state := state\<rparr> in
        if pending = 0 then Inr (summarizeResult e 0 current None None True None True, e)
        else projectDeferredRange env explain now (current + 1) maxRowid limit True e)"

subsection \<open>Rebuilding\<close>

text \<open>Each round starts after the last row of the round before; the first one clears.\<close>

function rebuild_loop ::
  "proj_env \<Rightarrow> (schema_error + proj_error \<Rightarrow> string) \<Rightarrow> int \<Rightarrow> nat option \<Rightarrow> bool \<Rightarrow> raw_row list \<Rightarrow> nat \<Rightarrow> nat \<Rightarrow> engine \<Rightarrow>
   proj_error + (nat \<times> nat) \<times> engine" where
  "rebuild_loop env explain now batchSize clear events applied w e =
     (if events = [] then Inr ((applied, w), e)
      else let w' = rw_rowid (last events) in
        case projectEventBatch env explain now
            \<lparr>bi_events = events, bi_watermark = Some w', bi_rebuild_at = Some now, bi_initial = clear,
             bi_reset = clear, bi_clear = clear\<rparr> e of
          Inl err \<Rightarrow> Inl err
        | Inr (_, e') \<Rightarrow>
            if length (listRawEventsAfter w' None (en_raw e')) < length (listRawEventsAfter w None (en_raw e))
            then rebuild_loop env explain now batchSize False (listRawEventsAfter w' batchSize (en_raw e'))
                   (applied + length events) w' e'
            else Inr ((applied + length events, w'), e'))"
  by pat_completeness auto
termination
  by (relation "measure (\<lambda>(env, explain, now, batchSize, clear, events, applied, w, e).
        length (listRawEventsAfter w None (en_raw e)))") auto

declare rebuild_loop.simps [simp del]

text \<open>A limit that is no positive number means the whole log at once.\<close>

definition rebuild_batch_size :: "js_num option \<Rightarrow> nat option" where
  "rebuild_batch_size limit = (case limit of
       Some (Fin x) \<Rightarrow> if 0 < x then Some (nat (rat_trunc x)) else None
     | _ \<Rightarrow> None)"

definition rebuildProjectedState ::
  "proj_env \<Rightarrow> (schema_error + proj_error \<Rightarrow> string) \<Rightarrow> int \<Rightarrow> js_num option \<Rightarrow> engine \<Rightarrow> proj_error + range_result \<times> engine" where
  "rebuildProjectedState env explain now limit e =
     (let batchSize = rebuild_batch_size limit; first = listRawEventsAfter 0 batchSize (en_raw e) in
      if first = [] then
        ebind (projectEventBatch env explain now
            \<lparr>bi_events = [], bi_watermark = Some 0, bi_rebuild_at = Some now, bi_initial = False, bi_reset = True, bi_clear = True\<rparr> e)
          (\<lambda>(_, e'). Inr (summarizeResult e' 0 0 None None True None True, e'))
      else ebind (rebuild_loop env explain now batchSize True first 0 0 e) (\<lambda>((applied, w), e').
        Inr (summarizeResult e' applied w (Some 1) (Some w) True None True, e')))"

end
