(* ===== verification/ProjSamples.thy ===== *)
theory ProjSamples
  imports Projector
begin

text \<open>Small logs on which the theorems about the projector are instantiated.\<close>

definition sample_env :: proj_env where
  "sample_env = \<lparr>pe_sha256 = rev, pe_locale_le = (\<lambda>a b. True), pe_show_fraction = (\<lambda>_. []), pe_bullet = '' ''\<rparr>"

definition sample_row :: "nat \<Rightarrow> entity_kind \<Rightarrow> string \<Rightarrow> json \<Rightarrow> raw_row" where
  "sample_row k entity kind payload =
     \<lparr>rw_rowid = k, rw_id = dec_nat k, rw_platform = WhatsApp, rw_account = ''me'', rw_entity = entity, rw_kind = kind,
      rw_external_event = None, rw_external_entity = None, rw_conversation = None, rw_occurred_at = None,
      rw_observed_at = int k, rw_cursor = None, rw_dedupe = dec_nat k, rw_payload = payload, rw_schema = None,
      rw_provenance = None, rw_source_version = None\<rparr>"

definition sample_projection :: proj_db where
  "sample_projection = \<lparr>pj_contacts = [], pj_sources = [], pj_handles = [], pj_conversations = [], pj_participants = [],
     pj_messages = [], pj_attachments = [], pj_reactions = [], pj_timeline = [], pj_aliases = [], pj_memories = [],
     pj_fts = [], pj_fts_queue = [], pj_attachment_cache = [], pj_attachment_content = [], pj_attachment_fts = []\<rparr>"

definition sample_engine :: "raw_row list \<Rightarrow> engine" where
  "sample_engine rows = \<lparr>en_raw = rows, en_failures = [], en_state = None, en_db = sample_projection, en_cache = None,
     en_decisions = []\<rparr>"

definition sample_batch :: "raw_row list \<Rightarrow> batch_input" where
  "sample_batch rows = \<lparr>bi_events = rows, bi_watermark = Some (length rows), bi_rebuild_at = None, bi_initial = True,
     bi_reset = True, bi_clear = True\<rparr>"

definition sample_message :: "nat \<Rightarrow> string \<Rightarrow> json \<Rightarrow> raw_row" where
  "sample_message k key reply = sample_row k EkMessage ''created'' (JObj [(''sourceMessageKey'', JStr key),
     (''sourceConversationKey'', JStr ''c''), (''replyToSourceMessageKey'', reply)])"

end
