(* ===== verification/ProjectorProofs.thy ===== *)
theory ProjectorProofs
  imports ProjSamples
begin

text \<open>What a batch keeps and what it leaves behind when events fail.\<close>

subsection \<open>A batch touches the log and the decisions nowhere\<close>

lemma batch_parts:
  assumes "projectEventBatch env explain now input e = Inr (n, e')"
  shows "en_raw e' = en_raw e" and "en_decisions e' = en_decisions e"
    and "en_state e' = (case bi_watermark input of None \<Rightarrow> en_state e
           | Some w \<Rightarrow> upsertProjectionState now w (Some now) (bi_rebuild_at input) (en_state e))"
  using assms by (auto simp: projectEventBatch_def ebind_eq_Inr_iff case_prod_beta)

lemma batch_watermark:
  assumes "projectEventBatch env explain now input e = Inr (n, e')"
  shows "watermark e' = (case bi_watermark input of None \<Rightarrow> watermark e | Some w \<Rightarrow> max (watermark e) w)"
  using batch_parts(3) [OF assms] by (auto simp: watermark_def upsertProjectionState_def split: option.split)

lemma init_state_simps [simp]:
  "en_raw (init_state now e) = en_raw e" "en_decisions (init_state now e) = en_decisions e"
  "en_db (init_state now e) = en_db e" "en_cache (init_state now e) = en_cache e"
  "en_failures (init_state now e) = en_failures e" "watermark (init_state now e) = watermark e"
  by (auto simp: init_state_def watermark_def getProjectionState_def db_upsertProjectionState_def split: option.split)

lemma range_events:
  assumes "r \<in> set (listRawEventsInRange startRow endRow limit rows)"
  shows "r \<in> set rows \<and> startRow \<le> rw_rowid r \<and> rw_rowid r \<le> endRow"
  using assms by (auto simp: listRawEventsInRange_def Let_def split: if_splits option.splits dest: in_set_takeD)

lemma sorted_range: "sorted (map rw_rowid (listRawEventsInRange startRow endRow limit rows))"
  by (auto simp: listRawEventsInRange_def Let_def take_map [symmetric] intro: sorted_wrt_take split: option.split)

text \<open>The events of a range up to its last row are all there: the limit cuts off a suffix.\<close>

lemma range_complete:
  assumes "events = listRawEventsInRange startRow endRow limit rows" and "events \<noteq> []"
    and "r \<in> set rows" "startRow \<le> rw_rowid r" "rw_rowid r < rw_rowid (last events)"
  shows "r \<in> set events"
proof -
  let ?found = "sort_key rw_rowid (filter (\<lambda>r. startRow \<le> rw_rowid r \<and> rw_rowid r \<le> endRow) rows)"
  have ne: "\<not> endRow < startRow" using assms(1,2) by (auto simp: listRawEventsInRange_def)
  have "rw_rowid (last events) \<le> endRow" using range_events assms(1,2) last_in_set by metis
  then have r: "r \<in> set ?found" using assms(3-5) by simp
  show ?thesis
  proof (cases limit)
    case None
    then show ?thesis using assms(1) ne r by (simp add: listRawEventsInRange_def Let_def)
  next
    case (Some n)
    then have ev: "events = take n ?found" using assms(1) ne by (simp add: listRawEventsInRange_def Let_def)
    have "r \<notin> set (drop n ?found)"
    proof
      assume "r \<in> set (drop n ?found)"
      moreover have "sorted (map rw_rowid (take n ?found) @ map rw_rowid (drop n ?found))"
        by (metis append_take_drop_id map_append sorted_sort_key)
      then have "\<forall>x\<in>set (take n ?found). \<forall>y\<in>set (drop n ?found). rw_rowid x \<le> rw_rowid y"
        unfolding sorted_append by simp
      ultimately have "rw_rowid (last events) \<le> rw_rowid r" using ev assms(2) last_in_set by metis
      then show False using assms(5) by simp
    qed
    moreover have "set ?found = set (take n ?found) \<union> set (drop n ?found)" by (metis append_take_drop_id set_append)
    ultimately show ?thesis using ev r by blast
  qed
qed

subsection \<open>One range\<close>

lemma range_next:
  assumes "projectRangeInternal env explain now mode startRow endRow limit ov e0 = Inr (result, e')"
    and "rr_next result = Some k"
  shows "startRow < k \<and> k \<le> endRow"
proof -
  let ?events = "listRawEventsInRange startRow endRow limit (en_raw e0)"
  from assms have ne: "?events \<noteq> []" and k: "k = rw_rowid (last ?events) + 1" "\<not> endRow \<le> rw_rowid (last ?events)"
    by (auto simp: projectRangeInternal_def Let_def summarizeResult_def ebind_eq_Inr_iff split: if_splits)
  have "startRow \<le> rw_rowid (last ?events)" using range_events last_in_set ne by metis
  then show ?thesis using k by simp
qed

text \<open>So the guard of the loop never fires.\<close>

lemma realtime_loop_unfold:
  "realtime_loop env explain now current endRow batchSize ov acc e =
     (if endRow < current then Inr (acc, e)
      else ebind (projectRangeInternal env explain now Realtime current endRow batchSize ov e) (\<lambda>(result, e').
        let acc' = result\<lparr>rr_applied := rr_applied acc + rr_applied result\<rparr> in
        case rr_next result of
          None \<Rightarrow> Inr (acc', e')
        | Some nextStart \<Rightarrow> realtime_loop env explain now nextStart endRow batchSize ov acc' e'))"
proof (cases "endRow < current")
  case True
  then show ?thesis by (subst realtime_loop.simps) simp
next
  case False
  show ?thesis
  proof (cases "projectRangeInternal env explain now Realtime current endRow batchSize ov e")
    case (Inl err)
    then show ?thesis using False by (subst realtime_loop.simps) simp
  next
    case (Inr p)
    obtain result e' where p: "p = (result, e')" by fastforce
    have "rr_completed result \<longleftrightarrow> rr_next result = None"
      using Inr p by (auto simp: projectRangeInternal_def Let_def summarizeResult_def ebind_eq_Inr_iff split: if_splits)
    then show ?thesis using False Inr p range_next [of env explain now Realtime current endRow batchSize ov e result e']
      by (subst realtime_loop.simps) (auto simp: Let_def split: option.split)
  qed
qed

lemma range_parts:
  assumes "projectRangeInternal env explain now mode startRow endRow limit ov e0 = Inr (result, e')"
  shows "en_raw e' = en_raw e0" and "en_decisions e' = en_decisions e0" and "watermark e0 \<le> watermark e'"
  using assms
  by (auto simp: projectRangeInternal_def Let_def ebind_eq_Inr_iff committed_watermark_def batch_parts batch_watermark
      split: if_splits)

subsection \<open>Events that fail\<close>

definition shaped_of :: "raw_row \<Rightarrow> shaped_event option" where
  "shaped_of r = (case shape_event r of Inl _ \<Rightarrow> None | Inr se \<Rightarrow> Some se)"

definition is_shaped :: "raw_row \<Rightarrow> bool" where
  "is_shaped r = (case shape_event r of Inl _ \<Rightarrow> False | Inr _ \<Rightarrow> True)"

lemma is_shaped_cases: "is_shaped r \<longleftrightarrow> (\<exists>se. shaped_of r = Some se)"
  by (simp add: is_shaped_def shaped_of_def split: sum.split)

lemma shaped_raw: "shaped_of r = Some se \<Longrightarrow> se_raw se = r"
  by (auto simp: shaped_of_def shape_event_def ebind_eq_Inr_iff split: sum.splits)

lemma shape_events_fst: "fst (shape_events explain now evs f) = List.map_filter shaped_of evs"
proof (induction evs arbitrary: f)
  case (Cons r evs)
  then show ?case by (simp add: shaped_of_def case_prod_beta split: sum.split)
qed (simp add: List.map_filter_def)

definition quarantined :: "failure_row list \<Rightarrow> nat \<Rightarrow> failure_row option" where
  "quarantined failures k = tbl_get qf_rowid k failures"

lemma quarantine_other:
  "k \<noteq> rw_rowid r \<Longrightarrow> quarantined (quarantineRawEventProjectionFailure now r m f) k = quarantined f k"
  by (simp add: quarantined_def quarantineRawEventProjectionFailure_def table_simps)

definition is_quarantined :: "failure_row list \<Rightarrow> nat \<Rightarrow> bool" where
  "is_quarantined failures k = tbl_has qf_rowid k failures"

lemma is_quarantined_quarantine [simp]:
  "is_quarantined (quarantineRawEventProjectionFailure now r m f) k \<longleftrightarrow> k = rw_rowid r \<or> is_quarantined f k"
  by (auto simp: is_quarantined_def quarantineRawEventProjectionFailure_def table_simps)

lemma is_quarantined_shape:
  "is_quarantined (snd (shape_events explain now evs f)) k \<longleftrightarrow>
   is_quarantined f k \<or> (\<exists>r\<in>set evs. \<not> is_shaped r \<and> rw_rowid r = k)"
  by (induction evs arbitrary: f) (auto simp: case_prod_beta is_shaped_def split: sum.split)

lemma quarantined_shape:
  "(\<And>r. r \<in> set evs \<Longrightarrow> \<not> is_shaped r \<Longrightarrow> rw_rowid r \<noteq> k) \<Longrightarrow>
   quarantined (snd (shape_events explain now evs f)) k = quarantined f k"
proof (induction evs arbitrary: f)
  case (Cons a evs)
  show ?case
  proof (cases "shape_event a")
    case (Inl err)
    then have "rw_rowid a \<noteq> k" using Cons.prems [of a] by (simp add: is_shaped_def)
    then have "k \<noteq> rw_rowid a" by simp
    moreover have "quarantined (snd (shape_events explain now evs g)) k = quarantined g k" for g
      by (rule Cons.IH) (use Cons.prems in auto)
    ultimately show ?thesis using Inl by (simp add: quarantine_other)
  next
    case (Inr se)
    then show ?thesis using Cons by (simp add: case_prod_beta)
  qed
qed simp

lemma is_quarantined_all:
  "is_quarantined (quarantine_all explain now fs f) k \<longleftrightarrow> is_quarantined f k \<or> k \<in> rw_rowid ` fst ` set fs"
  by (induction fs arbitrary: f) (auto simp: quarantine_all_def case_prod_beta)

lemma quarantined_all:
  "k \<notin> rw_rowid ` fst ` set fs \<Longrightarrow> quarantined (quarantine_all explain now fs f) k = quarantined f k"
  by (induction fs arbitrary: f) (auto simp: quarantine_all_def case_prod_beta quarantine_other)

subsection \<open>Without the events that fail\<close>

lemma project_fold_failures:
  "fold (project_event env) ses (s, fs) =
   (fst (project_events env ses s), fs @ snd (project_events env ses s))"
proof (induction ses arbitrary: s fs)
  case (Cons se ses)
  obtain s' gs where p: "project_event env se (s, []) = (s', gs)" by fastforce
  then have "project_event env se (s, fs) = (s', fs @ gs)"
    by (auto simp: project_event_def split: sum.splits prod.splits)
  then show ?case using p Cons.IH [of s' "fs @ gs"] Cons.IH [of s' gs] by (simp add: project_events_def)
qed (simp add: project_events_def)

lemma project_events_Cons:
  "project_events env (se # ses) s =
    (case project_shaped env se (with_changes createProjectionChangeSet s) of
       Inl err \<Rightarrow> (fst (project_events env ses s), (se_raw se, err) # snd (project_events env ses s))
     | Inr (_, s') \<Rightarrow> project_events env ses (with_changes (mergeProjectionChangeSet (ps_changes s') (ps_changes s)) s'))"
proof (cases "project_shaped env se (with_changes createProjectionChangeSet s)")
  case (Inl err)
  then show ?thesis using project_fold_failures [of env ses s "[(se_raw se, err)]"]
    by (simp add: project_events_def project_event_def)
next
  case (Inr p)
  then show ?thesis by (cases p) (simp add: project_events_def project_event_def)
qed

lemma project_events_failed: "fst ` set (snd (project_events env ses s)) \<subseteq> se_raw ` set ses"
proof (induction ses arbitrary: s)
  case (Cons se ses)
  show ?case using Cons by (auto simp: project_events_Cons split: sum.splits prod.splits)
qed (simp add: project_events_def)

lemma project_events_survivors:
  assumes "distinct (map se_raw ses)"
  shows "project_events env (filter (\<lambda>se. se_raw se \<notin> fst ` set (snd (project_events env ses s))) ses) s =
    (fst (project_events env ses s), [])"
  using assms
proof (induction ses arbitrary: s)
  case (Cons se ses)
  show ?case
  proof (cases "project_shaped env se (with_changes createProjectionChangeSet s)")
    case (Inl err)
    have "filter (\<lambda>x. se_raw x \<notin> fst ` set (snd (project_events env (se # ses) s))) (se # ses) =
        filter (\<lambda>x. se_raw x \<notin> fst ` set (snd (project_events env ses s))) ses"
    proof -
      have "se_raw x \<noteq> se_raw se" if x: "x \<in> set ses" for x
      proof
        assume "se_raw x = se_raw se"
        then have "se_raw se \<in> se_raw ` set ses" using x by (metis imageI)
        then show False using Cons.prems by simp
      qed
      then show ?thesis by (simp add: project_events_Cons Inl cong: filter_cong)
    qed
    then show ?thesis using Cons by (simp add: project_events_Cons Inl)
  next
    case (Inr p)
    obtain u s' where p: "p = (u, s')" by (cases p)
    let ?t = "with_changes (mergeProjectionChangeSet (ps_changes s') (ps_changes s)) s'"
    have "se_raw se \<notin> fst ` set (snd (project_events env ses ?t))"
      using project_events_failed [of env ses ?t] Cons.prems by auto
    then show ?thesis using Cons.IH [of ?t] Cons.prems by (simp add: project_events_Cons Inr p)
  qed
qed (simp add: project_events_def)

lemma project_events_count:
  assumes "distinct (map se_raw ses)"
  shows "length (filter (\<lambda>se. se_raw se \<notin> fst ` set (snd (project_events env ses s))) ses) +
    length (snd (project_events env ses s)) = length ses"
  using assms
proof (induction ses arbitrary: s)
  case (Cons se ses)
  have new: "se_raw x \<noteq> se_raw se" if x: "x \<in> set ses" for x
  proof
    assume "se_raw x = se_raw se"
    then have "se_raw se \<in> se_raw ` set ses" using x by (metis imageI)
    then show False using Cons.prems by simp
  qed
  show ?case
  proof (cases "project_shaped env se (with_changes createProjectionChangeSet s)")
    case (Inl err)
    then have "filter (\<lambda>x. se_raw x \<notin> fst ` set (snd (project_events env (se # ses) s))) (se # ses) =
        filter (\<lambda>x. se_raw x \<notin> fst ` set (snd (project_events env ses s))) ses"
      using new by (simp add: project_events_Cons cong: filter_cong)
    then show ?thesis using Cons Inl by (simp add: project_events_Cons)
  next
    case (Inr p)
    obtain u s' where p: "p = (u, s')" by (cases p)
    let ?t = "with_changes (mergeProjectionChangeSet (ps_changes s') (ps_changes s)) s'"
    have "se_raw se \<notin> fst ` set (snd (project_events env ses ?t))"
      using project_events_failed [of env ses ?t] Cons.prems by auto
    then show ?thesis using Cons.IH [of ?t] Cons.prems by (simp add: project_events_Cons Inr p)
  qed
qed (simp add: project_events_def)

lemma distinct_shaped: "distinct (map rw_rowid evs) \<Longrightarrow> distinct (map se_raw (List.map_filter shaped_of evs))"
proof (induction evs)
  case (Cons r evs)
  have "r \<notin> se_raw ` set (List.map_filter shaped_of evs)"
  proof
    assume "r \<in> se_raw ` set (List.map_filter shaped_of evs)"
    then obtain se where "r = se_raw se" "se \<in> set (List.map_filter shaped_of evs)" by blast
    then have "r \<in> set evs" by (auto simp: mem_map_filter dest!: shaped_raw)
    then show False using Cons.prems by auto
  qed
  moreover have "distinct (map se_raw (List.map_filter shaped_of evs))" using Cons by simp
  ultimately show ?case by (auto simp: List.map_filter_simps dest: shaped_raw split: option.split)
qed (simp add: List.map_filter_def)

lemma survivors_shaped:
  "List.map_filter shaped_of (filter (\<lambda>r. is_shaped r \<and> r \<notin> B) evs) =
   filter (\<lambda>se. se_raw se \<notin> B) (List.map_filter shaped_of evs)"
proof (induction evs)
  case (Cons r evs)
  then show ?case by (auto simp: List.map_filter_simps is_shaped_cases dest: shaped_raw split: option.split)
qed (simp add: List.map_filter_def)

lemma shaped_all: "(\<And>r. r \<in> set evs \<Longrightarrow> is_shaped r) \<Longrightarrow> length (List.map_filter shaped_of evs) = length evs"
proof (induction evs)
  case (Cons r evs)
  obtain se where "shaped_of r = Some se" using Cons.prems [of r] by (auto simp: is_shaped_cases)
  moreover have "length (List.map_filter shaped_of evs) = length evs" using Cons by simp
  ultimately show ?case by (simp add: List.map_filter_simps)
qed (simp add: List.map_filter_def)

lemma shape_good: "(\<And>r. r \<in> set evs \<Longrightarrow> is_shaped r) \<Longrightarrow> snd (shape_events explain now evs f) = f"
proof (induction evs)
  case (Cons r evs)
  have "\<exists>se. shape_event r = Inr se" using Cons.prems [of r] by (auto simp: is_shaped_def split: sum.splits)
  then show ?case using Cons by (auto simp: case_prod_beta)
qed simp

definition batch_start :: "batch_input \<Rightarrow> proj_cache \<Rightarrow> proj_db \<Rightarrow> proj_state" where
  "batch_start input cache db =
     \<lparr>ps_db = (if bi_clear input then clearProjectedState db else db), ps_cache = cache, ps_changes = createProjectionChangeSet\<rparr>"

definition batch_cache :: "batch_input \<Rightarrow> engine \<Rightarrow> proj_error + proj_cache" where
  "batch_cache input e = (if bi_reset input then Inr (resetProjectionCache e) else getProjectionCache e)"

definition batch_end ::
  "batch_input \<Rightarrow> int \<Rightarrow> proj_state \<Rightarrow> failure_row list \<Rightarrow> engine \<Rightarrow> engine" where
  "batch_end input now s failures e =
     (let s' = finalizeDeferredProjection (bi_initial input) s in
      e\<lparr>en_failures := failures,
        en_state := (case bi_watermark input of None \<Rightarrow> en_state e
           | Some w \<Rightarrow> upsertProjectionState now w (Some now) (bi_rebuild_at input) (en_state e)),
        en_db := enqueue_fts (pd_messages (ps_changes s')) (ps_db s'), en_cache := Some (ps_cache s')\<rparr>)"

lemma batch_eq:
  "projectEventBatch env explain now input e = ebind (batch_cache input e) (\<lambda>cache.
     let shaped = List.map_filter shaped_of (bi_events input);
         run = project_events env shaped (batch_start input cache (en_db e)) in
     Inr (length shaped - length (snd run), batch_end input now (fst run)
        (quarantine_all explain now (snd run) (snd (shape_events explain now (bi_events input) (en_failures e)))) e))"
  by (simp add: projectEventBatch_def batch_cache_def run_batch_def batch_start_def batch_end_def case_prod_beta
      shape_events_fst Let_def)

lemma batch_end_failures:
  "en_failures (batch_end input now s fs e) = fs"
  "(batch_end input now s fs e)\<lparr>en_failures := gs\<rparr> = batch_end input now s gs e"
  by (simp_all add: batch_end_def Let_def)

lemma batch_events_only [simp]:
  "batch_cache (input\<lparr>bi_events := evs\<rparr>) e = batch_cache input e"
  "batch_start (input\<lparr>bi_events := evs\<rparr>) cache db = batch_start input cache db"
  "batch_end (input\<lparr>bi_events := evs\<rparr>) now s fs e = batch_end input now s fs e"
  by (simp_all add: batch_cache_def batch_start_def batch_end_def split: option.split)

lemma batch_runs: "bi_reset input \<Longrightarrow> \<exists>p. projectEventBatch env explain now input e = Inr p"
  by (simp add: batch_eq batch_cache_def Let_def)

text \<open>
  C4: a failing event leaves no trace but its quarantine row. Whatever a batch contains, there is a part of it such that
  exactly the other events are quarantined anew, and projecting that part alone, in the same order, gives the same
  projected tables, caches, change counts and watermark, with no failure.
\<close>

theorem failed_events_leave_no_trace:
  assumes "distinct (map rw_rowid (bi_events input))"
    and "projectEventBatch env explain now input e = Inr (n, e')"
  shows "\<exists>good. subseq good (bi_events input) \<and> n = length good \<and>
    projectEventBatch env explain now (input\<lparr>bi_events := good\<rparr>) e = Inr (n, e'\<lparr>en_failures := en_failures e\<rparr>) \<and>
    (\<forall>k. is_quarantined (en_failures e') k \<longleftrightarrow>
       is_quarantined (en_failures e) k \<or> k \<in> rw_rowid ` (set (bi_events input) - set good)) \<and>
    (\<forall>k. k \<in> rw_rowid ` (set (bi_events input) - set good) \<or> quarantined (en_failures e') k = quarantined (en_failures e) k)"
proof -
  let ?evs = "bi_events input"
  obtain cache where cache: "batch_cache input e = Inr cache"
    using assms(2) by (auto simp: batch_eq ebind_eq_Inr_iff)
  let ?s0 = "batch_start input cache (en_db e)"
  let ?shaped = "List.map_filter shaped_of ?evs"
  let ?failed = "snd (project_events env ?shaped ?s0)"
  let ?bad = "fst ` set ?failed"
  let ?good = "filter (\<lambda>r. is_shaped r \<and> r \<notin> ?bad) ?evs"
  have d: "distinct (map se_raw ?shaped)" using assms(1) by (rule distinct_shaped)
  have good_shaped: "List.map_filter shaped_of ?good = filter (\<lambda>se. se_raw se \<notin> ?bad) ?shaped"
    by (rule survivors_shaped)
  then have run: "project_events env (List.map_filter shaped_of ?good) ?s0 = (fst (project_events env ?shaped ?s0), [])"
    using project_events_survivors [OF d] by simp
  have kept: "snd (shape_events explain now ?good f) = f" for f by (rule shape_good) simp
  have bad_evs: "?bad \<subseteq> se_raw ` set ?shaped" by (rule project_events_failed)
  have n: "n = length ?shaped - length ?failed"
    and e': "e' = batch_end input now (fst (project_events env ?shaped ?s0))
      (quarantine_all explain now ?failed (snd (shape_events explain now ?evs (en_failures e)))) e"
    using assms(2) cache by (auto simp: batch_eq Let_def)
  have sub: "length (List.map_filter shaped_of ?good) = length ?good" by (rule shaped_all) simp
  have count: "length ?shaped - length ?failed = length ?good"
    using project_events_count [OF d, of env ?s0] sub good_shaped by simp
  have same: "projectEventBatch env explain now (input\<lparr>bi_events := ?good\<rparr>) e = Inr (n, e'\<lparr>en_failures := en_failures e\<rparr>)"
    unfolding e' n count batch_end_failures(2) using sub
    by (simp add: batch_eq cache Let_def run kept quarantine_all_def)
  have rowid: "rw_rowid x = rw_rowid y \<Longrightarrow> x = y" if "x \<in> set ?evs" "y \<in> set ?evs" for x y
    using assms(1) that by (auto simp: distinct_map inj_on_def)
  have bad_in: "?bad \<subseteq> set ?evs"
    using bad_evs by (auto simp: mem_map_filter dest!: shaped_raw)
  let ?lost = "set ?evs - set ?good"
  have lost: "?lost = {r \<in> set ?evs. \<not> is_shaped r} \<union> ?bad" using bad_in by auto
  have fs: "en_failures e' = quarantine_all explain now ?failed (snd (shape_events explain now ?evs (en_failures e)))"
    unfolding e' by (rule batch_end_failures)
  have q1: "is_quarantined (en_failures e') k \<longleftrightarrow> is_quarantined (en_failures e) k \<or> k \<in> rw_rowid ` ?lost" for k
    unfolding fs lost is_quarantined_all is_quarantined_shape by auto
  have q2: "k \<in> rw_rowid ` ?lost \<or> quarantined (en_failures e') k = quarantined (en_failures e) k" for k
  proof (cases "k \<in> rw_rowid ` ?lost")
    case False
    then have a: "k \<notin> rw_rowid ` ?bad" and b: "\<And>r. r \<in> set ?evs \<Longrightarrow> \<not> is_shaped r \<Longrightarrow> rw_rowid r \<noteq> k"
      unfolding lost by auto
    have "quarantined (en_failures e') k = quarantined (snd (shape_events explain now ?evs (en_failures e))) k"
      unfolding fs by (rule quarantined_all [OF a])
    also have "\<dots> = quarantined (en_failures e) k" by (rule quarantined_shape) (use b in blast)
    finally show ?thesis by simp
  qed simp
  have "subseq ?good ?evs" by (rule subseq_filter_left)
  moreover have "n = length ?good" using n count by simp
  ultimately show ?thesis using same q1 q2 by (intro exI [of _ ?good] conjI allI)
qed


theorem failed_events_leave_no_trace_witness:
  "\<exists>n e'. projectEventBatch sample_env (\<lambda>_. ''x'') 0 (sample_batch [sample_message 1 ''a'' JNull, sample_row 2 EkMessage ''created'' JNull])
       (sample_engine []) = Inr (n, e') \<and>
     (\<exists>good. subseq good [sample_message 1 ''a'' JNull, sample_row 2 EkMessage ''created'' JNull] \<and> n = length good)"
proof -
  let ?rows = "[sample_message 1 ''a'' JNull, sample_row 2 EkMessage ''created'' JNull]"
  obtain n e' where run: "projectEventBatch sample_env (\<lambda>_. ''x'') 0 (sample_batch ?rows) (sample_engine []) = Inr (n, e')"
    using batch_runs [of "sample_batch ?rows" sample_env "\<lambda>_. ''x''" 0 "sample_engine []"] that
    by (auto simp: sample_batch_def)
  have "distinct (map rw_rowid (bi_events (sample_batch ?rows)))"
    by (simp add: sample_batch_def sample_message_def sample_row_def)
  from failed_events_leave_no_trace [OF this run] have "\<exists>good. subseq good ?rows \<and> n = length good"
    by (auto simp: sample_batch_def)
  then show ?thesis using run by blast
qed

end
