(* ===== verification/ProjectorRounds.thy ===== *)
theory ProjectorRounds
  imports ProjectorProofs
begin

text \<open>
  How the rounds of the projector add up: ranges and rebuilds hand every row over, in order and once; a rebuild depends
  on the log and the decisions alone; repeated rounds drain the backlog.
\<close>

subsection \<open>Rounds\<close>

lemma raw_sorted: "raw_inv raw \<Longrightarrow> sort_key rw_rowid (filter P raw) = filter P raw"
proof -
  assume "raw_inv raw"
  then have "sorted_wrt (<) (map rw_rowid raw)" by (simp add: raw_inv_def)
  then have "sorted (map rw_rowid (filter P raw))"
    by (simp add: sorted_filter strict_sorted_imp_sorted)
  then show ?thesis by (rule sort_key_id_if_sorted)
qed

lemma range_all: "raw_inv raw \<Longrightarrow>
  listRawEventsInRange a b None raw = filter (\<lambda>r. a \<le> rw_rowid r \<and> rw_rowid r \<le> b) raw"
  by (auto simp: listRawEventsInRange_def raw_sorted filter_empty_conv Let_def)

lemma range_limit: "listRawEventsInRange a b (Some n) raw = take n (listRawEventsInRange a b None raw)"
  by (simp add: listRawEventsInRange_def Let_def)

lemma after_all: "raw_inv raw \<Longrightarrow> listRawEventsAfter a None raw = filter (\<lambda>r. a < rw_rowid r) raw"
  by (simp add: listRawEventsAfter_def raw_sorted Let_def)

lemma after_limit: "listRawEventsAfter a (Some n) raw = take n (listRawEventsAfter a None raw)"
  by (simp add: listRawEventsAfter_def Let_def)

text \<open>The rest of a strictly ascending list after its first elements is what lies above the last of them.\<close>

lemma drop_above:
  "sorted_wrt (<) (map f xs) \<Longrightarrow> take n xs \<noteq> [] \<Longrightarrow> drop n xs = filter (\<lambda>x. (f (last (take n xs)) :: nat) < f x) xs"
proof -
  assume s: "sorted_wrt (<) (map f xs)" and ne: "take n xs \<noteq> []"
  have "sorted_wrt (<) (map f (take n xs) @ map f (drop n xs))" using s by (metis append_take_drop_id map_append)
  then have apart: "sorted_wrt (<) (map f (take n xs))" "\<And>x y. x \<in> set (take n xs) \<Longrightarrow> y \<in> set (drop n xs) \<Longrightarrow> f x < f y"
    by (auto simp: sorted_wrt_append)
  have "\<not> f (last (take n xs)) < f x" if x: "x \<in> set (take n xs)" for x
  proof -
    obtain ys z where yz: "take n xs = ys @ [z]" using ne by (metis append_butlast_last_id)
    then show ?thesis using apart(1) x by (auto simp: sorted_wrt_append)
  qed
  then have "filter (\<lambda>x. f (last (take n xs)) < f x) (take n xs) = []" by (simp add: filter_empty_conv)
  moreover have "filter (\<lambda>x. f (last (take n xs)) < f x) (drop n xs) = drop n xs"
    using apart(2) last_in_set [OF ne] by (simp add: filter_id_conv)
  ultimately show ?thesis by (metis append_take_drop_id filter_append append_Nil)
qed

lemma range_split:
  assumes raw: "raw_inv raw" and events: "events = listRawEventsInRange a b limit raw" "events \<noteq> []"
  shows "listRawEventsInRange a b None raw = events @ listRawEventsInRange (rw_rowid (last events) + 1) b None raw"
proof -
  let ?all = "filter (\<lambda>r. a \<le> rw_rowid r \<and> rw_rowid r \<le> b) raw"
  obtain n where n: "events = take n ?all"
    using events(1) raw by (cases limit) (auto simp: range_limit range_all intro: that [of "length ?all"])
  have "sorted_wrt (<) (map rw_rowid ?all)"
    using raw by (simp add: raw_inv_def sorted_wrt_map sorted_wrt_filter)
  then have "drop n ?all = filter (\<lambda>x. rw_rowid (last events) < rw_rowid x) ?all"
    using drop_above [of rw_rowid ?all n] events(2) n by simp
  moreover have "a \<le> rw_rowid (last events)"
    using range_events [of "last events" a b limit raw] events last_in_set by simp
  ultimately have "drop n ?all = listRawEventsInRange (rw_rowid (last events) + 1) b None raw"
    by (auto simp: range_all [OF raw] intro!: filter_cong)
  then have "?all = events @ listRawEventsInRange (rw_rowid (last events) + 1) b None raw"
    using n by (metis append_take_drop_id)
  then show ?thesis unfolding range_all [OF raw, of a b] .
qed

lemma after_split:
  assumes raw: "raw_inv raw" and events: "events = listRawEventsAfter a limit raw" "events \<noteq> []"
  shows "listRawEventsAfter a None raw = events @ listRawEventsAfter (rw_rowid (last events)) None raw"
proof -
  let ?all = "filter (\<lambda>r. a < rw_rowid r) raw"
  obtain n where n: "events = take n ?all"
    using events(1) raw by (cases limit) (auto simp: after_limit after_all intro: that [of "length ?all"])
  have "sorted_wrt (<) (map rw_rowid ?all)"
    using raw by (simp add: raw_inv_def sorted_wrt_map sorted_wrt_filter)
  then have "drop n ?all = filter (\<lambda>x. rw_rowid (last events) < rw_rowid x) ?all"
    using drop_above [of rw_rowid ?all n] events(2) n by simp
  moreover have "a < rw_rowid (last events)"
  proof -
    have "last events \<in> set ?all" using last_in_set [OF events(2)] n by (metis in_set_takeD)
    then show ?thesis by simp
  qed
  ultimately have "drop n ?all = listRawEventsAfter (rw_rowid (last events)) None raw"
    by (auto simp: after_all [OF raw] intro!: filter_cong)
  then have "?all = events @ listRawEventsAfter (rw_rowid (last events)) None raw"
    using n by (metis append_take_drop_id)
  then show ?thesis unfolding after_all [OF raw, of a] .
qed

text \<open>The batches that were run, one after the other, between two states of the engine.\<close>

inductive ran_batches ::
  "proj_env \<Rightarrow> (schema_error + proj_error \<Rightarrow> string) \<Rightarrow> engine \<Rightarrow> raw_row list list \<Rightarrow> engine \<Rightarrow> bool"
  for env explain where
  none: "ran_batches env explain e [] e"
| init: "ran_batches env explain e bs e' \<Longrightarrow> ran_batches env explain e bs (init_state now e')"
| batch: "ran_batches env explain e bs e' \<Longrightarrow> projectEventBatch env explain now input e' = Inr (n, e'') \<Longrightarrow>
    ran_batches env explain e (bs @ [bi_events input]) e''"

lemma ran_trans: "ran_batches env explain e1 cs e2 \<Longrightarrow> ran_batches env explain e0 bs e1 \<Longrightarrow> ran_batches env explain e0 (bs @ cs) e2"
proof (induction rule: ran_batches.induct)
  case (batch e cs e' now input n e'')
  then show ?case using ran_batches.batch [of env explain e0 "bs @ cs" e'] by simp
qed (auto intro: ran_batches.intros)

text \<open>A range either has nothing to do or runs one batch.\<close>

lemma range_cases:
  assumes "projectRangeInternal env explain now mode a b limit ov e = Inr (result, e')"
  obtains (idle) "listRawEventsInRange a b limit (en_raw e) = []" "e' = init_state now e" "rr_next result = None" "rr_applied result = 0"
  | (batch) input n where "bi_events input = listRawEventsInRange a b limit (en_raw e)" "bi_events input \<noteq> []"
      "projectEventBatch env explain now input (init_state now e) = Inr (n, e')"
      "bi_watermark input = committed_watermark mode a (watermark e) (rw_rowid (last (bi_events input)))"
      "rr_next result = (if b \<le> rw_rowid (last (bi_events input)) then None else Some (rw_rowid (last (bi_events input)) + 1))"
      "\<not> bi_clear input" "\<not> bi_reset input"
proof -
  consider "b < a" | "\<not> b < a" "listRawEventsInRange a b limit (en_raw e) = []" | "\<not> b < a" "listRawEventsInRange a b limit (en_raw e) \<noteq> []"
    by blast
  then show thesis
  proof cases
    case 1
    then show thesis using assms by (intro idle) (auto simp: projectRangeInternal_def Let_def listRawEventsInRange_def summarizeResult_def)
  next
    case 2
    then show thesis using assms by (intro idle) (auto simp: projectRangeInternal_def Let_def summarizeResult_def)
  next
    case 3
    show thesis
      by (rule batch [of "\<lparr>bi_events = listRawEventsInRange a b limit (en_raw e),
            bi_watermark = committed_watermark mode a (watermark e) (rw_rowid (last (listRawEventsInRange a b limit (en_raw e)))),
            bi_rebuild_at = (if mode = Rebuild then Some now else None),
            bi_initial = (mode \<noteq> Realtime \<and> watermark e = 0), bi_reset = False, bi_clear = False\<rparr>" "rr_applied result"])
        (use assms 3 in \<open>auto simp: projectRangeInternal_def Let_def summarizeResult_def ebind_eq_Inr_iff\<close>)
  qed
qed

lemma range_below_max:
  assumes "projectRangeInternal env explain now mode a b limit ov e = Inr (result, e')" "watermark e \<le> max_rowid (en_raw e)"
  shows "watermark e' \<le> max_rowid (en_raw e)"
  using assms(1)
proof (cases rule: range_cases)
  case (batch input n)
  have "last (bi_events input) \<in> set (en_raw e)" using range_events last_in_set [OF batch(2)] batch(1) by metis
  then have "rw_rowid (last (bi_events input)) \<le> max_rowid (en_raw e)" by (rule le_max_rowid)
  then show ?thesis using batch_watermark [OF batch(3)] batch(4) assms(2)
    by (auto simp: committed_watermark_def split: if_splits)
qed (use assms in simp)

lemma realtime_rounds:
  assumes "raw_inv (en_raw e)" "0 < n"
    and "realtime_loop env explain now a b (Some n) ov acc e = Inr (result, e')"
  shows "en_raw e' = en_raw e \<and> (\<exists>bs. ran_batches env explain e bs e' \<and> concat bs = listRawEventsInRange a b None (en_raw e) \<and>
      (\<forall>x\<in>set bs. x \<noteq> [] \<and> length x \<le> n)) \<and>
    watermark e \<le> watermark e' \<and> (\<forall>k. watermark e < k \<and> k \<le> watermark e' \<longrightarrow> a \<le> k \<and> k \<le> b) \<and>
    (watermark e \<le> max_rowid (en_raw e) \<longrightarrow> watermark e' \<le> max_rowid (en_raw e))"
  using assms
proof (induction "Suc b - a" arbitrary: a acc e rule: less_induct)
  case less
  show ?case
  proof (cases "b < a")
    case True
    then show ?thesis using less.prems
      by (auto simp: realtime_loop_unfold listRawEventsInRange_def intro!: exI [of _ "[]"] ran_batches.none)
  next
    case False
    then obtain res1 e1 where r1: "projectRangeInternal env explain now Realtime a b (Some n) ov e = Inr (res1, e1)"
      using less.prems(3) by (auto simp: realtime_loop_unfold [of _ _ _ a] ebind_eq_Inr_iff)
    show ?thesis using r1
    proof (cases rule: range_cases)
      case idle
      have "e' = e1" using less.prems(3) False r1 idle by (simp add: realtime_loop_unfold [of _ _ _ a] Let_def)
      moreover have "listRawEventsInRange a b None (en_raw e) = []"
        using idle(1) \<open>0 < n\<close> by (simp add: range_limit)
      ultimately show ?thesis using idle
        by (auto intro!: exI [of _ "[]"] ran_batches.init ran_batches.none)
    next
      case (batch input m)
      let ?events = "bi_events input"
      have run1: "ran_batches env explain e [?events] e1"
        using ran_batches.batch [OF ran_batches.init [OF ran_batches.none] batch(3)] by simp
      have raw: "en_raw e1 = en_raw e" using batch_parts(1) [OF batch(3)] by simp
      have len: "?events \<noteq> [] \<and> length ?events \<le> n" using batch(1,2) by (simp add: range_limit)
      have split: "listRawEventsInRange a b None (en_raw e) =
          ?events @ listRawEventsInRange (rw_rowid (last ?events) + 1) b None (en_raw e)"
        by (rule range_split [OF less.prems(1) batch(1,2)])
      have last: "a \<le> rw_rowid (last ?events) \<and> rw_rowid (last ?events) \<le> b"
        using range_events [of "last ?events"] batch(1,2) last_in_set by metis
      have w: "watermark e \<le> watermark e1" "\<And>k. watermark e < k \<Longrightarrow> k \<le> watermark e1 \<Longrightarrow> a \<le> k \<and> k \<le> rw_rowid (last ?events)"
        using batch_watermark [OF batch(3)] batch(4) by (auto simp: committed_watermark_def split: if_splits)
      have below: "watermark e \<le> max_rowid (en_raw e) \<longrightarrow> watermark e1 \<le> max_rowid (en_raw e)"
        using range_below_max [OF r1] by simp
      show ?thesis
      proof (cases "b \<le> rw_rowid (last ?events)")
        case True
        then have "e' = e1" using less.prems(3) False r1 batch(5) by (simp add: realtime_loop_unfold [of _ _ _ a] Let_def)
        moreover have "listRawEventsInRange (rw_rowid (last ?events) + 1) b None (en_raw e) = []"
          using True by (simp add: listRawEventsInRange_def)
        moreover have "a \<le> k \<and> k \<le> b" if "watermark e < k" "k \<le> watermark e1" for k
          using w(2) [OF that] last by simp
        ultimately show ?thesis using run1 raw len split w(1) below
          by (intro conjI exI [of _ "[?events]"] allI impI) auto
      next
        case more: False
        let ?next = "rw_rowid (last ?events) + 1"
        obtain acc1 where rest: "realtime_loop env explain now ?next b (Some n) ov acc1 e1 = Inr (result, e')"
          using less.prems(3) False r1 batch(5) more by (auto simp: realtime_loop_unfold [of _ _ _ a] Let_def)
        have "Suc b - ?next < Suc b - a" using last by arith
        from less.hyps [OF this _ less.prems(2) rest] raw less.prems(1)
        obtain bs where bs: "ran_batches env explain e1 bs e'" "concat bs = listRawEventsInRange ?next b None (en_raw e)"
          "\<forall>x\<in>set bs. x \<noteq> [] \<and> length x \<le> n" and e': "en_raw e' = en_raw e" and w': "watermark e1 \<le> watermark e'"
          "\<forall>k. watermark e1 < k \<and> k \<le> watermark e' \<longrightarrow> ?next \<le> k \<and> k \<le> b"
          "watermark e1 \<le> max_rowid (en_raw e) \<longrightarrow> watermark e' \<le> max_rowid (en_raw e)"
          by auto
        have "a \<le> k \<and> k \<le> b" if k: "watermark e < k" "k \<le> watermark e'" for k
        proof (cases "k \<le> watermark e1")
          case True
          then show ?thesis using w(2) [OF k(1)] last by auto
        next
          case above: False
          then have "?next \<le> k \<and> k \<le> b" using w'(2) k(2) by auto
          then show ?thesis using last by linarith
        qed
        moreover have "ran_batches env explain e (?events # bs) e'" using ran_trans [OF bs(1) run1] by simp
        ultimately show ?thesis using bs e' w w' split len below
          by (intro conjI exI [of _ "?events # bs"]) auto
      qed
    qed
  qed
qed


subsection \<open>Rebuilds\<close>

lemma rebuild_step_shrinks:
  assumes "raw_inv raw" "events = listRawEventsAfter a limit raw" "events \<noteq> []"
  shows "length (listRawEventsAfter (rw_rowid (last events)) None raw) < length (listRawEventsAfter a None raw)"
  using after_split [OF assms] assms(3) by simp

text \<open>The next batch of a rebuild reads on where the last one ended.\<close>

lemma rebuild_loop_unfold:
  assumes "raw_inv (en_raw e)" "events = listRawEventsAfter w0 batchSize (en_raw e)"
  shows "rebuild_loop env explain now batchSize clear events applied w0 e =
    (if events = [] then Inr ((applied, w0), e)
     else let w' = rw_rowid (last events) in
       ebind (projectEventBatch env explain now
           \<lparr>bi_events = events, bi_watermark = Some w', bi_rebuild_at = Some now, bi_initial = clear,
            bi_reset = clear, bi_clear = clear\<rparr> e) (\<lambda>(_, e').
         rebuild_loop env explain now batchSize False (listRawEventsAfter w' batchSize (en_raw e'))
           (applied + length events) w' e'))"
proof (cases "events = []")
  case True
  then show ?thesis by (subst rebuild_loop.simps) simp
next
  case False
  show ?thesis
    using False rebuild_step_shrinks [OF assms False]
    by (subst rebuild_loop.simps) (auto simp: Let_def batch_parts(1) split: sum.split)
qed

lemma after_Nil: "raw_inv raw \<Longrightarrow> batchSize \<noteq> Some 0 \<Longrightarrow> listRawEventsAfter w0 batchSize raw = [] \<longleftrightarrow> listRawEventsAfter w0 None raw = []"
  by (cases batchSize) (auto simp: after_limit)

lemma max_rowid_last:
  assumes "raw_inv raw" "listRawEventsAfter w None raw = []" "r \<in> set raw" "rw_rowid r = w"
  shows "max_rowid raw = w"
proof -
  have "\<forall>x\<in>set raw. rw_rowid x \<le> w" using assms(1,2) by (auto simp: after_all filter_empty_conv)
  then have "max_rowid raw \<le> w" unfolding max_rowid_def by (induction raw) auto
  then show ?thesis using le_max_rowid [OF assms(3)] assms(4) by simp
qed

lemma rebuild_rounds:
  assumes "raw_inv (en_raw e)" "batchSize \<noteq> Some 0" "events = listRawEventsAfter w0 batchSize (en_raw e)"
    and "rebuild_loop env explain now batchSize clear events applied w0 e = Inr ((handled, w), e')"
  shows "en_raw e' = en_raw e \<and> en_decisions e' = en_decisions e \<and>
    (\<exists>bs. ran_batches env explain e bs e' \<and> concat bs = listRawEventsAfter w0 None (en_raw e)) \<and>
    handled = applied + length (listRawEventsAfter w0 None (en_raw e)) \<and>
    (if events = [] then w = w0 \<and> e' = e else w = max_rowid (en_raw e) \<and> watermark e' = max (watermark e) w)"
  using assms
proof (induction "length (listRawEventsAfter w0 None (en_raw e))" arbitrary: clear events applied w0 e rule: less_induct)
  case less
  note unfold = rebuild_loop_unfold [OF less.prems(1,3)]
  show ?case
  proof (cases "events = []")
    case True
    have "handled = applied \<and> w = w0 \<and> e' = e" using less.prems(4) True unfolding unfold by simp
    moreover have "listRawEventsAfter w0 None (en_raw e) = []" using True less.prems(3) after_Nil [OF less.prems(1,2)] by simp
    ultimately show ?thesis using True by (auto intro!: exI [of _ "[]"] ran_batches.none)
  next
    case False
    let ?w = "rw_rowid (last events)"
    let ?input = "\<lparr>bi_events = events, bi_watermark = Some ?w, bi_rebuild_at = Some now, bi_initial = clear,
            bi_reset = clear, bi_clear = clear\<rparr>"
    obtain n e1 where b: "projectEventBatch env explain now ?input e = Inr (n, e1)"
      and rest: "rebuild_loop env explain now batchSize False (listRawEventsAfter ?w batchSize (en_raw e1)) (applied + length events) ?w e1
        = Inr ((handled, w), e')"
      using less.prems(4) False by (auto simp: unfold Let_def ebind_eq_Inr_iff)
    have p: "en_raw e1 = en_raw e" "en_decisions e1 = en_decisions e" "watermark e1 = max (watermark e) ?w"
      using batch_parts(1,2) [OF b] batch_watermark [OF b] by simp_all
    have run1: "ran_batches env explain e [events] e1" using ran_batches.batch [OF ran_batches.none b] by simp
    have split: "listRawEventsAfter w0 None (en_raw e) = events @ listRawEventsAfter ?w None (en_raw e)"
      by (rule after_split [OF less.prems(1,3) False])
    have "length (listRawEventsAfter ?w None (en_raw e1)) < length (listRawEventsAfter w0 None (en_raw e))"
      using rebuild_step_shrinks [OF less.prems(1,3) False] p by simp
    from less.hyps [OF this _ less.prems(2) refl rest] p(1) less.prems(1)
    obtain bs where bs: "ran_batches env explain e1 bs e'" "concat bs = listRawEventsAfter ?w None (en_raw e)"
      and e': "en_raw e' = en_raw e" "en_decisions e' = en_decisions e1"
      and handled: "handled = applied + length events + length (listRawEventsAfter ?w None (en_raw e))"
      and w: "if listRawEventsAfter ?w batchSize (en_raw e) = [] then w = ?w \<and> e' = e1
        else w = max_rowid (en_raw e) \<and> watermark e' = max (watermark e1) w"
      by (auto split: if_splits)
    have "last events \<in> set (en_raw e)"
      using last_in_set [OF False] split after_all [OF less.prems(1), of w0]
      by (metis (no_types, lifting) Un_iff filter_is_subset set_append subsetD)
    then have "w = max_rowid (en_raw e) \<and> watermark e' = max (watermark e) w"
      using w p(3) max_rowid_last [OF less.prems(1), of ?w] after_Nil [OF less.prems(1,2), of ?w]
      by (auto split: if_splits dest: le_max_rowid)
    moreover have "ran_batches env explain e (events # bs) e'" using ran_trans [OF bs(1) run1] by simp
    ultimately show ?thesis using bs e' handled split p False
      by (intro conjI exI [of _ "events # bs"]) auto
  qed
qed


subsection \<open>Rebuilds return\<close>

lemma batch_cached: "en_cache e = Some c \<Longrightarrow> \<exists>p. projectEventBatch env explain now input e = Inr p"
  by (simp add: batch_eq batch_cache_def getProjectionCache_def Let_def)

lemma batch_keeps_cache: "projectEventBatch env explain now input e = Inr (n, e') \<Longrightarrow> \<exists>c. en_cache e' = Some c"
  by (auto simp: batch_eq batch_end_def ebind_eq_Inr_iff Let_def)

lemma rebuild_loop_returns:
  assumes "raw_inv (en_raw e)" "events = listRawEventsAfter w0 batchSize (en_raw e)"
    and "clear \<or> (\<exists>c. en_cache e = Some c)"
  shows "\<exists>p. rebuild_loop env explain now batchSize clear events applied w0 e = Inr p"
  using assms
proof (induction "length (listRawEventsAfter w0 None (en_raw e))" arbitrary: clear events applied w0 e rule: less_induct)
  case less
  note unfold = rebuild_loop_unfold [OF less.prems(1,2)]
  show ?case
  proof (cases "events = []")
    case True
    then show ?thesis unfolding unfold by simp
  next
    case False
    let ?w = "rw_rowid (last events)"
    let ?input = "\<lparr>bi_events = events, bi_watermark = Some ?w, bi_rebuild_at = Some now, bi_initial = clear,
            bi_reset = clear, bi_clear = clear\<rparr>"
    have "\<exists>p. projectEventBatch env explain now ?input e = Inr p"
      using less.prems(3) batch_runs [of ?input env explain now e] batch_cached [of e] by auto
    then obtain n e1 where b: "projectEventBatch env explain now ?input e = Inr (n, e1)" by auto
    have raw: "en_raw e1 = en_raw e" by (rule batch_parts(1) [OF b])
    have "length (listRawEventsAfter ?w None (en_raw e1)) < length (listRawEventsAfter w0 None (en_raw e))"
      using rebuild_step_shrinks [OF less.prems(1,2) False] raw by simp
    from less.hyps [OF this _ refl] batch_keeps_cache [OF b] less.prems(1) raw
    show ?thesis unfolding unfold using False b by (simp add: Let_def)
  qed
qed

lemma raw_is_range: "raw_inv raw \<Longrightarrow> listRawEventsAfter 0 None raw = raw"
  by (simp add: after_all raw_inv_def)

lemma rebuild_replays:
  assumes "raw_inv (en_raw e)" and "rebuild_batch_size limit \<noteq> Some 0"
  shows "\<exists>result e' bs. rebuildProjectedState env explain now limit e = Inr (result, e') \<and>
    ran_batches env explain e bs e' \<and> concat bs = en_raw e \<and> rr_applied result = length (en_raw e) \<and>
    rr_watermark result = max_rowid (en_raw e) \<and> watermark e' = max (watermark e) (max_rowid (en_raw e)) \<and>
    en_raw e' = en_raw e \<and> en_decisions e' = en_decisions e"
proof (cases "listRawEventsAfter 0 (rebuild_batch_size limit) (en_raw e) = []")
  case True
  then have empty: "en_raw e = []"
    using after_Nil [OF assms] raw_is_range [OF assms(1)] by simp
  let ?input = "\<lparr>bi_events = [], bi_watermark = Some 0, bi_rebuild_at = Some now, bi_initial = False, bi_reset = True, bi_clear = True\<rparr>"
  obtain n e1 where b: "projectEventBatch env explain now ?input e = Inr (n, e1)"
    using batch_runs [of ?input env explain now e] by auto
  have "ran_batches env explain e [[]] e1" using ran_batches.batch [OF ran_batches.none b] by simp
  then show ?thesis
    using True b empty batch_parts(1,2) [OF b] batch_watermark [OF b]
    by (intro exI [of _ "summarizeResult e1 0 0 None None True None True"] exI [of _ e1] exI [of _ "[[]]"])
      (simp add: rebuildProjectedState_def Let_def summarizeResult_def max_rowid_def)
next
  case False
  let ?first = "listRawEventsAfter 0 (rebuild_batch_size limit) (en_raw e)"
  obtain handled w e' where r: "rebuild_loop env explain now (rebuild_batch_size limit) True ?first 0 0 e = Inr ((handled, w), e')"
    using rebuild_loop_returns [OF assms(1) refl, of True] by (metis surj_pair)
  from rebuild_rounds [OF assms refl r] False raw_is_range [OF assms(1)]
  obtain bs where "ran_batches env explain e bs e'" "concat bs = en_raw e" and "handled = length (en_raw e)"
    "w = max_rowid (en_raw e)" "watermark e' = max (watermark e) w" "en_raw e' = en_raw e" "en_decisions e' = en_decisions e"
    by auto
  then show ?thesis
    using r False
    by (intro exI [of _ "summarizeResult e' handled w (Some 1) (Some w) True None True"] exI [of _ e'] exI [of _ bs])
      (simp add: rebuildProjectedState_def Let_def summarizeResult_def)
qed

text \<open>
  C7: a rebuild returns, and it replays the whole log: the batches it runs are, one after the other, the rows of the log in
  order, each once; it reports that many events, and its watermark is the last row of the log.
\<close>

theorem rebuild_replays_log:
  assumes "raw_inv (en_raw e)" and "rebuild_batch_size limit \<noteq> Some 0"
  shows "\<exists>result e' bs. rebuildProjectedState env explain now limit e = Inr (result, e') \<and>
    ran_batches env explain e bs e' \<and> concat bs = en_raw e \<and> rr_applied result = length (en_raw e) \<and>
    rr_watermark result = max_rowid (en_raw e) \<and> watermark e' = max (watermark e) (max_rowid (en_raw e)) \<and>
    en_raw e' = en_raw e \<and> en_decisions e' = en_decisions e"
  by (rule rebuild_replays [OF assms])

lemma sample_log_inv: "raw_inv [sample_message 1 ''a'' JNull, sample_message 2 ''b'' (JStr ''a'')]"
  by (simp add: raw_inv_def sample_message_def sample_row_def keyed_def rw_unique_def dec_nat.simps)

theorem rebuild_replays_log_witness:
  "\<exists>result e'. rebuildProjectedState sample_env (\<lambda>_. ''x'') 0 (Some (Fin 1))
      (sample_engine [sample_message 1 ''a'' JNull, sample_message 2 ''b'' (JStr ''a'')]) = Inr (result, e') \<and>
    rr_applied result = 2 \<and> watermark e' = 2"
proof -
  have "rebuild_batch_size (Some (Fin 1)) \<noteq> Some 0" by (simp add: rebuild_batch_size_def rat_trunc_def)
  from rebuild_replays_log [OF _ this, of "sample_engine [sample_message 1 ''a'' JNull, sample_message 2 ''b'' (JStr ''a'')]"] sample_log_inv
  show ?thesis
    by (fastforce simp: sample_engine_def watermark_def max_rowid_def sample_message_def sample_row_def)
qed


subsection \<open>A rebuild depends on the log and the decisions alone\<close>

text \<open>What a batch reads of the engine. A batch that clears reads nothing of the projected tables but what clearing leaves.\<close>

definition same_view :: "engine \<Rightarrow> engine \<Rightarrow> bool" where
  "same_view a b \<longleftrightarrow> en_raw a = en_raw b \<and> en_decisions a = en_decisions b \<and> en_db a = en_db b \<and> en_cache a = en_cache b"

definition same_source :: "engine \<Rightarrow> engine \<Rightarrow> bool" where
  "same_source a b \<longleftrightarrow> en_raw a = en_raw b \<and> en_decisions a = en_decisions b \<and>
     pj_memories (en_db a) = pj_memories (en_db b) \<and> pj_attachment_fts (en_db a) = pj_attachment_fts (en_db b)"

lemma clear_same: "same_source a b \<Longrightarrow> clearProjectedState (en_db a) = clearProjectedState (en_db b)"
  by (simp add: same_source_def clearProjectedState_def)

lemma hydrate_same: "same_view a b \<Longrightarrow> hydrateProjectionCache a = hydrateProjectionCache b"
  by (simp add: same_view_def hydrateProjectionCache_def decided_aliases_def)

lemma same_batch:
  assumes "same_view a b \<or> same_source a b \<and> bi_reset input \<and> bi_clear input"
    and "projectEventBatch env explain now input a = Inr (n, a')" "projectEventBatch env explain now input b = Inr (m, b')"
  shows "n = m \<and> same_view a' b'"
proof -
  have cache: "batch_cache input a = batch_cache input b"
    using assms(1) hydrate_same [of a b]
    by (auto simp: batch_cache_def same_view_def same_source_def getProjectionCache_def
        resetProjectionCache_def decided_aliases_def split: option.split)
  have start: "batch_start input c (en_db a) = batch_start input c (en_db b)" for c
    using assms(1) clear_same [of a b] by (auto simp: batch_start_def same_view_def)
  obtain c where c: "batch_cache input a = Inr c" using assms(2) by (auto simp: batch_eq ebind_eq_Inr_iff)
  then have c': "batch_cache input b = Inr c" using cache by simp
  have logs: "en_raw a = en_raw b" "en_decisions a = en_decisions b" using assms(1) by (auto simp: same_view_def same_source_def)
  have ends: "same_view (batch_end input now s f a) (batch_end input now s g b)" for s f g
    by (simp add: same_view_def batch_end_def Let_def logs)
  from assms(2) obtain f where "n = length (List.map_filter shaped_of (bi_events input)) -
      length (snd (project_events env (List.map_filter shaped_of (bi_events input)) (batch_start input c (en_db b))))"
    and a': "a' = batch_end input now (fst (project_events env (List.map_filter shaped_of (bi_events input)) (batch_start input c (en_db b)))) f a"
    unfolding batch_eq c ebind_Inr Let_def start by blast
  moreover from assms(3) obtain g where "m = length (List.map_filter shaped_of (bi_events input)) -
      length (snd (project_events env (List.map_filter shaped_of (bi_events input)) (batch_start input c (en_db b))))"
    and b': "b' = batch_end input now (fst (project_events env (List.map_filter shaped_of (bi_events input)) (batch_start input c (en_db b)))) g b"
    unfolding batch_eq c' ebind_Inr Let_def by blast
  ultimately show ?thesis using ends by simp
qed

lemma same_rebuild_loop:
  assumes "raw_inv (en_raw a)" "same_view a b \<or> same_source a b \<and> clear"
    and "events = listRawEventsAfter w0 batchSize (en_raw a)" "events \<noteq> []"
    and "rebuild_loop env explain now batchSize clear events applied w0 a = Inr (p, a')"
    and "rebuild_loop env explain now batchSize clear events applied w0 b = Inr (q, b')"
  shows "p = q \<and> same_view a' b'"
  using assms
proof (induction "length (listRawEventsAfter w0 None (en_raw a))" arbitrary: clear events applied w0 a b rule: less_induct)
  case less
  have raw: "en_raw b = en_raw a" using less.prems(2) by (auto simp: same_view_def same_source_def)
  let ?w = "rw_rowid (last events)"
  let ?input = "\<lparr>bi_events = events, bi_watermark = Some ?w, bi_rebuild_at = Some now, bi_initial = clear,
            bi_reset = clear, bi_clear = clear\<rparr>"
  obtain n a1 where a1: "projectEventBatch env explain now ?input a = Inr (n, a1)"
    and rest_a: "rebuild_loop env explain now batchSize False (listRawEventsAfter ?w batchSize (en_raw a1)) (applied + length events) ?w a1
      = Inr (p, a')"
    using less.prems(5) less.prems(4) unfolding rebuild_loop_unfold [OF less.prems(1,3)]
    by (auto simp: Let_def ebind_eq_Inr_iff)
  obtain m b1 where b1: "projectEventBatch env explain now ?input b = Inr (m, b1)"
    and rest_b: "rebuild_loop env explain now batchSize False (listRawEventsAfter ?w batchSize (en_raw b1)) (applied + length events) ?w b1
      = Inr (q, b')"
    using less.prems(6) less.prems(4) less.prems(1,3) raw rebuild_loop_unfold [of b events w0 batchSize]
    by (auto simp: Let_def ebind_eq_Inr_iff)
  have v: "same_view a1 b1" using same_batch [OF _ a1 b1] less.prems(2) by auto
  have raws: "en_raw a1 = en_raw a" "en_raw b1 = en_raw a" using batch_parts(1) [OF a1] batch_parts(1) [OF b1] raw by simp_all
  show ?case
  proof (cases "listRawEventsAfter ?w batchSize (en_raw a) = []")
    case True
    then show ?thesis using rest_a rest_b v raws by (auto simp: rebuild_loop.simps [of _ _ _ _ _ "[]"])
  next
    case False
    have "length (listRawEventsAfter ?w None (en_raw a1)) < length (listRawEventsAfter w0 None (en_raw a))"
      using rebuild_step_shrinks [OF less.prems(1,3,4)] raws by simp
    from less.hyps [OF this _ _ refl _ rest_a] less.prems(1) v raws False rest_b show ?thesis by simp
  qed
qed

text \<open>
  C6: rebuilding forgets the past. Two engines with the same log, the same merge decisions and the same user data (memories,
  extracted attachment text) have the same projected tables and caches after a rebuild, whatever they held before.
\<close>

theorem rebuild_forgets_the_past:
  assumes "raw_inv (en_raw a)" and "same_source a b"
    and "rebuildProjectedState env explain now limit a = Inr (result, a')"
    and "rebuildProjectedState env explain now limit b = Inr (result', b')"
  shows "en_db a' = en_db b' \<and> en_cache a' = en_cache b' \<and> rr_applied result = rr_applied result' \<and>
    rr_messages result = rr_messages result'"
proof -
  have raw: "en_raw b = en_raw a" using assms(2) by (simp add: same_source_def)
  let ?first = "listRawEventsAfter 0 (rebuild_batch_size limit) (en_raw a)"
  have "same_view a' b' \<and> rr_applied result = rr_applied result' \<and> rr_messages result = rr_messages result'"
  proof (cases "?first = []")
    case True
    let ?input = "\<lparr>bi_events = [], bi_watermark = Some 0, bi_rebuild_at = Some now, bi_initial = False, bi_reset = True, bi_clear = True\<rparr>"
    obtain n m where "projectEventBatch env explain now ?input a = Inr (n, a')" "projectEventBatch env explain now ?input b = Inr (m, b')"
      and res: "result = summarizeResult a' 0 0 None None True None True" "result' = summarizeResult b' 0 0 None None True None True"
      using assms(3,4) True raw by (auto simp: rebuildProjectedState_def Let_def ebind_eq_Inr_iff)
    then have "same_view a' b'" using same_batch [of a b ?input] assms(2) by auto
    then show ?thesis using res by (simp add: summarizeResult_def same_view_def)
  next
    case False
    obtain n w where la: "rebuild_loop env explain now (rebuild_batch_size limit) True ?first 0 0 a = Inr ((n, w), a')"
      and res: "result = summarizeResult a' n w (Some 1) (Some w) True None True"
      using assms(3) False by (auto simp: rebuildProjectedState_def Let_def ebind_eq_Inr_iff)
    obtain m v where lb: "rebuild_loop env explain now (rebuild_batch_size limit) True ?first 0 0 b = Inr ((m, v), b')"
      and res': "result' = summarizeResult b' m v (Some 1) (Some v) True None True"
      using assms(4) False raw by (auto simp: rebuildProjectedState_def Let_def ebind_eq_Inr_iff)
    from same_rebuild_loop [OF assms(1) _ refl False la lb] assms(2) show ?thesis
      using res res' by (simp add: summarizeResult_def same_view_def)
  qed
  then show ?thesis by (simp add: same_view_def)
qed

theorem rebuild_forgets_the_past_witness:
  "\<exists>r r' a' b'.
     rebuildProjectedState sample_env (\<lambda>_. ''x'') 0 (Some (Fin 1)) (sample_engine [sample_message 1 ''a'' JNull, sample_message 2 ''b'' (JStr ''a'')])
       = Inr (r, a') \<and>
     rebuildProjectedState sample_env (\<lambda>_. ''x'') 0 (Some (Fin 1)) ((sample_engine [sample_message 1 ''a'' JNull, sample_message 2 ''b'' (JStr ''a'')])
       \<lparr>en_db := sample_projection\<lparr>pj_fts_queue := [''stale'']\<rparr>\<rparr>) = Inr (r', b') \<and> en_db a' = en_db b'"
proof -
  let ?a = "sample_engine [sample_message 1 ''a'' JNull, sample_message 2 ''b'' (JStr ''a'')]"
  let ?b = "?a\<lparr>en_db := sample_projection\<lparr>pj_fts_queue := [''stale'']\<rparr>\<rparr>"
  have inv: "raw_inv (en_raw ?a)" "raw_inv (en_raw ?b)" using sample_log_inv by (simp_all add: sample_engine_def)
  have src: "same_source ?a ?b" by (simp add: same_source_def sample_engine_def)
  have l: "rebuild_batch_size (Some (Fin 1)) \<noteq> Some 0" by (simp add: rebuild_batch_size_def rat_trunc_def)
  obtain r a' where a: "rebuildProjectedState sample_env (\<lambda>_. ''x'') 0 (Some (Fin 1)) ?a = Inr (r, a')"
    using rebuild_replays [OF inv(1) l] by blast
  obtain r' b' where b: "rebuildProjectedState sample_env (\<lambda>_. ''x'') 0 (Some (Fin 1)) ?b = Inr (r', b')"
    using rebuild_replays [OF inv(2) l] by blast
  show ?thesis using rebuild_forgets_the_past [OF inv(1) src a b] a b by blast
qed

subsection \<open>Draining the backlog\<close>

text \<open>The daemon runs pending projections again and again.\<close>

fun drain ::
  "proj_env \<Rightarrow> (schema_error + proj_error \<Rightarrow> string) \<Rightarrow> int \<Rightarrow> nat option \<Rightarrow> nat \<Rightarrow> engine \<Rightarrow> proj_error + engine" where
  "drain env explain now limit 0 e = Inr e"
| "drain env explain now limit (Suc k) e =
     ebind (projectPendingRawEvents env explain now limit e) (\<lambda>(_, e'). drain env explain now limit k e')"

definition pending_rows :: "engine \<Rightarrow> nat" where
  "pending_rows e = length (filter (\<lambda>r. watermark e < rw_rowid r) (en_raw e))"

lemma backlog_eq:
  "getProjectionBacklog now True (en_raw e) (en_state e) =
     ((watermark e, max_rowid (en_raw e), max_rowid (en_raw e) - watermark e), en_state (init_state now e))"
  by (auto simp: getProjectionBacklog_def getProjectionState_def watermark_def init_state_def case_prod_beta split: option.split)

lemma init_state_idem: "e\<lparr>en_state := en_state (init_state now e)\<rparr> = init_state now e"
  by (simp add: init_state_def)

lemma init_state_twice [simp]: "init_state now (init_state now e) = init_state now e"
  by (auto simp: init_state_def getProjectionState_def db_upsertProjectionState_def split: option.split)

lemma no_backlog: "raw_inv (en_raw e) \<Longrightarrow> max_rowid (en_raw e) \<le> watermark e \<longleftrightarrow> pending_rows e = 0"
proof -
  have "max_rowid rows \<le> w \<longleftrightarrow> (\<forall>r\<in>set rows. rw_rowid r \<le> w)" for rows w
    unfolding max_rowid_def by (induction rows) auto
  then show ?thesis by (auto simp: pending_rows_def filter_empty_conv not_less)
qed

lemma pending_step:
  assumes "raw_inv (en_raw e)" "en_cache e = Some c" "limit \<noteq> Some 0"
  shows "\<exists>result e' c'. projectPendingRawEvents env explain now limit e = Inr (result, e') \<and> en_raw e' = en_raw e \<and>
    en_cache e' = Some c' \<and> pending_rows e' \<le> pending_rows e - 1"
proof (cases "pending_rows e = 0")
  case True
  then have "max_rowid (en_raw e) \<le> watermark e" using no_backlog [OF assms(1)] by simp
  then show ?thesis using True assms(2)
    by (auto simp: projectPendingRawEvents_def backlog_eq init_state_idem pending_rows_def Let_def)
next
  case False
  let ?e = "init_state now e"
  let ?a = "watermark e + 1" and ?b = "max_rowid (en_raw e)"
  let ?events = "listRawEventsInRange ?a ?b limit (en_raw e)"
  have above: "filter (\<lambda>r. ?a \<le> rw_rowid r \<and> rw_rowid r \<le> ?b) (en_raw e) = filter (\<lambda>r. watermark e < rw_rowid r) (en_raw e)"
    by (auto intro!: filter_cong dest: le_max_rowid)
  then have "listRawEventsInRange ?a ?b None (en_raw e) \<noteq> []"
    using False range_all [OF assms(1), of ?a ?b] by (simp add: pending_rows_def)
  then have ne: "?events \<noteq> []" using assms(3) by (cases limit) (simp_all add: range_limit)
  have lt: "watermark e < ?b" using False no_backlog [OF assms(1)] by simp
  let ?last = "rw_rowid (last ?events)"
  have last: "?a \<le> ?last" "last ?events \<in> set (en_raw e)"
    using range_events last_in_set [OF ne] by metis+
  let ?input = "\<lparr>bi_events = ?events, bi_watermark = Some (max (watermark e) ?last), bi_rebuild_at = None,
     bi_initial = (watermark e = 0), bi_reset = False, bi_clear = False\<rparr>"
  obtain n e' where b: "projectEventBatch env explain now ?input ?e = Inr (n, e')"
    using batch_cached [of ?e c env explain now ?input] assms(2) by auto
  obtain c' where c': "en_cache e' = Some c'" using batch_keeps_cache [OF b] by blast
  have w: "watermark e' = ?last" using batch_watermark [OF b] last by simp
  have raw: "en_raw e' = en_raw e" using batch_parts(1) [OF b] by simp
  have "filter (\<lambda>r. watermark e' < rw_rowid r) (en_raw e') = filter (\<lambda>r. ?last < rw_rowid r) (filter (\<lambda>r. watermark e < rw_rowid r) (en_raw e))"
    using last w raw by (auto intro!: filter_cong)
  moreover have "length (filter (\<lambda>r. ?last < rw_rowid r) (filter (\<lambda>r. watermark e < rw_rowid r) (en_raw e))) <
      length (filter (\<lambda>r. watermark e < rw_rowid r) (en_raw e))"
    using last by (intro length_filter_less [of "last ?events"]) auto
  ultimately have "pending_rows e' \<le> pending_rows e - 1" by (simp add: pending_rows_def)
  moreover have "\<exists>result. projectPendingRawEvents env explain now limit e = Inr (result, e')"
    using b ne lt last
    by (simp add: projectPendingRawEvents_def backlog_eq init_state_idem projectDeferredRange_def projectRangeInternal_def
        committed_watermark_def Let_def)
  ultimately show ?thesis using raw c' by blast
qed

lemma drain_returns:
  assumes "raw_inv (en_raw e)" "en_cache e = Some c" "limit \<noteq> Some 0" "pending_rows e \<le> k"
  shows "\<exists>e'. drain env explain now limit k e = Inr e' \<and> en_raw e' = en_raw e \<and> pending_rows e' = 0"
  using assms
proof (induction k arbitrary: e c)
  case (Suc k)
  obtain result e1 c1 where s: "projectPendingRawEvents env explain now limit e = Inr (result, e1)" "en_raw e1 = en_raw e"
    "en_cache e1 = Some c1" "pending_rows e1 \<le> pending_rows e - 1"
    using pending_step [OF Suc.prems(1-3)] by blast
  then show ?case using Suc.IH [of e1 c1] Suc.prems by simp
qed simp




text \<open>With a cache at hand nothing in the projection of a range can throw.\<close>

lemma range_returns:
  assumes "en_cache e = Some c"
  shows "\<exists>result e' c'. projectRangeInternal env explain now mode a b limit ov e = Inr (result, e') \<and> en_cache e' = Some c'"
proof -
  define batch where "batch input = projectEventBatch env explain now input (init_state now e)" for input
  have "batch input \<noteq> Inl err" for input err
    using batch_cached [of "init_state now e" c env explain now input] assms by (auto simp: batch_def)
  then have "projectRangeInternal env explain now mode a b limit ov e \<noteq> Inl err" for err
    by (simp add: projectRangeInternal_def Let_def ebind_eq_Inl_iff case_prod_beta flip: batch_def)
  then have "\<exists>p. projectRangeInternal env explain now mode a b limit ov e = Inr p"
    by (cases "projectRangeInternal env explain now mode a b limit ov e") auto
  then obtain result e' where r: "projectRangeInternal env explain now mode a b limit ov e = Inr (result, e')" by (metis surj_pair)
  then have "\<exists>c'. en_cache e' = Some c'"
    by (cases rule: range_cases) (use assms batch_keeps_cache in auto)
  then show ?thesis using r by blast
qed

lemma realtime_loop_returns:
  assumes "en_cache e = Some c"
  shows "\<exists>p. realtime_loop env explain now a b limit ov acc e = Inr p"
  using assms
proof (induction "Suc b - a" arbitrary: a acc e c rule: less_induct)
  case less
  show ?case
  proof (cases "b < a")
    case True
    then show ?thesis by (simp add: realtime_loop_unfold)
  next
    case False
    obtain result e1 c1 where r: "projectRangeInternal env explain now Realtime a b limit ov e = Inr (result, e1)" "en_cache e1 = Some c1"
      using range_returns [OF less.prems] by blast
    show ?thesis
    proof (cases "rr_next result")
      case None
      then show ?thesis using False r by (simp add: realtime_loop_unfold [of _ _ _ a] Let_def)
    next
      case (Some k)
      then have "Suc b - k < Suc b - a" using range_next [OF r(1)] by fastforce
      from less.hyps [OF this r(2)] show ?thesis using False r(1) Some by (simp add: realtime_loop_unfold [of _ _ _ a] Let_def)
    qed
  qed
qed

lemma realtime_returns:
  assumes "en_cache e = Some c"
  shows "\<exists>p. projectRealtimeRange env explain now a b limit ov e = Inr p"
proof -
  have "\<exists>p. realtime_loop env explain now a b limit ov
      (summarizeResult (init_state now e) 0 (watermark (init_state now e)) None None True None ov) (init_state now e) = Inr p"
    by (rule realtime_loop_returns [of _ c]) (simp add: assms)
  then show ?thesis by (auto simp: projectRealtimeRange_def Let_def)
qed

end
