(* ===== verification/ProjectionService.thy ===== *)
theory ProjectionService
  imports SyncRuns
begin

text \<open>
  The bookkeeping around the projector (\<^verbatim>\<open>src/runtime/projection/service.ts\<close>): the row range that a queued
  projection run carries in its details. The barrier of the message hooks is in the theory \<open>HookBarrier\<close>.
\<close>

subsection \<open>Run details\<close>

record run_range =
  rn_trigger :: string
  rn_start :: rat
  rn_end :: rat
  rn_watermark :: "rat option"
  rn_max :: "rat option"

fun json_number :: "json option \<Rightarrow> rat option" where
  "json_number (Some (JNum (Fin x))) = Some x"
| "json_number _ = None"

text \<open>\<open>JSON.parse\<close> gives finite numbers only. What \<open>null\<close> and no object have as properties is \<open>undefined\<close>.\<close>

definition parseProjectionRunDetails :: "json option \<Rightarrow> run_range option" where
  "parseProjectionRunDetails details =
     (let field = (\<lambda>k. Option.bind details (\<lambda>parsed. jget parsed k)) in
      case (json_number (field ''startRowId''), json_number (field ''endRowId'')) of
        (Some a, Some b) \<Rightarrow>
          Some \<lparr>rn_trigger = (case field ''trigger'' of Some (JStr t) \<Rightarrow> t | _ \<Rightarrow> ''unknown''),
                rn_start = a, rn_end = b, rn_watermark = json_number (field ''projectionWatermark''),
                rn_max = json_number (field ''maxRawEventRowid'')\<rparr>
      | _ \<Rightarrow> None)"

text \<open>\<open>JSON.stringify\<close> leaves properties out that are \<open>undefined\<close>.\<close>

definition number_field :: "string \<Rightarrow> rat option \<Rightarrow> (string \<times> json) list" where
  "number_field k x = (case x of None \<Rightarrow> [] | Some n \<Rightarrow> [(k, JNum (Fin n))])"

definition details_json :: "run_range \<Rightarrow> json" where
  "details_json r =
     JObj ([(''trigger'', JStr (rn_trigger r)), (''startRowId'', JNum (Fin (rn_start r))), (''endRowId'', JNum (Fin (rn_end r)))] @
           number_field ''projectionWatermark'' (rn_watermark r) @ number_field ''maxRawEventRowid'' (rn_max r))"

definition clampProjectionRunDetails :: "run_range \<Rightarrow> rat \<Rightarrow> run_range option" where
  "clampProjectionRunDetails details projectionWatermark =
     (let startRowId = max (rn_start details) (projectionWatermark + 1) in
      if rn_end details < startRowId then None
      else Some (details\<lparr>rn_start := startRowId, rn_watermark := Some projectionWatermark\<rparr>))"

definition max_seen :: "run_range \<Rightarrow> rat" where
  "max_seen r = get_or (rn_max r) (rn_end r)"

definition mergeProjectionRunDetails :: "run_range option \<Rightarrow> run_range \<Rightarrow> rat \<Rightarrow> rat \<Rightarrow> run_range option" where
  "mergeProjectionRunDetails existing incoming projectionWatermark maxRawEventRowid =
     (case (clampProjectionRunDetails incoming projectionWatermark,
            Option.bind existing (\<lambda>x. clampProjectionRunDetails x projectionWatermark)) of
        (None, normalizedExisting) \<Rightarrow> normalizedExisting
      | (Some i, None) \<Rightarrow> Some (i\<lparr>rn_max := Some (max (max_seen i) maxRawEventRowid)\<rparr>)
      | (Some i, Some x) \<Rightarrow>
          Some (x\<lparr>rn_trigger := rn_trigger i, rn_start := min (rn_start x) (rn_start i), rn_end := max (rn_end x) (rn_end i),
                  rn_watermark := Some projectionWatermark,
                  rn_max := Some (max (max (max_seen x) (max_seen i)) maxRawEventRowid)\<rparr>))"

lemma details_roundtrip: "parseProjectionRunDetails (Some (details_json r)) = Some r"
  by (cases "rn_watermark r"; cases "rn_max r")
    (simp_all add: parseProjectionRunDetails_def details_json_def number_field_def Let_def)

lemma clamp_Some:
  "clampProjectionRunDetails d w = Some d' \<longleftrightarrow> max (rn_start d) (w + 1) \<le> rn_end d \<and>
     d' = d\<lparr>rn_start := max (rn_start d) (w + 1), rn_watermark := Some w\<rparr>"
  by (auto simp: clampProjectionRunDetails_def Let_def)

lemma clamp_None: "clampProjectionRunDetails d w = None \<longleftrightarrow> rn_end d < max (rn_start d) (w + 1)"
  by (simp add: clampProjectionRunDetails_def Let_def)

text \<open>The rows above the watermark that a range asks for.\<close>

definition wants :: "run_range option \<Rightarrow> rat \<Rightarrow> rat \<Rightarrow> bool" where
  "wants r w k \<longleftrightarrow> (case r of None \<Rightarrow> False | Some x \<Rightarrow> w < k \<and> rn_start x \<le> k \<and> k \<le> rn_end x)"

text \<open>Row ids are whole numbers, and so are the bounds the code writes.\<close>

definition whole_range :: "run_range \<Rightarrow> bool" where
  "whole_range r \<longleftrightarrow> rn_start r \<in> \<int> \<and> rn_end r \<in> \<int>"

lemma whole_less: "(a::rat) \<in> \<int> \<Longrightarrow> b \<in> \<int> \<Longrightarrow> a < b \<longleftrightarrow> a + 1 \<le> b"
proof -
  assume "a \<in> \<int>" "b \<in> \<int>"
  then obtain i j where "a = of_int i" "b = of_int j" by (auto elim!: Ints_cases)
  then show ?thesis by (metis int_less_real_le of_int_1 of_int_add of_int_le_iff of_int_less_iff zless_imp_add1_zle)
qed

lemma wants_clamp:
  assumes "w \<in> \<int>" "k \<in> \<int>"
  shows "wants (clampProjectionRunDetails d w) w k \<longleftrightarrow> wants (Some d) w k"
  using whole_less [OF assms] by (auto simp: clampProjectionRunDetails_def Let_def wants_def)


text \<open>
  C35: merging loses no row. Every row above the watermark that the queued run or the incoming range asks for is in the
  merged range; the merged range starts above the watermark and no earlier than the earlier of the two; and there is no
  merged range only if there is nothing left to project.
\<close>

theorem merge_keeps_ranges:
  assumes "w \<in> \<int>" and "k \<in> \<int>"
    and "wants existing w k \<or> wants (Some incoming) w k"
  shows "wants (mergeProjectionRunDetails existing incoming w m) w k \<and>
    (case mergeProjectionRunDetails existing incoming w m of
       None \<Rightarrow> False
     | Some r \<Rightarrow> w < rn_start r \<and> rn_start r \<le> rn_end r \<and> rn_watermark r = Some w)"
proof -
  have e: "wants (Option.bind existing (\<lambda>x. clampProjectionRunDetails x w)) w k \<longleftrightarrow> wants existing w k"
    using wants_clamp [OF assms(1,2)] by (cases existing) (simp_all add: wants_def)
  define x where "x = Option.bind existing (\<lambda>x. clampProjectionRunDetails x w)"
  define i where "i = clampProjectionRunDetails incoming w"
  have x: "w < rn_start y \<and> rn_start y \<le> rn_end y \<and> rn_watermark y = Some w" if "x = Some y" for y
    using that unfolding x_def by (cases existing) (auto simp: clamp_Some)
  have i: "w < rn_start y \<and> rn_start y \<le> rn_end y \<and> rn_watermark y = Some w" if "i = Some y" for y
    using that unfolding i_def by (auto simp: clamp_Some)
  have "wants x w k \<or> wants i w k"
    using assms(3) unfolding e [symmetric] wants_clamp [OF assms(1,2), of incoming, symmetric] x_def i_def .
  then show ?thesis
    unfolding mergeProjectionRunDetails_def x_def [symmetric] i_def [symmetric]
    using x i by (cases x; cases i) (auto simp: wants_def)
qed

theorem merge_keeps_ranges_witness:
  "wants (mergeProjectionRunDetails
      (Some \<lparr>rn_trigger = ''a'', rn_start = 2, rn_end = 5, rn_watermark = None, rn_max = None\<rparr>)
      \<lparr>rn_trigger = ''b'', rn_start = 6, rn_end = 9, rn_watermark = None, rn_max = None\<rparr> 3 9) 3 8"
  by (rule conjunct1, rule merge_keeps_ranges) (simp_all add: wants_def)

end
