(* ===== verification/ProjectionWorker.thy ===== *)
theory ProjectionWorker
  imports ProjectorRounds ProjectionService SyncRuns
begin

text \<open>
  How projection runs are queued and carried out: \<open>queueProjectionRun\<close> and \<open>processProjectionRun\<close> of
  \<^verbatim>\<open>src/runtime/daemon/server.ts\<close>, and the worker process of
  \<^verbatim>\<open>src/runtime/projection/worker.ts\<close>. Timers, logs and telemetry are left out; a daemon that is shutting down
  or finds the database busy queues nothing, which is the step that changes nothing. The row ids in run details are
  whole numbers.
\<close>

record service =
  sv_engine :: engine
  sv_runs :: run_db

definition row_number :: "rat \<Rightarrow> nat" where
  "row_number x = nat \<lfloor>x\<rfloor>"

subsection \<open>Queueing\<close>

definition incoming_range :: "string \<Rightarrow> (nat \<times> nat) option \<Rightarrow> nat \<Rightarrow> nat \<Rightarrow> run_range" where
  "incoming_range trigger rows w maxRow =
     \<lparr>rn_trigger = trigger, rn_start = (case rows of None \<Rightarrow> of_nat (w + 1) | Some (a, b) \<Rightarrow> of_nat a),
      rn_end = (case rows of None \<Rightarrow> of_nat maxRow | Some (a, b) \<Rightarrow> of_nat b), rn_watermark = None, rn_max = None\<rparr>"

definition merge_queued :: "run_range option \<Rightarrow> run_range option \<Rightarrow> nat \<Rightarrow> nat \<Rightarrow> run_range option" where
  "merge_queued existing incoming w maxRow =
     (case incoming of
        None \<Rightarrow> Option.bind existing (\<lambda>x. mergeProjectionRunDetails None x (of_nat w) (of_nat maxRow))
      | Some i \<Rightarrow> mergeProjectionRunDetails existing i (of_nat w) (of_nat maxRow))"

definition update_queued :: "int \<Rightarrow> rat \<Rightarrow> sync_run \<Rightarrow> run_range option \<Rightarrow> run_db \<Rightarrow> run_db" where
  "update_queued now delay q merged runs =
     (let scheduledAt = now + max 0 (rat_trunc delay);
          runs1 = (case merged of None \<Rightarrow> runs | Some m \<Rightarrow> updateRunDetails (run_id q) (Some (details_json m)) runs)
      in if scheduledAt < run_scheduled_at q then rescheduleRun (run_id q) (of_int scheduledAt) runs1 else runs1)"

definition queueProjectionRun ::
  "int \<Rightarrow> string \<Rightarrow> string \<Rightarrow> (nat \<times> nat) option \<Rightarrow> rat \<Rightarrow> service \<Rightarrow> db_error + string option \<times> service" where
  "queueProjectionRun now uuid trigger rows delay svc =
     (let e = sv_engine svc in
      case getProjectionBacklog now True (en_raw e) (en_state e) of ((w, maxRow, _), state) \<Rightarrow>
        let svc1 = svc\<lparr>sv_engine := e\<lparr>en_state := state\<rparr>\<rparr>;
            incoming = mergeProjectionRunDetails None (incoming_range trigger rows w maxRow) (of_nat w) (of_nat maxRow) in
        case getQueuedProjectionRun (sv_runs svc) of
          Some q \<Rightarrow>
            Inr (Some (run_id q), svc1\<lparr>sv_runs := update_queued now delay q
              (merge_queued (parseProjectionRunDetails (run_details q)) incoming w maxRow) (sv_runs svc)\<rparr>)
        | None \<Rightarrow>
            (case incoming of
               None \<Rightarrow> Inr (None, svc1)
             | Some i \<Rightarrow>
                 ebind (db_queueSyncRun now uuid
                     \<lparr>ri_platform = None, ri_account = None, ri_type = RtProject, ri_trigger = trigger,
                      ri_details = Some (details_json i), ri_scheduled_at = None, ri_delay_ms = Some (Fin delay)\<rparr> (sv_runs svc))
                   (\<lambda>(i, runs). Inr (Some i, svc1\<lparr>sv_runs := runs\<rparr>))))"

subsection \<open>The worker\<close>

definition worker_project ::
  "proj_env \<Rightarrow> (schema_error + proj_error \<Rightarrow> string) \<Rightarrow> int \<Rightarrow> nat \<Rightarrow> sync_run \<Rightarrow> engine \<Rightarrow> proj_error + range_result \<times> engine" where
  "worker_project env explain now batchSize run e =
     (if run_type run = RtRebuild then rebuildProjectedState env explain now (Some (Fin (of_nat batchSize))) e
      else case parseProjectionRunDetails (run_details run) of
        Some d \<Rightarrow> projectDeferredRange env explain now (row_number (rn_start d)) (row_number (rn_end d)) (Some batchSize) False e
      | None \<Rightarrow>
          (case getProjectionBacklog now True (en_raw e) (en_state e) of ((w, maxRow, pending), state) \<Rightarrow>
             let e' = e\<lparr>en_state := state\<rparr> in
             if pending = 0 then projectPendingRawEvents env explain now (Some batchSize) e'
             else projectDeferredRange env explain now (w + 1) maxRow (Some batchSize) False e'))"

definition optional_row :: "nat option \<Rightarrow> json" where
  "optional_row x = (case x of None \<Rightarrow> JNull | Some n \<Rightarrow> JNum (Fin (of_nat n)))"

definition range_json :: "range_result \<Rightarrow> json" where
  "range_json r =
     (let n = (\<lambda>x. JNum (Fin (of_nat x))) in
      JObj [(''contacts'', n (rr_contacts r)), (''conversations'', n (rr_conversations r)), (''messages'', n (rr_messages r)),
            (''rawEvents'', n (rr_raw r)), (''appliedRawEvents'', n (rr_applied r)), (''projectionWatermark'', n (rr_watermark r)),
            (''completed'', JBool (rr_completed r)), (''nextStartRowId'', optional_row (rr_next r)),
            (''rangeStartRowId'', optional_row (rr_start r)), (''rangeEndRowId'', optional_row (rr_end r))])"

definition finish_details :: "range_result \<Rightarrow> int \<Rightarrow> run_range option \<Rightarrow> json" where
  "finish_details outcome elapsed details =
     (let ms = JNum (Fin (of_int elapsed)) in
      JObj [(''projected'', range_json outcome), (''timings'', JObj [(''projectionMs'', ms), (''totalMs'', ms)]),
            (''range'', case details of None \<Rightarrow> JNull | Some d \<Rightarrow> details_json d)])"

record worker_result =
  wr_projected :: range_result
  wr_details :: "run_range option"
  wr_deferred :: "range_result option"
  wr_start :: "rat option"
  wr_end :: "rat option"

definition worker_result_of :: "sync_run \<Rightarrow> range_result \<Rightarrow> worker_result" where
  "worker_result_of run outcome =
     (let details = parseProjectionRunDetails (run_details run);
          deferred = (if run_type run = RtProject then Some outcome else None)
      in \<lparr>wr_projected = outcome, wr_details = details, wr_deferred = deferred,
          wr_start = coalesce (map_option of_nat (Option.bind deferred rr_start)) (map_option rn_start details),
          wr_end = (case deferred of
              None \<Rightarrow> None
            | Some d \<Rightarrow> (case rr_next d of
                  Some next \<Rightarrow> Some (of_nat next - 1)
                | None \<Rightarrow> coalesce (map_option of_nat (rr_end d)) (map_option rn_end details)))\<rparr>)"

datatype worker_error = WorkerProjection proj_error | LostOwnership

definition run_claim_of :: "sync_run \<Rightarrow> run_claim" where
  "run_claim_of run = \<lparr>claim_owner = run_owner run, claim_attempt = run_attempt run\<rparr>"

text \<open>What the handler of a failed run leaves of the runs; when it cannot be recorded the runs stay as they are.\<close>

definition fail_worker :: "int \<Rightarrow> string \<Rightarrow> sync_run \<Rightarrow> string \<Rightarrow> run_db \<Rightarrow> run_db" where
  "fail_worker now uuid run message runs =
     (case failRun now now now uuid (run_id run) message None None (Some (run_claim_of run)) runs of
        Inl _ \<Rightarrow> runs | Inr (_, runs') \<Rightarrow> runs')"

definition lost_message :: "sync_run \<Rightarrow> string" where
  "lost_message run = ''Projection run '' @ run_id run @ '' lost ownership before completion''"

text \<open>
  The projection is committed before the run is finished; a run that is no longer owned fails, but what it projected
  stays. An exception of the projector leaves the engine as it was before the batch that threw.
\<close>

definition runProjectionWorker ::
  "proj_env \<Rightarrow> (schema_error + proj_error \<Rightarrow> string) \<Rightarrow> int \<Rightarrow> int \<Rightarrow> string \<Rightarrow> nat \<Rightarrow> sync_run \<Rightarrow> service \<Rightarrow>
   (worker_error + worker_result) \<times> service" where
  "runProjectionWorker env explain started finished uuid batchSize run svc =
     (case worker_project env explain started batchSize run (sv_engine svc) of
        Inl err \<Rightarrow> (Inl (WorkerProjection err), svc\<lparr>sv_runs := fail_worker finished uuid run (explain (Inr err)) (sv_runs svc)\<rparr>)
      | Inr (outcome, e') \<Rightarrow>
          (case finishRun finished finished (run_id run)
               (Some (Some (finish_details outcome (finished - started) (parseProjectionRunDetails (run_details run)))))
               (Some (run_claim_of run)) (sv_runs svc) of
             (True, runs) \<Rightarrow> (Inr (worker_result_of run outcome), svc\<lparr>sv_engine := e', sv_runs := runs\<rparr>)
           | (False, runs) \<Rightarrow> (Inl LostOwnership,
               svc\<lparr>sv_engine := e', sv_runs := fail_worker finished uuid run (lost_message run) runs\<rparr>)))"

subsection \<open>Going on after a run\<close>

text \<open>The range that is left of an incomplete deferred run.\<close>

definition continuation_range :: "worker_result \<Rightarrow> (nat \<times> nat) option" where
  "continuation_range r =
     (case wr_deferred r of
        None \<Rightarrow> None
      | Some d \<Rightarrow> (case rr_next d of
            None \<Rightarrow> None
          | Some next \<Rightarrow> Some (next, get_or (coalesce (rr_end d) (map_option (\<lambda>x. row_number (rn_end x)) (wr_details r))) (rr_watermark d))))"

text \<open>The range whose hooks may fire.\<close>

definition released_range :: "sync_run \<Rightarrow> worker_result \<Rightarrow> (rat \<times> rat) option" where
  "released_range run r =
     (case (wr_start r, wr_end r) of
        (Some a, Some b) \<Rightarrow> if run_type run \<noteq> RtRebuild \<and> a \<le> b then Some (a, b) else None
      | _ \<Rightarrow> None)"

end
