(* ===== verification/ProjectionMachine.thy ===== *)
theory ProjectionMachine
  imports ProjectionWorker
begin

text \<open>
  The projection service as a step relation: ingestion, realtime projection, queueing (with the merge into a queued run),
  claims, workers, the requeueing of the rest of a partly done range, and crashes. The invariant of the relation shows
  that the watermark never passes a row that no projection was given.
\<close>

subsection \<open>The service as a state machine\<close>

text \<open>
  The state is the service with the run that is being carried out and the range that is left to queue; a step is
  labelled with the rows it hands to the projector.
\<close>

type_synonym service_state = "service \<times> sync_run option \<times> (nat \<times> nat) option"

definition worker_events :: "nat \<Rightarrow> sync_run \<Rightarrow> engine \<Rightarrow> raw_row list" where
  "worker_events batchSize run e =
     (if run_type run = RtRebuild then en_raw e
      else case parseProjectionRunDetails (run_details run) of
        Some d \<Rightarrow> listRawEventsInRange (row_number (rn_start d)) (row_number (rn_end d)) (Some batchSize) (en_raw e)
      | None \<Rightarrow> listRawEventsInRange (watermark e + 1) (max_rowid (en_raw e)) (Some batchSize) (en_raw e))"

inductive service_step ::
  "proj_env \<Rightarrow> (schema_error + proj_error \<Rightarrow> string) \<Rightarrow> service_state \<Rightarrow> raw_row list \<Rightarrow> service_state \<Rightarrow> bool"
  for env explain where
  ingest: "insertRawEvents events (en_raw (sv_engine svc)) = Inr (report, raw) \<Longrightarrow>
    service_step env explain (svc, active, rest) []
      (svc\<lparr>sv_engine := (sv_engine svc)\<lparr>en_raw := raw\<rparr>\<rparr>, active, rest)"
| realtime: "projectRealtimeRange env explain now a b (Some n) overview (sv_engine svc) = Inr (result, e') \<Longrightarrow> 0 < n \<Longrightarrow>
    service_step env explain (svc, active, rest) (listRawEventsInRange a b None (en_raw (sv_engine svc)))
      (svc\<lparr>sv_engine := e'\<rparr>, active, rest)"
| queue: "queueProjectionRun now uuid trigger None delay svc = Inr (i, svc') \<Longrightarrow>
    service_step env explain (svc, active, rest) [] (svc', active, rest)"
| queue_rest: "queueProjectionRun now uuid trigger (Some rows) delay svc = Inr (i, svc') \<Longrightarrow>
    service_step env explain (svc, active, Some rows) [] (svc', active, None)"
| queue_other: "db_queueSyncRun now uuid inp (sv_runs svc) = Inr (i, runs) \<Longrightarrow> ri_type inp \<noteq> RtProject \<Longrightarrow>
    service_step env explain (svc, active, rest) [] (svc\<lparr>sv_runs := runs\<rparr>, active, rest)"
| claim: "claimNextQueuedRun now (Some [RtProject, RtRebuild]) Projecting owner lease (sv_runs svc) = (Some run, runs) \<Longrightarrow>
    service_step env explain (svc, None, rest) [] (svc\<lparr>sv_runs := runs\<rparr>, Some run, rest)"
| work: "runProjectionWorker env explain started finished uuid n run svc = (outcome, svc') \<Longrightarrow> 0 < n \<Longrightarrow>
    service_step env explain (svc, Some run, rest) (worker_events n run (sv_engine svc))
      (svc', None, case outcome of Inl _ \<Rightarrow> None | Inr r \<Rightarrow> continuation_range r)"
| crash: "recoverInProgressRuns now code (sv_runs svc) = (k, runs) \<Longrightarrow>
    service_step env explain (svc, active, rest) [] (svc\<lparr>sv_runs := runs\<rparr>, None, None)"

inductive service_trace ::
  "proj_env \<Rightarrow> (schema_error + proj_error \<Rightarrow> string) \<Rightarrow> raw_row list \<Rightarrow> service_state \<Rightarrow> bool"
  for env explain where
  start: "en_raw (sv_engine svc) = [] \<Longrightarrow> watermark (sv_engine svc) = 0 \<Longrightarrow> rdb_runs (sv_runs svc) = [] \<Longrightarrow>
    service_trace env explain [] (svc, None, None)"
| step: "service_trace env explain given st \<Longrightarrow> service_step env explain st rows st' \<Longrightarrow>
    service_trace env explain (given @ rows) st'"

subsection \<open>No row is skipped\<close>

text \<open>A range that may be projected: it leaves no gap above the watermark.\<close>

definition no_gap :: "nat \<Rightarrow> sync_run \<Rightarrow> bool" where
  "no_gap w run \<longleftrightarrow> run_type run \<noteq> RtProject \<or>
     (case parseProjectionRunDetails (run_details run) of None \<Rightarrow> True | Some d \<Rightarrow> rn_start d \<le> of_nat w + 1)"

lemma no_gap_mono: "no_gap w run \<Longrightarrow> w \<le> v \<Longrightarrow> no_gap v run"
proof -
  assume "no_gap w run" "w \<le> v"
  moreover have "(of_nat w :: rat) \<le> of_nat v" using \<open>w \<le> v\<close> by simp
  ultimately show ?thesis by (force simp: no_gap_def split: option.splits)
qed

lemma no_gap_same: "run_type a = run_type b \<Longrightarrow> run_details a = run_details b \<Longrightarrow> no_gap w a \<longleftrightarrow> no_gap w b"
  by (simp add: no_gap_def)

lemma merge_start:
  assumes "mergeProjectionRunDetails existing incoming w m = Some r"
    and "\<And>x. existing = Some x \<Longrightarrow> rn_start x \<le> w + 1" and "rn_start incoming \<le> w + 1"
  shows "rn_start r \<le> w + 1"
  using assms
  by (cases existing) (auto simp: mergeProjectionRunDetails_def clampProjectionRunDetails_def Let_def split: option.splits if_splits)

definition active_ok :: "nat \<Rightarrow> sync_run option \<Rightarrow> bool" where
  "active_ok w active = (case active of None \<Rightarrow> True | Some run \<Rightarrow> no_gap w run \<and> run_type run \<in> {RtProject, RtRebuild})"

definition rest_ok :: "nat \<Rightarrow> (nat \<times> nat) option \<Rightarrow> bool" where
  "rest_ok w rest = (case rest of None \<Rightarrow> True | Some (a, b) \<Rightarrow> a \<le> w + 1)"

lemma ok_simps [simp]: "active_ok w None" "rest_ok w None"
  "active_ok w (Some run) \<longleftrightarrow> no_gap w run \<and> run_type run \<in> {RtProject, RtRebuild}"
  "rest_ok w (Some (a, b)) \<longleftrightarrow> a \<le> w + 1"
  by (simp_all add: active_ok_def rest_ok_def)

lemma ok_mono: "active_ok w active \<Longrightarrow> w \<le> v \<Longrightarrow> active_ok v active" "rest_ok w rest \<Longrightarrow> w \<le> v \<Longrightarrow> rest_ok v rest"
  using no_gap_mono by (auto simp: active_ok_def rest_ok_def split: option.splits)

definition service_inv :: "raw_row list \<Rightarrow> service_state \<Rightarrow> bool" where
  "service_inv given st = (case st of (svc, active, rest) \<Rightarrow>
     let e = sv_engine svc in
     raw_inv (en_raw e) \<and> watermark e \<le> max_rowid (en_raw e) \<and>
     (\<forall>run\<in>set (rdb_runs (sv_runs svc)). no_gap (watermark e) run) \<and>
     active_ok (watermark e) active \<and> rest_ok (watermark e) rest \<and>
     (\<forall>r\<in>set (en_raw e). rw_rowid r \<le> watermark e \<longrightarrow> r \<in> set given))"

lemma range_no_skip:
  assumes "projectRangeInternal env explain now Deferred a b limit ov e = Inr (result, e')"
    and "raw_inv (en_raw e)" "a \<le> watermark e + 1" "r \<in> set (en_raw e)" "watermark e < rw_rowid r" "rw_rowid r \<le> watermark e'"
  shows "r \<in> set (listRawEventsInRange a b limit (en_raw e))"
  using assms(1)
proof (cases rule: range_cases)
  case idle
  then show ?thesis using assms(5,6) by simp
next
  case (batch input n)
  let ?events = "listRawEventsInRange a b limit (en_raw e)"
  have ne: "?events \<noteq> []" using batch(1,2) by simp
  have w: "rw_rowid r \<le> rw_rowid (last ?events)"
    using batch_watermark [OF batch(3)] batch(1,4) assms(5,6) by (simp add: committed_watermark_def max_def split: if_splits)
  show ?thesis
  proof (cases "rw_rowid r < rw_rowid (last ?events)")
    case True
    then show ?thesis using range_complete [OF refl ne] assms(3-5) by simp
  next
    case False
    have l: "last ?events \<in> set (en_raw e)" using range_events last_in_set [OF ne] by metis
    have "rw_rowid r = rw_rowid (last ?events)" using False w by simp
    moreover have "inj_on rw_rowid (set (en_raw e))"
      using assms(2) by (auto simp: raw_inv_def strict_sorted_iff distinct_map)
    ultimately have "r = last ?events" using l assms(4) by (auto dest: inj_onD)
    then show ?thesis using last_in_set [OF ne] by simp
  qed
qed

lemma range_next_watermark:
  assumes "projectRangeInternal env explain now Deferred a b limit ov e = Inr (result, e')" "rr_next result = Some k"
  shows "k \<le> watermark e' + 1"
  using assms(1)
proof (cases rule: range_cases)
  case (batch input n)
  then show ?thesis using batch_watermark [OF batch(3)] assms(2) by (auto simp: committed_watermark_def split: if_splits)
qed (use assms in simp)

lemma pending_idle:
  "max_rowid (en_raw e) \<le> watermark e \<Longrightarrow> projectPendingRawEvents env explain now limit e =
     Inr (summarizeResult (init_state now e) 0 (watermark e) None None True None True, init_state now e)"
  by (simp add: projectPendingRawEvents_def backlog_eq init_state_idem Let_def)

text \<open>What the projecting part of the worker does.\<close>

lemma row_number_le: "x \<le> of_nat w + 1 \<Longrightarrow> row_number x \<le> w + 1"
  unfolding row_number_def by (simp add: floor_le_iff nat_le_iff)

lemma worker_no_skip:
  assumes "worker_project env explain now n run e = Inr (result, e')"
    and "raw_inv (en_raw e)" "watermark e \<le> max_rowid (en_raw e)" "no_gap (watermark e) run" "run_type run \<in> {RtProject, RtRebuild}" "0 < n"
  shows "en_raw e' = en_raw e \<and> watermark e \<le> watermark e' \<and> watermark e' \<le> max_rowid (en_raw e) \<and>
    (\<forall>r\<in>set (en_raw e). watermark e < rw_rowid r \<and> rw_rowid r \<le> watermark e' \<longrightarrow> r \<in> set (worker_events n run e)) \<and>
    (run_type run = RtProject \<longrightarrow> (\<forall>k. rr_next result = Some k \<longrightarrow> k \<le> watermark e' + 1))"
proof (cases "run_type run = RtRebuild")
  case True
  have "rebuild_batch_size (Some (Fin (of_nat n))) \<noteq> Some 0"
    using assms(6) by (simp add: rebuild_batch_size_def rat_trunc_def)
  from rebuild_replays [OF assms(2) this, of env explain now] assms(1,3) True
  show ?thesis by (auto simp: worker_project_def worker_events_def)
next
  case False
  then have type: "run_type run = RtProject" using assms(5) by simp
  show ?thesis
  proof (cases "parseProjectionRunDetails (run_details run)")
    case (Some d)
    then have r: "projectRangeInternal env explain now Deferred (row_number (rn_start d)) (row_number (rn_end d)) (Some n) False e = Inr (result, e')"
      using assms(1) False by (simp add: worker_project_def projectDeferredRange_def)
    have gap: "row_number (rn_start d) \<le> watermark e + 1" using assms(4) Some type by (intro row_number_le) (simp add: no_gap_def)
    show ?thesis
      using range_no_skip [OF r assms(2) gap] range_parts [OF r] range_below_max [OF r assms(3)] range_next_watermark [OF r] False Some
      by (auto simp: worker_events_def)
  next
    case None
    show ?thesis
    proof (cases "max_rowid (en_raw e) \<le> watermark e")
      case True
      then have "rr_next result = None" "e' = init_state now e"
        using assms(1) False None pending_idle [of "init_state now e" env explain now "Some n"]
        by (auto simp: worker_project_def backlog_eq init_state_idem summarizeResult_def)
      then show ?thesis using assms(3) by auto
    next
      case more: False
      then have r: "projectRangeInternal env explain now Deferred (watermark e + 1) (max_rowid (en_raw e)) (Some n) False (init_state now e) = Inr (result, e')"
        using assms(1) False None by (simp add: worker_project_def projectDeferredRange_def backlog_eq init_state_idem)
      show ?thesis
        using range_no_skip [OF r] range_parts [OF r] range_below_max [OF r] range_next_watermark [OF r] False None assms(2,3)
        by (auto simp: worker_events_def)
    qed
  qed
qed


subsection \<open>The invariant\<close>

definition no_gaps :: "nat \<Rightarrow> run_db \<Rightarrow> bool" where
  "no_gaps w runs \<longleftrightarrow> (\<forall>run\<in>set (rdb_runs runs). no_gap w run)"

lemma no_gaps_update:
  "no_gaps w runs \<Longrightarrow> (\<And>r. no_gap w r \<Longrightarrow> no_gap w (f r)) \<Longrightarrow> no_gaps w (runs\<lparr>rdb_runs := tbl_update P f (rdb_runs runs)\<rparr>)"
  by (auto simp: no_gaps_def tbl_update_def)

lemma no_gaps_keep:
  "no_gaps w runs \<Longrightarrow> (\<And>r. run_type (f r) = run_type r \<and> run_details (f r) = run_details r) \<Longrightarrow>
   no_gaps w (runs\<lparr>rdb_runs := tbl_update P f (rdb_runs runs)\<rparr>)"
  using no_gap_same by (intro no_gaps_update) metis+

lemma no_gaps_mono: "no_gaps w runs \<Longrightarrow> w \<le> v \<Longrightarrow> no_gaps v runs"
  using no_gap_mono by (auto simp: no_gaps_def)

lemma no_gaps_claim:
  assumes "claimNextQueuedRun now types st owner lease runs = (Some run, runs')" "no_gaps w runs"
  shows "no_gaps w runs'" and "no_gap w run" and "\<exists>r\<in>set (rdb_runs runs). claimable types st now r \<and> run_type run = run_type r"
proof -
  obtain row where row: "order_first (\<lambda>r. (run_scheduled_at r, run_queued_at r)) (filter (claimable types st now) (rdb_runs runs)) = Some row"
    and run: "run = claimed_row now st owner lease row"
    and runs': "runs' = runs\<lparr>rdb_runs := tbl_update (\<lambda>r. run_id r = run_id row)
             (\<lambda>r. r\<lparr>run_status := st, run_started_at := Some (get_or (run_started_at row) now),
                    run_attempt := run_attempt row + 1, run_owner := owner, run_lease := lease_until now lease,
                    run_last_progress := Some now, run_error_code := None\<rparr>) (rdb_runs runs)\<rparr>"
    using assms(1) by (auto simp: claimNextQueuedRun_def split: option.splits)
  have in_row: "row \<in> set (rdb_runs runs)" "claimable types st now row"
    using order_first_SomeD [OF row] by auto
  show "no_gaps w runs'" unfolding runs' by (rule no_gaps_keep [OF assms(2)]) simp
  show "no_gap w run" using assms(2) in_row no_gap_same [of run row w] by (simp add: no_gaps_def run claimed_row_def)
  show "\<exists>r\<in>set (rdb_runs runs). claimable types st now r \<and> run_type run = run_type r"
    using in_row by (auto simp: run claimed_row_def)
qed

lemma no_gaps_finish:
  "finishRun t t' i (Some (Some (finish_details outcome ms d))) c runs = (ok, runs') \<Longrightarrow> no_gaps w runs \<Longrightarrow> no_gaps w runs'"
proof -
  assume f: "finishRun t t' i (Some (Some (finish_details outcome ms d))) c runs = (ok, runs')" and "no_gaps w runs"
  moreover have "parseProjectionRunDetails (Some (finish_details outcome ms d)) = None"
    by (simp add: parseProjectionRunDetails_def finish_details_def Let_def)
  ultimately show ?thesis
    by (auto simp: finishRun_def no_gap_def intro!: no_gaps_update)
qed

lemma no_gaps_fail: "no_gaps w runs \<Longrightarrow> no_gaps w (fail_worker now uuid run message runs)"
proof -
  assume g: "no_gaps w runs"
  have "no_gaps w runs'" if f: "failRun now now now uuid i message None None c runs = Inr (ok, runs')" for i c ok runs'
  proof -
    obtain f where "rdb_runs runs' = tbl_update (syncRunClaimPredicate i c) f (rdb_runs runs)"
      "\<And>r. run_type (f r) = run_type r \<and> run_details (f r) = run_details r"
      using f by (auto simp: failRun_def Let_def ebind_eq_Inr_iff split: if_splits)
    then show ?thesis using no_gaps_keep [OF g, of f "syncRunClaimPredicate i c"] by (simp add: no_gaps_def)
  qed
  then show ?thesis using g by (auto simp: fail_worker_def split: sum.split)
qed

lemma no_gaps_queue:
  assumes "queueProjectionRun now uuid trigger rows delay svc = Inr (i, svc')"
    and "no_gaps (watermark (sv_engine svc)) (sv_runs svc)"
    and "\<And>a b. rows = Some (a, b) \<Longrightarrow> a \<le> watermark (sv_engine svc) + 1"
  shows "no_gaps (watermark (sv_engine svc)) (sv_runs svc')" and "sv_engine svc' = init_state now (sv_engine svc)"
proof -
  let ?e = "sv_engine svc" let ?w = "watermark (sv_engine svc)" let ?m = "max_rowid (en_raw (sv_engine svc))"
  let ?svc1 = "svc\<lparr>sv_engine := init_state now ?e\<rparr>"
  let ?inc = "mergeProjectionRunDetails None (incoming_range trigger rows ?w ?m) (of_nat ?w) (of_nat ?m)"
  have step: "(case getQueuedProjectionRun (sv_runs svc) of
          Some q \<Rightarrow> Inr (Some (run_id q), ?svc1\<lparr>sv_runs := update_queued now delay q
              (merge_queued (parseProjectionRunDetails (run_details q)) ?inc ?w ?m) (sv_runs svc)\<rparr>)
        | None \<Rightarrow> (case ?inc of None \<Rightarrow> Inr (None, ?svc1)
             | Some i \<Rightarrow> ebind (db_queueSyncRun now uuid
                     \<lparr>ri_platform = None, ri_account = None, ri_type = RtProject, ri_trigger = trigger,
                      ri_details = Some (details_json i), ri_scheduled_at = None, ri_delay_ms = Some (Fin delay)\<rparr> (sv_runs svc))
                   (\<lambda>(i, runs). Inr (Some i, ?svc1\<lparr>sv_runs := runs\<rparr>)))) = Inr (i, svc')"
    using assms(1) unfolding queueProjectionRun_def Let_def backlog_eq case_prod_conv init_state_idem .
  have inc: "rn_start x \<le> of_nat ?w + 1" if "?inc = Some x" for x
  proof (rule merge_start [OF that])
    show "rn_start (incoming_range trigger rows ?w ?m) \<le> of_nat ?w + 1"
      using assms(3) by (auto simp: incoming_range_def split: option.split)
  qed simp
  have "no_gaps ?w (sv_runs svc') \<and> sv_engine svc' = init_state now ?e"
  proof (cases "getQueuedProjectionRun (sv_runs svc)")
    case (Some q)
    let ?merged = "merge_queued (parseProjectionRunDetails (run_details q)) ?inc ?w ?m"
    have q: "q \<in> set (rdb_runs (sv_runs svc))" "run_type q = RtProject"
      using order_first_SomeD Some by (fastforce simp: getQueuedProjectionRun_def)+
    then have old: "rn_start x \<le> of_nat ?w + 1" if "parseProjectionRunDetails (run_details q) = Some x" for x
      using assms(2) that by (auto simp: no_gaps_def no_gap_def split: option.splits)
    have merged: "rn_start x \<le> of_nat ?w + 1" if m: "?merged = Some x" for x
    proof (cases ?inc)
      case None
      then obtain y where "parseProjectionRunDetails (run_details q) = Some y"
        "mergeProjectionRunDetails None y (of_nat ?w) (of_nat ?m) = Some x"
        using m by (auto simp: merge_queued_def bind_eq_Some_conv)
      then show ?thesis using merge_start old by fastforce
    next
      case (Some i)
      then have "mergeProjectionRunDetails (parseProjectionRunDetails (run_details q)) i (of_nat ?w) (of_nat ?m) = Some x"
        using m by (simp add: merge_queued_def)
      then show ?thesis using merge_start old inc [OF Some] by fastforce
    qed
    have "no_gaps ?w (case ?merged of None \<Rightarrow> sv_runs svc | Some m \<Rightarrow> updateRunDetails (run_id q) (Some (details_json m)) (sv_runs svc))"
      using assms(2) merged
      by (auto simp: updateRunDetails_def no_gap_def details_roundtrip intro!: no_gaps_update split: option.split)
    then have "no_gaps ?w (update_queued now delay q ?merged (sv_runs svc))"
      by (auto simp: update_queued_def Let_def rescheduleRun_def intro!: no_gaps_keep)
    then show ?thesis using step Some by auto
  next
    case None
    show ?thesis
    proof (cases ?inc)
      case None
      then show ?thesis using step \<open>getQueuedProjectionRun (sv_runs svc) = None\<close> assms(2) by auto
    next
      case (Some x)
      then show ?thesis using step None assms(2) inc [OF Some]
        by (auto simp: ebind_eq_Inr_iff no_gaps_def no_gap_def queued_run_def details_roundtrip dest!: db_queueSyncRun_runs)
    qed
  qed
  then show "no_gaps ?w (sv_runs svc')" and "sv_engine svc' = init_state now ?e" by simp_all
qed


lemma realtime_parts:
  assumes "projectRealtimeRange env explain now a b (Some n) ov e = Inr (result, e')" "raw_inv (en_raw e)" "0 < n"
    "watermark e \<le> max_rowid (en_raw e)"
  shows "en_raw e' = en_raw e \<and> watermark e \<le> watermark e' \<and> watermark e' \<le> max_rowid (en_raw e) \<and>
    (\<forall>r\<in>set (en_raw e). watermark e < rw_rowid r \<and> rw_rowid r \<le> watermark e' \<longrightarrow> r \<in> set (listRawEventsInRange a b None (en_raw e)))"
proof -
  obtain res where r: "realtime_loop env explain now a b (Some n) ov (summarizeResult (init_state now e) 0 (watermark e) None None True None ov)
      (init_state now e) = Inr (res, e')"
    using assms(1) by (auto simp: projectRealtimeRange_def Let_def ebind_eq_Inr_iff)
  have "raw_inv (en_raw (init_state now e))" using assms(2) by simp
  from realtime_rounds [OF this assms(3) r] assms(4) show ?thesis
    by (auto simp: range_all [OF assms(2)])
qed

lemma fresh_rows_above:
  assumes "raw_inv (old @ new)" "r \<in> set new"
  shows "max_rowid old < rw_rowid r"
proof -
  have "\<forall>x\<in>set old. rw_rowid x < rw_rowid r" "0 < rw_rowid r" using assms by (auto simp: raw_inv_def sorted_wrt_append)
  then show ?thesis unfolding max_rowid_def by (induction old) auto
qed

lemma service_step_inv:
  assumes "service_step env explain st rows st'" "service_inv given st"
  shows "service_inv (given @ rows) st'"
  using assms
proof (induction rule: service_step.induct)
  case (ingest events svc report raw active rest)
  let ?e = "sv_engine svc"
  have inv: "raw_inv (en_raw ?e)" and w: "watermark ?e \<le> max_rowid (en_raw ?e)" using ingest.prems by (simp_all add: service_inv_def Let_def)
  from ingest_is_append [OF inv ingest.hyps] obtain new where new: "raw_inv raw" "raw = en_raw ?e @ new" by blast
  have above: "\<forall>r\<in>set new. watermark ?e < rw_rowid r" using fresh_rows_above [of "en_raw ?e" new] new w by fastforce
  have "max_rowid old \<le> max_rowid (old @ new)" for old unfolding max_rowid_def by (induction old) auto
  then have "max_rowid (en_raw ?e) \<le> max_rowid raw" unfolding new(2) .
  moreover have "watermark (?e\<lparr>en_raw := raw\<rparr>) = watermark ?e" by (simp add: watermark_def)
  ultimately show ?case using ingest.prems new above w by (auto simp: service_inv_def Let_def)
next
  case (realtime now a b n overview svc result e' active rest)
  let ?e = "sv_engine svc"
  have inv: "raw_inv (en_raw ?e)" and w: "watermark ?e \<le> max_rowid (en_raw ?e)" using realtime.prems by (simp_all add: service_inv_def Let_def)
  note p = realtime_parts [OF realtime.hyps(1) inv realtime.hyps(2) w]
  have gaps: "no_gaps (watermark e') (sv_runs svc)"
    using realtime.prems p no_gaps_mono by (auto simp: service_inv_def Let_def no_gaps_def [symmetric])
  have act: "active_ok (watermark e') active" and rst: "rest_ok (watermark e') rest"
    using realtime.prems p ok_mono [of "watermark ?e"] by (auto simp: service_inv_def Let_def)
  have all: "r \<in> set given \<or> r \<in> set (listRawEventsInRange a b None (en_raw ?e))"
    if "r \<in> set (en_raw ?e)" "rw_rowid r \<le> watermark e'" for r
    using realtime.prems p that by (cases "rw_rowid r \<le> watermark ?e") (auto simp: service_inv_def Let_def)
  show ?case using inv p gaps act rst all by (simp add: service_inv_def Let_def no_gaps_def)
next
  case (queue now uuid trigger delay svc i svc' active rest)
  then show ?case using no_gaps_queue [OF queue.hyps] by (auto simp: service_inv_def Let_def no_gaps_def)
next
  case (queue_rest now uuid trigger rows delay svc i svc' active)
  then show ?case using no_gaps_queue [OF queue_rest.hyps]
    by (cases rows) (auto simp: service_inv_def Let_def no_gaps_def)
next
  case (queue_other now uuid inp svc i runs active rest)
  have "no_gap w (queued_run now uuid inp)" for w using queue_other.hyps(2) by (simp add: no_gap_def queued_run_def)
  then show ?case using queue_other
    by (auto simp: service_inv_def Let_def dest!: db_queueSyncRun_runs)
next
  case (claim now owner lease svc run runs rest)
  have gaps: "no_gaps (watermark (sv_engine svc)) (sv_runs svc)" using claim.prems by (simp add: service_inv_def Let_def no_gaps_def)
  have "run_type run \<in> {RtProject, RtRebuild}"
    using no_gaps_claim(3) [OF claim.hyps gaps] by (auto simp: claimable_def type_allowed_def)
  then show ?case using no_gaps_claim(1,2) [OF claim.hyps gaps] claim.prems
    by (simp add: service_inv_def Let_def no_gaps_def)
next
  case (work started finished uuid n run svc outcome svc' rest)
  let ?e = "sv_engine svc"
  have inv: "raw_inv (en_raw ?e)" and w: "watermark ?e \<le> max_rowid (en_raw ?e)" and gaps: "no_gaps (watermark ?e) (sv_runs svc)"
    and run: "no_gap (watermark ?e) run" "run_type run \<in> {RtProject, RtRebuild}"
    using work.prems by (simp_all add: service_inv_def Let_def no_gaps_def)
  show ?case
  proof (cases "worker_project env explain started n run ?e")
    case (Inl err)
    then have "svc' = svc\<lparr>sv_runs := fail_worker finished uuid run (explain (Inr err)) (sv_runs svc)\<rparr>" "outcome = Inl (WorkerProjection err)"
      using work.hyps(1) by (auto simp: runProjectionWorker_def)
    then show ?thesis using work.prems no_gaps_fail [OF gaps] by (simp add: service_inv_def Let_def no_gaps_def)
  next
    case (Inr p)
    obtain result e' where p: "p = (result, e')" by (cases p)
    note q = worker_no_skip [OF Inr [unfolded p] inv w run work.hyps(2)]
    have up: "no_gaps (watermark e') (sv_runs svc)" using gaps q no_gaps_mono by blast
    obtain ok runs where f: "finishRun finished finished (run_id run)
        (Some (Some (finish_details result (finished - started) (parseProjectionRunDetails (run_details run)))))
        (Some (run_claim_of run)) (sv_runs svc) = (ok, runs)" by fastforce
    have fin: "no_gaps (watermark e') runs" by (rule no_gaps_finish [OF f up])
    have e': "sv_engine svc' = e'" and gaps': "no_gaps (watermark e') (sv_runs svc')"
      using work.hyps(1) Inr p f fin no_gaps_fail [OF fin] by (cases ok; auto simp: runProjectionWorker_def)+
    have rst: "rest_ok (watermark e') (case outcome of Inl _ \<Rightarrow> None | Inr r \<Rightarrow> continuation_range r)"
      using work.hyps(1) Inr p f q
      by (cases ok) (auto simp: runProjectionWorker_def continuation_range_def worker_result_of_def Let_def split: option.split)
    have all: "r \<in> set given \<or> r \<in> set (worker_events n run ?e)" if "r \<in> set (en_raw ?e)" "rw_rowid r \<le> watermark e'" for r
      using work.prems q that by (cases "rw_rowid r \<le> watermark ?e") (auto simp: service_inv_def Let_def)
    show ?thesis using inv q e' gaps' rst all by (simp add: service_inv_def Let_def no_gaps_def)
  qed
next
  case (crash now code svc k runs active rest)
  have "no_gaps (watermark (sv_engine svc)) runs"
    using crash by (auto simp: recoverInProgressRuns_def service_inv_def Let_def no_gaps_def [symmetric] intro!: no_gaps_keep)
  then show ?case using crash.prems by (simp add: service_inv_def Let_def no_gaps_def)
qed

text \<open>
  C2: no raw event is skipped. However ingestion, realtime projection, the queueing and merging of runs, claims, workers,
  crashes and continuations follow one another, every row of the log at or below the watermark has been handed to the
  projector, and the watermark never runs ahead of the log.
\<close>

theorem no_raw_event_is_skipped:
  assumes "service_trace env explain given (svc, active, rest)"
  shows "watermark (sv_engine svc) \<le> max_rowid (en_raw (sv_engine svc)) \<and>
    {r \<in> set (en_raw (sv_engine svc)). rw_rowid r \<le> watermark (sv_engine svc)} \<subseteq> set given"
proof -
  have "service_inv given st" if "service_trace env explain given st" for given st
    using that
  proof induction
    case (start svc)
    then show ?case by (simp add: service_inv_def raw_inv_def keyed_def)
  next
    case (step given st rows st')
    then show ?case by (blast intro: service_step_inv)
  qed
  from this [OF assms] show ?thesis by (auto simp: service_inv_def Let_def)
qed


theorem no_raw_event_is_skipped_witness:
  "\<exists>svc. service_trace sample_env (\<lambda>_. ''x'') [demo_row\<lparr>rw_rowid := 1\<rparr>] (svc, None, None) \<and>
     en_raw (sv_engine svc) = [demo_row\<lparr>rw_rowid := 1\<rparr>] \<and>
     {r \<in> set (en_raw (sv_engine svc)). rw_rowid r \<le> watermark (sv_engine svc)} \<subseteq> {demo_row\<lparr>rw_rowid := 1\<rparr>}"
proof -
  let ?row = "demo_row\<lparr>rw_rowid := 1\<rparr>"
  let ?svc = "\<lparr>sv_engine = (sample_engine [])\<lparr>en_cache := Some createProjectionCache\<rparr>, sv_runs = \<lparr>rdb_runs = [], rdb_errors = []\<rparr>\<rparr>"
  let ?svc1 = "?svc\<lparr>sv_engine := (sv_engine ?svc)\<lparr>en_raw := [?row]\<rparr>\<rparr>"
  obtain res where i: "insertRawEvents [demo_event, demo_event] [] = Inr (res, [?row])" and inv: "raw_inv [?row]"
    using demo_ingest by blast
  have "service_trace sample_env (\<lambda>_. ''x'') [] (?svc, None, None)"
    by (rule service_trace.start) (simp_all add: sample_engine_def watermark_def)
  from service_trace.step [OF this service_step.ingest [of "[demo_event, demo_event]" ?svc res "[?row]"]] i
  have t1: "service_trace sample_env (\<lambda>_. ''x'') [] (?svc1, None, None)" by (simp add: sample_engine_def)
  obtain result e' where r: "projectRealtimeRange sample_env (\<lambda>_. ''x'') 0 1 1 (Some 1) True (sv_engine ?svc1) = Inr (result, e')"
    using realtime_returns [of "sv_engine ?svc1" createProjectionCache sample_env "\<lambda>_. ''x''" 0 1 1 "Some 1" True] by auto
  have raw: "en_raw e' = [?row]" using realtime_parts [OF r] inv by (simp add: sample_engine_def watermark_def)
  from service_trace.step [OF t1 service_step.realtime [OF r]]
  have t: "service_trace sample_env (\<lambda>_. ''x'') [?row] (?svc1\<lparr>sv_engine := e'\<rparr>, None, None)"
    by (simp add: listRawEventsInRange_def)
  from no_raw_event_is_skipped [OF t] raw t show ?thesis by (intro exI [of _ "?svc1\<lparr>sv_engine := e'\<rparr>"]) simp
qed

end
