(* ===== verification/HookBarrier.thy ===== *)
theory HookBarrier
  imports Prelude
begin

text \<open>
  The barrier that holds the payloads of message hooks back until their rows are projected
  (\<open>ProjectionMessageHookBarrier\<close> and \<open>buildProjectionMessageHookBatches\<close> of
  \<^verbatim>\<open>src/runtime/projection/service.ts\<close>), with the steps at which other code of the daemon may run in between.
\<close>

subsection \<open>The barrier of message hooks\<close>

text \<open>
  Payloads of hooks wait in batches, in the order of their rows, until a range that contains the batch has been
  projected.
\<close>

record 'p hook_batch =
  hb_start :: nat
  hb_end :: nat
  hb_payloads :: "'p list"

definition enqueue_hooks :: "nat \<Rightarrow> nat \<Rightarrow> 'p list \<Rightarrow> 'p hook_batch list \<Rightarrow> 'p hook_batch list" where
  "enqueue_hooks startRowId endRowId payloads pending =
     (if payloads = [] \<or> endRowId < startRowId then pending
      else sort_key hb_start (pending @ [\<lparr>hb_start = startRowId, hb_end = endRowId, hb_payloads = payloads\<rparr>]))"

text \<open>
  A release awaits every payload it emits, so that other code of the daemon may run in between. A release in progress
  remembers the index of the next batch it visits, the batches it keeps, and what it still has to emit of the batch it
  is at; the array it walks over is the one everybody else changes.
\<close>

record 'p release =
  rl_start :: nat
  rl_end :: nat
  rl_next :: nat
  rl_remaining :: "'p hook_batch list"
  rl_emitting :: "'p list"

definition begin_release :: "nat \<Rightarrow> nat \<Rightarrow> 'p hook_batch list \<Rightarrow> 'p release option" where
  "begin_release startRowId endRowId pending =
     (if endRowId < startRowId \<or> pending = [] then None
      else Some \<lparr>rl_start = startRowId, rl_end = endRowId, rl_next = 0, rl_remaining = [], rl_emitting = []\<rparr>)"

definition batch_completed :: "'p release \<Rightarrow> 'p hook_batch \<Rightarrow> bool" where
  "batch_completed r b \<longleftrightarrow> rl_start r \<le> hb_start b \<and> hb_end b \<le> rl_end r"

definition release_step :: "'p release \<Rightarrow> 'p hook_batch list \<Rightarrow> 'p list \<times> 'p hook_batch list \<times> 'p release option" where
  "release_step r pending =
     (case rl_emitting r of
        p # ps \<Rightarrow> ([p], pending, Some (r\<lparr>rl_emitting := ps\<rparr>))
      | [] \<Rightarrow>
          if rl_next r < length pending then
            let batch = pending ! rl_next r in
            if batch_completed r batch
            then ([], pending, Some (r\<lparr>rl_next := Suc (rl_next r), rl_emitting := hb_payloads batch\<rparr>))
            else ([], pending, Some (r\<lparr>rl_next := Suc (rl_next r), rl_remaining := rl_remaining r @ [batch]\<rparr>))
          else ([], rl_remaining r, None))"

definition releaseAll :: "'p hook_batch list \<Rightarrow> 'p list \<times> 'p hook_batch list" where
  "releaseAll pending = (concat (map hb_payloads (sort_key hb_start pending)), [])"

text \<open>A release with nothing in between.\<close>

definition releaseCompletedRange :: "nat \<Rightarrow> nat \<Rightarrow> 'p hook_batch list \<Rightarrow> 'p list \<times> 'p hook_batch list" where
  "releaseCompletedRange startRowId endRowId pending =
     (if endRowId < startRowId \<or> pending = [] then ([], pending)
      else let done = (\<lambda>b. startRowId \<le> hb_start b \<and> hb_end b \<le> endRowId) in
        (concat (map hb_payloads (filter done pending)), filter (\<lambda>b. \<not> done b) pending))"

definition buildProjectionMessageHookBatches :: "nat \<Rightarrow> nat \<Rightarrow> (nat \<times> 'p) list \<Rightarrow> nat \<Rightarrow> 'p hook_batch list" where
  "buildProjectionMessageHookBatches startRowId endRowId payloads batchSize =
     (if payloads = [] \<or> endRowId < startRowId \<or> batchSize = 0 then []
      else let batch_of = (\<lambda>k. startRowId + (k - startRowId) div batchSize * batchSize);
               inside = filter (\<lambda>(k, p). startRowId \<le> k \<and> k \<le> endRowId) payloads;
               starts = remdups (map (\<lambda>(k, p). batch_of k) inside) in
        sort_key hb_start (map (\<lambda>s.
          \<lparr>hb_start = s, hb_end = min (s + batchSize - 1) endRowId,
           hb_payloads = map snd (filter (\<lambda>(k, p). batch_of k = s) inside)\<rparr>) starts))"


subsection \<open>Building batches\<close>

lemma sum_groups:
  "distinct ss \<Longrightarrow> (\<And>x. x \<in> set xs \<Longrightarrow> f x \<in> set ss) \<Longrightarrow>
   (\<Sum>s\<leftarrow>ss. mset (filter (\<lambda>x. f x = s) xs)) = mset xs"
proof (induction ss arbitrary: xs)
  case (Cons s ss)
  let ?rest = "filter (\<lambda>x. f x \<noteq> s) xs"
  have "(\<Sum>t\<leftarrow>ss. mset (filter (\<lambda>x. f x = t) xs)) = (\<Sum>t\<leftarrow>ss. mset (filter (\<lambda>x. f x = t) ?rest))"
  proof (intro arg_cong [of _ _ sum_list] map_cong refl)
    fix t assume "t \<in> set ss"
    then have "t \<noteq> s" using Cons.prems(1) by auto
    then show "mset (filter (\<lambda>x. f x = t) xs) = mset (filter (\<lambda>x. f x = t) ?rest)"
      by (intro arg_cong [of _ _ mset]) (auto intro!: filter_cong)
  qed
  also have "\<dots> = mset ?rest" using Cons.prems by (intro Cons.IH) auto
  finally show ?case by (simp add: multiset_partition [symmetric] mset_filter)
next
  case Nil
  then show ?case by (cases xs) auto
qed

lemma mset_concat_sort: "mset (concat (map f (sort_key k bs))) = mset (concat (map f bs))"
proof -
  have "mset (concat (map f cs)) = (\<Sum>b\<in>#mset cs. mset (f b))" for cs by (induction cs) simp_all
  then show ?thesis by simp
qed

lemma distinct_keys_sort: "distinct (map k (sort_key f bs)) \<longleftrightarrow> distinct (map k bs)"
  by (intro mset_eq_imp_distinct_iff) simp

lemma mset_concat_groups:
  "mset (concat (map hb_payloads (map (\<lambda>s. \<lparr>hb_start = s, hb_end = g s, hb_payloads = map snd (filter (\<lambda>x. f x = s) xs)\<rparr>) ss))) =
   image_mset snd (\<Sum>s\<leftarrow>ss. mset (filter (\<lambda>x. f x = s) xs))"
  by (induction ss) simp_all

lemma block_bounds: "0 < n \<Longrightarrow> s \<le> (k::nat) \<Longrightarrow> s + (k - s) div n * n \<le> k \<and> k < s + (k - s) div n * n + n"
  by (metis add_diff_inverse_nat div_mult_mod_eq leD le_add1 mod_less_divisor nat_add_left_cancel_le nat_add_left_cancel_less
      add.assoc)


definition block_start :: "nat \<Rightarrow> nat \<Rightarrow> nat \<Rightarrow> nat" where
  "block_start startRowId batchSize k = startRowId + (k - startRowId) div batchSize * batchSize"

lemma block_start_bounds: "0 < n \<Longrightarrow> s \<le> k \<Longrightarrow> s \<le> block_start s n k \<and> block_start s n k \<le> k \<and> k < block_start s n k + n"
  using block_bounds [of n s k] by (simp add: block_start_def)

lemma block_start_apart: "0 < n \<Longrightarrow> block_start s n j < block_start s n k \<Longrightarrow> block_start s n j + n \<le> block_start s n k"
proof -
  assume n: "0 < n" and lt: "block_start s n j < block_start s n k"
  then have "(j - s) div n < (k - s) div n" by (simp add: block_start_def)
  then have "Suc ((j - s) div n) * n \<le> (k - s) div n * n" by (intro mult_right_mono) auto
  then show ?thesis by (simp add: block_start_def)
qed

lemma build_batches_eq:
  assumes "startRowId \<le> endRowId" "0 < batchSize"
  shows "buildProjectionMessageHookBatches startRowId endRowId payloads batchSize =
    (let inside = filter (\<lambda>(k, p). startRowId \<le> k \<and> k \<le> endRowId) payloads;
         f = (\<lambda>(k, p). block_start startRowId batchSize k) in
     sort_key hb_start (map (\<lambda>s. \<lparr>hb_start = s, hb_end = min (s + batchSize - 1) endRowId,
        hb_payloads = map snd (filter (\<lambda>x. f x = s) inside)\<rparr>) (remdups (map f inside))))"
  using assms by (auto simp: buildProjectionMessageHookBatches_def block_start_def Let_def case_prod_beta)

text \<open>
  C36: the batches are a partition of the payloads by row. Each payload of the range is in exactly one batch, those of
  other rows in none; the batches are pairwise disjoint intervals inside the range, in ascending order.
\<close>

theorem hook_batches_partition:
  assumes "startRowId \<le> endRowId" "0 < batchSize"
  shows "mset (concat (map hb_payloads (buildProjectionMessageHookBatches startRowId endRowId payloads batchSize))) =
      mset (map snd (filter (\<lambda>(k, p). startRowId \<le> k \<and> k \<le> endRowId) payloads)) \<and>
    sorted_wrt (\<lambda>a b. hb_end a < hb_start b) (buildProjectionMessageHookBatches startRowId endRowId payloads batchSize) \<and>
    (\<forall>b\<in>set (buildProjectionMessageHookBatches startRowId endRowId payloads batchSize).
       startRowId \<le> hb_start b \<and> hb_start b \<le> hb_end b \<and> hb_end b \<le> endRowId)"
proof -
  let ?batches = "buildProjectionMessageHookBatches startRowId endRowId payloads batchSize"
  let ?inside = "filter (\<lambda>(k, p). startRowId \<le> k \<and> k \<le> endRowId) payloads"
  let ?f = "\<lambda>(k, p). block_start startRowId batchSize k"
  let ?batch = "\<lambda>s. \<lparr>hb_start = s, hb_end = min (s + batchSize - 1) endRowId,
        hb_payloads = map snd (filter (\<lambda>x. ?f x = s) ?inside)\<rparr>"
  let ?starts = "remdups (map ?f ?inside)"
  have eq: "?batches = sort_key hb_start (map ?batch ?starts)" using assms by (simp add: build_batches_eq Let_def)
  have "(\<Sum>s\<leftarrow>?starts. mset (filter (\<lambda>x. ?f x = s) ?inside)) = mset ?inside" by (rule sum_groups) auto
  then have parts: "mset (concat (map hb_payloads ?batches)) = mset (map snd ?inside)"
    unfolding eq mset_concat_sort mset_concat_groups by simp
  have starts: "\<exists>k. s = block_start startRowId batchSize k \<and> startRowId \<le> k \<and> k \<le> endRowId" if "s \<in> set ?starts" for s
    using that by auto
  have form: "b \<in> set ?batches \<Longrightarrow> \<exists>s\<in>set ?starts. b = ?batch s" for b
    unfolding eq set_sort set_map by blast
  have bounds: "startRowId \<le> hb_start b \<and> hb_start b \<le> hb_end b \<and> hb_end b \<le> endRowId" if "b \<in> set ?batches" for b
  proof -
    from form [OF that] obtain s where b: "b = ?batch s" and "s \<in> set ?starts" by blast
    then obtain k where "s = block_start startRowId batchSize k" "startRowId \<le> k" "k \<le> endRowId" using starts by blast
    then have "startRowId \<le> s" "s \<le> endRowId" "s \<le> s + batchSize - 1"
      using block_start_bounds [OF assms(2), of startRowId k] assms(2) by linarith+
    then show ?thesis unfolding b by simp
  qed
  have "distinct (map hb_start ?batches)"
    unfolding eq distinct_keys_sort by (simp add: comp_def)
  moreover have "sorted (map hb_start ?batches)" unfolding eq by simp
  ultimately have "sorted_wrt (<) (map hb_start ?batches)" by (simp add: strict_sorted_iff)
  then have "sorted_wrt (\<lambda>a b. hb_start a < hb_start b) ?batches" by (simp add: sorted_wrt_map)
  then have apart: "sorted_wrt (\<lambda>a b. hb_end a < hb_start b) ?batches"
  proof (rule sorted_wrt_mono_rel [rotated])
    fix a b assume a: "a \<in> set ?batches" and b: "b \<in> set ?batches" and lt: "hb_start a < hb_start b"
    from form [OF a] obtain s where s: "a = ?batch s" "s \<in> set ?starts" by (elim bexE)
    from form [OF b] obtain t where t: "b = ?batch t" "t \<in> set ?starts" by (elim bexE)
    from starts [OF s(2)] obtain j where "s = block_start startRowId batchSize j" by (elim exE conjE)
    moreover from starts [OF t(2)] obtain k where "t = block_start startRowId batchSize k" by (elim exE conjE)
    moreover have st: "hb_start a = s" "hb_end a = min (s + batchSize - 1) endRowId" "hb_start b = t" unfolding s(1) t(1) by simp_all
    ultimately have "s + batchSize \<le> t" using block_start_apart [OF assms(2), of startRowId j k] lt by simp
    then show "hb_end a < hb_start b" unfolding st using assms(2) by linarith
  qed
  show ?thesis using parts apart bounds by blast
qed

theorem hook_batches_partition_witness:
  "mset (concat (map hb_payloads (buildProjectionMessageHookBatches 5 9 [(5, ''a''), (8, ''b''), (12, ''c'')] 2))) =
     mset [''a'', ''b'']"
  using hook_batches_partition [of 5 9 2 "[(5, ''a''), (8, ''b''), (12, ''c'')]"] by simp

subsection \<open>Releases with other code in between\<close>

text \<open>
  The barrier, the releases in progress, all payloads accepted so far and all payloads sent so far. Rows are inserted in
  ascending order, so a new batch starts no earlier than those that wait. With \<open>serial\<close> no release begins while
  another is in progress.
\<close>

record 'p hooks =
  hk_pending :: "'p hook_batch list"
  hk_releases :: "'p release list"
  hk_accepted :: "'p list"
  hk_sent :: "'p list"

definition remove_at :: "nat \<Rightarrow> 'a list \<Rightarrow> 'a list" where
  "remove_at i xs = take i xs @ drop (Suc i) xs"

inductive hook_step :: "bool \<Rightarrow> 'p hooks \<Rightarrow> 'p hooks \<Rightarrow> bool" for serial where
  enqueue: "payloads \<noteq> [] \<Longrightarrow> s \<le> e \<Longrightarrow> (\<forall>b\<in>set (hk_pending st). hb_start b \<le> s) \<Longrightarrow>
    hook_step serial st (st\<lparr>hk_pending := enqueue_hooks s e payloads (hk_pending st), hk_accepted := hk_accepted st @ payloads\<rparr>)"
| begin_range: "begin_release s e (hk_pending st) = Some r \<Longrightarrow> (serial \<longrightarrow> hk_releases st = []) \<Longrightarrow>
    hook_step serial st (st\<lparr>hk_releases := hk_releases st @ [r]\<rparr>)"
| continue: "i < length (hk_releases st) \<Longrightarrow> release_step (hk_releases st ! i) (hk_pending st) = (out, pending', Some r) \<Longrightarrow>
    hook_step serial st (st\<lparr>hk_pending := pending', hk_releases := (hk_releases st)[i := r], hk_sent := hk_sent st @ out\<rparr>)"
| finish: "i < length (hk_releases st) \<Longrightarrow> release_step (hk_releases st ! i) (hk_pending st) = (out, pending', None) \<Longrightarrow>
    hook_step serial st (st\<lparr>hk_pending := pending', hk_releases := remove_at i (hk_releases st), hk_sent := hk_sent st @ out\<rparr>)"
| all: "releaseAll (hk_pending st) = (out, pending') \<Longrightarrow> (serial \<longrightarrow> hk_releases st = []) \<Longrightarrow>
    hook_step serial st (st\<lparr>hk_pending := pending', hk_sent := hk_sent st @ out\<rparr>)"

inductive hook_reachable :: "bool \<Rightarrow> 'p hooks \<Rightarrow> bool" for serial where
  start: "hook_reachable serial \<lparr>hk_pending = [], hk_releases = [], hk_accepted = [], hk_sent = []\<rparr>"
| step: "hook_reachable serial st \<Longrightarrow> hook_step serial st st' \<Longrightarrow> hook_reachable serial st'"

text \<open>Schedules, to run the relation.\<close>

datatype 'p hook_action = HookEnqueue nat nat "'p list" | HookBegin nat nat | HookRun nat | HookAll

fun hook_act :: "bool \<Rightarrow> 'p hook_action \<Rightarrow> 'p hooks \<Rightarrow> 'p hooks option" where
  "hook_act serial (HookEnqueue s e payloads) st =
     (if payloads \<noteq> [] \<and> s \<le> e \<and> list_all (\<lambda>b. hb_start b \<le> s) (hk_pending st)
      then Some (st\<lparr>hk_pending := enqueue_hooks s e payloads (hk_pending st), hk_accepted := hk_accepted st @ payloads\<rparr>) else None)"
| "hook_act serial (HookBegin s e) st =
     (if serial \<and> hk_releases st \<noteq> [] then None
      else map_option (\<lambda>r. st\<lparr>hk_releases := hk_releases st @ [r]\<rparr>) (begin_release s e (hk_pending st)))"
| "hook_act serial (HookRun i) st =
     (if i < length (hk_releases st) then
        (case release_step (hk_releases st ! i) (hk_pending st) of
           (out, pending', Some r) \<Rightarrow>
             Some (st\<lparr>hk_pending := pending', hk_releases := (hk_releases st)[i := r], hk_sent := hk_sent st @ out\<rparr>)
         | (out, pending', None) \<Rightarrow>
             Some (st\<lparr>hk_pending := pending', hk_releases := remove_at i (hk_releases st), hk_sent := hk_sent st @ out\<rparr>))
      else None)"
| "hook_act serial HookAll st =
     (if serial \<and> hk_releases st \<noteq> [] then None
      else case releaseAll (hk_pending st) of (out, pending') \<Rightarrow>
        Some (st\<lparr>hk_pending := pending', hk_sent := hk_sent st @ out\<rparr>))"

lemma hook_act_step: "hook_act serial a st = Some st' \<Longrightarrow> hook_step serial st st'"
  by (cases a) (auto simp: list_all_iff split: if_splits prod.splits option.splits intro: hook_step.intros)

definition hook_run :: "bool \<Rightarrow> 'p hook_action list \<Rightarrow> 'p hooks \<Rightarrow> 'p hooks option" where
  "hook_run serial acts st = fold (\<lambda>a s. Option.bind s (hook_act serial a)) acts (Some st)"

definition no_hooks :: "'p hooks" where
  "no_hooks = \<lparr>hk_pending = [], hk_releases = [], hk_accepted = [], hk_sent = []\<rparr>"

lemma hook_reachable_start: "hook_reachable serial no_hooks"
  unfolding no_hooks_def by (rule hook_reachable.start)

lemma hook_run_None: "fold (\<lambda>a s. Option.bind s (hook_act serial a)) acts None = None"
  by (induction acts) simp_all

lemma hook_run_reachable: "hook_reachable serial st \<Longrightarrow> hook_run serial acts st = Some st' \<Longrightarrow> hook_reachable serial st'"
proof (induction acts arbitrary: st)
  case (Cons a acts)
  then obtain st1 where "hook_act serial a st = Some st1" "hook_run serial acts st1 = Some st'"
    by (cases "hook_act serial a st") (auto simp: hook_run_def hook_run_None)
  then show ?case using Cons hook_act_step hook_reachable.step by metis
qed (simp add: hook_run_def)

definition waiting :: "'p hook_batch list \<Rightarrow> 'p multiset" where
  "waiting bs = mset (concat (map hb_payloads bs))"

lemma waiting_simps [simp]:
  "waiting [] = {#}" "waiting (b # bs) = mset (hb_payloads b) + waiting bs" "waiting (bs @ cs) = waiting bs + waiting cs"
  by (simp_all add: waiting_def)

lemma waiting_sort [simp]: "waiting (sort_key k bs) = waiting bs"
  by (simp only: waiting_def mset_concat_sort)

definition in_flight :: "'p hooks \<Rightarrow> 'p multiset" where
  "in_flight st = (case hk_releases st of
       [] \<Rightarrow> waiting (hk_pending st)
     | r # _ \<Rightarrow> mset (rl_emitting r) + waiting (rl_remaining r) + waiting (drop (rl_next r) (hk_pending st)))"

definition serial_inv :: "'p hooks \<Rightarrow> bool" where
  "serial_inv st \<longleftrightarrow> length (hk_releases st) \<le> 1 \<and> sorted (map hb_start (hk_pending st)) \<and>
     (\<forall>r\<in>set (hk_releases st). rl_next r \<le> length (hk_pending st) \<and>
        subseq (rl_remaining r) (take (rl_next r) (hk_pending st))) \<and>
     mset (hk_accepted st) = mset (hk_sent st) + in_flight st"

lemma sorted_key_id: "sorted (map k xs) \<Longrightarrow> sort_key k xs = xs"
  by (rule sort_key_id_if_sorted)

lemma enqueue_last:
  "payloads \<noteq> [] \<Longrightarrow> s \<le> e \<Longrightarrow> \<forall>b\<in>set pending. hb_start b \<le> s \<Longrightarrow> sorted (map hb_start pending) \<Longrightarrow>
   enqueue_hooks s e payloads pending = pending @ [\<lparr>hb_start = s, hb_end = e, hb_payloads = payloads\<rparr>]"
  by (simp add: enqueue_hooks_def sorted_append sorted_key_id)

lemma sorted_wrt_subseq:
  assumes "subseq xs ys" "sorted_wrt P ys"
  shows "sorted_wrt P xs"
proof -
  have "subseq xs ys \<Longrightarrow> sorted_wrt P ys \<Longrightarrow> sorted_wrt P xs \<and> set xs \<subseteq> set ys" by (induction rule: list_emb.induct) auto
  then show ?thesis using assms by blast
qed

lemma visit_next:
  assumes "subseq rs (take n xs)" "n < length xs"
  shows "subseq rs (take (Suc n) xs)" and "subseq (rs @ [xs ! n]) (take (Suc n) xs)"
  using assms by (auto simp: take_Suc_conv_app_nth intro: subseq_order.trans [OF assms(1)] list_emb_append2)

lemma waiting_drop: "n < length xs \<Longrightarrow> waiting (drop n xs) = mset (hb_payloads (xs ! n)) + waiting (drop (Suc n) xs)"
  by (simp add: Cons_nth_drop_Suc [symmetric])

lemma single: "length xs \<le> 1 \<Longrightarrow> i < length xs \<Longrightarrow> i = 0 \<and> xs = [xs ! 0]"
  by (cases xs) auto

lemma release_step_Some:
  assumes "release_step q pending = (out, pending', Some r)"
  shows "pending' = pending"
    and "(\<exists>p ps. rl_emitting q = p # ps \<and> out = [p] \<and> r = q\<lparr>rl_emitting := ps\<rparr>) \<or>
      (rl_emitting q = [] \<and> rl_next q < length pending \<and> out = [] \<and>
        (r = q\<lparr>rl_next := Suc (rl_next q), rl_emitting := hb_payloads (pending ! rl_next q)\<rparr> \<or>
         r = q\<lparr>rl_next := Suc (rl_next q), rl_remaining := rl_remaining q @ [pending ! rl_next q]\<rparr>))"
  using assms by (auto simp: release_step_def Let_def split: list.splits if_splits)

lemma serial_step:
  assumes "hook_step True st st'" "serial_inv st"
  shows "serial_inv st'"
  using assms
proof (induction rule: hook_step.induct)
  case (enqueue payloads s e st)
  then have "enqueue_hooks s e payloads (hk_pending st) = hk_pending st @ [\<lparr>hb_start = s, hb_end = e, hb_payloads = payloads\<rparr>]"
    by (intro enqueue_last) (auto simp: serial_inv_def)
  then show ?case using enqueue
    by (auto simp: serial_inv_def in_flight_def sorted_append split: list.splits)
next
  case (begin_range s e st r)
  then show ?case by (auto simp: serial_inv_def in_flight_def begin_release_def split: if_splits)
next
  case (continue i st out pending' r)
  have i: "i = 0" and one: "hk_releases st = [hk_releases st ! 0]"
    using continue single [of "hk_releases st" i] by (auto simp: serial_inv_def)
  define q where "q = hk_releases st ! 0"
  have st: "hk_releases st = [q]" using one by (simp add: q_def)
  have q: "rl_next q \<le> length (hk_pending st)" "subseq (rl_remaining q) (take (rl_next q) (hk_pending st))"
    "sorted (map hb_start (hk_pending st))"
    "mset (hk_accepted st) = mset (hk_sent st) + in_flight st"
    using continue.prems st by (auto simp: serial_inv_def)
  have "release_step q (hk_pending st) = (out, pending', Some r)" using continue.hyps i st by simp
  note step = release_step_Some [OF this]
  from step(2) have r: "rl_next r \<le> length (hk_pending st) \<and> subseq (rl_remaining r) (take (rl_next r) (hk_pending st))"
    using q(1,2) visit_next [OF q(2)] by auto
  have "mset (rl_emitting q) + waiting (rl_remaining q) + waiting (drop (rl_next q) (hk_pending st)) =
      mset out + mset (rl_emitting r) + waiting (rl_remaining r) + waiting (drop (rl_next r) (hk_pending st))"
    using step(2) waiting_drop [of "rl_next q" "hk_pending st"] by (auto simp: ac_simps)
  then show ?case using q st i r step(1) by (simp add: serial_inv_def in_flight_def ac_simps)
next
  case (finish i st out pending')
  have i: "i = 0" and one: "hk_releases st = [hk_releases st ! 0]"
    using finish single [of "hk_releases st" i] by (auto simp: serial_inv_def)
  define q where "q = hk_releases st ! 0"
  have st: "hk_releases st = [q]" using one by (simp add: q_def)
  have q: "rl_next q \<le> length (hk_pending st)" "subseq (rl_remaining q) (take (rl_next q) (hk_pending st))"
    "sorted (map hb_start (hk_pending st))"
    "mset (hk_accepted st) = mset (hk_sent st) + in_flight st"
    using finish.prems st by (auto simp: serial_inv_def)
  have "release_step q (hk_pending st) = (out, pending', None)" using finish.hyps i st by simp
  then have "rl_emitting q = []" "length (hk_pending st) \<le> rl_next q" "out = []" "pending' = rl_remaining q"
    by (auto simp: release_step_def Let_def split: list.splits if_splits)
  moreover have "sorted (map hb_start (rl_remaining q))" if "length (hk_pending st) \<le> rl_next q"
    using q that sorted_wrt_subseq [of "rl_remaining q" "hk_pending st" "\<lambda>a b. hb_start a \<le> hb_start b"]
    by (simp add: sorted_wrt_map)
  ultimately show ?case using q st i by (auto simp: serial_inv_def in_flight_def remove_at_def)
next
  case (all st out pending')
  then show ?case
    by (auto simp: serial_inv_def in_flight_def releaseAll_def mset_concat_sort waiting_def simp del: mset_concat)
qed



text \<open>Two releases that overlap break it: the second one puts back what the first one has sent.\<close>

lemma overlapping_releases_repeat:
  "\<exists>st. hook_reachable False st \<and> hk_releases st = [] \<and> hk_accepted st = [CHR ''x'', CHR ''y''] \<and>
     hk_sent st = [CHR ''x'', CHR ''y'', CHR ''x'']"
proof -
  let ?acts = "[HookEnqueue 1 1 [CHR ''x''], HookEnqueue 2 2 [CHR ''y''], HookBegin 1 1, HookRun 0, HookRun 0,
    HookBegin 2 2, HookRun 1, HookRun 1, HookRun 1, HookRun 0, HookRun 0, HookRun 0, HookAll]"
  obtain st where st: "hook_run False ?acts no_hooks = Some st" "hk_accepted st = [CHR ''x'', CHR ''y'']"
      "hk_releases st = []" "hk_sent st = [CHR ''x'', CHR ''y'', CHR ''x'']"
    by (simp add: hook_run_def no_hooks_def begin_release_def enqueue_hooks_def release_step_def batch_completed_def
        remove_at_def releaseAll_def nth_Cons' Let_def)
  then have "hook_reachable False st" using hook_run_reachable [OF hook_reachable_start] by blast
  then show ?thesis using st by blast
qed

text \<open>
  Batches are cut from the first inserted row on, projected ranges from the watermark on. A batch over the seam of two
  projected ranges is in neither of them: with batches of four rows, the payloads of rows 3 to 6 stay behind when rows
  1 to 4 and then rows 5 to 8 have been projected, and no later range will contain them.
\<close>

lemma straddling_batch_is_stuck:
  "(let pending = fold (\<lambda>b. enqueue_hooks (hb_start b) (hb_end b) (hb_payloads b))
          (buildProjectionMessageHookBatches 3 8 [(3, CHR ''x''), (6, CHR ''y''), (7, CHR ''z'')] 4) [];
        (out1, pending1) = releaseCompletedRange 1 4 pending;
        (out2, pending2) = releaseCompletedRange 5 8 pending1
    in (out1 @ out2, pending2)) = ([CHR ''z''], [\<lparr>hb_start = 3, hb_end = 6, hb_payloads = [CHR ''x'', CHR ''y'']\<rparr>])"
  by (simp add: buildProjectionMessageHookBatches_def enqueue_hooks_def releaseCompletedRange_def)

end
