(* ===== verification/DaemonSettings.thy ===== *)
theory DaemonSettings
  imports Platforms ProjText
begin

text \<open>
  What the daemon reads from its environment and how it adapts to load (\<^verbatim>\<open>src/runtime/daemon/server.ts\<close> and
  \<^verbatim>\<open>src/runtime/daemon/sync-pacing.ts\<close>): intervals, batch sizes and delays with their defaults, the batch size
  and delay that follow the projection backlog, the pacing of quiet sources, and the sessions of an interactive
  authentication, during which everything else slows down. Times are whole milliseconds.
\<close>

type_synonym environment = "string \<rightharpoonup> string"

subsection \<open>Numbers from the environment\<close>

text \<open>\<open>Number (process.env [name])\<close>; no result stands for \<open>NaN\<close> and for the infinities, which every reader rejects.\<close>

definition env_number :: "environment \<Rightarrow> string \<Rightarrow> rat option" where
  "env_number env name = (case env name of
       None \<Rightarrow> None
     | Some s \<Rightarrow> if js_trim s = [] then Some 0 else js_number s)"

definition positive_setting :: "environment \<Rightarrow> string \<Rightarrow> rat \<Rightarrow> rat" where
  "positive_setting env name fallback =
     (case env_number env name of Some x \<Rightarrow> if 0 < x then x else fallback | None \<Rightarrow> fallback)"

definition whole_setting :: "bool \<Rightarrow> environment \<Rightarrow> string \<Rightarrow> int \<Rightarrow> int" where
  "whole_setting zero_allowed env name fallback =
     (case env_number env name of
        Some x \<Rightarrow> if 0 < x \<or> zero_allowed \<and> x = 0 then rat_trunc x else fallback
      | None \<Rightarrow> fallback)"

definition delay_setting :: "environment \<Rightarrow> string \<Rightarrow> rat \<Rightarrow> rat" where
  "delay_setting env name fallback =
     (case env_number env name of Some x \<Rightarrow> if 0 \<le> x then x else fallback | None \<Rightarrow> fallback)"

definition switch_setting :: "environment \<Rightarrow> string \<Rightarrow> bool \<Rightarrow> bool" where
  "switch_setting env name fallback =
     (case env name of
        None \<Rightarrow> fallback
      | Some s \<Rightarrow> js_lower (js_trim s) \<notin> {''0'', ''false'', ''off'', ''no''})"

definition getAutoSyncSchedulerTickMs :: "environment \<Rightarrow> int" where
  "getAutoSyncSchedulerTickMs env = whole_setting False env ''CUED_AUTOSYNC_SCHEDULER_TICK_MS'' 15000"

definition getIngestConcurrency :: "environment \<Rightarrow> rat" where
  "getIngestConcurrency env = positive_setting env ''CUED_INGEST_CONCURRENCY'' 4"

definition getInteractiveAuthTtlMs :: "environment \<Rightarrow> int" where
  "getInteractiveAuthTtlMs env = whole_setting False env ''CUED_INTERACTIVE_AUTH_TTL_MS'' 45000"

definition getInteractiveAuthProjectionBatchSize :: "environment \<Rightarrow> int" where
  "getInteractiveAuthProjectionBatchSize env = whole_setting False env ''CUED_INTERACTIVE_AUTH_PROJECTION_BATCH_SIZE'' 25"

definition getInteractiveAuthSyncContinueDelayMs :: "environment \<Rightarrow> int" where
  "getInteractiveAuthSyncContinueDelayMs env = whole_setting True env ''CUED_INTERACTIVE_AUTH_SYNC_CONTINUE_DELAY_MS'' 30000"

definition getInteractiveAuthProjectionContinueDelayMs :: "environment \<Rightarrow> int" where
  "getInteractiveAuthProjectionContinueDelayMs env =
     whole_setting True env ''CUED_INTERACTIVE_AUTH_PROJECTION_CONTINUE_DELAY_MS'' 5000"

definition getProjectionBatchSize :: "environment \<Rightarrow> rat" where
  "getProjectionBatchSize env = positive_setting env ''CUED_PROJECTION_BATCH_SIZE'' 100"

definition getMessageFtsIndexBatchSize :: "environment \<Rightarrow> rat" where
  "getMessageFtsIndexBatchSize env = positive_setting env ''CUED_MESSAGE_FTS_INDEX_BATCH_SIZE'' 250"

definition getRealtimeProjectionEnabled :: "environment \<Rightarrow> bool" where
  "getRealtimeProjectionEnabled env = switch_setting env ''CUED_REALTIME_PROJECTION_ENABLED'' True"

definition getSlackRealtimeEnabled :: "environment \<Rightarrow> bool" where
  "getSlackRealtimeEnabled env = switch_setting env ''CUED_SLACK_REALTIME_ENABLED'' False"

definition getDiscordRealtimeEnabled :: "environment \<Rightarrow> bool" where
  "getDiscordRealtimeEnabled env = switch_setting env ''CUED_DISCORD_REALTIME_ENABLED'' True"

definition getRealtimeProjectionBatchSize :: "environment \<Rightarrow> rat" where
  "getRealtimeProjectionBatchSize env =
     positive_setting env ''CUED_REALTIME_PROJECTION_BATCH_SIZE'' (getProjectionBatchSize env)"

definition getSyncContinueDelayMs :: "environment \<Rightarrow> int" where
  "getSyncContinueDelayMs env = whole_setting True env ''CUED_SYNC_CONTINUE_DELAY_MS'' 15000"

definition getSyncContinueDelayMsForPlatform :: "environment \<Rightarrow> platform \<Rightarrow> int" where
  "getSyncContinueDelayMsForPlatform env platform = (if platform = IMessage then 0 else getSyncContinueDelayMs env)"

definition getSignalReconnectSyncCooldownMs :: "environment \<Rightarrow> int" where
  "getSignalReconnectSyncCooldownMs env = whole_setting True env ''CUED_SIGNAL_RECONNECT_SYNC_COOLDOWN_MS'' 300000"

definition getDeferredProjectionCoalesceMs :: "environment \<Rightarrow> rat" where
  "getDeferredProjectionCoalesceMs env = delay_setting env ''CUED_DEFERRED_PROJECTION_COALESCE_MS'' 250"

definition getAutoSyncProjectionBacklogPauseEvents :: "environment \<Rightarrow> int" where
  "getAutoSyncProjectionBacklogPauseEvents env =
     whole_setting True env ''CUED_AUTOSYNC_PROJECTION_BACKLOG_PAUSE_EVENTS'' 5000"

definition getProjectionContinueDelayMs :: "environment \<Rightarrow> int" where
  "getProjectionContinueDelayMs env = whole_setting True env ''CUED_PROJECTION_CONTINUE_DELAY_MS'' 5000"

definition getContinuationProjectionIntervalMs :: "environment \<Rightarrow> int" where
  "getContinuationProjectionIntervalMs env = whole_setting True env ''CUED_CONTINUATION_PROJECTION_INTERVAL_MS'' 2000"

definition getContinuationProjectionBacklogEvents :: "environment \<Rightarrow> int" where
  "getContinuationProjectionBacklogEvents env = whole_setting True env ''CUED_CONTINUATION_PROJECTION_BACKLOG_EVENTS'' 500"

definition getWhatsAppResyncPageBudget :: "environment \<Rightarrow> int" where
  "getWhatsAppResyncPageBudget env = whole_setting False env ''CUED_WHATSAPP_RESYNC_PAGE_BUDGET'' 10"

text \<open>\<open>toUpperCase\<close> on the letters that occur in platform names.\<close>

definition ch_upper :: "char \<Rightarrow> char" where
  "ch_upper c = (let n = of_char c :: nat in if 97 \<le> n \<and> n \<le> 122 then char_of (n - 32) else c)"

definition interval_variable :: "platform \<Rightarrow> string" where
  "interval_variable p = ''CUED_AUTOSYNC_INTERVAL_'' @ map ch_upper (platform_name p) @ ''_MS''"

definition default_interval :: "platform \<Rightarrow> rat" where
  "default_interval p = (case p of Signal \<Rightarrow> 300000 | WhatsApp \<Rightarrow> 300000 | Discord \<Rightarrow> 600000 | _ \<Rightarrow> 60000)"

definition getAutoSyncIntervalMs :: "environment \<Rightarrow> platform \<Rightarrow> rat" where
  "getAutoSyncIntervalMs env p =
     positive_setting env (interval_variable p) (positive_setting env ''CUED_AUTOSYNC_INTERVAL_MS'' (default_interval p))"

subsection \<open>Following the backlog\<close>

record backlog_tier =
  bt_min :: int
  bt_batch :: rat
  bt_delay :: "int option"

definition PROJECTION_BACKLOG_TIERS :: "backlog_tier list" where
  "PROJECTION_BACKLOG_TIERS =
     [\<lparr>bt_min = 100000, bt_batch = 2000, bt_delay = Some 0\<rparr>,
      \<lparr>bt_min = 25000, bt_batch = 1500, bt_delay = Some 0\<rparr>,
      \<lparr>bt_min = 5000, bt_batch = 1000, bt_delay = Some 0\<rparr>,
      \<lparr>bt_min = 1000, bt_batch = 500, bt_delay = None\<rparr>]"

definition getAdaptiveProjectionBatchSize :: "environment \<Rightarrow> int \<Rightarrow> rat option \<Rightarrow> rat" where
  "getAdaptiveProjectionBatchSize env pendingRawEvents maxBatchSize =
     (let base = getProjectionBatchSize env;
          tier = find (\<lambda>t. bt_min t \<le> pendingRawEvents) PROJECTION_BACKLOG_TIERS;
          adaptive = max base (get_or (map_option bt_batch tier) base)
      in case maxBatchSize of Some m \<Rightarrow> max 1 (min adaptive m) | None \<Rightarrow> adaptive)"

definition getAdaptiveProjectionContinueDelayMs :: "environment \<Rightarrow> int \<Rightarrow> int" where
  "getAdaptiveProjectionContinueDelayMs env pendingRawEvents =
     (if env ''CUED_PROJECTION_CONTINUE_DELAY_MS'' \<noteq> None then getProjectionContinueDelayMs env
      else get_or (Option.bind (find (\<lambda>t. bt_min t \<le> pendingRawEvents \<and> bt_delay t \<noteq> None) PROJECTION_BACKLOG_TIERS) bt_delay)
             (getProjectionContinueDelayMs env))"

definition shouldDeferContinuationProjection :: "bool \<Rightarrow> int \<Rightarrow> int \<Rightarrow> int \<Rightarrow> int \<Rightarrow> int \<Rightarrow> bool" where
  "shouldDeferContinuationProjection hasMore pendingRawEvents lastProjectionQueuedAt nowMs intervalMs backlogEvents \<longleftrightarrow>
     hasMore \<and> 0 < pendingRawEvents \<and> pendingRawEvents < backlogEvents \<and> nowMs - lastProjectionQueuedAt < intervalMs"


subsection \<open>Pacing of quiet sources\<close>

type_synonym pacing = "string \<rightharpoonup> nat"

definition pacing_reset :: "string \<Rightarrow> pacing \<Rightarrow> pacing" where
  "pacing_reset key quietRuns = quietRuns(key := None)"

definition pacing_record :: "string \<Rightarrow> nat \<Rightarrow> bool \<Rightarrow> pacing \<Rightarrow> pacing" where
  "pacing_record key insertedEvents hasMore quietRuns =
     (if 0 < insertedEvents \<or> hasMore then pacing_reset key quietRuns
      else quietRuns(key \<mapsto> min 3 (get_or (quietRuns key) 0 + 1)))"

definition pacing_interval :: "string \<Rightarrow> rat \<Rightarrow> bool \<Rightarrow> pacing \<Rightarrow> rat" where
  "pacing_interval key baseMs realtimeConnected quietRuns =
     baseMs * min (if realtimeConnected then 8 else 2) (2 ^ get_or (quietRuns key) 0)"

text \<open>What happens to the pacing: a run ends, or a source is reset (realtime activity, a failed run).\<close>

datatype pacing_event = Recorded string nat bool | WasReset string

fun pace :: "pacing_event \<Rightarrow> pacing \<Rightarrow> pacing" where
  "pace (Recorded key n hasMore) m = pacing_record key n hasMore m"
| "pace (WasReset key) m = pacing_reset key m"

subsection \<open>Interactive authentication\<close>

record auth_sessions =
  active_until :: int
  expirations :: "(string, int) js_map"

definition no_sessions :: auth_sessions where
  "no_sessions = \<lparr>active_until = 0, expirations = []\<rparr>"

definition auth_refresh :: "int \<Rightarrow> auth_sessions \<Rightarrow> auth_sessions" where
  "auth_refresh nowMs st =
     (let live = filter (\<lambda>(i, t). nowMs < t) (expirations st)
      in \<lparr>active_until = foldr max (map snd live) 0, expirations = live\<rparr>)"

definition auth_isActive :: "int \<Rightarrow> auth_sessions \<Rightarrow> bool \<times> auth_sessions" where
  "auth_isActive nowMs st = (let st' = auth_refresh nowMs st in (nowMs < active_until st', st'))"

definition auth_status :: "int \<Rightarrow> auth_sessions \<Rightarrow> (bool \<times> int option) \<times> auth_sessions" where
  "auth_status nowMs st =
     (case auth_isActive nowMs st of (active, st') \<Rightarrow> ((active, if active then Some (active_until st') else None), st'))"

definition auth_expiresAt :: "int \<Rightarrow> auth_sessions \<Rightarrow> int option \<times> auth_sessions" where
  "auth_expiresAt nowMs st =
     (case auth_isActive nowMs (auth_refresh nowMs st) of (active, st') \<Rightarrow> (if active then Some (active_until st') else None, st'))"

definition auth_begin :: "int \<Rightarrow> string \<Rightarrow> int \<Rightarrow> auth_sessions \<Rightarrow> (bool \<times> int option) \<times> auth_sessions" where
  "auth_begin nowMs sessionId ttlMs st =
     auth_status nowMs (auth_refresh nowMs (st\<lparr>expirations := map_set sessionId (nowMs + ttlMs) (expirations st)\<rparr>))"

definition auth_end :: "int \<Rightarrow> string \<Rightarrow> auth_sessions \<Rightarrow> (bool \<times> int option) \<times> auth_sessions" where
  "auth_end nowMs sessionId st =
     auth_status nowMs (auth_refresh nowMs (st\<lparr>expirations := AList.delete sessionId (expirations st)\<rparr>))"

text \<open>The settings in force, which depend on whether a person is signing in.\<close>

definition getEffectiveIngestConcurrency :: "environment \<Rightarrow> bool \<Rightarrow> rat" where
  "getEffectiveIngestConcurrency env interactive = (if interactive then 1 else getIngestConcurrency env)"

definition getEffectiveProjectionBatchSize :: "environment \<Rightarrow> bool \<Rightarrow> int \<Rightarrow> rat" where
  "getEffectiveProjectionBatchSize env interactive pendingRawEvents =
     getAdaptiveProjectionBatchSize env pendingRawEvents
       (if interactive then Some (of_int (getInteractiveAuthProjectionBatchSize env)) else None)"

definition getEffectiveSyncContinueDelayMs :: "environment \<Rightarrow> bool \<Rightarrow> platform \<Rightarrow> int" where
  "getEffectiveSyncContinueDelayMs env interactive platform =
     (let baseDelayMs = getSyncContinueDelayMsForPlatform env platform
      in if interactive then max baseDelayMs (getInteractiveAuthSyncContinueDelayMs env) else baseDelayMs)"

definition getEffectiveProjectionContinueDelayMs :: "environment \<Rightarrow> bool \<Rightarrow> int \<Rightarrow> int" where
  "getEffectiveProjectionContinueDelayMs env interactive pendingRawEvents =
     (let baseDelayMs = getAdaptiveProjectionContinueDelayMs env pendingRawEvents
      in if interactive then max baseDelayMs (getInteractiveAuthProjectionContinueDelayMs env) else baseDelayMs)"

definition normalizedTtlMs :: "environment \<Rightarrow> js_num option \<Rightarrow> int" where
  "normalizedTtlMs env ttlMs =
     (case ttlMs of Some (Fin x) \<Rightarrow> if 0 < x then rat_trunc x else getInteractiveAuthTtlMs env
      | _ \<Rightarrow> getInteractiveAuthTtlMs env)"

subsection \<open>Bounds\<close>

lemma positive_setting_pos: "0 < fallback \<Longrightarrow> 0 < positive_setting env name fallback"
  by (simp add: positive_setting_def split: option.split)

lemma tier_values:
  "find (\<lambda>t. bt_min t \<le> n) PROJECTION_BACKLOG_TIERS = Some t \<Longrightarrow> 500 \<le> bt_batch t \<and> bt_batch t \<le> 2000 \<and> bt_min t \<le> n"
  by (auto simp: PROJECTION_BACKLOG_TIERS_def split: if_splits)

lemma tier_mono:
  "m \<le> n \<Longrightarrow> find (\<lambda>t. bt_min t \<le> m) PROJECTION_BACKLOG_TIERS = Some s \<Longrightarrow>
   \<exists>t. find (\<lambda>t. bt_min t \<le> n) PROJECTION_BACKLOG_TIERS = Some t \<and> bt_batch s \<le> bt_batch t"
  by (auto simp: PROJECTION_BACKLOG_TIERS_def split: if_splits)

text \<open>
  C38: the batch size follows the backlog within bounds. It never falls as the backlog grows, it is never below the
  configured size nor above the larger of that size and 2000, a cap keeps it at the cap (and at least at one), and the
  pause after a batch never grows with the backlog.
\<close>

theorem adaptive_batch_bounds:
  assumes "m \<le> n"
  shows "getAdaptiveProjectionBatchSize env m cap \<le> getAdaptiveProjectionBatchSize env n cap \<and>
    getProjectionBatchSize env \<le> getAdaptiveProjectionBatchSize env n None \<and>
    0 < getAdaptiveProjectionBatchSize env n cap \<and>
    getAdaptiveProjectionBatchSize env n None \<le> max (getProjectionBatchSize env) 2000 \<and>
    getAdaptiveProjectionBatchSize env n (Some k) \<le> max 1 k \<and> 1 \<le> getAdaptiveProjectionBatchSize env n (Some k) \<and>
    getAdaptiveProjectionContinueDelayMs env n \<le> max 0 (getAdaptiveProjectionContinueDelayMs env m)"
proof -
  let ?f = "\<lambda>n. get_or (map_option bt_batch (find (\<lambda>t. bt_min t \<le> n) PROJECTION_BACKLOG_TIERS)) (getProjectionBatchSize env)"
  have b: "0 < getProjectionBatchSize env" by (simp add: getProjectionBatchSize_def positive_setting_pos)
  have mono: "max (getProjectionBatchSize env) (?f m) \<le> max (getProjectionBatchSize env) (?f n)"
    using tier_mono [OF assms] by (cases "find (\<lambda>t. bt_min t \<le> m) PROJECTION_BACKLOG_TIERS") (auto simp: max_def)
  have upper: "max (getProjectionBatchSize env) (?f n) \<le> max (getProjectionBatchSize env) 2000"
    using tier_values [of n] by (cases "find (\<lambda>t. bt_min t \<le> n) PROJECTION_BACKLOG_TIERS") (auto simp: max_def)
  have delay: "getAdaptiveProjectionContinueDelayMs env n \<le> max 0 (getAdaptiveProjectionContinueDelayMs env m)"
    using assms by (auto simp: getAdaptiveProjectionContinueDelayMs_def PROJECTION_BACKLOG_TIERS_def)
  show ?thesis using mono upper b delay
    by (auto simp: getAdaptiveProjectionBatchSize_def Let_def split: option.split)
qed

theorem adaptive_batch_bounds_witness:
  "getAdaptiveProjectionBatchSize (\<lambda>_. None) 999 None = 100 \<and> getAdaptiveProjectionBatchSize (\<lambda>_. None) 30000 None = 1500 \<and>
   getAdaptiveProjectionBatchSize (\<lambda>_. None) 999 None \<le> getAdaptiveProjectionBatchSize (\<lambda>_. None) 30000 None"
  using adaptive_batch_bounds [of 999 30000 "\<lambda>_. None" None 1]
  by (simp add: getAdaptiveProjectionBatchSize_def getProjectionBatchSize_def positive_setting_def env_number_def PROJECTION_BACKLOG_TIERS_def)


subsection \<open>The pace follows the runs since the last activity\<close>

text \<open>The number of quiet runs of a source since anything happened to it, newest event first.\<close>

fun quiet_streak :: "string \<Rightarrow> pacing_event list \<Rightarrow> nat" where
  "quiet_streak key [] = 0"
| "quiet_streak key (Recorded k n hasMore # es) =
     (if k \<noteq> key then quiet_streak key es else if 0 < n \<or> hasMore then 0 else Suc (quiet_streak key es))"
| "quiet_streak key (WasReset k # es) = (if k = key then 0 else quiet_streak key es)"

lemma pace_counts: "get_or (foldr pace es Map.empty key) 0 = min 3 (quiet_streak key es)"
  by (induction es rule: quiet_streak.induct) (auto simp: pacing_record_def pacing_reset_def)

lemma capped_power: "min c (2 ^ min 3 n) = min c (2 ^ n)" if "c \<le> (8::rat)"
proof (cases "n \<le> 3")
  case False
  then have "(2::rat) ^ 3 \<le> 2 ^ n" by (intro power_increasing) simp_all
  then show ?thesis using that False by (simp add: min_def)
qed (simp add: min_def)

lemma pacing_doubles:
  "pacing_interval key baseMs realtime (foldr pace es Map.empty) =
   baseMs * min (if realtime then 8 else 2) (2 ^ quiet_streak key es)"
  by (simp add: pacing_interval_def pace_counts capped_power)

subsection \<open>A sign-in is on while some session is\<close>

datatype auth_event = AuthBegan int string int | AuthEnded int string | AuthAsked int

fun event_time :: "auth_event \<Rightarrow> int" where
  "event_time (AuthBegan t i ttl) = t"
| "event_time (AuthEnded t i) = t"
| "event_time (AuthAsked t) = t"

fun auth_step :: "auth_event \<Rightarrow> auth_sessions \<Rightarrow> auth_sessions" where
  "auth_step (AuthBegan t i ttl) st = snd (auth_begin t i ttl st)"
| "auth_step (AuthEnded t i) st = snd (auth_end t i st)"
| "auth_step (AuthAsked t) st = snd (auth_isActive t st)"

text \<open>The time at which a session runs out, from the calls alone, newest first.\<close>

fun session_expiry :: "string \<Rightarrow> auth_event list \<Rightarrow> int option" where
  "session_expiry i [] = None"
| "session_expiry i (AuthBegan t j ttl # es) = (if i = j then Some (t + ttl) else session_expiry i es)"
| "session_expiry i (AuthEnded t j # es) = (if i = j then None else session_expiry i es)"
| "session_expiry i (AuthAsked t # es) = session_expiry i es"

definition live_until :: "int \<Rightarrow> int option \<Rightarrow> int option" where
  "live_until now t = (case t of None \<Rightarrow> None | Some x \<Rightarrow> if now < x then Some x else None)"

lemma map_of_filter_live:
  "distinct (map fst m) \<Longrightarrow> map_of (filter (\<lambda>(i, t). now < t) m) i = live_until now (map_of m i)"
proof (induction m)
  case (Cons p m)
  moreover have "map_of (filter (\<lambda>(i, t). now < t) m) (fst p) = None" if "fst p \<notin> fst ` set m"
    using that by (auto simp: map_of_eq_None_iff)
  ultimately show ?case by (cases p) (auto simp: live_until_def)
qed (simp add: live_until_def)

lemma live_until_twice: "now \<le> now' \<Longrightarrow> live_until now' (live_until now t) = live_until now' t"
  by (simp add: live_until_def split: option.split)

definition knows :: "auth_event list \<Rightarrow> int \<Rightarrow> auth_sessions \<Rightarrow> bool" where
  "knows es now st \<longleftrightarrow> distinct (map fst (expirations st)) \<and>
     (\<forall>i. map_of (expirations st) i = live_until now (session_expiry i es))"

lemma distinct_filter_keys: "distinct (map fst m) \<Longrightarrow> distinct (map fst (filter P m))"
  by (induction m) auto

lemma refresh_expirations: "expirations (auth_refresh now st) = filter (\<lambda>(i, t). now < t) (expirations st)"
  by (simp add: auth_refresh_def Let_def)

lemma refresh_idem: "auth_refresh now (auth_refresh now st) = auth_refresh now st"
  by (simp add: auth_refresh_def Let_def)

lemma step_expirations:
  "auth_step (AuthBegan t i ttl) st = auth_refresh t (st\<lparr>expirations := map_set i (t + ttl) (expirations st)\<rparr>)"
  "auth_step (AuthEnded t i) st = auth_refresh t (st\<lparr>expirations := AList.delete i (expirations st)\<rparr>)"
  "auth_step (AuthAsked t) st = auth_refresh t st"
  by (simp_all add: auth_begin_def auth_end_def auth_status_def auth_isActive_def Let_def refresh_idem)

lemma auth_log: "sorted (map event_time (rev es)) \<Longrightarrow> \<exists>now. (es = [] \<or> now = event_time (hd es)) \<and> knows es now (foldr auth_step es no_sessions)"
proof (induction es)
  case Nil
  then show ?case by (auto simp: knows_def no_sessions_def live_until_def)
next
  case (Cons e es)
  let ?st = "foldr auth_step es no_sessions"
  from Cons obtain now where k: "es = [] \<or> now = event_time (hd es)" "knows es now ?st" by (auto simp: sorted_append)
  have le: "es \<noteq> [] \<Longrightarrow> now \<le> event_time e" using Cons.prems k(1) by (cases es) (auto simp: sorted_append)
  have none: "es = [] \<Longrightarrow> live_until t (session_expiry i es) = None" for t i by (simp add: live_until_def)
  have look: "live_until (event_time e) (map_of (expirations ?st) i) = live_until (event_time e) (session_expiry i es)" for i
    using k(2) le live_until_twice none by (cases "es = []") (auto simp: knows_def live_until_def)
  have d: "distinct (map fst (expirations ?st))" using k(2) by (simp add: knows_def)
  have "knows (e # es) (event_time e) (auth_step e ?st)"
  proof (cases e)
    case (AuthBegan t i ttl)
    have d': "distinct (map fst (map_set i (t + ttl) (expirations ?st)))" using d by (simp add: map_set_def distinct_update)
    show ?thesis using d' look
      by (simp add: AuthBegan knows_def step_expirations refresh_expirations distinct_filter_keys map_of_filter_live del: auth_step.simps)
  next
    case (AuthEnded t i)
    have d': "distinct (map fst (AList.delete i (expirations ?st)))" using d by (simp add: distinct_delete)
    show ?thesis using d' look
      by (auto simp: AuthEnded knows_def step_expirations refresh_expirations distinct_filter_keys map_of_filter_live delete_conv live_until_def simp del: auth_step.simps)
  next
    case (AuthAsked t)
    then show ?thesis using d look
      by (simp add: knows_def step_expirations refresh_expirations distinct_filter_keys map_of_filter_live del: auth_step.simps)
  qed
  then show ?case by (intro exI [of _ "event_time e"]) simp
qed

text \<open>
  C39: the sign-in mode is on exactly while a session that was begun, and neither ended nor replaced, has not run out;
  the time it reports is the last of those.
\<close>

theorem interactive_auth_exact:
  assumes "sorted (map event_time (rev es))" and "es = [] \<or> event_time (hd es) \<le> now" and "0 \<le> now"
  shows "fst (auth_status now (foldr auth_step es no_sessions)) =
    (let live = {t. \<exists>i. session_expiry i es = Some t \<and> now < t} in (live \<noteq> {}, if live = {} then None else Some (Max live)))"
proof -
  let ?st = "foldr auth_step es no_sessions"
  let ?live = "{t. \<exists>i. session_expiry i es = Some t \<and> now < t}"
  obtain now0 where k: "es = [] \<or> now0 = event_time (hd es)" "knows es now0 ?st" using auth_log [OF assms(1)] by blast
  let ?xs = "filter (\<lambda>(i, t). now < t) (expirations ?st)"
  have d: "distinct (map fst (expirations ?st))" using k(2) by (simp add: knows_def)
  have "map_of ?xs i = live_until now (session_expiry i es)" for i
    using k assms(2) live_until_twice map_of_filter_live [OF d, of now i] by (cases "es = []") (auto simp: knows_def live_until_def)
  moreover have "set (map snd ?xs) = {t. \<exists>i. map_of ?xs i = Some t}"
    using distinct_filter_keys [OF d] by (force simp: image_iff map_of_eq_Some_iff)
  ultimately have s: "set (map snd ?xs) = ?live" by (auto simp: live_until_def split: option.splits if_splits)
  have m: "foldr max ys 0 = (if ys = [] then 0 else Max (set ys))" if "\<forall>y\<in>set ys. (0::int) < y" for ys
    using that by (induction ys) (auto simp: max_def)
  have pos: "\<forall>y\<in>set (map snd ?xs). 0 < y" unfolding s using assms(3) by auto
  have au: "active_until (auth_refresh now ?st) = (if ?live = {} then 0 else Max ?live)"
    using m [OF pos] by (simp only: auth_refresh_def Let_def auth_sessions.simps s [symmetric] set_empty map_is_Nil_conv)
  have fin: "finite ?live" using s by (metis finite_set)
  have "?live \<noteq> {} \<Longrightarrow> now < Max ?live" using fin Max_in [OF fin] by blast
  then show ?thesis using au assms(3) by (simp add: auth_status_def auth_isActive_def Let_def)
qed

theorem interactive_auth_exact_witness:
  "fst (auth_status 20 (foldr auth_step [AuthEnded 12 ''a'', AuthBegan 11 ''b'' 50, AuthBegan 10 ''a'' 100] no_sessions)) = (True, Some 61)"
proof -
  have "{t. \<exists>i. session_expiry i [AuthEnded 12 ''a'', AuthBegan 11 ''b'' 50, AuthBegan 10 ''a'' 100] = Some t \<and> 20 < t} = {61}"
    by (auto split: if_splits)
  then show ?thesis
    using interactive_auth_exact [of "[AuthEnded 12 ''a'', AuthBegan 11 ''b'' 50, AuthBegan 10 ''a'' 100]" 20] by simp
qed

end
