(* ===== verification/AutoSync.thy ===== *)
theory AutoSync
  imports DaemonSettings RunQueue ProjectionWorker
begin

text \<open>
  Which accounts the daemon syncs by itself and when (\<^verbatim>\<open>src/runtime/daemon/server.ts\<close>):
  \<open>getAutoSyncTargets\<close>, \<open>buildSyncResumeTargets\<close>, \<open>queueAutoSyncRuns\<close> and
  \<open>queueNativeTriggeredSync\<close>. The states of the realtime connections are arguments; a database that is busy
  queues nothing.
\<close>

subsection \<open>Which accounts\<close>

definition configured_platforms :: "string \<Rightarrow> platform list" where
  "configured_platforms raw =
     js_set_list (List.map_filter (\<lambda>v. if isAdapterPlatform v then parsePlatform v else None) (map js_trim (split_at CHR '','' raw)))"

definition getConfiguredAutoSyncPlatforms :: "environment \<Rightarrow> platform list option" where
  "getConfiguredAutoSyncPlatforms env =
     (case map_option js_trim (env ''CUED_AUTOSYNC_PLATFORMS'') of
        None \<Rightarrow> None
      | Some raw \<Rightarrow> if raw = [] \<or> js_lower raw \<in> {''0'', ''false'', ''none'', ''off''} then Some []
                    else Some (configured_platforms raw))"

definition getConfiguredRealtimePlatforms :: "environment \<Rightarrow> platform list option" where
  "getConfiguredRealtimePlatforms env =
     (case map_option js_trim (env ''CUED_REALTIME_PLATFORMS'') of
        None \<Rightarrow> None
      | Some raw \<Rightarrow> if raw = [] then None
                    else if js_lower raw \<in> {''0'', ''false'', ''none'', ''off''} then Some []
                    else Some (configured_platforms raw))"

definition adapter_targets :: "(string \<times> string) list \<Rightarrow> (platform \<times> string) list" where
  "adapter_targets targets =
     List.map_filter (\<lambda>(p, a). if isAdapterPlatform p then map_option (\<lambda>q. (q, a)) (parsePlatform p) else None) targets"

definition default_target :: "platform \<Rightarrow> platform \<times> string" where
  "default_target p = (p, getDefaultAccountKeyForPlatform p)"

text \<open>Every adapter of \<^verbatim>\<open>src/platforms/core/registry.ts\<close> syncs automatically; the order is that of the registry.\<close>

definition listAutoSyncPlatforms :: "platform list" where
  "listAutoSyncPlatforms = [IMessage, Discord, Contacts, Gmail, LinkedIn, Slack, Signal, WhatsApp]"

definition getAutoSyncTargets :: "environment \<Rightarrow> integration_db \<Rightarrow> (platform \<times> string) list" where
  "getAutoSyncTargets env db =
     (let states = listIntegrationStates db;
          enabled = adapter_targets (listEnabledSyncTargets db)
      in case getConfiguredAutoSyncPlatforms env of
           Some configured \<Rightarrow>
             if states = [] then map default_target configured
             else filter (\<lambda>t. fst t \<in> set configured) enabled
         | None \<Rightarrow>
             if enabled \<noteq> [] then enabled
             else if states \<noteq> [] then [] else map default_target listAutoSyncPlatforms)"

definition buildSyncResumeTargets ::
  "environment \<Rightarrow> (string \<times> string) list \<Rightarrow> integration_db \<Rightarrow> (platform \<times> string) list" where
  "buildSyncResumeTargets env checkpointTargets db = getAutoSyncTargets env db @ adapter_targets checkpointTargets"

subsection \<open>Queueing\<close>

record daemon =
  dm_service :: service
  dm_integrations :: integration_db
  dm_last_queued :: "string \<rightharpoonup> int"
  dm_pacing :: pacing

text \<open>The realtime sessions by platform and account, with their state.\<close>

type_synonym realtime = "platform \<Rightarrow> string \<Rightarrow> string option"

definition hasConnectedRealtime :: "realtime \<Rightarrow> platform \<Rightarrow> string \<Rightarrow> bool" where
  "hasConnectedRealtime sessions p a \<longleftrightarrow> p \<in> {Discord, LinkedIn, Signal, WhatsApp} \<and> sessions p a = Some ''connected''"

definition shouldSkipConnectedDiscordSchedulerSync :: "platform \<Rightarrow> string \<Rightarrow> string option \<Rightarrow> bool" where
  "shouldSkipConnectedDiscordSchedulerSync p trigger status \<longleftrightarrow>
     p = Discord \<and> trigger = ''scheduler'' \<and> status = Some ''connected''"

definition sync_interval :: "environment \<Rightarrow> pacing \<Rightarrow> realtime \<Rightarrow> platform \<times> string \<Rightarrow> rat" where
  "sync_interval env quiet sessions t = (case t of (p, a) \<Rightarrow>
     if env ''CUED_AUTOSYNC_INTERVAL_MS'' \<noteq> None \<or> env (interval_variable p) \<noteq> None then getAutoSyncIntervalMs env p
     else pacing_interval (source_key (platform_name p) a) (getAutoSyncIntervalMs env p) (hasConnectedRealtime sessions p a) quiet)"

definition auto_due ::
  "environment \<Rightarrow> pacing \<Rightarrow> realtime \<Rightarrow> int \<Rightarrow> string \<Rightarrow> int \<Rightarrow> (string \<rightharpoonup> int) \<Rightarrow> platform \<times> string \<Rightarrow> bool" where
  "auto_due env quiet sessions startedAt trigger queuedAt seen t = (case t of (p, a) \<Rightarrow>
     (trigger = ''scheduler'' \<longrightarrow>
        sync_interval env quiet sessions t \<le> of_int (queuedAt - get_or (seen (source_key (platform_name p) a)) startedAt)) \<and>
     \<not> shouldSkipConnectedDiscordSchedulerSync p trigger (if p = Discord then sessions p a else None))"

definition triggered_input :: "string \<Rightarrow> platform \<times> string \<Rightarrow> run_input" where
  "triggered_input trigger target =
     \<lparr>ri_platform = Some (fst target), ri_account = Some (snd target), ri_type = RtSync, ri_trigger = trigger,
      ri_details = Some (JObj [(''source'', JStr (platform_name (fst target))), (''accountKey'', JStr (snd target)),
                               (''trigger'', JStr trigger)]),
      ri_scheduled_at = None, ri_delay_ms = None\<rparr>"

definition queue_triggered ::
  "int \<Rightarrow> (nat \<Rightarrow> string) \<Rightarrow> string \<Rightarrow> nat \<Rightarrow> platform \<times> string \<Rightarrow> run_db \<Rightarrow> db_error + string \<times> run_db" where
  "queue_triggered now fresh trigger k target runs = db_queueSyncRun now (fresh k) (triggered_input trigger target) runs"

fun auto_loop ::
  "((string \<rightharpoonup> int) \<Rightarrow> platform \<times> string \<Rightarrow> bool) \<Rightarrow> int \<Rightarrow> (nat \<Rightarrow> string) \<Rightarrow> string \<Rightarrow> nat \<Rightarrow> (platform \<times> string) list \<Rightarrow>
   run_db \<times> (string \<rightharpoonup> int) \<Rightarrow> db_error + string list \<times> run_db \<times> (string \<rightharpoonup> int)" where
  "auto_loop due queuedAt fresh trigger k [] st = Inr ([], st)"
| "auto_loop due queuedAt fresh trigger k (t # ts) (runs, seen) =
     (if \<not> due seen t \<or> target_active runs t then auto_loop due queuedAt fresh trigger k ts (runs, seen)
      else ebind (queue_triggered queuedAt fresh trigger k t runs) (\<lambda>(i, runs').
             ebind (auto_loop due queuedAt fresh trigger (Suc k) ts
                      (runs', seen(source_key (platform_name (fst t)) (snd t) \<mapsto> queuedAt)))
               (\<lambda>(ids, st'). Inr (i # ids, st'))))"

text \<open>
  The scheduler waits for the bootstrap and for a large projection backlog to drain; looking at the backlog creates the
  projection state when there is none.
\<close>

definition queueAutoSyncRuns ::
  "environment \<Rightarrow> realtime \<Rightarrow> int \<Rightarrow> bool \<Rightarrow> bool \<Rightarrow> int \<Rightarrow> (nat \<Rightarrow> string) \<Rightarrow> string \<Rightarrow> daemon \<Rightarrow>
   db_error + wake list \<times> daemon" where
  "queueAutoSyncRuns env sessions startedAt ready shuttingDown now fresh trigger d =
     (if shuttingDown \<or> trigger = ''scheduler'' \<and> \<not> ready then Inr ([], d)
      else let pause = getAutoSyncProjectionBacklogPauseEvents env; e = sv_engine (dm_service d) in
        case getProjectionBacklog now True (en_raw e) (en_state e) of ((_, _, pending), state) \<Rightarrow>
          let looks = (trigger = ''scheduler'' \<and> 0 < pause);
              d1 = (if looks then d\<lparr>dm_service := (dm_service d)\<lparr>sv_engine := e\<lparr>en_state := state\<rparr>\<rparr>\<rparr> else d)
          in if looks \<and> pause \<le> int pending then Inr ([], d1)
             else ebind (auto_loop (auto_due env (dm_pacing d) sessions startedAt trigger now) now fresh trigger 0
                     (getAutoSyncTargets env (dm_integrations d)) (sv_runs (dm_service d), dm_last_queued d))
                   (\<lambda>(ids, runs, seen).
                      Inr (if ids \<noteq> [] then [WakeIngest] else [],
                           d1\<lparr>dm_service := (dm_service d1)\<lparr>sv_runs := runs\<rparr>, dm_last_queued := seen\<rparr>)))"

definition queueNativeTriggeredSync ::
  "int \<Rightarrow> string \<Rightarrow> platform \<Rightarrow> string \<Rightarrow> string \<Rightarrow> integration_db \<Rightarrow> run_db \<Rightarrow> db_error + wake list \<times> run_db" where
  "queueNativeTriggeredSync now uuid platform accountKey trigger integrations runs =
     (case getIntegrationState (platform_name platform) accountKey integrations of
        None \<Rightarrow> Inr ([], runs)
      | Some r \<Rightarrow>
          if \<not> in_enabled r \<or> \<not> in_sync_capable r \<or> target_active runs (platform, accountKey) then Inr ([], runs)
          else ebind (queue_triggered now (\<lambda>_. uuid) trigger 0 (platform, accountKey) runs) (\<lambda>(_, runs'). Inr ([WakeIngest], runs')))"

subsection \<open>One run per account\<close>

lemma active_triggered: "active_run u (queued_run t i (triggered_input trigger target)) \<longleftrightarrow> u = target"
  by (cases u; cases target) (auto simp: active_run_def queued_run_def triggered_input_def)

interpretation triggered: run_store target_active "queue_triggered now fresh trigger" active_count
  for now :: int and fresh :: "nat \<Rightarrow> string" and trigger :: string
proof
  show "target_active d t \<longleftrightarrow> 0 < active_count d t" for d t by (rule target_active_count)
  show "queue_triggered now fresh trigger k t d = Inr (r, d') \<Longrightarrow>
      active_count d' u = active_count d u + (if u = t then 1 else 0)" for k t d r d' u
    unfolding queue_triggered_def
    by (drule db_queueSyncRun_runs) (simp add: active_count_def active_triggered)
qed

lemma source_key_eq: "source_key (platform_name p) a = source_key (platform_name q) b \<longleftrightarrow> p = q \<and> a = b"
  using parse_target_SomeD target_key_parse_iff takeWhile_source_key [of p a] takeWhile_source_key [of q b]
  by (auto simp: source_key_def)

text \<open>The loop is the idle loop over the accounts that are due at its start: what it queues is active from then on.\<close>

lemma auto_loop_idle:
  assumes "auto_loop due queuedAt fresh trigger k ts (runs, seen') = Inr (ids, runs', seen'')"
    and "\<And>t. due seen' t = due seen t \<or> target_active runs t"
    and local: "\<And>m p a v u. u \<noteq> (p, a) \<Longrightarrow> due (m(source_key (platform_name p) a \<mapsto> v)) u = due m u"
  shows "queue_idle target_active (queue_triggered queuedAt fresh trigger) k (filter (due seen) ts) runs = Inr (ids, runs') \<and>
    (\<forall>p a. seen'' (source_key (platform_name p) a) \<noteq> seen' (source_key (platform_name p) a) \<longrightarrow> (p, a) \<in> set (filter (due seen) ts) \<and>
       seen'' (source_key (platform_name p) a) = Some queuedAt)"
  using assms(1,2)
proof (induction ts arbitrary: k runs seen' ids)
  case (Cons t ts)
  show ?case
  proof (cases "\<not> due seen' t \<or> target_active runs t")
    case True
    then have rest: "auto_loop due queuedAt fresh trigger k ts (runs, seen') = Inr (ids, runs', seen'')"
      using Cons.prems(1) by simp
    from True Cons.prems(2) [of t] have "\<not> due seen t \<or> target_active runs t" by auto
    then show ?thesis using Cons.IH [OF rest Cons.prems(2)] by auto
  next
    case False
    obtain p a where t: "t = (p, a)" by (cases t)
    from False Cons.prems(1) obtain i runs1 ids1 where q: "queue_triggered queuedAt fresh trigger k t runs = Inr (i, runs1)"
      and rest: "auto_loop due queuedAt fresh trigger (Suc k) ts (runs1, seen'(source_key (platform_name p) a \<mapsto> queuedAt)) =
          Inr (ids1, runs', seen'')" and ids: "ids = i # ids1"
      by (auto simp: t ebind_eq_Inr_iff)
    have act: "target_active runs1 u" if "target_active runs u \<or> u = t" for u
      using that triggered.queue_adds [OF q, of u] by (auto simp: target_active_count split: if_splits)
    have "due (seen'(source_key (platform_name p) a \<mapsto> queuedAt)) u = due seen u \<or> target_active runs1 u" for u
      using act [of u] Cons.prems(2) [of u] local [of u p a seen' queuedAt] t by auto
    note ih = Cons.IH [OF rest this]
    have dl: "due seen t" using False Cons.prems(2) [of t] by auto
    have "queue_idle target_active (queue_triggered queuedAt fresh trigger) k (filter (due seen) (t # ts)) runs = Inr (ids, runs')"
      using dl False q ih ids by simp
    moreover have "seen'' (source_key (platform_name p') a') = Some queuedAt \<and> (p', a') \<in> set (filter (due seen) (t # ts))"
      if "seen'' (source_key (platform_name p') a') \<noteq> seen' (source_key (platform_name p') a')" for p' a'
      using ih that dl t by (cases "(p', a') = (p, a)") (fastforce simp: source_key_eq split: if_splits)+
    ultimately show ?thesis by blast
  qed
qed simp


definition auto_paused :: "environment \<Rightarrow> bool \<Rightarrow> string \<Rightarrow> engine \<Rightarrow> bool" where
  "auto_paused env ready trigger e \<longleftrightarrow> trigger = ''scheduler'' \<and>
     (\<not> ready \<or> 0 < getAutoSyncProjectionBacklogPauseEvents env \<and>
        getAutoSyncProjectionBacklogPauseEvents env \<le> int (max_rowid (en_raw e) - watermark e))"

definition auto_targets ::
  "environment \<Rightarrow> realtime \<Rightarrow> int \<Rightarrow> bool \<Rightarrow> int \<Rightarrow> string \<Rightarrow> daemon \<Rightarrow> (platform \<times> string) list" where
  "auto_targets env sessions startedAt ready now trigger d =
     (if auto_paused env ready trigger (sv_engine (dm_service d)) then []
      else filter (auto_due env (dm_pacing d) sessions startedAt trigger now (dm_last_queued d))
             (getAutoSyncTargets env (dm_integrations d)))"

lemma due_local:
  "u \<noteq> (p, a) \<Longrightarrow> auto_due env quiet sessions startedAt trigger queuedAt (m(source_key (platform_name p) a \<mapsto> v)) u =
     auto_due env quiet sessions startedAt trigger queuedAt m u"
  by (cases u) (auto simp: auto_due_def source_key_eq)

lemma queue_idle_ids: "queue_idle active queue k ts d = Inr (ids, d') \<Longrightarrow> ids = [] \<Longrightarrow> d' = d"
  by (induction ts arbitrary: k) (auto simp: ebind_eq_Inr_iff split: if_splits)

lemma queueAutoSyncRuns_idle:
  assumes "queueAutoSyncRuns env sessions startedAt ready False now fresh trigger d = Inr (wakes, d')"
  shows "\<exists>ids. queue_idle target_active (queue_triggered now fresh trigger) 0 (auto_targets env sessions startedAt ready now trigger d)
      (sv_runs (dm_service d)) = Inr (ids, sv_runs (dm_service d')) \<and> wakes = (if ids \<noteq> [] then [WakeIngest] else []) \<and>
    (\<forall>p a. dm_last_queued d' (source_key (platform_name p) a) \<noteq> dm_last_queued d (source_key (platform_name p) a) \<longrightarrow>
       (p, a) \<in> set (auto_targets env sessions startedAt ready now trigger d))"
proof (cases "auto_paused env ready trigger (sv_engine (dm_service d))")
  case True
  then have "wakes = [] \<and> sv_runs (dm_service d') = sv_runs (dm_service d) \<and> dm_last_queued d' = dm_last_queued d"
    using assms unfolding queueAutoSyncRuns_def auto_paused_def Let_def backlog_eq case_prod_conv
    by (auto split: if_splits)
  then show ?thesis using True by (simp add: auto_targets_def)
next
  case False
  let ?due = "auto_due env (dm_pacing d) sessions startedAt trigger now"
  from assms False obtain ids runs seen where loop: "auto_loop ?due now fresh trigger 0 (getAutoSyncTargets env (dm_integrations d))
      (sv_runs (dm_service d), dm_last_queued d) = Inr (ids, runs, seen)"
    and d': "sv_runs (dm_service d') = runs" "dm_last_queued d' = seen" and w: "wakes = (if ids \<noteq> [] then [WakeIngest] else [])"
    unfolding queueAutoSyncRuns_def auto_paused_def Let_def backlog_eq case_prod_conv
    by (auto simp: ebind_eq_Inr_iff split: if_splits)
  have "?due (dm_last_queued d) t = ?due (dm_last_queued d) t \<or> target_active (sv_runs (dm_service d)) t" for t by simp
  from auto_loop_idle [OF loop this due_local] False d' w show ?thesis by (auto simp: auto_targets_def)
qed

text \<open>
  C37: automatic syncs are queued exactly for the accounts that are due, one run each. Unless the scheduler has to wait
  (for the bootstrap or for the projection backlog), every account that is enabled, configured and due ends with one
  active run, every other account keeps what it had, no account ever gets two, the time of the last sync is touched only
  for accounts that are due, and the ingest worker is woken exactly when something was queued.
\<close>

theorem auto_sync_queues_due_accounts:
  assumes "single_active (sv_runs (dm_service d))"
    and "queueAutoSyncRuns env sessions startedAt ready False now fresh trigger d = Inr (wakes, d')"
    and "due = set (auto_targets env sessions startedAt ready now trigger d)"
  shows "single_active (sv_runs (dm_service d')) \<and>
    (\<forall>t. active_count (sv_runs (dm_service d')) t = (if t \<in> due then 1 else active_count (sv_runs (dm_service d)) t)) \<and>
    (wakes = [] \<longrightarrow> sv_runs (dm_service d') = sv_runs (dm_service d)) \<and>
    (\<forall>p a. dm_last_queued d' (source_key (platform_name p) a) \<noteq> dm_last_queued d (source_key (platform_name p) a) \<longrightarrow> (p, a) \<in> due)"
proof -
  obtain ids where q: "queue_idle target_active (queue_triggered now fresh trigger) 0 (auto_targets env sessions startedAt ready now trigger d)
      (sv_runs (dm_service d)) = Inr (ids, sv_runs (dm_service d'))" and w: "wakes = (if ids \<noteq> [] then [WakeIngest] else [])"
    and seen: "\<forall>p a. dm_last_queued d' (source_key (platform_name p) a) \<noteq> dm_last_queued d (source_key (platform_name p) a) \<longrightarrow> (p, a) \<in> due"
    using queueAutoSyncRuns_idle [OF assms(2)] unfolding assms(3) by blast
  have le: "active_count (sv_runs (dm_service d)) t \<le> 1" for t using assms(1) by (rule single_activeD)
  have "single_active (sv_runs (dm_service d'))"
    using triggered.queue_idle_single(1) [OF q le] by (rule single_activeI)
  moreover have "active_count (sv_runs (dm_service d')) t = (if t \<in> due then 1 else active_count (sv_runs (dm_service d)) t)" for t
    using triggered.queue_idle_runs [OF q, of t] le [of t] assms(3) by (auto simp: max_def)
  moreover have "wakes = [] \<longrightarrow> sv_runs (dm_service d') = sv_runs (dm_service d)"
    using queue_idle_ids [OF q] w by auto
  ultimately show ?thesis using seen by blast
qed

definition demo_daemon :: daemon where
  "demo_daemon =
     \<lparr>dm_service = \<lparr>sv_engine = sample_engine [], sv_runs = \<lparr>rdb_runs = [], rdb_errors = []\<rparr>\<rparr>,
      dm_integrations = \<lparr>idb_integrations = [integration_values 1 demo_integration], idb_sessions = []\<rparr>,
      dm_last_queued = Map.empty, dm_pacing = Map.empty\<rparr>"

lemma demo_targets:
  "getAutoSyncTargets (\<lambda>_. None) (dm_integrations demo_daemon) = [(Slack, ''work'')]"
proof -
  have "listEnabledSyncTargets (dm_integrations demo_daemon) = [(''slack'', ''work'')]"
    by (simp add: demo_daemon_def listEnabledSyncTargets_def integration_values_def demo_integration_def in_source_def
        hasKnownPlatform_def parsePlatform_def platform_values_def)
  then show ?thesis
    by (simp add: getAutoSyncTargets_def getConfiguredAutoSyncPlatforms_def adapter_targets_def isAdapterPlatform_iff isPlatform_iff
        parsePlatform_def platform_values_def)
qed

lemma demo_due: "auto_due (\<lambda>_. None) Map.empty (\<lambda>_ _. None) 0 ''scheduler'' 60000 Map.empty (Slack, ''work'')"
  by (simp add: auto_due_def sync_interval_def shouldSkipConnectedDiscordSchedulerSync_def pacing_interval_def
      getAutoSyncIntervalMs_def positive_setting_def env_number_def default_interval_def)

lemma demo_pause: "getAutoSyncProjectionBacklogPauseEvents (\<lambda>_. None) = 5000"
  by (simp add: getAutoSyncProjectionBacklogPauseEvents_def whole_setting_def env_number_def)

lemma demo_backlog: "max_rowid (en_raw (sv_engine (dm_service demo_daemon))) = 0"
  by (simp add: demo_daemon_def sample_engine_def max_rowid_def)

lemma demo_runs_empty: "sv_runs (dm_service demo_daemon) = \<lparr>rdb_runs = [], rdb_errors = []\<rparr>"
  "dm_last_queued demo_daemon = Map.empty" "dm_pacing demo_daemon = Map.empty"
  by (simp_all add: demo_daemon_def)

theorem auto_sync_queues_due_accounts_witness:
  "\<exists>wakes d'. queueAutoSyncRuns (\<lambda>_. None) (\<lambda>_ _. None) 0 True False 60000 demo_fresh ''scheduler'' demo_daemon = Inr (wakes, d') \<and>
     active_count (sv_runs (dm_service d')) (Slack, ''work'') = 1"
proof -
  have loop: "\<exists>ids st. auto_loop (auto_due (\<lambda>_. None) Map.empty (\<lambda>_ _. None) 0 ''scheduler'' 60000) 60000 demo_fresh ''scheduler'' 0
      [(Slack, ''work'')] (\<lparr>rdb_runs = [], rdb_errors = []\<rparr>, Map.empty) = Inr (ids, st)"
    using demo_due by (simp add: target_active_def hasQueuedOrRunningRun_def queue_triggered_def db_queueSyncRun_def tbl_insert_def)
  have "\<exists>wakes d'. queueAutoSyncRuns (\<lambda>_. None) (\<lambda>_ _. None) 0 True False 60000 demo_fresh ''scheduler'' demo_daemon = Inr (wakes, d')"
    using loop unfolding queueAutoSyncRuns_def Let_def backlog_eq case_prod_conv demo_pause demo_backlog demo_runs_empty demo_targets
    by auto
  then obtain wakes d' where r: "queueAutoSyncRuns (\<lambda>_. None) (\<lambda>_ _. None) 0 True False 60000 demo_fresh ''scheduler'' demo_daemon = Inr (wakes, d')"
    by blast
  have "single_active (sv_runs (dm_service demo_daemon))" using demo_single by (simp add: demo_daemon_def)
  moreover have "auto_targets (\<lambda>_. None) (\<lambda>_ _. None) 0 True 60000 ''scheduler'' demo_daemon = [(Slack, ''work'')]"
    using demo_due by (simp add: auto_targets_def demo_targets auto_paused_def demo_pause demo_backlog demo_runs_empty)
  ultimately show ?thesis using auto_sync_queues_due_accounts [OF _ r refl] r by simp
qed

end
