(* ===== verification/Process.thy ===== *)
theory Process
  imports Prelude
begin

text \<open>
  Handlers that commit as they go: each write to the database is a transaction of its own, so a crash or an exception
  may fall between any two of them. A handler is a process that gives the states it committed, with rules for what
  holds of all of them.
\<close>

subsection \<open>Steps that commit\<close>

text \<open>A step gives the states it committed in order, its result or exception, and the state it ends in.\<close>

type_synonym ('s, 'e, 'a) process = "'s \<Rightarrow> 's list \<times> ('e + 'a) \<times> 's"

definition step_return :: "'a \<Rightarrow> ('s, 'e, 'a) process" where
  "step_return x s = ([], Inr x, s)"

definition step_throw :: "'e \<Rightarrow> ('s, 'e, 'a) process" where
  "step_throw err s = ([], Inl err, s)"

definition step_bind :: "('s, 'e, 'a) process \<Rightarrow> ('a \<Rightarrow> ('s, 'e, 'b) process) \<Rightarrow> ('s, 'e, 'b) process" where
  "step_bind m f s = (case m s of
       (seen, Inl err, s') \<Rightarrow> (seen, Inl err, s')
     | (seen, Inr x, s') \<Rightarrow> (case f x s' of (later, r, s'') \<Rightarrow> (seen @ later, r, s'')))"

text \<open>A write: an exception leaves the state as it was.\<close>

definition step_write :: "('s \<Rightarrow> 'e + 'a \<times> 's) \<Rightarrow> ('s, 'e, 'a) process" where
  "step_write w s = (case w s of Inl err \<Rightarrow> ([], Inl err, s) | Inr (x, s') \<Rightarrow> ([s'], Inr x, s'))"

definition step_get :: "('s \<Rightarrow> 'a) \<Rightarrow> ('s, 'e, 'a) process" where
  "step_get f s = ([], Inr (f s), s)"

definition step_put :: "('s \<Rightarrow> 's) \<Rightarrow> ('s, 'e, unit) process" where
  "step_put f s = ([f s], Inr (), f s)"

fun step_all :: "('a \<Rightarrow> ('s, 'e, unit) process) \<Rightarrow> 'a list \<Rightarrow> ('s, 'e, unit) process" where
  "step_all f [] = step_return ()"
| "step_all f (x # xs) = step_bind (f x) (\<lambda>_. step_all f xs)"

definition step_catch :: "('s, 'e, 'a) process \<Rightarrow> ('e \<Rightarrow> ('s, 'e, 'a) process) \<Rightarrow> ('s, 'e, 'a) process" where
  "step_catch m h s = (case m s of
       (seen, Inl err, s') \<Rightarrow> (case h err s' of (later, r, s'') \<Rightarrow> (seen @ later, r, s''))
     | (seen, Inr x, s') \<Rightarrow> (seen, Inr x, s'))"

text \<open>What holds of every state a step passes through.\<close>

definition step_inv :: "('s \<Rightarrow> bool) \<Rightarrow> ('s, 'e, 'a) process \<Rightarrow> bool" where
  "step_inv P m \<longleftrightarrow> (\<forall>s. P s \<longrightarrow> (case m s of (seen, r, s') \<Rightarrow> list_all P seen \<and> P s'))"

lemma step_inv_return [intro!]: "step_inv P (step_return x)"
  by (simp add: step_inv_def step_return_def)

lemma step_inv_throw [intro!]: "step_inv P (step_throw x)"
  by (simp add: step_inv_def step_throw_def)

lemma step_inv_get [intro!]: "step_inv P (step_get f)"
  by (simp add: step_inv_def step_get_def)

lemma step_inv_bind: "step_inv P m \<Longrightarrow> (\<And>x. step_inv P (f x)) \<Longrightarrow> step_inv P (step_bind m f)"
proof (unfold step_inv_def, intro allI impI)
  fix s assume m: "\<forall>s. P s \<longrightarrow> (case m s of (seen, r, s') \<Rightarrow> list_all P seen \<and> P s')"
    and f: "\<And>x. \<forall>s. P s \<longrightarrow> (case f x s of (seen, r, s') \<Rightarrow> list_all P seen \<and> P s')" and s: "P s"
  obtain seen r s' where ms: "m s = (seen, r, s')" by (cases "m s")
  have s': "list_all P seen" "P s'" using m s ms by fastforce+
  show "case step_bind m f s of (seen, r, s') \<Rightarrow> list_all P seen \<and> P s'"
  proof (cases r)
    case (Inl err)
    then show ?thesis using s' ms by (simp add: step_bind_def)
  next
    case (Inr x)
    obtain later r2 s2 where fx: "f x s' = (later, r2, s2)" by (cases "f x s'")
    have "list_all P later" "P s2" using f [of x] s'(2) fx by fastforce+
    then show ?thesis using Inr s' ms fx by (simp add: step_bind_def)
  qed
qed

lemma step_inv_write: "(\<And>s x s'. P s \<Longrightarrow> w s = Inr (x, s') \<Longrightarrow> P s') \<Longrightarrow> step_inv P (step_write w)"
  unfolding step_inv_def step_write_def by (auto split: sum.split)

lemma step_inv_put: "(\<And>s. P s \<Longrightarrow> P (f s)) \<Longrightarrow> step_inv P (step_put f)"
  by (simp add: step_inv_def step_put_def)

lemma step_inv_all: "(\<And>x. step_inv P (f x)) \<Longrightarrow> step_inv P (step_all f xs)"
  by (induction xs) (auto intro: step_inv_bind)

subsection \<open>Phases with a result\<close>

text \<open>From \<open>P\<close> every state on the way satisfies \<open>I\<close>, and the result and the last state satisfy \<open>Q\<close>.\<close>

definition holds_over :: "('s \<Rightarrow> bool) \<Rightarrow> ('s \<Rightarrow> bool) \<Rightarrow> ('s, 'e, 'a) process \<Rightarrow> ('a \<Rightarrow> 's \<Rightarrow> bool) \<Rightarrow> bool" where
  "holds_over I P m Q \<longleftrightarrow> (\<forall>s. P s \<longrightarrow> (case m s of (seen, r, s') \<Rightarrow>
     list_all I seen \<and> (case r of Inl _ \<Rightarrow> I s' | Inr x \<Rightarrow> Q x s')))"

text \<open>The same, for a run whose outcome is known.\<close>

lemma holds_overI:
  assumes "\<And>s seen r s'. P s \<Longrightarrow> m s = (seen, r, s') \<Longrightarrow> list_all I seen \<and> (case r of Inl _ \<Rightarrow> I s' | Inr x \<Rightarrow> Q x s')"
  shows "holds_over I P m Q"
  using assms unfolding holds_over_def by (simp add: split: prod.split)

lemma holds_overD:
  "holds_over I P m Q \<Longrightarrow> P s \<Longrightarrow> m s = (seen, r, s') \<Longrightarrow> list_all I seen \<and> (case r of Inl _ \<Rightarrow> I s' | Inr x \<Rightarrow> Q x s')"
  unfolding holds_over_def by (drule spec [of _ s]) simp

lemma step_invD: "step_inv P m \<Longrightarrow> P s \<Longrightarrow> m s = (seen, r, s') \<Longrightarrow> list_all P seen \<and> P s'"
  unfolding step_inv_def by (drule spec [of _ s]) simp

lemma holds_inv:
  assumes "step_inv P m" "\<And>s. P s \<Longrightarrow> I s"
  shows "holds_over I P m (\<lambda>_. P)"
proof (rule holds_overI)
  fix s seen r s' assume "P s" "m s = (seen, r, s')"
  from step_invD [OF assms(1) this] have "list_all P seen" "P s'" by simp_all
  then show "list_all I seen \<and> (case r of Inl _ \<Rightarrow> I s' | Inr x \<Rightarrow> P s')"
    using assms(2) by (cases r) (simp_all add: list_all_iff)
qed

lemma holds_bind:
  assumes "holds_over I P m Q" "\<And>x. holds_over I (Q x) (f x) R"
  shows "holds_over I P (step_bind m f) R"
proof (rule holds_overI)
  fix s seen r s' assume s: "P s" and b: "step_bind m f s = (seen, r, s')"
  obtain seen1 r1 s1 where ms: "m s = (seen1, r1, s1)" by (cases "m s")
  note m = holds_overD [OF assms(1) s ms]
  show "list_all I seen \<and> (case r of Inl _ \<Rightarrow> I s' | Inr x \<Rightarrow> R x s')"
  proof (cases r1)
    case (Inl err)
    then show ?thesis using m ms b by (auto simp: step_bind_def)
  next
    case (Inr x)
    obtain seen2 r2 s2 where fx: "f x s1 = (seen2, r2, s2)" by (cases "f x s1")
    have "Q x s1" using m Inr by simp
    from holds_overD [OF assms(2) this fx] show ?thesis using Inr m ms fx b by (auto simp: step_bind_def)
  qed
qed

lemma holds_write:
  assumes "\<And>s. P s \<Longrightarrow> I s" "\<And>s x s'. P s \<Longrightarrow> w s = Inr (x, s') \<Longrightarrow> Q x s'" "\<And>x s. Q x s \<Longrightarrow> I s"
  shows "holds_over I P (step_write w) Q"
proof (rule holds_overI)
  fix s seen r s' assume s: "P s" and b: "step_write w s = (seen, r, s')"
  show "list_all I seen \<and> (case r of Inl _ \<Rightarrow> I s' | Inr x \<Rightarrow> Q x s')"
  proof (cases "w s")
    case (Inl err)
    then show ?thesis using b assms(1) [OF s] by (auto simp: step_write_def)
  next
    case (Inr p)
    then obtain x t where "w s = Inr (x, t)" by (cases p) simp
    then show ?thesis using b assms(2) [OF s] assms(3) by (auto simp: step_write_def)
  qed
qed

lemma holds_return: "(\<And>s. P s \<Longrightarrow> Q x s) \<Longrightarrow> holds_over I P (step_return x) Q"
  by (simp add: holds_over_def step_return_def)

lemma holds_pre: "holds_over I P m Q \<Longrightarrow> (\<And>s. P' s \<Longrightarrow> P s) \<Longrightarrow> holds_over I P' m Q"
  by (simp add: holds_over_def)

lemma holds_post:
  assumes "holds_over I P m Q" "\<And>x s. Q x s \<Longrightarrow> Q' x s"
  shows "holds_over I P m Q'"
proof (rule holds_overI)
  fix s seen r s' assume "P s" "m s = (seen, r, s')"
  from holds_overD [OF assms(1) this] show "list_all I seen \<and> (case r of Inl _ \<Rightarrow> I s' | Inr x \<Rightarrow> Q' x s')"
    using assms(2) by (cases r) simp_all
qed

lemma holds_all:
  assumes "holds_over I P m (\<lambda>_. I)" "P s" "m s = (seen, r, s')"
  shows "list_all I seen \<and> I s'"
  using holds_overD [OF assms] by (cases r) simp_all

lemma holds_false: "holds_over I (\<lambda>s. False) m Q"
  by (simp add: holds_over_def)

lemma holds_top: "holds_over (\<lambda>_. True) P m (\<lambda>_ _. True)"
  unfolding holds_over_def by (auto simp: list_all_iff split: prod.split sum.split)

lemma holds_catch:
  assumes "holds_over I P m (\<lambda>_. I)" "\<And>err. step_inv I (h err)"
  shows "holds_over I P (step_catch m h) (\<lambda>_. I)"
proof (rule holds_overI)
  fix s seen r s' assume s: "P s" and b: "step_catch m h s = (seen, r, s')"
  obtain seen1 r1 s1 where ms: "m s = (seen1, r1, s1)" by (cases "m s")
  note m = holds_all [OF assms(1) s ms]
  show "list_all I seen \<and> (case r of Inl _ \<Rightarrow> I s' | Inr x \<Rightarrow> I s')"
  proof (cases r1)
    case (Inl err)
    obtain seen2 r2 s2 where fx: "h err s1 = (seen2, r2, s2)" by (cases "h err s1")
    from step_invD [OF assms(2) conjunct2 [OF m] fx] show ?thesis
      using Inl m ms fx b by (cases r) (auto simp: step_catch_def)
  qed (use m ms b in \<open>auto simp: step_catch_def\<close>)
qed

subsection \<open>Processes that keep an invariant\<close>

text \<open>\<open>m\<close> keeps \<open>P\<close> at every point, and whatever it returns satisfies \<open>Q\<close>.\<close>

definition keeps :: "('s \<Rightarrow> bool) \<Rightarrow> ('s, 'e, 'a) process \<Rightarrow> ('a \<Rightarrow> bool) \<Rightarrow> bool" where
  "keeps P m Q \<longleftrightarrow> holds_over P P m (\<lambda>x s. Q x \<and> P s)"

lemma keepsI: "holds_over P P m (\<lambda>x s. Q x \<and> P s) \<Longrightarrow> keeps P m Q"
  by (simp add: keeps_def)

lemma keeps_fact: "holds_over I P m R \<Longrightarrow> F \<Longrightarrow> holds_over I (\<lambda>s. F \<and> P s) m R"
  by (auto elim: holds_pre)

lemma keeps_bind:
  assumes "keeps P m Q" "\<And>x. Q x \<Longrightarrow> keeps P (f x) R"
  shows "keeps P (step_bind m f) R"
  unfolding keeps_def
proof (rule holds_bind)
  show "holds_over P P m (\<lambda>x s. Q x \<and> P s)" using assms(1) by (simp add: keeps_def)
  show "holds_over P (\<lambda>s. Q x \<and> P s) (f x) (\<lambda>y s. R y \<and> P s)" for x
  proof (cases "Q x")
    case True
    then show ?thesis using assms(2) by (intro keeps_fact) (simp_all add: keeps_def)
  qed (simp add: holds_false)
qed

lemma keeps_seq: "keeps P m (\<lambda>_. True) \<Longrightarrow> (\<And>x. keeps P (f x) R) \<Longrightarrow> keeps P (step_bind m f) R"
  by (rule keeps_bind) simp_all

lemma keeps_return: "Q x \<Longrightarrow> keeps P (step_return x) Q"
  by (rule keepsI, rule holds_return) simp

lemma keeps_if: "(c \<Longrightarrow> keeps P a Q) \<Longrightarrow> (\<not> c \<Longrightarrow> keeps P b Q) \<Longrightarrow> keeps P (if c then a else b) Q"
  by simp

lemma keeps_throw: "keeps P (step_throw err) Q"
  by (simp add: keeps_def holds_over_def step_throw_def)

lemma keeps_get: "(\<And>s. P s \<Longrightarrow> Q (f s)) \<Longrightarrow> keeps P (step_get f) Q"
  by (simp add: keeps_def holds_over_def step_get_def)

lemma keeps_put: "(\<And>s. P s \<Longrightarrow> P (f s)) \<Longrightarrow> keeps P (step_put f) (\<lambda>_. True)"
  by (simp add: keeps_def holds_over_def step_put_def)

lemma keeps_write: "(\<And>s x s'. P s \<Longrightarrow> w s = Inr (x, s') \<Longrightarrow> Q x \<and> P s') \<Longrightarrow> keeps P (step_write w) Q"
  unfolding keeps_def by (rule holds_write) blast+

lemma keeps_weaken: "keeps P m Q \<Longrightarrow> (\<And>x. Q x \<Longrightarrow> Q' x) \<Longrightarrow> keeps P m Q'"
  unfolding keeps_def by (erule holds_post) blast

lemma keeps_all: "(\<And>x. x \<in> set xs \<Longrightarrow> keeps P (f x) (\<lambda>_. True)) \<Longrightarrow> keeps P (step_all f xs) (\<lambda>_. True)"
  by (induction xs) (auto intro: keeps_return keeps_seq)

lemma keeps_catch:
  assumes "keeps P m (\<lambda>_. True)" "\<And>err. keeps P (h err) (\<lambda>_. True)"
  shows "keeps P (step_catch m h) (\<lambda>_. True)"
proof -
  have "holds_over P P m (\<lambda>_. P)" by (rule holds_post [OF assms(1) [unfolded keeps_def]]) simp
  moreover have "step_inv P (h err)" for err
  proof (unfold step_inv_def, intro allI impI)
    fix s assume s: "P s"
    obtain seen r s' where h: "h err s = (seen, r, s')" by (cases "h err s")
    from holds_overD [OF assms(2) [unfolded keeps_def] s h] show "case h err s of (seen, r, s') \<Rightarrow> list_all P seen \<and> P s'"
      using h by (cases r) simp_all
  qed
  ultimately have "holds_over P P (step_catch m h) (\<lambda>_. P)" by (rule holds_catch)
  then show ?thesis by (auto simp: keeps_def elim: holds_post)
qed

lemma keepsD: "keeps P m Q \<Longrightarrow> P s \<Longrightarrow> m s = (seen, r, s') \<Longrightarrow> list_all P seen \<and> P s'"
  unfolding keeps_def by (drule (2) holds_overD) (cases r, simp_all)

lemma keeps_result: "keeps P m Q \<Longrightarrow> P s \<Longrightarrow> m s = (seen, Inr x, s') \<Longrightarrow> Q x \<and> P s'"
  unfolding keeps_def by (drule (2) holds_overD) simp

end
