(* ===== verification/IngestRun.thy ===== *)
theory IngestRun
  imports AutoSync SyncProofs HookBarrier Process
begin

text \<open>
  How a claimed sync run is carried out (\<open>processIngestRun\<close> of \<^verbatim>\<open>src/runtime/daemon/server.ts\<close>), and how events that
  arrive in realtime are taken in. Each write to the database is committed on its own, so a crash may fall between any
  two of them; the model keeps the states between the writes. Logs, telemetry and the state of integrations are left
  out; \<open>clock\<close> gives the time of the writes, \<open>fresh\<close> the random ids, and batch sizes and row limits are whole.
\<close>

subsection \<open>State\<close>

record hook_payload =
  hp_run :: string
  hp_platform :: platform
  hp_account :: string
  hp_observed_at :: int
  hp_mode :: "acquisition_mode option"
  hp_payload :: json

record ingest =
  ig_service :: service
  ig_accounts :: "account_row list"
  ig_checkpoints :: "checkpoint_row list"
  ig_proofs :: proof_db
  ig_hooks :: "hook_payload hook_batch list"
  ig_sent :: "hook_payload list"
  ig_continuations :: "string \<rightharpoonup> int"
  ig_pacing :: pacing

datatype ingest_error =
    IeSchema schema_error | IeProof proof_error | IeDb db_error | IeProjection proj_error | IeAdapter string

text \<open>What an adapter hands over.\<close>

record sync_bundle =
  sb_accounts :: "account_input list"
  sb_cursor :: "json option"
  sb_mode :: "source_mode option"
  sb_has_more :: bool
  sb_continuation :: "json option"
  sb_diagnostics :: "json option"
  sb_events :: "raw_input list"
  sb_proofs :: "proof_input list"

record ingest_settings =
  is_env :: environment
  is_interactive :: bool
  is_proj :: proj_env
  is_explain :: "schema_error + proj_error \<Rightarrow> string"

definition realtime_limit :: "ingest_settings \<Rightarrow> nat" where
  "realtime_limit cfg = nat \<lfloor>getRealtimeProjectionBatchSize (is_env cfg)\<rfloor>"

definition hook_batch_size :: "ingest_settings \<Rightarrow> nat \<Rightarrow> nat" where
  "hook_batch_size cfg pending = nat \<lfloor>getEffectiveProjectionBatchSize (is_env cfg) (is_interactive cfg) (int pending)\<rfloor>"

subsection \<open>Parts of the handlers\<close>

definition withRawEventAcquisitionMode :: "raw_input list \<Rightarrow> acquisition_mode \<Rightarrow> raw_input list" where
  "withRawEventAcquisitionMode rawEvents mode =
     map (\<lambda>e. e\<lparr>ev_provenance := Some ((get_or (ev_provenance e)
            \<lparr>pv_api_version = None, pv_adapter_version = None, pv_mode = None\<rparr>)\<lparr>pv_mode := Some mode\<rparr>)\<rparr>) rawEvents"

definition shouldProjectIngestRunInline :: "platform \<Rightarrow> run_type \<Rightarrow> bool \<Rightarrow> insert_result \<Rightarrow> bool" where
  "shouldProjectIngestRunInline platform runType enabled result \<longleftrightarrow>
     platform \<noteq> Discord \<and> runType \<noteq> RtSyncResume \<and> enabled \<and> ir_first result \<noteq> None \<and> ir_last result \<noteq> None \<and>
     0 < ir_count result \<and> ir_count result \<le> 250"

definition resolveCheckpointSyncMode :: "run_type \<Rightarrow> source_mode option \<Rightarrow> source_mode option \<Rightarrow> bool \<Rightarrow> source_mode" where
  "resolveCheckpointSyncMode runType prior bundleMode hasMore =
     (if hasMore then FullSync
      else if runType = RtSyncResume \<or> prior = Some FullSync then IncrementalSync
      else if bundleMode = Some IncrementalSync then IncrementalSync else FullSync)"

definition isInboundMessageEvent :: "raw_input \<Rightarrow> bool" where
  "isInboundMessageEvent e \<longleftrightarrow> ev_entity e = EkMessage \<and> ev_kind e = ''created'' \<and>
     (case jstr (jget (ev_payload e) ''senderSourceKey'') of Some s \<Rightarrow> s \<noteq> [] | None \<Rightarrow> False)"

definition collectInboundMessageHookPayloads :: "string \<Rightarrow> (nat \<times> raw_input) list \<Rightarrow> (nat \<times> hook_payload) list" where
  "collectInboundMessageHookPayloads runId rows =
     map (\<lambda>(k, e). (k, \<lparr>hp_run = runId, hp_platform = ev_platform e, hp_account = ev_account e, hp_observed_at = ev_observed_at e,
            hp_mode = Option.bind (ev_provenance e) pv_mode, hp_payload = ev_payload e\<rparr>))
       (filter (\<lambda>(k, e). isInboundMessageEvent e) rows)"

definition insert_step :: "raw_input list \<Rightarrow> (ingest, ingest_error, insert_result) process" where
  "insert_step events = step_write (\<lambda>s.
     case insertRawEvents events (en_raw (sv_engine (ig_service s))) of
       Inl err \<Rightarrow> Inl (IeSchema err)
     | Inr (result, raw) \<Rightarrow>
         Inr (result, s\<lparr>ig_service := (ig_service s)\<lparr>sv_engine := (sv_engine (ig_service s))\<lparr>en_raw := raw\<rparr>\<rparr>\<rparr>))"

definition proof_step :: "int \<Rightarrow> platform \<Rightarrow> string \<Rightarrow> proof_input \<Rightarrow> (ingest, ingest_error, unit) process" where
  "proof_step now platform accountKey proof = step_write (\<lambda>s.
     case upsertSyncProof now platform accountKey proof (ig_proofs s) of
       Inl err \<Rightarrow> Inl (IeProof err) | Inr db \<Rightarrow> Inr ((), s\<lparr>ig_proofs := db\<rparr>))"

definition accounts_step :: "int \<Rightarrow> account_input list \<Rightarrow> (ingest, ingest_error, unit) process" where
  "accounts_step now accounts = step_write (\<lambda>s.
     case upsertSourceAccounts now accounts (ig_accounts s) of
       Inl err \<Rightarrow> Inl (IeDb err) | Inr rows \<Rightarrow> Inr ((), s\<lparr>ig_accounts := rows\<rparr>))"

definition realtime_step :: "ingest_settings \<Rightarrow> int \<Rightarrow> nat \<Rightarrow> nat \<Rightarrow> (ingest, ingest_error, unit) process" where
  "realtime_step cfg now startRow endRow = step_write (\<lambda>s.
     case projectRealtimeRange (is_proj cfg) (is_explain cfg) now startRow endRow (Some (realtime_limit cfg)) False
            (sv_engine (ig_service s)) of
       Inl err \<Rightarrow> Inl (IeProjection err)
     | Inr (_, e') \<Rightarrow> Inr ((), s\<lparr>ig_service := (ig_service s)\<lparr>sv_engine := e'\<rparr>\<rparr>))"

text \<open>The backlog: the watermark, the largest row id and the number of pending rows.\<close>

definition backlog_step :: "int \<Rightarrow> (ingest, ingest_error, nat \<times> nat \<times> nat) process" where
  "backlog_step now = step_write (\<lambda>s.
     let e = sv_engine (ig_service s) in
     case getProjectionBacklog now True (en_raw e) (en_state e) of (b, state) \<Rightarrow>
       Inr (b, s\<lparr>ig_service := (ig_service s)\<lparr>sv_engine := e\<lparr>en_state := state\<rparr>\<rparr>\<rparr>))"

definition inserted_range :: "insert_result \<Rightarrow> (nat \<times> nat) option" where
  "inserted_range result = (case (ir_first result, ir_last result) of (Some a, Some b) \<Rightarrow> Some (a, b) | _ \<Rightarrow> None)"

definition queueMessageReceivedHooks ::
  "ingest_settings \<Rightarrow> int \<Rightarrow> (nat \<times> nat) option \<Rightarrow> (nat \<times> hook_payload) list \<Rightarrow> (ingest, ingest_error, unit) process" where
  "queueMessageReceivedHooks cfg now rows payloads =
     (case rows of
        None \<Rightarrow> step_return ()
      | Some (a, b) \<Rightarrow>
          if payloads = [] then step_return ()
          else step_bind (backlog_step now) (\<lambda>(_, _, pending). step_put (\<lambda>s.
            s\<lparr>ig_hooks := fold (\<lambda>batch. enqueue_hooks (hb_start batch) (hb_end batch) (hb_payloads batch))
                (buildProjectionMessageHookBatches a b payloads (hook_batch_size cfg pending)) (ig_hooks s)\<rparr>)))"

definition releaseMessageReceivedHooksForRange :: "nat \<Rightarrow> nat \<Rightarrow> (ingest, ingest_error, unit) process" where
  "releaseMessageReceivedHooksForRange a b = step_put (\<lambda>s.
     case releaseCompletedRange a b (ig_hooks s) of (sent, pending) \<Rightarrow>
       s\<lparr>ig_hooks := pending, ig_sent := ig_sent s @ sent\<rparr>)"

definition queue_projection_step ::
  "ingest_settings \<Rightarrow> int \<Rightarrow> string \<Rightarrow> string \<Rightarrow> (ingest, ingest_error, unit) process" where
  "queue_projection_step cfg now uuid trigger = step_write (\<lambda>s.
     case queueProjectionRun now uuid trigger None (getDeferredProjectionCoalesceMs (is_env cfg)) (ig_service s) of
       Inl err \<Rightarrow> Inl (IeDb err) | Inr (_, svc) \<Rightarrow> Inr ((), s\<lparr>ig_service := svc\<rparr>))"

definition checkpoint_step ::
  "int \<Rightarrow> platform \<Rightarrow> string \<Rightarrow> source_mode \<Rightarrow> json option \<Rightarrow> nat \<Rightarrow> int \<Rightarrow> (ingest, ingest_error, unit) process" where
  "checkpoint_step now platform accountKey mode cursor maxRow successAt = step_write (\<lambda>s.
     case upsertCheckpoint now platform accountKey mode cursor (Some (int maxRow)) (Some successAt) None (ig_checkpoints s) of
       Inl err \<Rightarrow> Inl (IeDb err) | Inr rows \<Rightarrow> Inr ((), s\<lparr>ig_checkpoints := rows\<rparr>))"


subsection \<open>A run with an adapter\<close>

definition progress_step :: "int \<Rightarrow> sync_run \<Rightarrow> (ingest, ingest_error, unit) process" where
  "progress_step now run = step_put (\<lambda>s. s\<lparr>ig_service := (ig_service s)\<lparr>sv_runs :=
     snd (updateRunProgress now (run_id run) None (Some 900000) (Some (run_claim_of run)) (sv_runs (ig_service s)))\<rparr>\<rparr>)"

record ingest_outcome =
  io_accounts :: "account_input list"
  io_cursor :: "json option"
  io_mode :: "source_mode option"
  io_has_more :: bool
  io_continuation :: "json option"
  io_diagnostics :: "json option"
  io_count :: nat
  io_result :: insert_result
  io_success_at :: int

definition run_account_key :: "sync_run \<Rightarrow> platform \<Rightarrow> string" where
  "run_account_key run platform = get_or (run_account run) (getDefaultAccountKeyForPlatform platform)"

definition prior_checkpoint :: "sync_run \<Rightarrow> platform \<Rightarrow> ingest \<Rightarrow> checkpoint_row option" where
  "prior_checkpoint run platform s = getCheckpoint platform (run_account_key run platform) (ig_checkpoints s)"

text \<open>The adapter process either fails or delivers a bundle.\<close>

definition adapter_phase ::
  "(nat \<Rightarrow> int) \<Rightarrow> sync_run \<Rightarrow> platform \<Rightarrow> checkpoint_row option \<Rightarrow> string + sync_bundle \<Rightarrow> (ingest, ingest_error, ingest_outcome) process" where
  "adapter_phase clock run platform checkpoint delivered =
     step_bind (progress_step (clock 0) run) (\<lambda>_.
       case delivered of
         Inl message \<Rightarrow> step_throw (IeAdapter message)
       | Inr bundle \<Rightarrow>
           step_bind (progress_step (clock 1) run) (\<lambda>_.
           step_bind (insert_step (withRawEventAcquisitionMode (sb_events bundle) AcqSync)) (\<lambda>result.
           step_bind (step_all (proof_step (clock 2) platform (run_account_key run platform)) (sb_proofs bundle)) (\<lambda>_.
             step_return
               \<lparr>io_accounts = sb_accounts bundle, io_cursor = sb_cursor bundle,
                io_mode = coalesce (sb_mode bundle)
                  (Some (if Option.bind checkpoint cp_cursor = None then FullSync else IncrementalSync)),
                io_has_more = sb_has_more bundle, io_continuation = sb_continuation bundle,
                io_diagnostics = (if js_spread (sb_diagnostics bundle) = [] then None else sb_diagnostics bundle),
                io_count = length (sb_events bundle), io_result = result, io_success_at = clock 3\<rparr>))))"

text \<open>Projection of what is pending: at once, later, or not yet while a sync goes on; with nothing pending the hooks go out.\<close>

definition continuation_key :: "platform \<Rightarrow> string \<Rightarrow> string" where
  "continuation_key platform accountKey = source_key (platform_name platform) accountKey"

definition project_or_release ::
  "ingest_settings \<Rightarrow> int \<Rightarrow> string \<Rightarrow> platform \<Rightarrow> string \<Rightarrow> nat \<Rightarrow> bool \<Rightarrow> insert_result \<Rightarrow> (ingest, ingest_error, bool) process" where
  "project_or_release cfg now uuid platform accountKey pending hasMore result =
     (if 0 < pending then
        step_bind (step_get (\<lambda>s. get_or (ig_continuations s (continuation_key platform accountKey)) 0)) (\<lambda>queuedAt.
          if shouldDeferContinuationProjection hasMore (int pending) queuedAt now
               (getContinuationProjectionIntervalMs (is_env cfg)) (getContinuationProjectionBacklogEvents (is_env cfg))
          then step_return False
          else step_bind (queue_projection_step cfg now uuid (''ingest:'' @ continuation_key platform accountKey)) (\<lambda>_.
               step_bind (step_put (\<lambda>s. s\<lparr>ig_continuations := (ig_continuations s)(continuation_key platform accountKey :=
                   if hasMore then Some now else None)\<rparr>)) (\<lambda>_.
                 step_return True)))
      else case inserted_range result of
          None \<Rightarrow> step_return False
        | Some (a, b) \<Rightarrow> step_bind (releaseMessageReceivedHooksForRange a b) (\<lambda>_. step_return False))"

definition source_mode_name :: "source_mode \<Rightarrow> string" where
  "source_mode_name m = (case m of FullSync \<Rightarrow> ''full'' | IncrementalSync \<Rightarrow> ''incremental'')"

definition ingest_details :: "ingest_outcome \<Rightarrow> bool \<Rightarrow> source_mode \<Rightarrow> json \<Rightarrow> json" where
  "ingest_details outcome queued mode timings =
     JObj ([(''ingested'', JNum (Fin (of_nat (io_count outcome)))),
            (''insertedRawEvents'', JNum (Fin (of_nat (ir_count (io_result outcome))))),
            (''projectionQueued'', JBool queued), (''hasMore'', JBool (io_has_more outcome)),
            (''syncMode'', JStr (source_mode_name mode)), (''timings'', timings)] @
           (case io_continuation outcome of None \<Rightarrow> [] | Some c \<Rightarrow> [(''continuation'', c)]) @
           (case io_diagnostics outcome of None \<Rightarrow> [] | Some d \<Rightarrow> [(''diagnostics'', d)]))"

definition continue_input :: "ingest_settings \<Rightarrow> platform \<Rightarrow> string \<Rightarrow> json option \<Rightarrow> run_input" where
  "continue_input cfg platform accountKey continuation =
     \<lparr>ri_platform = Some platform, ri_account = Some accountKey, ri_type = RtSyncResume, ri_trigger = ''ingest_continue'',
      ri_details = Some (JObj ([(''source'', JStr (platform_name platform)), (''accountKey'', JStr accountKey),
        (''trigger'', JStr ''ingest_continue'')] @ (case continuation of None \<Rightarrow> [] | Some c \<Rightarrow> [(''continuation'', c)]))),
      ri_scheduled_at = None,
      ri_delay_ms = Some (Fin (of_int (getEffectiveSyncContinueDelayMs (is_env cfg) (is_interactive cfg) platform)))\<rparr>"

definition continue_step ::
  "ingest_settings \<Rightarrow> int \<Rightarrow> string \<Rightarrow> platform \<Rightarrow> string \<Rightarrow> ingest_outcome \<Rightarrow> (ingest, ingest_error, unit) process" where
  "continue_step cfg now uuid platform accountKey outcome =
     step_bind (step_get (\<lambda>s. target_active (sv_runs (ig_service s)) (platform, accountKey))) (\<lambda>active.
       if io_has_more outcome \<and> \<not> active
       then step_write (\<lambda>s.
         case db_queueSyncRun now uuid (continue_input cfg platform accountKey (io_continuation outcome)) (sv_runs (ig_service s)) of
           Inl err \<Rightarrow> Inl (IeDb err) | Inr (_, runs) \<Rightarrow> Inr ((), s\<lparr>ig_service := (ig_service s)\<lparr>sv_runs := runs\<rparr>\<rparr>))
       else step_return ())"

text \<open>What follows once the events are in the log.\<close>

definition settle_phase ::
  "ingest_settings \<Rightarrow> (nat \<Rightarrow> int) \<Rightarrow> (nat \<Rightarrow> string) \<Rightarrow> json \<Rightarrow> sync_run \<Rightarrow> platform \<Rightarrow> checkpoint_row option \<Rightarrow> ingest_outcome \<Rightarrow>
   (ingest, ingest_error, unit) process" where
  "settle_phase cfg clock fresh timings run platform checkpoint outcome =
     (let accountKey = run_account_key run platform; result = io_result outcome; rows = inserted_range result in
      step_bind (accounts_step (clock 4) (io_accounts outcome)) (\<lambda>_.
      step_bind (case rows of
          Some (a, b) \<Rightarrow>
            if shouldProjectIngestRunInline platform (run_type run) (getRealtimeProjectionEnabled (is_env cfg)) result
            then realtime_step cfg (clock 5) a b else step_return ()
        | None \<Rightarrow> step_return ()) (\<lambda>_.
      step_bind (queueMessageReceivedHooks cfg (clock 6) rows
                   (collectInboundMessageHookPayloads (run_id run) (ir_rows result))) (\<lambda>_.
      step_bind (backlog_step (clock 7)) (\<lambda>(w, maxRow, pending).
        let mode = resolveCheckpointSyncMode (run_type run) (map_option cp_mode checkpoint) (io_mode outcome) (io_has_more outcome) in
      step_bind (checkpoint_step (clock 8) platform accountKey mode (io_cursor outcome) maxRow (io_success_at outcome)) (\<lambda>_.
      step_bind (project_or_release cfg (clock 9) (fresh 0) platform accountKey pending (io_has_more outcome) result) (\<lambda>queued.
      step_bind (step_put (\<lambda>s. s\<lparr>ig_service := (ig_service s)\<lparr>sv_runs :=
          snd (finishRun (clock 10) (clock 10) (run_id run) (Some (Some (ingest_details outcome queued mode timings)))
                 (Some (run_claim_of run)) (sv_runs (ig_service s)))\<rparr>\<rparr>)) (\<lambda>_.
      step_bind (step_put (\<lambda>s. s\<lparr>ig_pacing := pacing_record (continuation_key platform accountKey) (ir_count result)
          (io_has_more outcome) (ig_pacing s)\<rparr>)) (\<lambda>_.
        continue_step cfg (clock 11) (fresh 1) platform accountKey outcome)))))))))"

text \<open>The handler of an exception: the error goes into the checkpoint and the run.\<close>

definition fail_ingest ::
  "(nat \<Rightarrow> int) \<Rightarrow> string \<Rightarrow> string \<Rightarrow> sync_run \<Rightarrow> platform \<Rightarrow> (ingest, ingest_error, unit) process" where
  "fail_ingest clock uuid message run platform =
     step_bind (step_put (\<lambda>s. s\<lparr>ig_pacing := pacing_reset (continuation_key platform (run_account_key run platform)) (ig_pacing s)\<rparr>)) (\<lambda>_.
     step_bind (step_put (\<lambda>s. s\<lparr>ig_checkpoints :=
        recordCheckpointError (clock 12) (clock 12) platform (run_account_key run platform) message (ig_checkpoints s)\<rparr>)) (\<lambda>_.
     step_write (\<lambda>s. case failRun (clock 13) (clock 13) (clock 13) uuid (run_id run) message None None (Some (run_claim_of run))
            (sv_runs (ig_service s)) of
          Inl err \<Rightarrow> Inl (IeDb err) | Inr (_, runs) \<Rightarrow> Inr ((), s\<lparr>ig_service := (ig_service s)\<lparr>sv_runs := runs\<rparr>\<rparr>))))"

text \<open>Every platform has an adapter, so that the only runs refused are those of another type or without a platform.\<close>

definition run_type_name :: "run_type \<Rightarrow> string" where
  "run_type_name t = (case t of RtSync \<Rightarrow> ''sync'' | RtSyncResume \<Rightarrow> ''sync_resume'' | RtProject \<Rightarrow> ''project'' | RtRebuild \<Rightarrow> ''rebuild'')"

definition refuse_ingest :: "(nat \<Rightarrow> int) \<Rightarrow> string \<Rightarrow> sync_run \<Rightarrow> (ingest, ingest_error, unit) process" where
  "refuse_ingest clock uuid run = step_write (\<lambda>s.
     case failRun (clock 13) (clock 13) (clock 13) uuid (run_id run)
            (''Unsupported ingest run target: '' @ run_type_name (run_type run) @ '':'' @
             (case run_platform run of None \<Rightarrow> ''none'' | Some p \<Rightarrow> platform_name p)) None None (Some (run_claim_of run))
            (sv_runs (ig_service s)) of
       Inl err \<Rightarrow> Inl (IeDb err) | Inr (_, runs) \<Rightarrow> Inr ((), s\<lparr>ig_service := (ig_service s)\<lparr>sv_runs := runs\<rparr>\<rparr>))"

definition ingest_with ::
  "ingest_settings \<Rightarrow> (ingest_error \<Rightarrow> string) \<Rightarrow> (nat \<Rightarrow> int) \<Rightarrow> (nat \<Rightarrow> string) \<Rightarrow> json \<Rightarrow> sync_run \<Rightarrow>
   (platform \<Rightarrow> checkpoint_row option \<Rightarrow> (ingest, ingest_error, ingest_outcome) process) \<Rightarrow> (ingest, ingest_error, unit) process" where
  "ingest_with cfg message clock fresh timings run fetch =
     (case run_platform run of
        None \<Rightarrow> refuse_ingest clock (fresh 2) run
      | Some platform \<Rightarrow>
          if run_type run \<noteq> RtSync \<and> run_type run \<noteq> RtSyncResume then refuse_ingest clock (fresh 2) run
          else step_catch
            (step_bind (step_get (prior_checkpoint run platform)) (\<lambda>checkpoint.
             step_bind (fetch platform checkpoint) (\<lambda>outcome.
               settle_phase cfg clock fresh timings run platform checkpoint outcome)))
            (\<lambda>err. fail_ingest clock (fresh 2) (message err) run platform))"


subsection \<open>Events that arrive in realtime\<close>

text \<open>Taking note of realtime events keeps the cursor of the last sync.\<close>

definition update_checkpoint_from_realtime ::
  "(nat \<Rightarrow> int) \<Rightarrow> platform \<Rightarrow> string \<Rightarrow> (ingest, ingest_error, unit) process" where
  "update_checkpoint_from_realtime clock platform accountKey =
     step_bind (step_get (\<lambda>s. getCheckpoint platform accountKey (ig_checkpoints s))) (\<lambda>checkpoint.
     step_bind (backlog_step (clock 4)) (\<lambda>(_, maxRow, _).
       checkpoint_step (clock 5) platform accountKey (get_or (map_option cp_mode checkpoint) IncrementalSync)
         (safeParseJsonRecord (Option.bind checkpoint cp_cursor)) maxRow (clock 5)))"

definition realtime_account :: "platform \<Rightarrow> string \<Rightarrow> string \<Rightarrow> account_input" where
  "realtime_account platform accountKey displayName =
     \<lparr>ai_platform = platform, ai_account = accountKey, ai_display_name = Some displayName, ai_status = None, ai_metadata = None\<rparr>"

definition take_in ::
  "ingest_settings \<Rightarrow> (nat \<Rightarrow> int) \<Rightarrow> (nat \<Rightarrow> string) \<Rightarrow> platform \<Rightarrow> string \<Rightarrow> string \<Rightarrow> string \<Rightarrow> raw_input list \<Rightarrow>
   (ingest, ingest_error, unit) process" where
  "take_in cfg clock fresh platform accountKey displayName trigger rawEvents =
     step_bind (accounts_step (clock 0) [realtime_account platform accountKey displayName]) (\<lambda>_.
     step_bind (insert_step rawEvents) (\<lambda>result.
     step_bind (case inserted_range result of
         Some (a, b) \<Rightarrow> if getRealtimeProjectionEnabled (is_env cfg) then realtime_step cfg (clock 1) a b else step_return ()
       | None \<Rightarrow> step_return ()) (\<lambda>_.
     step_bind (backlog_step (clock 2)) (\<lambda>(w, maxRow, pending).
     step_bind (if 0 < pending then queue_projection_step cfg (clock 3) (fresh 0) trigger else step_return ()) (\<lambda>_.
     step_bind (if 0 < ir_count result then update_checkpoint_from_realtime clock platform accountKey else step_return ()) (\<lambda>_.
     step_bind (queueMessageReceivedHooks cfg (clock 6) (inserted_range result)
                  (collectInboundMessageHookPayloads trigger (ir_rows result))) (\<lambda>_.
       case inserted_range result of
         Some (a, b) \<Rightarrow> if pending = 0 then releaseMessageReceivedHooksForRange a b else step_return ()
       | None \<Rightarrow> step_return ())))))))"

text \<open>An exception is logged; it leaves what was committed.\<close>

definition ingest_realtime ::
  "ingest_settings \<Rightarrow> (nat \<Rightarrow> int) \<Rightarrow> (nat \<Rightarrow> string) \<Rightarrow> platform \<Rightarrow> string \<Rightarrow> string \<Rightarrow> string \<Rightarrow> raw_input list \<Rightarrow>
   (ingest, ingest_error, unit) process" where
  "ingest_realtime cfg clock fresh platform accountKey displayName trigger rawEvents =
     (if rawEvents = [] then step_return ()
      else step_catch (take_in cfg clock fresh platform accountKey displayName trigger rawEvents) (\<lambda>_. step_return ()))"

definition native_sync_step ::
  "int \<Rightarrow> string \<Rightarrow> platform \<Rightarrow> string \<Rightarrow> string \<Rightarrow> integration_db \<Rightarrow> (ingest, ingest_error, unit) process" where
  "native_sync_step now uuid platform accountKey trigger integrations = step_write (\<lambda>s.
     case queueNativeTriggeredSync now uuid platform accountKey trigger integrations (sv_runs (ig_service s)) of
       Inl err \<Rightarrow> Inl (IeDb err) | Inr (_, runs) \<Rightarrow> Inr ((), s\<lparr>ig_service := (ig_service s)\<lparr>sv_runs := runs\<rparr>\<rparr>))"

definition ingestSlackRealtimeRawEvents ::
  "bool \<Rightarrow> integration_db \<Rightarrow> ingest_settings \<Rightarrow> (nat \<Rightarrow> int) \<Rightarrow> (nat \<Rightarrow> string) \<Rightarrow> string \<Rightarrow> raw_input list \<Rightarrow> string \<Rightarrow>
   (ingest, ingest_error, unit) process" where
  "ingestSlackRealtimeRawEvents isProcessingProjection integrations cfg clock fresh accountKey rawEvents trigger =
     (if rawEvents \<noteq> [] \<and> isProcessingProjection
      then step_catch (native_sync_step (clock 0) (fresh 0) Slack accountKey (trigger @ '':projection_busy'') integrations)
             (\<lambda>_. step_return ())
      else ingest_realtime cfg clock fresh Slack accountKey ''Slack'' trigger (withRawEventAcquisitionMode rawEvents AcqRealtime))"

definition ingestDiscordRealtimeRawEvents ::
  "ingest_settings \<Rightarrow> (nat \<Rightarrow> int) \<Rightarrow> (nat \<Rightarrow> string) \<Rightarrow> string \<Rightarrow> raw_input list \<Rightarrow> string \<Rightarrow> string \<Rightarrow>
   (ingest, ingest_error, unit) process" where
  "ingestDiscordRealtimeRawEvents cfg clock fresh accountKey rawEvents trigger displayName =
     ingest_realtime cfg clock fresh Discord accountKey displayName trigger (withRawEventAcquisitionMode rawEvents AcqRealtime)"

text \<open>LinkedIn, Signal and WhatsApp build their events first, from what the session delivered.\<close>

definition ingestLinkedInRealtimeEvents ::
  "ingest_settings \<Rightarrow> (nat \<Rightarrow> int) \<Rightarrow> (nat \<Rightarrow> string) \<Rightarrow> string \<Rightarrow> raw_input list \<Rightarrow> (ingest, ingest_error, unit) process" where
  "ingestLinkedInRealtimeEvents cfg clock fresh accountKey rawEvents =
     ingest_realtime cfg clock fresh LinkedIn accountKey ''LinkedIn'' (''linkedin_realtime:'' @ accountKey)
       (withRawEventAcquisitionMode rawEvents AcqRealtime)"

definition ingestSignalRealtimeEvents ::
  "ingest_settings \<Rightarrow> (nat \<Rightarrow> int) \<Rightarrow> (nat \<Rightarrow> string) \<Rightarrow> string \<Rightarrow> raw_input list \<Rightarrow> (ingest, ingest_error, unit) process" where
  "ingestSignalRealtimeEvents cfg clock fresh accountKey rawEvents =
     ingest_realtime cfg clock fresh Signal accountKey ''Signal'' (''signal_realtime:'' @ accountKey)
       (withRawEventAcquisitionMode rawEvents AcqRealtime)"

definition ingestWhatsAppRealtimeEvents ::
  "ingest_settings \<Rightarrow> (nat \<Rightarrow> int) \<Rightarrow> (nat \<Rightarrow> string) \<Rightarrow> string \<Rightarrow> raw_input list \<Rightarrow> string \<Rightarrow> (ingest, ingest_error, unit) process" where
  "ingestWhatsAppRealtimeEvents cfg clock fresh accountKey rawEvents trigger =
     ingest_realtime cfg clock fresh WhatsApp accountKey ''WhatsApp'' trigger (withRawEventAcquisitionMode rawEvents AcqRealtime)"

end
