(* ===== verification/IngestProofs.thy ===== *)
theory IngestProofs
  imports IngestRun
begin

text \<open>
  What the ingest runs keep at every point at which the daemon may die: the log only grows, and the cursor of a source
  moves only once the events it stands for are in the log.
\<close>

subsection \<open>Steps that leave the log and the checkpoints alone\<close>

definition on_log :: "(raw_row list \<Rightarrow> checkpoint_row list \<Rightarrow> bool) \<Rightarrow> ingest \<Rightarrow> bool" where
  "on_log F s = F (en_raw (sv_engine (ig_service s))) (ig_checkpoints s)"

lemma realtime_loop_raw: "realtime_loop env explain now a b limit ov acc e = Inr (result, e') \<Longrightarrow> en_raw e' = en_raw e"
proof (induction "Suc b - a" arbitrary: a acc e rule: less_induct)
  case less
  show ?case
  proof (cases "b < a")
    case True
    then show ?thesis using less.prems by (simp add: realtime_loop_unfold)
  next
    case False
    then obtain r e1 where r: "projectRangeInternal env explain now Realtime a b limit ov e = Inr (r, e1)"
      using less.prems by (auto simp: realtime_loop_unfold [of _ _ _ a] ebind_eq_Inr_iff)
    show ?thesis
    proof (cases "rr_next r")
      case None
      then show ?thesis using less.prems False r range_parts(1) [OF r]
        by (auto simp: realtime_loop_unfold [of _ _ _ a] Let_def)
    next
      case (Some k)
      then have "Suc b - k < Suc b - a" using range_next [OF r] by fastforce
      from less.hyps [OF this] show ?thesis using less.prems False r Some range_parts(1) [OF r]
        by (auto simp: realtime_loop_unfold [of _ _ _ a] Let_def)
    qed
  qed
qed

lemma realtime_raw: "projectRealtimeRange env explain now a b limit ov e = Inr (result, e') \<Longrightarrow> en_raw e' = en_raw e"
  by (auto simp: projectRealtimeRange_def Let_def ebind_eq_Inr_iff dest!: realtime_loop_raw)

lemma queue_raw: "queueProjectionRun now uuid trigger rows delay svc = Inr (i, svc') \<Longrightarrow> en_raw (sv_engine svc') = en_raw (sv_engine svc)"
  by (auto simp: queueProjectionRun_def Let_def ebind_eq_Inr_iff split: prod.splits option.splits)

lemma quiet_progress [intro!]: "step_inv (on_log F) (progress_step now run)"
  unfolding progress_step_def by (rule step_inv_put) (simp add: on_log_def)

lemma quiet_proof [intro!]: "step_inv (on_log F) (proof_step now p a proof)"
  unfolding proof_step_def by (rule step_inv_write) (auto simp: on_log_def split: sum.splits)

lemma quiet_accounts [intro!]: "step_inv (on_log F) (accounts_step now accounts)"
  unfolding accounts_step_def by (rule step_inv_write) (auto simp: on_log_def split: sum.splits)

lemma quiet_realtime [intro!]: "step_inv (on_log F) (realtime_step cfg now a b)"
  unfolding realtime_step_def by (rule step_inv_write) (auto simp: on_log_def split: sum.splits dest: realtime_raw)

lemma quiet_backlog [intro!]: "step_inv (on_log F) (backlog_step now)"
  unfolding backlog_step_def by (rule step_inv_write) (auto simp: on_log_def Let_def split: prod.splits)

lemma quiet_hooks [intro!]: "step_inv (on_log F) (queueMessageReceivedHooks cfg now rows payloads)"
  unfolding queueMessageReceivedHooks_def
  by (auto split: option.split intro!: step_inv_bind step_inv_put simp: on_log_def)

lemma quiet_release [intro!]: "step_inv (on_log F) (releaseMessageReceivedHooksForRange a b)"
  unfolding releaseMessageReceivedHooksForRange_def by (rule step_inv_put) (auto simp: on_log_def split: prod.splits)

lemma quiet_queue [intro!]: "step_inv (on_log F) (queue_projection_step cfg now uuid trigger)"
  unfolding queue_projection_step_def by (rule step_inv_write) (auto simp: on_log_def split: sum.splits dest: queue_raw)

lemma quiet_project [intro!]: "step_inv (on_log F) (project_or_release cfg now uuid p a pending hasMore result)"
  unfolding project_or_release_def
  by (auto split: option.split intro!: step_inv_bind step_inv_put simp: on_log_def)

lemma quiet_continue [intro!]: "step_inv (on_log F) (continue_step cfg now uuid p a outcome)"
  unfolding continue_step_def
  by (auto split: sum.splits intro!: step_inv_bind step_inv_write simp: on_log_def)

lemma quiet_refuse [intro!]: "step_inv (on_log F) (refuse_ingest clock uuid run)"
  unfolding refuse_ingest_def by (rule step_inv_write) (auto simp: on_log_def split: sum.splits)

subsection \<open>Stored events\<close>

definition event_stored :: "raw_row list \<Rightarrow> raw_input \<Rightarrow> bool" where
  "event_stored rows e \<longleftrightarrow> (\<exists>r\<in>set rows. rw_id r = ev_id e \<or> rw_unique r = (ev_platform e, ev_account e, ev_dedupe e))"

lemma fold_insert_stored: "v \<in> set vs \<Longrightarrow> raw_conflict v (fold insert_raw vs rows)"
proof (induction vs arbitrary: rows)
  case (Cons w ws)
  have here: "raw_conflict w (insert_raw w rows)"
    by (simp add: insert_raw_def raw_conflict_def tbl_has_iff rw_unique_def)
  have grow: "set (insert_raw w rows) \<subseteq> set (fold insert_raw ws (insert_raw w rows))"
  proof -
    have "set xs \<subseteq> set (fold insert_raw us xs)" for us xs
      by (induction us arbitrary: xs) (auto simp: insert_raw_def split: if_splits, fastforce+)
    then show ?thesis .
  qed
  show ?case
  proof (cases "v \<in> set ws")
    case False
    then have "v = w" using Cons.prems by simp
    then show ?thesis using here grow by (auto simp: raw_conflict_def tbl_has_iff)
  qed (use Cons.IH in simp)
qed simp

lemma build_all_member:
  "build_all es = Inr vs \<Longrightarrow> e \<in> set es \<Longrightarrow>
   \<exists>v\<in>set vs. rw_id v = ev_id e \<and> rw_unique v = (ev_platform e, ev_account e, ev_dedupe e)"
  by (induction es arbitrary: vs) (auto simp: ebind_eq_Inr_iff buildRawEventValues_def Let_def rw_unique_def)

lemma insert_stored:
  assumes "insertRawEvents events rows = Inr (res, rows')" "e \<in> set (unique_events events)"
  shows "event_stored rows' e"
proof -
  have "events \<noteq> []" using assms(2) by (auto simp: unique_events_def js_map_from_def)
  then obtain vs where b: "build_all (unique_events events) = Inr vs" and rows': "rows' = fold insert_raw vs rows"
    using assms(1) by (auto simp: insertRawEvents_def Let_def ebind_eq_Inr_iff insert_event_chunks_concat concat_chunkArray)
  obtain v where v: "v \<in> set vs" "rw_id v = ev_id e" "rw_unique v = (ev_platform e, ev_account e, ev_dedupe e)"
    using build_all_member [OF b assms(2)] by blast
  then have "raw_conflict v rows'" using fold_insert_stored rows' by simp
  then show ?thesis using v by (auto simp: raw_conflict_def event_stored_def tbl_has_iff)
qed

lemma unique_events_map:
  assumes "\<And>e. ev_id (f e) = ev_id e"
  shows "unique_events (map f es) = map f (unique_events es)"
proof -
  have upd: "map_set k (f v) (map (\<lambda>(k, v). (k, f v)) m) = map (\<lambda>(k, v). (k, f v)) (map_set k v m)" for k v m
    unfolding map_set_def by (induction m) auto
  have "fold (\<lambda>(k, v) m. map_set k v m) (map (\<lambda>e. (ev_id e, f e)) es) (map (\<lambda>(k, v). (k, f v)) m) =
      map (\<lambda>(k, v). (k, f v)) (fold (\<lambda>(k, v) m. map_set k v m) (map (\<lambda>e. (ev_id e, e)) es) m)" for m
    by (induction es arbitrary: m) (simp_all add: upd)
  from this [of "[]"] show ?thesis by (simp add: unique_events_def js_map_from_def assms o_def case_prod_beta)
qed

lemma mode_stored:
  assumes "insertRawEvents (withRawEventAcquisitionMode events mode) rows = Inr (res, rows')" "e \<in> set (unique_events events)"
  shows "event_stored rows' e"
proof -
  let ?f = "\<lambda>e. e\<lparr>ev_provenance := Some ((get_or (ev_provenance e)
      \<lparr>pv_api_version = None, pv_adapter_version = None, pv_mode = None\<rparr>)\<lparr>pv_mode := Some mode\<rparr>)\<rparr>"
  have "?f e \<in> set (unique_events (withRawEventAcquisitionMode events mode))"
    using assms(2) unfolding withRawEventAcquisitionMode_def by (subst unique_events_map) auto
  from insert_stored [OF assms(1) this] show ?thesis by (simp add: event_stored_def)
qed


subsection \<open>The cursor follows the events\<close>

definition cursor_of :: "platform \<Rightarrow> string \<Rightarrow> checkpoint_row list \<Rightarrow> json option" where
  "cursor_of p a cps = Option.bind (getCheckpoint p a cps) cp_cursor"

lemma cursor_upsert:
  assumes "upsertCheckpoint now p a mode cursor w t err cps = Inr cps'"
  shows "cursor_of p a cps' = safeStringifyJson cursor"
proof (cases "tbl_has cp_source (p, a) cps")
  case True
  let ?v = "checkpoint_values now p a mode cursor w t err"
  have v: "cp_source ?v = (p, a)" "cp_cursor ?v = safeStringifyJson cursor" by (simp_all add: checkpoint_values_def cp_source_def)
  have eq: "cps' = tbl_update (\<lambda>x. cp_source x = cp_source ?v)
      (\<lambda>r. r\<lparr>cp_cursor := cp_cursor ?v, cp_raw_watermark := cp_raw_watermark ?v, cp_mode := mode,
         cp_last_full_sync := (if mode = FullSync then cp_last_success ?v else cp_last_full_sync r),
         cp_last_success := cp_last_success ?v, cp_last_error := cp_last_error ?v, cp_updated_at := cp_updated_at ?v\<rparr>) cps"
    using assms True v by (simp add: upsertCheckpoint_def tbl_upsert_pk_def Let_def)
  obtain r where "tbl_get cp_source (p, a) cps = Some r" "cp_source r = (p, a)"
    using True by (metis not_Some_eq tbl_get_None_iff tbl_get_SomeD)
  then show ?thesis unfolding eq cursor_of_def getCheckpoint_def v
    by (subst tbl_get_update) (simp_all add: cp_source_def)
next
  case False
  then have "cps' = cps @ [checkpoint_values now p a mode cursor w t err]" "tbl_get cp_source (p, a) cps = None"
    using assms by (auto simp: upsertCheckpoint_def tbl_upsert_pk_def Let_def checkpoint_values_def cp_source_def tbl_get_None_iff split: if_splits)
  then show ?thesis
    by (simp add: cursor_of_def getCheckpoint_def tbl_get_append checkpoint_values_def cp_source_def)
qed

lemma cursor_error: "cursor_of p a (recordCheckpointError t t' q b message cps) = cursor_of p a cps"
  unfolding cursor_of_def getCheckpoint_def recordCheckpointError_def
  by (subst tbl_get_update) (auto simp: cp_source_def split: option.split bind_split) 

text \<open>The cursor is still \<open>old\<close>, or it is \<open>new\<close> and the events are stored; the log has kept its rows.\<close>

definition cursor_safe ::
  "raw_row list \<Rightarrow> platform \<Rightarrow> string \<Rightarrow> json option \<Rightarrow> json option \<Rightarrow> raw_input list \<Rightarrow> raw_row list \<Rightarrow> checkpoint_row list \<Rightarrow> bool" where
  "cursor_safe rows0 p a old new events rows cps \<longleftrightarrow> raw_inv rows \<and> set rows0 \<subseteq> set rows \<and>
     (cursor_of p a cps = old \<or> cursor_of p a cps = new \<and> (\<forall>e\<in>set (unique_events events). event_stored rows e))"

definition cursor_free ::
  "raw_row list \<Rightarrow> platform \<Rightarrow> string \<Rightarrow> json option \<Rightarrow> json option \<Rightarrow> raw_input list \<Rightarrow> raw_row list \<Rightarrow> checkpoint_row list \<Rightarrow> bool" where
  "cursor_free rows0 p a old new events rows cps \<longleftrightarrow> cursor_safe rows0 p a old new events rows cps \<and>
     (\<forall>e\<in>set (unique_events events). event_stored rows e)"

lemma settle_keeps:
  assumes "safeStringifyJson (io_cursor outcome) = new"
  shows "step_inv (on_log (cursor_free rows0 p (run_account_key run p) old new events)) (settle_phase cfg clock fresh timings run p checkpoint outcome)"
proof -
  let ?F = "cursor_free rows0 p (run_account_key run p) old new events"
  have cp: "step_inv (on_log ?F) (checkpoint_step now p (run_account_key run p) mode (io_cursor outcome) maxRow okAt)" for now mode maxRow okAt
    unfolding checkpoint_step_def
    by (rule step_inv_write)
      (auto simp: on_log_def cursor_free_def cursor_safe_def assms split: sum.splits dest: cursor_upsert)
  show ?thesis unfolding settle_phase_def Let_def
    by (auto split: option.split intro!: step_inv_bind cp step_inv_put simp: on_log_def)
qed

lemma fail_keeps: "step_inv (on_log (cursor_safe rows0 p a old new events)) (fail_ingest clock uuid message run q)"
proof -
  let ?F = "cursor_safe rows0 p a old new events"
  have put1: "step_inv (on_log ?F) (step_put (\<lambda>s. s\<lparr>ig_pacing := f s\<rparr>))" for f :: "ingest \<Rightarrow> pacing"
    by (rule step_inv_put) (simp add: on_log_def)
  have put2: "step_inv (on_log ?F) (step_put (\<lambda>s. s\<lparr>ig_checkpoints := recordCheckpointError t t q b m (ig_checkpoints s)\<rparr>))" for t b m
    by (rule step_inv_put) (simp add: on_log_def cursor_safe_def cursor_error)
  show ?thesis unfolding fail_ingest_def
    by (intro step_inv_bind put1 put2 step_inv_write) (auto simp: on_log_def split: sum.splits)
qed

lemma insert_keeps:
  "holds_over (on_log (cursor_safe rows0 p a old new events)) (on_log (\<lambda>rows cps. raw_inv rows \<and> set rows0 \<subseteq> set rows \<and> cursor_of p a cps = old))
     (insert_step (withRawEventAcquisitionMode events mode)) (\<lambda>_. on_log (cursor_free rows0 p a old new events))"
  unfolding insert_step_def
proof (rule holds_write)
  fix s x s'
  assume pre: "on_log (\<lambda>rows cps. raw_inv rows \<and> set rows0 \<subseteq> set rows \<and> cursor_of p a cps = old) s"
    and w: "(case insertRawEvents (withRawEventAcquisitionMode events mode) (en_raw (sv_engine (ig_service s))) of
       Inl err \<Rightarrow> Inl (IeSchema err)
     | Inr (result, raw) \<Rightarrow>
         Inr (result, s\<lparr>ig_service := (ig_service s)\<lparr>sv_engine := (sv_engine (ig_service s))\<lparr>en_raw := raw\<rparr>\<rparr>\<rparr>)) = Inr (x, s')"
  then obtain raw where i: "insertRawEvents (withRawEventAcquisitionMode events mode) (en_raw (sv_engine (ig_service s))) = Inr (x, raw)"
    and s': "s' = s\<lparr>ig_service := (ig_service s)\<lparr>sv_engine := (sv_engine (ig_service s))\<lparr>en_raw := raw\<rparr>\<rparr>\<rparr>"
    by (auto split: sum.splits)
  have inv: "raw_inv (en_raw (sv_engine (ig_service s)))" using pre by (simp add: on_log_def)
  obtain more where "raw_inv raw" "raw = en_raw (sv_engine (ig_service s)) @ more" using ingest_is_append [OF inv i] by blast
  then show "on_log (cursor_free rows0 p a old new events) s'"
    using pre mode_stored [OF i] by (auto simp: on_log_def cursor_free_def cursor_safe_def s')
qed (auto simp: on_log_def cursor_safe_def cursor_free_def)

lemma adapter_keeps:
  "holds_over (on_log (cursor_safe rows0 p a old (safeStringifyJson (sb_cursor bundle)) (sb_events bundle)))
     (on_log (\<lambda>rows cps. raw_inv rows \<and> set rows0 \<subseteq> set rows \<and> cursor_of p a cps = old))
     (adapter_phase clock run p checkpoint (Inr bundle))
     (\<lambda>outcome s. io_cursor outcome = sb_cursor bundle \<and>
        on_log (cursor_free rows0 p a old (safeStringifyJson (sb_cursor bundle)) (sb_events bundle)) s)"
proof -
  let ?new = "safeStringifyJson (sb_cursor bundle)"
  let ?F = "on_log (cursor_free rows0 p a old ?new (sb_events bundle))"
  let ?P = "on_log (\<lambda>rows cps. raw_inv rows \<and> set rows0 \<subseteq> set rows \<and> cursor_of p a cps = old)"
  let ?I = "on_log (cursor_safe rows0 p a old ?new (sb_events bundle))"
  have PI: "?P s \<Longrightarrow> ?I s" and FI: "?F s \<Longrightarrow> ?I s" for s by (auto simp: on_log_def cursor_safe_def cursor_free_def)
  have proofs: "holds_over ?I ?F (step_all (proof_step (clock 2) p (run_account_key run p)) (sb_proofs bundle)) (\<lambda>_. ?F)"
    by (intro holds_inv step_inv_all quiet_proof FI)
  have progress: "holds_over ?I ?P (progress_step now run) (\<lambda>_. ?P)" for now by (intro holds_inv quiet_progress PI)
  show ?thesis unfolding adapter_phase_def sum.case
    by (intro holds_bind [OF progress] holds_bind [OF insert_keeps] holds_bind [OF proofs] holds_return) simp
qed

text \<open>
  C1: no events are lost to a crash or to an exception. Wherever a sync run stops, the log has kept its rows, and the
  cursor of the source is still the one the run began with, or it is that of the bundle and every event of the bundle is
  in the log (under its id or its dedupe key).
\<close>

theorem cursor_follows_events:
  assumes "raw_inv (en_raw (sv_engine (ig_service s)))" and "run_platform run = Some p"
    and "ingest_with cfg message clock fresh timings run (\<lambda>q cp. adapter_phase clock run q cp (Inr bundle)) s = (seen, r, s')"
    and "t \<in> set (seen @ [s'])"
  shows "set (en_raw (sv_engine (ig_service s))) \<subseteq> set (en_raw (sv_engine (ig_service t))) \<and>
    (cursor_of p (run_account_key run p) (ig_checkpoints t) = cursor_of p (run_account_key run p) (ig_checkpoints s) \<or>
     cursor_of p (run_account_key run p) (ig_checkpoints t) = safeStringifyJson (sb_cursor bundle) \<and>
     (\<forall>e\<in>set (unique_events (sb_events bundle)). event_stored (en_raw (sv_engine (ig_service t))) e))"
proof -
  let ?rows = "en_raw (sv_engine (ig_service s))" and ?a = "run_account_key run p"
  let ?old = "cursor_of p ?a (ig_checkpoints s)" and ?new = "safeStringifyJson (sb_cursor bundle)"
  let ?I = "on_log (cursor_safe ?rows p ?a ?old ?new (sb_events bundle))"
  let ?F = "on_log (cursor_free ?rows p ?a ?old ?new (sb_events bundle))"
  let ?P = "on_log (\<lambda>rows cps. raw_inv rows \<and> set ?rows \<subseteq> set rows \<and> cursor_of p ?a cps = ?old)"
  have settle: "holds_over ?I (\<lambda>s. io_cursor outcome = sb_cursor bundle \<and> ?F s) (settle_phase cfg clock fresh timings run p checkpoint outcome) (\<lambda>_. ?I)"
    for checkpoint outcome
  proof (cases "io_cursor outcome = sb_cursor bundle")
    case True
    have FI: "?F s \<Longrightarrow> ?I s" for s by (simp add: on_log_def cursor_free_def)
    have new: "safeStringifyJson (io_cursor outcome) = ?new" using True by simp
    have h: "holds_over ?I ?F (settle_phase cfg clock fresh timings run p checkpoint outcome) (\<lambda>_. ?F)"
      by (rule holds_inv [OF settle_keeps [OF new] FI])
    have "holds_over ?I ?F (settle_phase cfg clock fresh timings run p checkpoint outcome) (\<lambda>_. ?I)"
      by (rule holds_post [OF h FI])
    then show ?thesis by (rule holds_pre) simp
  qed (simp add: holds_false)
  have "holds_over ?I ?P (ingest_with cfg message clock fresh timings run (\<lambda>q cp. adapter_phase clock run q cp (Inr bundle))) (\<lambda>_. ?I)"
  proof -
    have PI: "?P s \<Longrightarrow> ?I s" for s by (simp add: on_log_def cursor_safe_def)
    have r: "holds_over ?I ?P (refuse_ingest clock (fresh 2) run) (\<lambda>_. ?I)"
      by (rule holds_post [OF holds_inv [OF quiet_refuse PI] PI])
    have get: "holds_over ?I ?P (step_get (prior_checkpoint run p)) (\<lambda>_. ?P)"
      by (intro holds_inv step_inv_get PI)
    have b: "holds_over ?I ?P (step_bind (step_get (prior_checkpoint run p)) (\<lambda>checkpoint.
             step_bind (adapter_phase clock run p checkpoint (Inr bundle)) (\<lambda>outcome.
               settle_phase cfg clock fresh timings run p checkpoint outcome))) (\<lambda>_. ?I)"
      by (rule holds_bind [OF get holds_bind [OF adapter_keeps settle]])
    show ?thesis unfolding ingest_with_def assms(2) option.case
      using r holds_catch [OF b fail_keeps] by simp
  qed
  moreover have "?P s" using assms(1) by (simp add: on_log_def)
  ultimately have "list_all ?I seen \<and> ?I s'" using assms(3) by (rule holds_all)
  then have "?I t" using assms(4) by (auto simp: list_all_iff)
  then show ?thesis by (auto simp: on_log_def cursor_safe_def)
qed


definition demo_bundle :: sync_bundle where
  "demo_bundle = \<lparr>sb_accounts = [], sb_cursor = Some (JObj [(''page'', JStr ''2'')]), sb_mode = Some FullSync, sb_has_more = True,
     sb_continuation = None, sb_diagnostics = None, sb_events = [demo_event], sb_proofs = []\<rparr>"

definition demo_ingest_state :: ingest where
  "demo_ingest_state = \<lparr>ig_service = \<lparr>sv_engine = (sample_engine [])\<lparr>en_cache := Some createProjectionCache\<rparr>,
       sv_runs = \<lparr>rdb_runs = [], rdb_errors = []\<rparr>\<rparr>,
     ig_accounts = [], ig_checkpoints = [], ig_proofs = \<lparr>pdb_scopes = [], pdb_proofs = []\<rparr>, ig_hooks = [], ig_sent = [],
     ig_continuations = Map.empty, ig_pacing = Map.empty\<rparr>"

definition demo_settings :: ingest_settings where
  "demo_settings = \<lparr>is_env = (\<lambda>_. None), is_interactive = False, is_proj = sample_env, is_explain = (\<lambda>_. ''x'')\<rparr>"

theorem cursor_follows_events_witness:
  "\<exists>seen r s'. ingest_with demo_settings (\<lambda>_. ''failed'') (\<lambda>k. int k) demo_fresh JNull
      (queued_run 0 ''r'' (triggered_input ''scheduler'' (Slack, ''a'')))
      (\<lambda>q cp. adapter_phase (\<lambda>k. int k) (queued_run 0 ''r'' (triggered_input ''scheduler'' (Slack, ''a''))) q cp (Inr demo_bundle))
      demo_ingest_state = (seen, r, s') \<and>
     (\<forall>t\<in>set (seen @ [s']). cursor_of Slack ''a'' (ig_checkpoints t) = None \<or>
        cursor_of Slack ''a'' (ig_checkpoints t) = Some (JObj [(''page'', JStr ''2'')]) \<and> event_stored (en_raw (sv_engine (ig_service t))) demo_event)"
proof -
  let ?run = "queued_run 0 ''r'' (triggered_input ''scheduler'' (Slack, ''a''))"
  obtain seen r s' where i: "ingest_with demo_settings (\<lambda>_. ''failed'') (\<lambda>k. int k) demo_fresh JNull ?run
      (\<lambda>q cp. adapter_phase (\<lambda>k. int k) ?run q cp (Inr demo_bundle)) demo_ingest_state = (seen, r, s')"
    by (metis prod_cases3)
  have run: "run_platform ?run = Some Slack" "run_account_key ?run Slack = ''a''"
    by (simp_all add: queued_run_def triggered_input_def run_account_key_def)
  have raw: "raw_inv (en_raw (sv_engine (ig_service demo_ingest_state)))"
    by (simp add: demo_ingest_state_def sample_engine_def raw_inv_def keyed_def)
  have ev: "unique_events (sb_events demo_bundle) = [demo_event]"
    by (simp add: demo_bundle_def unique_events_def js_map_from_def map_set_def)
  have start: "cursor_of Slack ''a'' (ig_checkpoints demo_ingest_state) = None"
    by (simp add: cursor_of_def getCheckpoint_def demo_ingest_state_def tbl_get_None_iff)
  have new: "safeStringifyJson (sb_cursor demo_bundle) = Some (JObj [(''page'', JStr ''2'')])"
    by (simp add: safeStringifyJson_def demo_bundle_def)
  have "cursor_of Slack ''a'' (ig_checkpoints t) = None \<or>
      cursor_of Slack ''a'' (ig_checkpoints t) = Some (JObj [(''page'', JStr ''2'')]) \<and> event_stored (en_raw (sv_engine (ig_service t))) demo_event"
    if "t \<in> set (seen @ [s'])" for t
    using cursor_follows_events [OF raw run(1) i that] unfolding run(2) ev start new by simp
  with i show ?thesis by (intro exI conjI ballI)
qed

end
