(* ===== verification/AuthFlow.thy ===== *)
theory AuthFlow
  imports Process RunQueue SyncProofs
begin

text \<open>
  The life of a connected account (\<^verbatim>\<open>src/platforms/core/state/mutations.ts\<close> and the parts of
  \<^verbatim>\<open>src/platforms/core/state/status.ts\<close> it rests on): an account is requested, signed in by a helper process,
  completed or abandoned, invalidated, disconnected and removed. Every database call commits on its own, so each
  operation is a process. The file system, the keychain and the process table are not part of the program: the
  directories and the checks on them are arguments, and what is done to them is recorded in order.
\<close>

subsection \<open>State\<close>

datatype runtime_kind = RkChromium | RkNative | RkOauth | RkQrNative

fun runtime_kind_name :: "runtime_kind \<Rightarrow> string" where
  "runtime_kind_name RkChromium = ''chromium''"
| "runtime_kind_name RkNative = ''native''"
| "runtime_kind_name RkOauth = ''oauth''"
| "runtime_kind_name RkQrNative = ''qr_native''"

definition parseIntegrationRuntimeKind :: "string option \<Rightarrow> runtime_kind \<Rightarrow> runtime_kind" where
  "parseIntegrationRuntimeKind value fallback =
     get_or (Option.bind value (\<lambda>v. find (\<lambda>k. runtime_kind_name k = v) [RkChromium, RkNative, RkOauth, RkQrNative])) fallback"

datatype auth_effect = DeletedSecret string string | RemovedDirectory string | MovedDirectory string string

record accounts_db =
  ac_integrations :: integration_db
  ac_accounts :: "account_row list"
  ac_checkpoints :: "checkpoint_row list"
  ac_proofs :: proof_db
  ac_runs :: run_db
  ac_slack_backfill :: "string list"
  ac_effects :: "auth_effect list"

text \<open>What the operations learn from outside: the clock, the paths, which removals the path checks refuse, and processes.\<close>

record auth_env =
  ae_clock :: "nat \<Rightarrow> int"
  ae_profile_dir :: "platform \<Rightarrow> string \<Rightarrow> string"
  ae_signal_dir :: "string \<Rightarrow> string"
  ae_whatsapp_dir :: "string \<Rightarrow> string"
  ae_refuses :: "string \<Rightarrow> bool"
  ae_process_exists :: "int \<Rightarrow> bool"

datatype auth_error =
    UnsupportedPlatform string | UnsupportedRequest string | AccountMissing | AccountAmbiguous
  | BadAccountKey account_key_error | SessionMissing | RefusedDirectory string | SummaryUnavailable | AuthDb integration_error

type_synonym 'a auth = "(accounts_db, auth_error, 'a) process"

subsection \<open>Rows and their metadata\<close>

text \<open>\<open>{...base, ...updates}\<close> and \<open>value ?? fallback\<close>.\<close>

definition spread_with :: "(string \<times> json) list \<Rightarrow> (string \<times> json) list \<Rightarrow> (string \<times> json) list" where
  "spread_with base updates = js_map_from (base @ updates)"

definition nullish_or :: "json option \<Rightarrow> json \<Rightarrow> json" where
  "nullish_or value fallback = (case value of None \<Rightarrow> fallback | Some JNull \<Rightarrow> fallback | Some j \<Rightarrow> j)"

definition row_metadata :: "integration_row \<Rightarrow> json option" where
  "row_metadata row = safeParseJsonRecord (in_metadata row)"

definition metadata_get :: "json option \<Rightarrow> string \<Rightarrow> json option" where
  "metadata_get metadata k = Option.bind metadata (\<lambda>m. jget m k)"

definition isUserRemovedIntegrationMetadata :: "json option \<Rightarrow> bool" where
  "isUserRemovedIntegrationMetadata metadata \<longleftrightarrow> metadata_get metadata ''userRemoved'' = Some (JBool True)"

definition isUserRemovedIntegrationRow :: "integration_row \<Rightarrow> bool" where
  "isUserRemovedIntegrationRow row \<longleftrightarrow> isUserRemovedIntegrationMetadata (row_metadata row)"

definition isGeneratedPendingAccountKey :: "string \<Rightarrow> string \<Rightarrow> bool" where
  "isGeneratedPendingAccountKey platform accountKey \<longleftrightarrow>
     platform = ''gmail'' \<and> starts_with ''pending-gmail-'' accountKey \<or>
     platform = ''slack'' \<and> starts_with ''pending-slack-'' accountKey"

definition isHiddenGeneratedPendingIntegrationRow :: "integration_row \<Rightarrow> bool" where
  "isHiddenGeneratedPendingIntegrationRow row \<longleftrightarrow>
     isGeneratedPendingAccountKey (in_platform row) (in_account row) \<and> in_auth_state row \<notin> {AsRequested, AsInProgress}"

definition isHiddenIntegrationRow :: "integration_row \<Rightarrow> bool" where
  "isHiddenIntegrationRow row \<longleftrightarrow> isUserRemovedIntegrationRow row \<or> isHiddenGeneratedPendingIntegrationRow row"

definition deriveRuntimeKind :: "integration_row \<Rightarrow> runtime_kind" where
  "deriveRuntimeKind row =
     (case jstr (metadata_get (row_metadata row) ''runtimeKind'') of
        Some kind \<Rightarrow> parseIntegrationRuntimeKind (Some kind) RkNative
      | None \<Rightarrow> (case in_launch_strategy row of
            Some ChromiumAuth \<Rightarrow> RkChromium | Some QrNative \<Rightarrow> RkQrNative | _ \<Rightarrow> RkNative))"

definition getKeychainMetadata :: "json option \<Rightarrow> string option \<times> string option" where
  "getKeychainMetadata metadata =
     (jstr (metadata_get metadata ''keychainService''), jstr (metadata_get metadata ''keychainAccount''))"

fun firstNonEmptyDisplayName :: "string option list \<Rightarrow> string option" where
  "firstNonEmptyDisplayName [] = None"
| "firstNonEmptyDisplayName (None # values) = firstNonEmptyDisplayName values"
| "firstNonEmptyDisplayName (Some v # values) =
     (if js_trim v = [] then firstNonEmptyDisplayName values else Some (js_trim v))"

subsection \<open>Which account is meant\<close>

definition normalizeIntegrationPlatform :: "string \<Rightarrow> auth_error + platform" where
  "normalizeIntegrationPlatform p =
     (case parsePlatform (js_lower (js_trim p)) of Some q \<Rightarrow> Inr q | None \<Rightarrow> Inl (UnsupportedPlatform p))"

definition auth_key :: "account_key_error + string \<Rightarrow> auth_error + string" where
  "auth_key r = (case r of Inl err \<Rightarrow> Inl (BadAccountKey err) | Inr k \<Rightarrow> Inr k)"

definition resolveAccountKey :: "platform \<Rightarrow> string option \<Rightarrow> integration_db \<Rightarrow> auth_error + string" where
  "resolveAccountKey platform accountKey db =
     (case accountKey of
        Some _ \<Rightarrow> auth_key (resolveIntegrationAccountKey accountKey (getDefaultAccountKeyForPlatform platform))
      | None \<Rightarrow>
          (case filter (\<lambda>r. in_platform r = platform_name platform \<and> \<not> isHiddenIntegrationRow r) (listIntegrationStates db) of
             [r] \<Rightarrow> Inr (in_account r) | [] \<Rightarrow> Inl AccountMissing | _ \<Rightarrow> Inl AccountAmbiguous))"

subsection \<open>Summaries\<close>

text \<open>What a summary holds of the state of the account; the statistics over messages are left out.\<close>

record integration_summary =
  su_platform :: platform
  su_account :: string
  su_display_name :: "string option"
  su_auth_state :: auth_state
  su_enabled :: bool
  su_connection :: connection_kind
  su_runtime :: runtime_kind
  su_sync_capable :: bool
  su_launch_strategy :: "launch_strategy option"
  su_launch_target :: "string option"
  su_imported_from :: "string option"
  su_artifact_paths :: "string list"
  su_metadata :: "json option"
  su_last_seen :: int
  su_updated_at :: int
  su_latest_session :: "string option"

definition summary_display_name :: "platform \<Rightarrow> integration_row \<Rightarrow> account_row list \<Rightarrow> string option" where
  "summary_display_name p row accounts =
     (if p = LinkedIn \<and> map_option js_trim (in_display_name row) = Some ''LinkedIn''
      then coalesce (firstNonEmptyDisplayName [getSourceAccountDisplayName p (in_account row) accounts, in_display_name row])
             (in_display_name row)
      else in_display_name row)"

definition summarizeIntegrationState :: "accounts_db \<Rightarrow> integration_row \<Rightarrow> integration_summary option" where
  "summarizeIntegrationState s row =
     (case parsePlatform (in_platform row) of
        None \<Rightarrow> None
      | Some p \<Rightarrow> Some
          \<lparr>su_platform = p, su_account = in_account row, su_display_name = summary_display_name p row (ac_accounts s),
           su_auth_state = in_auth_state row, su_enabled = in_enabled row, su_connection = in_connection row,
           su_runtime = deriveRuntimeKind row, su_sync_capable = in_sync_capable row,
           su_launch_strategy = in_launch_strategy row, su_launch_target = in_launch_target row,
           su_imported_from = in_imported_from row, su_artifact_paths = safeParseJsonStringArray (in_artifact_paths row),
           su_metadata = row_metadata row, su_last_seen = in_last_seen row, su_updated_at = in_updated_at row,
           su_latest_session = map_option as_id (getLatestAuthSession (in_platform row) (in_account row) (ac_integrations s))\<rparr>)"

definition getIntegrationSummary :: "string \<Rightarrow> string option \<Rightarrow> accounts_db \<Rightarrow> auth_error + integration_summary" where
  "getIntegrationSummary platform accountKey s =
     ebind (normalizeIntegrationPlatform platform) (\<lambda>p.
     ebind (resolveAccountKey p accountKey (ac_integrations s)) (\<lambda>key.
       case getIntegrationState (platform_name p) key (ac_integrations s) of
         None \<Rightarrow> Inl AccountMissing
       | Some row \<Rightarrow> (case summarizeIntegrationState s row of None \<Rightarrow> Inl SummaryUnavailable | Some su \<Rightarrow> Inr su)))"

text \<open>The row of an account written back with another state: what every operation on a summary starts from.\<close>

definition summary_input :: "integration_summary \<Rightarrow> (string \<times> json) list \<Rightarrow> integration_input" where
  "summary_input su updates =
     \<lparr>ii_platform = platform_name (su_platform su), ii_account = su_account su, ii_display_name = su_display_name su,
      ii_auth_state = su_auth_state su, ii_enabled = Some (su_enabled su), ii_connection = su_connection su,
      ii_sync_capable = Some (su_sync_capable su), ii_launch_strategy = su_launch_strategy su,
      ii_launch_target = su_launch_target su, ii_imported_from = su_imported_from su,
      ii_artifact_paths = Some (JArr (map JStr (su_artifact_paths su))),
      ii_metadata = Some (JObj (spread_with (js_spread (su_metadata su)) updates))\<rparr>"

text \<open>The same from a row of the table.\<close>

definition row_input :: "integration_row \<Rightarrow> (string \<times> json) list \<Rightarrow> integration_input" where
  "row_input row updates =
     \<lparr>ii_platform = in_platform row, ii_account = in_account row, ii_display_name = in_display_name row,
      ii_auth_state = in_auth_state row, ii_enabled = Some (in_enabled row), ii_connection = in_connection row,
      ii_sync_capable = Some (in_sync_capable row), ii_launch_strategy = in_launch_strategy row,
      ii_launch_target = in_launch_target row, ii_imported_from = in_imported_from row,
      ii_artifact_paths = Some (JArr (map JStr (safeParseJsonStringArray (in_artifact_paths row)))),
      ii_metadata = Some (JObj (spread_with (js_spread (row_metadata row)) updates))\<rparr>"

subsection \<open>Steps\<close>

definition auth_write :: "(integration_db \<Rightarrow> integration_error + integration_db) \<Rightarrow> unit auth" where
  "auth_write f = step_write (\<lambda>s. case f (ac_integrations s) of
       Inl err \<Rightarrow> Inl (AuthDb err) | Inr db \<Rightarrow> Inr ((), s\<lparr>ac_integrations := db\<rparr>))"

definition auth_read :: "(accounts_db \<Rightarrow> auth_error + 'a) \<Rightarrow> 'a auth" where
  "auth_read f = step_bind (step_get f) (\<lambda>r. case r of Inl err \<Rightarrow> step_throw err | Inr x \<Rightarrow> step_return x)"

definition effect_step :: "auth_effect \<Rightarrow> unit auth" where
  "effect_step e = step_put (\<lambda>s. s\<lparr>ac_effects := ac_effects s @ [e]\<rparr>)"

definition upsert_step :: "int \<Rightarrow> integration_input \<Rightarrow> unit auth" where
  "upsert_step now v = auth_write (upsertIntegrationState now v)"

definition deleteKeychainSecret :: "string option \<times> string option \<Rightarrow> unit auth" where
  "deleteKeychainSecret keychain =
     (case keychain of
        (Some service, Some account) \<Rightarrow>
          if service = [] \<or> account = [] then step_return () else effect_step (DeletedSecret service account)
      | _ \<Rightarrow> step_return ())"

definition remove_directory :: "auth_env \<Rightarrow> string \<Rightarrow> unit auth" where
  "remove_directory env path =
     (if ae_refuses env path then step_throw (RefusedDirectory path) else effect_step (RemovedDirectory path))"

subsection \<open>What can be requested\<close>

record requestable_config =
  rc_connection :: connection_kind
  rc_runtime :: runtime_kind
  rc_launch_strategy :: launch_strategy
  rc_launch_target :: "string option"
  rc_display_name :: string
  rc_metadata :: "(string \<times> json) list"

fun REQUESTABLE_INTEGRATIONS :: "platform \<Rightarrow> requestable_config option" where
  "REQUESTABLE_INTEGRATIONS Slack = Some \<lparr>rc_connection = BrowserSession, rc_runtime = RkChromium,
     rc_launch_strategy = ChromiumAuth, rc_launch_target = Some ''https://slack.com/signin'', rc_display_name = ''Slack'',
     rc_metadata = [(''authCapture'', JStr ''localStorage.localConfig_v2 + cookie:d'')]\<rparr>"
| "REQUESTABLE_INTEGRATIONS Discord = Some \<lparr>rc_connection = BrowserSession, rc_runtime = RkChromium,
     rc_launch_strategy = ChromiumAuth, rc_launch_target = Some ''https://discord.com/login'', rc_display_name = ''Discord'',
     rc_metadata = [(''authCapture'', JStr ''localStorage.token'')]\<rparr>"
| "REQUESTABLE_INTEGRATIONS Gmail = Some \<lparr>rc_connection = LocalCli, rc_runtime = RkOauth,
     rc_launch_strategy = NativeAuth, rc_launch_target = None, rc_display_name = ''Gmail'',
     rc_metadata = [(''authCapture'', JStr ''google_oauth_loopback_pkce''),
       (''scopes'', JArr [JStr ''https://www.googleapis.com/auth/gmail.readonly''])]\<rparr>"
| "REQUESTABLE_INTEGRATIONS LinkedIn = Some \<lparr>rc_connection = BrowserSession, rc_runtime = RkChromium,
     rc_launch_strategy = ChromiumAuth, rc_launch_target = Some ''https://www.linkedin.com/login'',
     rc_display_name = ''LinkedIn'', rc_metadata = [(''authCapture'', JStr ''cookies:li_at,JSESSIONID'')]\<rparr>"
| "REQUESTABLE_INTEGRATIONS WhatsApp = Some \<lparr>rc_connection = QrLink, rc_runtime = RkQrNative,
     rc_launch_strategy = QrNative, rc_launch_target = None, rc_display_name = ''WhatsApp'',
     rc_metadata = [(''authCapture'', JStr ''qr_pairing''), (''pairingKind'', JStr ''native_qr'')]\<rparr>"
| "REQUESTABLE_INTEGRATIONS Signal = Some \<lparr>rc_connection = LocalCli, rc_runtime = RkQrNative,
     rc_launch_strategy = QrNative, rc_launch_target = None, rc_display_name = ''Signal'',
     rc_metadata = [(''authCapture'', JStr ''signal_cli_link''), (''pairingKind'', JStr ''native_qr''),
       (''helper'', JStr ''cued-signal-cli'')]\<rparr>"
| "REQUESTABLE_INTEGRATIONS _ = None"

definition getRequestableIntegration :: "string \<Rightarrow> auth_error + requestable_config" where
  "getRequestableIntegration platform =
     ebind (normalizeIntegrationPlatform platform) (\<lambda>p.
       if p \<notin> set requestable_integration_values then Inl (UnsupportedRequest platform)
       else case REQUESTABLE_INTEGRATIONS p of None \<Rightarrow> Inl (UnsupportedRequest platform) | Some c \<Rightarrow> Inr c)"

definition shouldAppendAccountKeyToDisplayName :: "platform \<Rightarrow> string \<Rightarrow> bool" where
  "shouldAppendAccountKeyToDisplayName platform accountKey \<longleftrightarrow>
     \<not> (platform = Slack \<and> starts_with ''pending-slack-'' accountKey) \<and>
     accountKey \<noteq> getDefaultAccountKeyForPlatform platform"

definition supported_by_daemon :: "string \<Rightarrow> bool" where
  "supported_by_daemon platform \<longleftrightarrow> platform \<in> set (map platform_name adapter_platform_values)"

definition auth_manager :: "platform \<Rightarrow> runtime_kind \<Rightarrow> string" where
  "auth_manager platform kind =
     (if platform = Signal then ''signal-helper-runtime'' else if kind = RkChromium then ''chromium-runtime''
      else if kind = RkOauth then ''oauth-loopback-runtime'' else ''native-qr-runtime'')"

definition requested_metadata ::
  "auth_env \<Rightarrow> int \<Rightarrow> platform \<Rightarrow> string \<Rightarrow> requestable_config \<Rightarrow> json option \<Rightarrow> (string \<times> json) list" where
  "requested_metadata env now platform accountKey c existing =
     spread_with (js_spread existing) (rc_metadata c @
       [(''supportedByDaemon'', JBool (supported_by_daemon (platform_name platform))),
        (''authManagedBy'', JStr (auth_manager platform (rc_runtime c))),
        (''requestedAt'', nullish_or (metadata_get existing ''requestedAt'') (JNum (Fin (of_int now)))),
        (''runtimeKind'', JStr (runtime_kind_name (rc_runtime c))),
        (''browserProfileDir'', if rc_runtime c = RkChromium then JStr (ae_profile_dir env platform accountKey) else JNull),
        (''configDir'', if platform = Signal then JStr (ae_signal_dir env accountKey) else JNull),
        (''storeDir'', if platform = WhatsApp then JStr (ae_whatsapp_dir env accountKey) else JNull),
        (''userRemoved'', JBool False), (''removedAt'', JNull)])"

definition requested_input ::
  "auth_env \<Rightarrow> int \<Rightarrow> platform \<Rightarrow> bool \<Rightarrow> string \<Rightarrow> requestable_config \<Rightarrow> integration_row option \<Rightarrow> integration_input" where
  "requested_input env now platform named accountKey c existing =
     (let metadata = Option.bind existing row_metadata; removed = isUserRemovedIntegrationMetadata metadata in
      \<lparr>ii_platform = platform_name platform, ii_account = accountKey,
       ii_display_name = Some (if named \<and> shouldAppendAccountKeyToDisplayName platform accountKey
         then rc_display_name c @ '' '' @ accountKey else rc_display_name c),
       ii_auth_state = (if removed then AsRequested else get_or (map_option in_auth_state existing) AsRequested),
       ii_enabled = Some (removed \<or> get_or (map_option in_enabled existing) True),
       ii_connection = rc_connection c, ii_sync_capable = Some False,
       ii_launch_strategy = Some (rc_launch_strategy c), ii_launch_target = rc_launch_target c,
       ii_imported_from = coalesce (Option.bind existing in_imported_from)
         (Some (if platform = Signal then ''bundled-helper'' else ''local-cli'')),
       ii_artifact_paths = None,
       ii_metadata = Some (JObj (requested_metadata env now platform accountKey c metadata))\<rparr>)"

definition ensureRequestableIntegrationState ::
  "auth_env \<Rightarrow> string \<Rightarrow> string option \<Rightarrow> integration_summary auth" where
  "ensureRequestableIntegrationState env platform accountKey =
     step_bind (auth_read (\<lambda>_. getRequestableIntegration platform)) (\<lambda>c.
     step_bind (auth_read (\<lambda>_. normalizeIntegrationPlatform platform)) (\<lambda>p.
     step_bind (auth_read (\<lambda>_. auth_key (resolveIntegrationAccountKey accountKey (getDefaultAccountKeyForPlatform p)))) (\<lambda>key.
     step_bind (step_get (\<lambda>s. getIntegrationState (platform_name p) key (ac_integrations s))) (\<lambda>existing.
     step_bind (upsert_step (ae_clock env 0) (requested_input env (ae_clock env 0) p (accountKey \<noteq> None) key c existing)) (\<lambda>_.
       auth_read (getIntegrationSummary (platform_name p) (Some key)))))))"

subsection \<open>Operations\<close>

definition auth_setIntegrationEnabled :: "auth_env \<Rightarrow> string \<Rightarrow> string option \<Rightarrow> bool \<Rightarrow> integration_summary auth" where
  "auth_setIntegrationEnabled env platform accountKey enabled =
     step_bind (auth_read (\<lambda>_. normalizeIntegrationPlatform platform)) (\<lambda>p.
     step_bind (auth_read (\<lambda>s. resolveAccountKey p accountKey (ac_integrations s))) (\<lambda>key.
     step_bind (auth_write (setIntegrationEnabled (ae_clock env 0) (platform_name p) key enabled)) (\<lambda>_.
       auth_read (getIntegrationSummary (platform_name p) (Some key)))))"

definition invalidated_input :: "int \<Rightarrow> string \<Rightarrow> string \<Rightarrow> string \<Rightarrow> integration_summary \<Rightarrow> integration_input" where
  "invalidated_input now accountKey errorSummary reason su =
     (summary_input su
        [(''authenticatedAt'', JNull), (''lastAuthError'', JStr errorSummary),
         (''authInvalidatedAt'', JNum (Fin (of_int now))), (''authInvalidationReason'', JStr reason)])
     \<lparr>ii_account := accountKey, ii_auth_state := AsNeedsAuth, ii_sync_capable := Some False\<rparr>"

definition invalidateIntegrationAuth ::
  "auth_env \<Rightarrow> platform \<Rightarrow> string \<Rightarrow> string \<Rightarrow> string \<Rightarrow> integration_summary auth" where
  "invalidateIntegrationAuth env platform accountKey errorSummary reason =
     step_bind (auth_read (getIntegrationSummary (platform_name platform) (Some accountKey))) (\<lambda>su.
     step_bind (upsert_step (ae_clock env 0) (invalidated_input (ae_clock env 0) accountKey errorSummary reason su)) (\<lambda>_.
       auth_read (getIntegrationSummary (platform_name platform) (Some accountKey))))"

definition session_live :: "auth_session \<Rightarrow> bool" where
  "session_live s \<longleftrightarrow> as_state s \<in> {SsRequested, SsInProgress}"

definition cancel_session :: "int \<Rightarrow> string option option \<Rightarrow> int option option \<Rightarrow> auth_session \<Rightarrow> unit auth" where
  "cancel_session now errorSummary pid session =
     auth_write (updateAuthSessionState now (as_id session) SsCancelled pid None (Some (Some now)) None None None errorSummary)"

definition cancelStaleAuthSessions :: "auth_env \<Rightarrow> platform \<Rightarrow> string \<Rightarrow> unit auth" where
  "cancelStaleAuthSessions env platform accountKey =
     step_bind (step_get (\<lambda>s. filter (\<lambda>x. as_platform x = platform_name platform \<and> as_account x = accountKey \<and> session_live x)
         (listAuthSessions 100 (ac_integrations s))))
       (step_all (cancel_session (ae_clock env 1) (Some (Some ''Superseded by a newer auth session request'')) None))"

definition create_session_step :: "int \<Rightarrow> string \<Rightarrow> platform \<Rightarrow> string \<Rightarrow> string auth" where
  "create_session_step now uuid platform accountKey = step_write (\<lambda>s.
     case createAuthSession now uuid None platform accountKey (source_key (platform_name platform) accountKey)
            (Some SsRequested) None None None (ac_integrations s) of
       Inl err \<Rightarrow> Inl (AuthDb err) | Inr (i, db) \<Rightarrow> Inr (i, s\<lparr>ac_integrations := db\<rparr>))"

definition requestIntegrationAccess :: "auth_env \<Rightarrow> string \<Rightarrow> string \<Rightarrow> string option \<Rightarrow> (integration_summary \<times> string) auth" where
  "requestIntegrationAccess env uuid platform accountKey =
     step_bind (ensureRequestableIntegrationState env platform accountKey) (\<lambda>su.
     step_bind (cancelStaleAuthSessions env (su_platform su) (su_account su)) (\<lambda>_.
     step_bind (create_session_step (ae_clock env 2) uuid (su_platform su) (su_account su)) (\<lambda>sid.
     step_bind (upsert_step (ae_clock env 3)
        ((summary_input su [(''latestAuthSessionId'', JStr sid)])\<lparr>ii_auth_state := AsRequested\<rparr>)) (\<lambda>_.
     step_bind (auth_read (getIntegrationSummary (platform_name (su_platform su)) (Some (su_account su)))) (\<lambda>su'.
       step_return (su', sid))))))"

definition markAuthSessionInProgress :: "auth_env \<Rightarrow> string \<Rightarrow> int \<Rightarrow> unit auth" where
  "markAuthSessionInProgress env sid nativePid =
     step_bind (auth_read (\<lambda>s. case getAuthSession sid (ac_integrations s) of None \<Rightarrow> Inl SessionMissing | Some x \<Rightarrow> Inr x)) (\<lambda>session.
     step_bind (auth_write (updateAuthSessionState (ae_clock env 1) sid SsInProgress (Some (Some nativePid))
         (Some (Some (ae_clock env 0))) None None None None (Some None))) (\<lambda>_.
     step_bind (step_get (\<lambda>s. getIntegrationState (as_platform session) (as_account session) (ac_integrations s))) (\<lambda>integration.
       case integration of
         None \<Rightarrow> step_return ()
       | Some row \<Rightarrow> upsert_step (ae_clock env 2)
           ((row_input row [(''latestAuthSessionId'', JStr sid)])\<lparr>ii_auth_state := AsInProgress\<rparr>))))"

subsection \<open>Completion\<close>

datatype completed_state = CoAuthenticated | CoFailed | CoCancelled

fun completed_session_state :: "completed_state \<Rightarrow> auth_session_state" where
  "completed_session_state CoAuthenticated = SsAuthenticated"
| "completed_session_state CoFailed = SsFailed"
| "completed_session_state CoCancelled = SsCancelled"

fun completed_auth_state :: "completed_state \<Rightarrow> auth_state" where
  "completed_auth_state CoAuthenticated = AsAuthenticated"
| "completed_auth_state CoFailed = AsFailed"
| "completed_auth_state CoCancelled = AsCancelled"

record completed_input =
  ci_state :: completed_state
  ci_service :: "string option"
  ci_account :: "string option"
  ci_result :: "json option"
  ci_error :: "string option"

definition result_text :: "completed_input \<Rightarrow> string \<Rightarrow> string" where
  "result_text input k = (case jstr (metadata_get (ci_result input) k) of Some t \<Rightarrow> js_trim t | None \<Rightarrow> [])"

definition resolveCompletedAccountKey :: "auth_session \<Rightarrow> completed_input \<Rightarrow> string" where
  "resolveCompletedAccountKey session input =
     (let keychain = (case ci_account input of Some k \<Rightarrow> js_trim k | None \<Rightarrow> []) in
      if as_platform session = ''gmail'' \<and> ci_state input = CoAuthenticated then
        (if result_text input ''emailAddress'' \<noteq> [] then result_text input ''emailAddress''
         else if keychain \<noteq> [] then keychain else as_account session)
      else if as_platform session \<noteq> ''slack'' \<or> ci_state input \<noteq> CoAuthenticated then as_account session
      else if result_text input ''teamId'' \<noteq> [] then result_text input ''teamId''
      else if keychain \<noteq> [] then keychain else as_account session)"

definition resolveCompletedKeychainAccount :: "string \<Rightarrow> string option \<Rightarrow> string" where
  "resolveCompletedKeychainAccount accountKey keychainAccount =
     (case keychainAccount of Some k \<Rightarrow> if js_trim k \<noteq> [] then k else accountKey | None \<Rightarrow> accountKey)"

definition resolveCompletedDisplayName :: "string option \<Rightarrow> json option \<Rightarrow> string option" where
  "resolveCompletedDisplayName current result =
     coalesce (firstNonEmptyDisplayName (map (\<lambda>k. jstr (metadata_get result k))
         [''teamName'', ''pushName'', ''linkedAccount'', ''accountJid'', ''emailAddress'', ''profileName'', ''displayName'']))
       current"

text \<open>Moving the browser profile of a Slack workspace is tried, and the metadata point to the new place either way.\<close>

definition completed_profile :: "auth_env \<Rightarrow> string \<Rightarrow> string \<Rightarrow> string \<Rightarrow> json option \<Rightarrow> (string \<times> json) list auth" where
  "completed_profile env platform fromKey toKey metadata =
     (if platform \<noteq> ''slack'' \<or> fromKey = toKey then step_return (js_spread metadata)
      else let target = ae_profile_dir env Slack toKey;
               result = spread_with (js_spread metadata) [(''browserProfileDir'', JStr target)] in
        case jstr (metadata_get metadata ''browserProfileDir'') of
          Some current \<Rightarrow>
            if current \<noteq> [] \<and> current \<noteq> target
            then step_bind (effect_step (MovedDirectory current target)) (\<lambda>_. step_return result) else step_return result
        | None \<Rightarrow> step_return result)"

definition kept_unless :: "bool \<Rightarrow> json option \<Rightarrow> string \<Rightarrow> json" where
  "kept_unless cleared metadata k = (if cleared then JNull else nullish_or (metadata_get metadata k) JNull)"

definition completed_metadata ::
  "auth_env \<Rightarrow> string \<Rightarrow> completed_input \<Rightarrow> bool \<Rightarrow> string \<Rightarrow> json option \<Rightarrow> json option \<Rightarrow> (string \<times> json) list \<Rightarrow> (string \<times> json) list" where
  "completed_metadata env sid input hidden target existingTarget metadata targetMetadata =
     (let ok = (ci_state input = CoAuthenticated) in
      spread_with (js_spread existingTarget) (js_spread metadata @ targetMetadata @
        [(''latestAuthSessionId'', JStr sid),
         (''keychainService'', if hidden then JNull else optional_text (ci_service input)),
         (''keychainAccount'', if hidden then JNull else JStr (resolveCompletedKeychainAccount target (ci_account input))),
         (''authenticatedAt'', if ok then JNum (Fin (of_int (ae_clock env 2))) else JNull),
         (''authResult'', nullish_or (ci_result input) JNull), (''lastAuthError'', optional_text (ci_error input)),
         (''authInvalidatedAt'', kept_unless ok metadata ''authInvalidatedAt''),
         (''authInvalidationReason'', kept_unless ok metadata ''authInvalidationReason''),
         (''blockedAt'', kept_unless ok metadata ''blockedAt''), (''blockedReason'', kept_unless ok metadata ''blockedReason'')] @
        (if hidden then [(''userRemoved'', JBool True), (''removedAt'', JNum (Fin (of_int (ae_clock env 3))))] else [])))"

definition completed_row ::
  "auth_env \<Rightarrow> string \<Rightarrow> completed_input \<Rightarrow> string \<Rightarrow> integration_row \<Rightarrow> integration_row option \<Rightarrow> (string \<times> json) list \<Rightarrow>
   integration_input" where
  "completed_row env sid input target row existing targetMetadata =
     (let existingMetadata = Option.bind existing row_metadata;
          hidden = (ci_state input \<noteq> CoAuthenticated \<and> isGeneratedPendingAccountKey (in_platform row) target) in
      \<lparr>ii_platform = in_platform row, ii_account = target,
       ii_display_name = resolveCompletedDisplayName (in_display_name row) (ci_result input),
       ii_auth_state = completed_auth_state (ci_state input),
       ii_enabled = Some (if hidden then False
         else if isUserRemovedIntegrationMetadata existingMetadata then in_enabled row
         else get_or (map_option in_enabled existing) (in_enabled row)),
       ii_connection = in_connection row,
       ii_sync_capable = Some (if ci_state input = CoAuthenticated then supported_by_daemon (in_platform row)
         else get_or (map_option in_sync_capable existing) (in_sync_capable row)),
       ii_launch_strategy = in_launch_strategy row, ii_launch_target = in_launch_target row,
       ii_imported_from = in_imported_from row,
       ii_artifact_paths = Some (JArr (map JStr (js_set_list
         (safeParseJsonStringArray (Option.bind existing in_artifact_paths) @ safeParseJsonStringArray (in_artifact_paths row))))),
       ii_metadata = Some (JObj (completed_metadata env sid input hidden target existingMetadata (row_metadata row) targetMetadata))\<rparr>)"

definition complete_session :: "auth_env \<Rightarrow> string \<Rightarrow> completed_input \<Rightarrow> auth_session \<Rightarrow> integration_summary option auth" where
  "complete_session env sid input session =
     step_bind (step_get (\<lambda>s. getIntegrationState (as_platform session) (as_account session) (ac_integrations s))) (\<lambda>before.
     if as_state session = SsCancelled \<and>
        (before = None \<or> isUserRemovedIntegrationMetadata (Option.bind before row_metadata)) then step_return None else
     step_bind (auth_write (updateAuthSessionState (ae_clock env 1) sid (completed_session_state (ci_state input)) (Some None) None
         (Some (Some (ae_clock env 0))) (Some (ci_service input)) (Some (ci_account input)) (Some (ci_result input))
         (Some (ci_error input)))) (\<lambda>_.
     step_bind (auth_read (\<lambda>s. case getIntegrationState (as_platform session) (as_account session) (ac_integrations s) of
         None \<Rightarrow> Inl AccountMissing | Some row \<Rightarrow> Inr row)) (\<lambda>row.
     step_bind (auth_read (\<lambda>_. auth_key (validateIntegrationAccountKey (resolveCompletedAccountKey session input)))) (\<lambda>target.
     step_bind (completed_profile env (in_platform row) (in_account row) target (row_metadata row)) (\<lambda>targetMetadata.
     step_bind (step_get (\<lambda>s. if target = in_account row then Some row
         else getIntegrationState (in_platform row) target (ac_integrations s))) (\<lambda>existing.
     step_bind (upsert_step (ae_clock env 4) (completed_row env sid input target row existing targetMetadata)) (\<lambda>_.
     step_bind (if target = in_account row then step_return ()
        else step_bind (auth_write (updateAuthSessionIdentity (ae_clock env 5) sid target (source_key (in_platform row) target)))
               (\<lambda>_. auth_write (\<lambda>db. Inr (deleteIntegrationState (in_platform row) (in_account row) db)))) (\<lambda>_.
     step_bind (auth_read (getIntegrationSummary (as_platform session) (Some target))) (\<lambda>su.
       step_return (Some su))))))))))"

definition completeAuthSession :: "auth_env \<Rightarrow> string \<Rightarrow> completed_input \<Rightarrow> integration_summary option auth" where
  "completeAuthSession env sid input =
     step_bind (step_get (\<lambda>s. getAuthSession sid (ac_integrations s))) (\<lambda>found.
       case found of None \<Rightarrow> step_return None | Some session \<Rightarrow> complete_session env sid input session)"

subsection \<open>Disconnecting and removing\<close>

definition store_directory :: "auth_env \<Rightarrow> integration_summary \<Rightarrow> string" where
  "store_directory env su = get_or (jstr (metadata_get (su_metadata su) ''storeDir'')) (ae_whatsapp_dir env (su_account su))"

definition disconnectIntegration :: "auth_env \<Rightarrow> string \<Rightarrow> string option \<Rightarrow> integration_summary auth" where
  "disconnectIntegration env platform accountKey =
     step_bind (auth_read (getIntegrationSummary platform accountKey)) (\<lambda>su.
     step_bind (deleteKeychainSecret (getKeychainMetadata (su_metadata su))) (\<lambda>_.
     step_bind (upsert_step (ae_clock env 1) ((summary_input su
         [(''keychainService'', JNull), (''keychainAccount'', JNull), (''authResult'', JNull), (''authenticatedAt'', JNull),
          (''lastAuthError'', JNull), (''disconnectedAt'', JNum (Fin (of_int (ae_clock env 0))))])
         \<lparr>ii_auth_state := AsCancelled, ii_enabled := Some False\<rparr>)) (\<lambda>_.
     step_bind (if su_platform su = WhatsApp then remove_directory env (store_directory env su) else step_return ()) (\<lambda>_.
       auth_read (getIntegrationSummary (platform_name (su_platform su)) (Some (su_account su)))))))"

text \<open>What the daemon keeps about the account besides its messages is deleted in one transaction.\<close>

definition clearIntegrationRuntimeState :: "platform \<Rightarrow> string \<Rightarrow> accounts_db \<Rightarrow> accounts_db" where
  "clearIntegrationRuntimeState platform accountKey s =
     (let of_run = (\<lambda>r. run_platform r = Some platform \<and> run_account r = Some accountKey);
          gone = filter of_run (rdb_runs (ac_runs s))
      in s\<lparr>ac_accounts := tbl_delete (\<lambda>r. sa_platform r = platform \<and> sa_account r = accountKey) (ac_accounts s),
           ac_checkpoints := tbl_delete (\<lambda>r. cp_platform r = platform \<and> cp_account r = accountKey) (ac_checkpoints s),
           ac_proofs := snd (delete_proof_state (\<lambda>p a. p = platform \<and> a = accountKey) (ac_proofs s)),
           ac_runs := \<lparr>rdb_runs = tbl_delete of_run (rdb_runs (ac_runs s)),
             rdb_errors = tbl_delete (\<lambda>e. err_platform e = Some platform \<and> err_account e = Some accountKey \<or>
               tbl_has run_id (err_run e) gone) (rdb_errors (ac_runs s))\<rparr>,
           ac_slack_backfill := (if platform = Slack then tbl_delete (\<lambda>a. a = accountKey) (ac_slack_backfill s)
             else ac_slack_backfill s)\<rparr>)"

definition removed_input :: "int \<Rightarrow> integration_summary \<Rightarrow> integration_input" where
  "removed_input removedAt su =
     (summary_input su
        [(''keychainService'', JNull), (''keychainAccount'', JNull), (''authResult'', JNull), (''authenticatedAt'', JNull),
         (''lastAuthError'', JNull), (''disconnectedAt'', JNum (Fin (of_int removedAt))),
         (''removedAt'', JNum (Fin (of_int removedAt))), (''userRemoved'', JBool True)])
     \<lparr>ii_auth_state := AsCancelled, ii_enabled := Some False, ii_sync_capable := Some False\<rparr>"

definition removeIntegration :: "auth_env \<Rightarrow> string \<Rightarrow> string option \<Rightarrow> (platform \<times> string) auth" where
  "removeIntegration env platform accountKey =
     step_bind (auth_read (getIntegrationSummary platform accountKey)) (\<lambda>su.
     step_bind (step_get (\<lambda>s. getLatestAuthSession (platform_name (su_platform su)) (su_account su) (ac_integrations s))) (\<lambda>latest.
     step_bind (case latest of
         Some session \<Rightarrow> if session_live session then cancel_session (ae_clock env 0) (Some None) (Some None) session else step_return ()
       | None \<Rightarrow> step_return ()) (\<lambda>_.
     step_bind (deleteKeychainSecret (getKeychainMetadata (su_metadata su))) (\<lambda>_.
     step_bind (case jstr (metadata_get (su_metadata su) ''browserProfileDir'') of
         Some dir \<Rightarrow> if dir = [] then step_return () else remove_directory env dir
       | None \<Rightarrow> step_return ()) (\<lambda>_.
     step_bind (if su_platform su = WhatsApp then remove_directory env (store_directory env su) else step_return ()) (\<lambda>_.
     step_bind (if su_platform su = Signal
         then remove_directory env (get_or (jstr (metadata_get (su_metadata su) ''configDir'')) (ae_signal_dir env (su_account su)))
         else step_return ()) (\<lambda>_.
     step_bind (step_put (clearIntegrationRuntimeState (su_platform su) (su_account su))) (\<lambda>_.
     step_bind (upsert_step (ae_clock env 2) (removed_input (ae_clock env 1) su)) (\<lambda>_.
       step_return (su_platform su, su_account su))))))))))"

subsection \<open>Sessions that never complete\<close>

definition session_process_missing :: "auth_env \<Rightarrow> auth_session \<Rightarrow> bool" where
  "session_process_missing env session \<longleftrightarrow> as_state session = SsInProgress \<and>
     (case as_native_pid session of None \<Rightarrow> True | Some pid \<Rightarrow> pid \<le> 0 \<or> \<not> ae_process_exists env pid)"

definition abandoned_input :: "int \<Rightarrow> string \<Rightarrow> string \<Rightarrow> integration_row \<Rightarrow> integration_input" where
  "abandoned_input timestamp sid errorSummary row =
     (let hidden = isGeneratedPendingAccountKey (in_platform row) (in_account row); metadata = row_metadata row in
      (row_input row
        [(''latestAuthSessionId'', JStr sid), (''lastAuthError'', JStr errorSummary),
         (''authExpiredAt'', JNum (Fin (of_int timestamp))),
         (''userRemoved'', if hidden then JBool True else nullish_or (metadata_get metadata ''userRemoved'') (JBool False)),
         (''removedAt'', if hidden then JNum (Fin (of_int timestamp)) else nullish_or (metadata_get metadata ''removedAt'') JNull)])
      \<lparr>ii_auth_state := AsCancelled, ii_enabled := Some (\<not> hidden \<and> in_enabled row), ii_sync_capable := Some False\<rparr>)"

definition reconcile_session :: "auth_env \<Rightarrow> int \<Rightarrow> int \<Rightarrow> auth_session \<Rightarrow> unit auth" where
  "reconcile_session env timestamp staleAfterMs session =
     (let missing = session_process_missing env session;
          timedOut = (staleAfterMs \<le> timestamp - get_or (as_started_at session) (as_requested_at session));
          errorSummary = (if missing then ''Auth session ended before Cued received a completion event''
                          else ''Auth session expired before completion'') in
      if \<not> session_live session \<or> \<not> missing \<and> \<not> timedOut then step_return () else
      step_bind (auth_write (updateAuthSessionState (ae_clock env 1) (as_id session) SsCancelled (Some None) None
          (Some (Some timestamp)) None None None (Some (Some errorSummary)))) (\<lambda>_.
      step_bind (step_get (\<lambda>s. getIntegrationState (as_platform session) (as_account session) (ac_integrations s))) (\<lambda>integration.
      step_bind (step_get (\<lambda>s. getLatestAuthSession (as_platform session) (as_account session) (ac_integrations s))) (\<lambda>latest.
        case integration of
          None \<Rightarrow> step_return ()
        | Some row \<Rightarrow>
            if map_option as_id latest \<noteq> Some (as_id session) then step_return ()
            else upsert_step (ae_clock env 2) (abandoned_input timestamp (as_id session) errorSummary row)))))"

definition reconcileAbandonedAuthSessions :: "auth_env \<Rightarrow> int option \<Rightarrow> int option \<Rightarrow> unit auth" where
  "reconcileAbandonedAuthSessions env staleAfterMs nowMs =
     step_bind (step_get (\<lambda>s. listAuthSessions 500 (ac_integrations s)))
       (step_all (reconcile_session env (get_or nowMs (ae_clock env 0)) (get_or staleAfterMs 900000)))"

subsection \<open>Accounts the daemon manages itself\<close>

record managed_state =
  mg_platform :: platform
  mg_account :: string
  mg_display_name :: string
  mg_auth_state :: auth_state
  mg_enabled :: bool
  mg_connection :: connection_kind
  mg_runtime :: runtime_kind
  mg_sync_capable :: bool
  mg_launch_strategy :: "launch_strategy option"
  mg_launch_target :: "string option"
  mg_imported_from :: string
  mg_artifact_paths :: "string list option"
  mg_metadata :: "json option"

definition addSupportedByDaemonMetadata :: "managed_state \<Rightarrow> managed_state" where
  "addSupportedByDaemonMetadata m = m\<lparr>mg_metadata := Some (JObj (spread_with (js_spread (mg_metadata m))
     [(''runtimeKind'', JStr (runtime_kind_name (mg_runtime m))),
      (''supportedByDaemon'', JBool (supported_by_daemon (platform_name (mg_platform m))))]))\<rparr>"

definition managed_input :: "managed_state \<Rightarrow> integration_row option \<Rightarrow> integration_input" where
  "managed_input m existing =
     \<lparr>ii_platform = platform_name (mg_platform m), ii_account = mg_account m, ii_display_name = Some (mg_display_name m),
      ii_auth_state = mg_auth_state m, ii_enabled = Some (get_or (map_option in_enabled existing) (mg_enabled m)),
      ii_connection = mg_connection m, ii_sync_capable = Some (mg_sync_capable m),
      ii_launch_strategy = mg_launch_strategy m, ii_launch_target = mg_launch_target m,
      ii_imported_from = Some (mg_imported_from m),
      ii_artifact_paths = map_option (\<lambda>ps. JArr (map JStr ps)) (mg_artifact_paths m), ii_metadata = mg_metadata m\<rparr>"

definition upsertManagedIntegrationState :: "int \<Rightarrow> managed_state \<Rightarrow> unit auth" where
  "upsertManagedIntegrationState now m =
     step_bind (step_get (\<lambda>s. getIntegrationState (platform_name (mg_platform m)) (mg_account m) (ac_integrations s))) (\<lambda>existing.
       upsert_step now (managed_input m existing))"

text \<open>What the checks of the local sources found: the state of each and whether the message database exists.\<close>

definition buildLocalIntegrationStates :: "auth_state \<Rightarrow> auth_state \<Rightarrow> string \<Rightarrow> bool \<Rightarrow> managed_state list" where
  "buildLocalIntegrationStates contactsState imessageState chatDbPath chatDbExists =
     [\<lparr>mg_platform = Contacts, mg_account = ''local'', mg_display_name = ''Contacts.app'', mg_auth_state = contactsState,
       mg_enabled = True, mg_connection = NativeConnection, mg_runtime = RkNative,
       mg_sync_capable = (contactsState = AsAuthorized), mg_launch_strategy = Some SystemSettings,
       mg_launch_target = Some ''x-apple.systempreferences:com.apple.preference.security?Privacy_Contacts'',
       mg_imported_from = ''local-system'', mg_artifact_paths = None, mg_metadata = None\<rparr>,
      \<lparr>mg_platform = IMessage, mg_account = ''local'', mg_display_name = ''Messages'', mg_auth_state = imessageState,
       mg_enabled = True, mg_connection = NativeConnection, mg_runtime = RkNative,
       mg_sync_capable = (imessageState = AsAuthorized), mg_launch_strategy = Some SystemSettings,
       mg_launch_target = Some ''x-apple.systempreferences:com.apple.preference.security?Privacy_AllFiles'',
       mg_imported_from = ''local-system'', mg_artifact_paths = Some (if chatDbExists then [chatDbPath] else []),
       mg_metadata = None\<rparr>]"

text \<open>What the inspection of the Slack helper found.\<close>

record slack_helper =
  sh_path :: "string option"
  sh_version :: "string option"
  sh_protocol :: json
  sh_supported :: bool

definition slack_helper_ready :: "slack_helper \<Rightarrow> bool" where
  "slack_helper_ready h \<longleftrightarrow> (case sh_path h of Some p \<Rightarrow> p \<noteq> [] | None \<Rightarrow> False) \<and> sh_supported h"

definition normalizePersistedRequestableIntegrationRow :: "slack_helper \<Rightarrow> integration_row \<Rightarrow> (bool \<times> json) option" where
  "normalizePersistedRequestableIntegrationRow helper row =
     (if in_platform row \<notin> set (map platform_name requestable_integration_values) then None
      else let metadata = row_metadata row; slack = (in_platform row = ''slack''); known = supported_by_daemon (in_platform row) in Some
        (in_auth_state row = AsAuthenticated \<and> known \<and> (slack \<longrightarrow> slack_helper_ready helper),
         JObj (spread_with (js_spread metadata) ((''supportedByDaemon'', JBool known) #
           (if slack then
             [(''authManagedBy'', JStr (get_or (jstr (metadata_get metadata ''authManagedBy'')) ''chromium-runtime'')),
              (''syncTransport'', JStr ''slack-helper''), (''slackHelperPath'', optional_text (sh_path helper)),
              (''slackHelperVersion'', optional_text (sh_version helper)), (''slackHelperProtocolVersion'', sh_protocol helper),
              (''slackHelperVersionSupported'', JBool (sh_supported helper))]
            else [])))))"

definition refresh_requestable :: "slack_helper \<Rightarrow> int \<Rightarrow> integration_row \<Rightarrow> unit auth" where
  "refresh_requestable helper now row =
     (case normalizePersistedRequestableIntegrationRow helper row of
        None \<Rightarrow> step_return ()
      | Some (capable, metadata) \<Rightarrow>
          if in_sync_capable row = capable \<and> get_or (row_metadata row) (JObj []) = metadata then step_return ()
          else upsert_step now ((row_input row [])\<lparr>ii_sync_capable := Some capable, ii_metadata := Some metadata\<rparr>))"

definition refreshPersistedRequestableIntegrationStates :: "slack_helper \<Rightarrow> int \<Rightarrow> unit auth" where
  "refreshPersistedRequestableIntegrationStates helper now =
     step_bind (step_get (\<lambda>s. listIntegrationStates (ac_integrations s))) (step_all (refresh_requestable helper now))"

definition refreshLocalIntegrationStates :: "slack_helper \<Rightarrow> int \<Rightarrow> managed_state list \<Rightarrow> unit auth" where
  "refreshLocalIntegrationStates helper now managed =
     step_bind (refreshPersistedRequestableIntegrationStates helper now) (\<lambda>_.
       step_all (upsertManagedIntegrationState now) (map addSupportedByDaemonMetadata managed))"

text \<open>Discord blocks an account whose token was refused; the caller notes the error in the checkpoint.\<close>

definition blocked_input :: "int \<Rightarrow> string \<Rightarrow> integration_row \<Rightarrow> integration_input" where
  "blocked_input now errorSummary row =
     (row_input row [(''lastAuthError'', JStr errorSummary), (''blockedAt'', JNum (Fin (of_int now))),
        (''blockedReason'', JStr ''discord_auth_invalidated'')])\<lparr>ii_auth_state := AsBlocked, ii_sync_capable := Some False\<rparr>"

definition blockDiscordIntegration :: "auth_env \<Rightarrow> string \<Rightarrow> string \<Rightarrow> unit auth" where
  "blockDiscordIntegration env accountKey errorSummary =
     step_bind (step_get (\<lambda>s. getIntegrationState ''discord'' accountKey (ac_integrations s))) (\<lambda>integration.
       case integration of
         None \<Rightarrow> step_return ()
       | Some row \<Rightarrow>
           step_bind (upsert_step (ae_clock env 0) (blocked_input (ae_clock env 0) errorSummary row)) (\<lambda>_.
             step_put (\<lambda>s. s\<lparr>ac_checkpoints :=
               recordCheckpointError (ae_clock env 1) (ae_clock env 1) Discord accountKey errorSummary (ac_checkpoints s)\<rparr>)))"

end
