(* ===== verification/AuthProofs.thy ===== *)
theory AuthProofs
  imports AuthFlow
begin

text \<open>
  An account the person removed stays off, whatever the helpers, timers and late completions do, until it is asked for
  again; and no operation leaves a session without its account.
\<close>

subsection \<open>Accounts that are off\<close>

definition removed_mark :: "json option \<Rightarrow> bool" where
  "removed_mark metadata \<longleftrightarrow> isUserRemovedIntegrationMetadata metadata \<and> distinct (map fst (js_spread metadata))"

definition account_off :: "string \<times> string \<Rightarrow> integration_db \<Rightarrow> bool" where
  "account_off src db \<longleftrightarrow>
     (\<forall>row\<in>set (idb_integrations db). in_source row = src \<longrightarrow> \<not> in_enabled row \<and> removed_mark (row_metadata row))"

definition off_inv :: "string \<times> string \<Rightarrow> accounts_db \<Rightarrow> bool" where
  "off_inv src s \<longleftrightarrow> account_off src (ac_integrations s) \<and> integration_inv (ac_integrations s)"

definition input_off :: "string \<times> string \<Rightarrow> integration_input \<Rightarrow> bool" where
  "input_off src v \<longleftrightarrow> ((ii_platform v, ii_account v) = src \<longrightarrow>
     ii_enabled v = Some False \<and> removed_mark (safeParseJsonRecord (safeStringifyJson (ii_metadata v))))"

definition summary_off :: "string \<times> string \<Rightarrow> integration_summary \<Rightarrow> bool" where
  "summary_off src su \<longleftrightarrow> ((platform_name (su_platform su), su_account su) = src \<longrightarrow>
     \<not> su_enabled su \<and> removed_mark (su_metadata su))"

lemma off_upsert:
  assumes "account_off src db" "input_off src v" "upsertIntegrationState t v db = Inr db'"
  shows "account_off src db'"
proof -
  have new: "in_source (integration_values t v) = src \<Longrightarrow>
      \<not> in_enabled (integration_values t v) \<and> removed_mark (row_metadata (integration_values t v))"
    using assms(2) by (auto simp: input_off_def integration_values_def in_source_def row_metadata_def)
  from assms(3) show ?thesis
  proof (cases rule: upsert_cases)
    case inserted
    then show ?thesis using assms(1) new by (auto simp: account_off_def)
  next
    case (rewritten e)
    have "\<not> in_enabled (stored_integration t v r) \<and> removed_mark (row_metadata (stored_integration t v r))"
      if "in_source r = src" "in_source r = in_source (integration_values t v)" for r
      using new that by (simp add: stored_integration_def row_metadata_def)
    then show ?thesis using assms(1) unfolding account_off_def rewritten(4) by (auto simp: set_tbl_update)
  qed
qed

lemma off_same_rows: "idb_integrations db' = idb_integrations db \<Longrightarrow> account_off src db \<Longrightarrow> account_off src db'"
  by (simp add: account_off_def)

lemma off_sessions:
  "createAuthSession t u i p a q st r res e db = Inr (sid, db') \<Longrightarrow> account_off src db \<Longrightarrow> account_off src db'"
  "updateAuthSessionState t sid st' pid b f ks ka res' e' db = Inr db' \<Longrightarrow> account_off src db \<Longrightarrow> account_off src db'"
  "updateAuthSessionIdentity t sid a q db = Inr db' \<Longrightarrow> account_off src db \<Longrightarrow> account_off src db'"
  by (auto simp: createAuthSession_def updateAuthSessionState_def updateAuthSessionIdentity_def Let_def account_off_def
      split: if_split_asm option.split_asm)

lemma off_delete: "account_off src db \<Longrightarrow> account_off src (deleteIntegrationState p a db)"
  by (auto simp: account_off_def deleteIntegrationState_def Let_def tbl_delete_def)

lemma off_enable:
  "setIntegrationEnabled t p a e db = Inr db' \<Longrightarrow> ((p, a) = src \<longrightarrow> \<not> e) \<Longrightarrow> account_off src db \<Longrightarrow> account_off src db'"
  by (auto simp: setIntegrationEnabled_def account_off_def set_tbl_update in_source_def row_metadata_def split: if_split_asm)

subsection \<open>Metadata\<close>

lemma json_stored_bool [simp]: "json_stored j = JBool b \<longleftrightarrow> j = JBool b"
  by (cases j rule: json_stored.cases) auto

lemma distinct_js_map: "distinct (map fst (js_map_from ps))"
proof -
  have "distinct (map fst m) \<Longrightarrow> distinct (map fst (fold (\<lambda>(k, v) m. map_set k v m) ps m))" for m :: "('a, 'b) js_map"
    by (induction ps arbitrary: m) (auto simp: map_set_def distinct_update)
  then show ?thesis by (simp add: js_map_from_def)
qed

lemma removed_markD: "removed_mark metadata \<Longrightarrow> isUserRemovedIntegrationMetadata metadata"
  by (simp add: removed_mark_def)

lemma map_of_spread: "map_of (spread_with base updates) = map_of (rev base) ++ map_of (rev updates)"
  by (simp add: spread_with_def js_map_from_def map_of_fold_set)

lemma map_of_rev: "distinct (map fst ps) \<Longrightarrow> map_of (rev ps) = map_of ps"
  by (rule map_of_eqI) (auto simp: distinct_map)

lemma removed_stored:
  "removed_mark (safeParseJsonRecord (safeStringifyJson (Some (JObj (spread_with base updates))))) \<longleftrightarrow>
    map_of (spread_with base updates) ''userRemoved'' = Some (JBool True)"
proof -
  have "distinct (map fst (map (\<lambda>(k, v). (k, json_stored v)) (spread_with base updates)))"
    using distinct_js_map [of "base @ updates"] by (simp add: spread_with_def case_prod_beta comp_def)
  then show ?thesis
    by (auto simp: removed_mark_def isUserRemovedIntegrationMetadata_def metadata_get_def safeParseJsonRecord_def
        safeStringifyJson_def map_of_json_stored)
qed

lemma removed_spread: "removed_mark metadata \<Longrightarrow> map_of (rev (js_spread metadata)) ''userRemoved'' = Some (JBool True)"
  by (cases metadata rule: js_spread.cases)
    (auto simp: removed_mark_def isUserRemovedIntegrationMetadata_def metadata_get_def map_of_rev)

lemma removed_kept:
  "removed_mark metadata \<Longrightarrow> map_of (rev updates) ''userRemoved'' = None \<Longrightarrow>
    map_of (spread_with (js_spread metadata) updates) ''userRemoved'' = Some (JBool True)"
  by (simp add: map_of_spread removed_spread map_add_def)

text \<open>Writing a summary or a row back keeps the account off, if the change leaves the two marks alone.\<close>

lemma input_off_simps [simp]:
  "input_off src (v\<lparr>ii_auth_state := a\<rparr>) \<longleftrightarrow> input_off src v"
  "input_off src (v\<lparr>ii_sync_capable := c\<rparr>) \<longleftrightarrow> input_off src v"
  by (simp_all add: input_off_def)

lemma input_off_disabled: "input_off src v \<Longrightarrow> input_off src (v\<lparr>ii_enabled := Some False\<rparr>)"
  by (simp add: input_off_def)

lemma off_summary_input:
  "summary_off src su \<Longrightarrow> map_of (rev updates) ''userRemoved'' = None \<Longrightarrow> input_off src (summary_input su updates)"
  by (auto simp: input_off_def summary_off_def summary_input_def removed_stored removed_kept)

definition row_off :: "string \<times> string \<Rightarrow> integration_row \<Rightarrow> bool" where
  "row_off src row \<longleftrightarrow> (in_source row = src \<longrightarrow> \<not> in_enabled row \<and> removed_mark (row_metadata row))"

lemma off_row_input:
  "row_off src row \<Longrightarrow> map_of (rev updates) ''userRemoved'' = None \<Longrightarrow> input_off src (row_input row updates)"
  by (auto simp: input_off_def row_off_def in_source_def row_input_def removed_stored removed_kept)

lemma off_get: "account_off src db \<Longrightarrow> getIntegrationState p a db = Some row \<Longrightarrow> row_off src row \<and> in_source row = (p, a)"
  by (auto simp: getIntegrationState_def account_off_def row_off_def dest: tbl_get_SomeD)

lemma auth_key_named:
  "auth_key (resolveIntegrationAccountKey key d) = Inr k \<Longrightarrow> k = get_or key d"
  by (auto simp: auth_key_def resolveIntegrationAccountKey_def validateIntegrationAccountKey_def Let_def
      split: sum.split_asm option.split_asm if_split_asm)

lemma summarize_SomeD:
  "summarizeIntegrationState s row = Some su \<Longrightarrow>
    (platform_name (su_platform su), su_account su) = in_source row \<and> su_enabled su = in_enabled row \<and>
    su_metadata su = row_metadata row"
  by (auto simp: summarizeIntegrationState_def in_source_def split: option.split_asm dest: parsePlatform_SomeD)

lemma summary_row:
  assumes "getIntegrationSummary p k s = Inr su"
  obtains q key row where "normalizeIntegrationPlatform p = Inr q" "resolveAccountKey q k (ac_integrations s) = Inr key"
    "getIntegrationState (platform_name q) key (ac_integrations s) = Some row" "in_source row = (platform_name q, key)"
    "summarizeIntegrationState s row = Some su"
proof -
  obtain q key where q: "normalizeIntegrationPlatform p = Inr q" "resolveAccountKey q k (ac_integrations s) = Inr key"
    using assms by (auto simp: getIntegrationSummary_def ebind_eq_Inr_iff)
  then obtain row where row: "getIntegrationState (platform_name q) key (ac_integrations s) = Some row"
      "summarizeIntegrationState s row = Some su"
    using assms by (auto simp: getIntegrationSummary_def split: option.split_asm)
  then show thesis using that q by (auto simp: getIntegrationState_def dest: tbl_get_SomeD)
qed

lemma summary_account: "getIntegrationSummary p (Some k) s = Inr su \<Longrightarrow> su_account su = k"
  by (erule summary_row) (auto simp: resolveAccountKey_def in_source_def dest!: summarize_SomeD auth_key_named)

lemma off_summary:
  assumes "account_off src (ac_integrations s)" "getIntegrationSummary p k s = Inr su"
  shows "summary_off src su"
  using assms(2)
proof (rule summary_row)
  fix q key row assume row: "getIntegrationState (platform_name q) key (ac_integrations s) = Some row"
    "summarizeIntegrationState s row = Some su"
  have "row_off src row" using off_get [OF assms(1) row(1)] by simp
  then show ?thesis using summarize_SomeD [OF row(2)] by (auto simp: summary_off_def row_off_def)
qed

subsection \<open>The steps keep it\<close>

lemma keeps_off_write:
  assumes "\<And>db db'. integration_inv db \<Longrightarrow> account_off src db \<Longrightarrow> f db = Inr db' \<Longrightarrow> account_off src db' \<and> integration_step db db'"
  shows "keeps (off_inv src) (auth_write f) (\<lambda>_. True)"
  unfolding auth_write_def
proof (rule keeps_write)
  fix s x s' assume s: "off_inv src s"
    and w: "(case f (ac_integrations s) of Inl err \<Rightarrow> Inl (AuthDb err) | Inr db \<Rightarrow> Inr ((), s\<lparr>ac_integrations := db\<rparr>)) = Inr (x, s')"
  obtain db where db: "f (ac_integrations s) = Inr db" "s' = s\<lparr>ac_integrations := db\<rparr>"
    using w by (auto split: sum.split_asm)
  then show "True \<and> off_inv src s'"
    using assms [OF _ _ db(1)] s integration_step_inv by (auto simp: off_inv_def)
qed

lemma keeps_off_upsert: "input_off src v \<Longrightarrow> keeps (off_inv src) (upsert_step now v) (\<lambda>_. True)"
  unfolding upsert_step_def by (rule keeps_off_write) (auto intro: off_upsert integration_step.upsert)

lemma keeps_off_read: "(\<And>s x. off_inv src s \<Longrightarrow> f s = Inr x \<Longrightarrow> Q x) \<Longrightarrow> keeps (off_inv src) (auth_read f) Q"
  unfolding auth_read_def
proof (rule keeps_bind)
  assume a: "\<And>s x. off_inv src s \<Longrightarrow> f s = Inr x \<Longrightarrow> Q x"
  show "keeps (off_inv src) (step_get f) (\<lambda>r. \<exists>s. off_inv src s \<and> f s = r)" by (rule keeps_get) blast
  show "\<exists>s. off_inv src s \<and> f s = r \<Longrightarrow> keeps (off_inv src) (case r of Inl err \<Rightarrow> step_throw err | Inr x \<Rightarrow> step_return x) Q" for r
    using a by (cases r) (auto intro: keeps_throw keeps_return)
qed

lemma keeps_off_summary: "keeps (off_inv src) (auth_read (getIntegrationSummary p k)) (summary_off src)"
  by (rule keeps_off_read) (auto simp: off_inv_def intro: off_summary)

lemma keeps_off_session:
  "keeps (off_inv src) (auth_write (updateAuthSessionState t sid st pid b f ks ka res e)) (\<lambda>_. True)"
  by (rule keeps_off_write) (auto intro: off_sessions integration_step.update)

lemma keeps_off_row:
  "keeps (off_inv src) (step_get (\<lambda>s. getIntegrationState p a (ac_integrations s)))
     (\<lambda>r. \<forall>row. r = Some row \<longrightarrow> row_off src row \<and> in_source row = (p, a))"
proof (rule keeps_get)
  fix s assume "off_inv src s"
  then show "\<forall>row. getIntegrationState p a (ac_integrations s) = Some row \<longrightarrow> row_off src row \<and> in_source row = (p, a)"
    using off_get [of src] by (auto simp: off_inv_def)
qed

lemma keeps_off_effect: "keeps (off_inv src) (effect_step e) (\<lambda>_. True)"
  unfolding effect_step_def by (rule keeps_put) (simp add: off_inv_def)

lemma keeps_off_secret: "keeps (off_inv src) (deleteKeychainSecret k) (\<lambda>_. True)"
  unfolding deleteKeychainSecret_def by (auto split: prod.split option.split intro: keeps_off_effect keeps_return)

lemma keeps_off_directory: "keeps (off_inv src) (remove_directory env path) (\<lambda>_. True)"
  unfolding remove_directory_def by (auto intro: keeps_off_effect keeps_throw)

lemmas off_steps = keeps_seq keeps_return keeps_throw keeps_off_session keeps_off_effect keeps_off_secret keeps_off_directory

subsection \<open>The operations\<close>

datatype account_operation =
    OpRequest string string "string option" | OpStart string int | OpComplete string completed_input
  | OpDisconnect string "string option" | OpRemove string "string option" | OpInvalidate platform string string string
  | OpEnable string "string option" bool | OpReconcile "int option" "int option"
  | OpRefresh slack_helper int "managed_state list" | OpBlock string string

definition step_unit :: "('s, 'e, 'a) process \<Rightarrow> ('s, 'e, unit) process" where
  "step_unit m = step_bind m (\<lambda>_. step_return ())"

fun account_op :: "auth_env \<Rightarrow> account_operation \<Rightarrow> unit auth" where
  "account_op env (OpRequest uuid platform key) = step_unit (requestIntegrationAccess env uuid platform key)"
| "account_op env (OpStart sid pid) = markAuthSessionInProgress env sid pid"
| "account_op env (OpComplete sid input) = step_unit (completeAuthSession env sid input)"
| "account_op env (OpDisconnect platform key) = step_unit (disconnectIntegration env platform key)"
| "account_op env (OpRemove platform key) = step_unit (removeIntegration env platform key)"
| "account_op env (OpInvalidate platform key errorSummary reason) = step_unit (invalidateIntegrationAuth env platform key errorSummary reason)"
| "account_op env (OpEnable platform key enabled) = step_unit (auth_setIntegrationEnabled env platform key enabled)"
| "account_op env (OpReconcile stale now) = reconcileAbandonedAuthSessions env stale now"
| "account_op env (OpRefresh helper now managed) = refreshLocalIntegrationStates helper now managed"
| "account_op env (OpBlock key errorSummary) = blockDiscordIntegration env key errorSummary"

text \<open>
  What brings an account back: it is requested or switched on by name, another session signs in and turns out to be
  this account, or it is one of the local sources the daemon manages itself.
\<close>

definition named_account :: "string \<times> string \<Rightarrow> string \<Rightarrow> string option \<Rightarrow> bool" where
  "named_account src platform key \<longleftrightarrow> (case normalizeIntegrationPlatform platform of
       Inl _ \<Rightarrow> False | Inr p \<Rightarrow> (platform_name p, get_or key (getDefaultAccountKeyForPlatform p)) = src)"

definition signs_in_as :: "string \<times> string \<Rightarrow> auth_session \<Rightarrow> completed_input \<Rightarrow> bool" where
  "signs_in_as src session input \<longleftrightarrow> (as_platform session, resolveCompletedAccountKey session input) = src \<and> as_account session \<noteq> snd src"

fun brings_back :: "string \<times> string \<Rightarrow> account_operation \<Rightarrow> accounts_db \<Rightarrow> bool" where
  "brings_back src (OpRequest uuid platform key) s \<longleftrightarrow> named_account src platform key"
| "brings_back src (OpEnable platform key enabled) s \<longleftrightarrow> enabled \<and> key \<noteq> None \<and> named_account src platform key"
| "brings_back src (OpComplete sid input) s \<longleftrightarrow>
     (case getAuthSession sid (ac_integrations s) of None \<Rightarrow> False | Some session \<Rightarrow> signs_in_as src session input)"
| "brings_back src (OpRefresh helper now managed) s \<longleftrightarrow>
     list_ex (\<lambda>m. (platform_name (mg_platform m), mg_account m) = src) managed"
| "brings_back src _ s \<longleftrightarrow> False"

lemma keeps_off_unit: "keeps (off_inv src) m (\<lambda>_. True) \<Longrightarrow> keeps (off_inv src) (step_unit m) (\<lambda>_. True)"
  unfolding step_unit_def by (erule keeps_seq) (rule keeps_return, simp)

lemma keeps_true: "keeps P m Q \<Longrightarrow> keeps P m (\<lambda>_. True)"
  by (erule keeps_weaken) simp

lemma keeps_off_invalidate: "keeps (off_inv src) (invalidateIntegrationAuth env p k errorSummary reason) (\<lambda>_. True)"
  unfolding invalidateIntegrationAuth_def
proof (rule keeps_bind)
  show "keeps (off_inv src) (auth_read (getIntegrationSummary (platform_name p) (Some k)))
      (\<lambda>su. summary_off src su \<and> su_account su = k)"
    by (rule keeps_off_read) (auto simp: off_inv_def intro: off_summary summary_account)
  fix su assume su: "summary_off src su \<and> su_account su = k"
  then have "input_off src (invalidated_input (ae_clock env 0) k errorSummary reason su)"
    using off_summary_input [of src su "[(''authenticatedAt'', JNull), (''lastAuthError'', JStr errorSummary),
        (''authInvalidatedAt'', JNum (Fin (of_int (ae_clock env 0)))), (''authInvalidationReason'', JStr reason)]"]
    by (auto simp: invalidated_input_def input_off_def summary_input_def)
  then show "keeps (off_inv src) (step_bind (upsert_step (ae_clock env 0) (invalidated_input (ae_clock env 0) k errorSummary reason su))
      (\<lambda>_. auth_read (getIntegrationSummary (platform_name p) (Some k)))) (\<lambda>_. True)"
    by (intro keeps_seq keeps_off_upsert keeps_true [OF keeps_off_summary])
qed

lemma keeps_off_cancel: "keeps (off_inv src) (cancel_session now e pid session) (\<lambda>_. True)"
  unfolding cancel_session_def by (rule keeps_off_session)

lemma keeps_off_stale: "keeps (off_inv src) (cancelStaleAuthSessions env p a) (\<lambda>_. True)"
  unfolding cancelStaleAuthSessions_def by (intro keeps_seq keeps_get keeps_all keeps_off_cancel) simp

lemma keeps_off_create: "keeps (off_inv src) (create_session_step now uuid p a) (\<lambda>_. True)"
  unfolding create_session_step_def
  by (rule keeps_write)
    (auto simp: off_inv_def split: sum.split_asm intro: off_sessions
      dest: integration_step_inv [OF integration_step.create])

lemma keeps_off_ensure:
  assumes "\<not> named_account src platform key"
  shows "keeps (off_inv src) (ensureRequestableIntegrationState env platform key) (summary_off src)"
proof -
  have other: "input_off src (requested_input env now p named k c existing)"
    if "normalizeIntegrationPlatform platform = Inr p" "k = get_or key (getDefaultAccountKeyForPlatform p)" for now p named k c existing
    using assms that by (auto simp: input_off_def requested_input_def Let_def named_account_def)
  show ?thesis unfolding ensureRequestableIntegrationState_def
    apply (rule keeps_bind [where Q = "\<lambda>_. True"], rule keeps_off_read, simp)
    apply (rule keeps_bind [where Q = "\<lambda>p. normalizeIntegrationPlatform platform = Inr p"], rule keeps_off_read, simp)
    apply (rule_tac Q = "\<lambda>k. k = get_or key (getDefaultAccountKeyForPlatform xa)" in keeps_bind, rule keeps_off_read, erule auth_key_named)
    apply (rule keeps_seq, rule keeps_get, simp)
    apply (intro keeps_seq keeps_off_upsert keeps_off_summary other)
     apply simp_all
    done
qed

lemma keeps_off_request:
  assumes "\<not> named_account src platform key"
  shows "keeps (off_inv src) (requestIntegrationAccess env uuid platform key) (\<lambda>_. True)"
  unfolding requestIntegrationAccess_def
  by (rule keeps_bind [OF keeps_off_ensure [OF assms]])
    (intro keeps_seq keeps_off_stale keeps_off_create keeps_off_upsert keeps_true [OF keeps_off_summary] keeps_return;
     simp add: off_summary_input)

lemma keeps_off_start: "keeps (off_inv src) (markAuthSessionInProgress env sid pid) (\<lambda>_. True)"
  unfolding markAuthSessionInProgress_def
  apply (rule keeps_seq, rule keeps_off_read, simp)
  apply (rule keeps_seq, rule keeps_off_session)
  apply (rule keeps_bind [OF keeps_off_row])
  apply (auto split: option.split intro!: keeps_return keeps_off_upsert simp: off_row_input)
  done

lemma keeps_off_disconnect: "keeps (off_inv src) (disconnectIntegration env platform key) (\<lambda>_. True)"
  unfolding disconnectIntegration_def
  by (rule keeps_bind [OF keeps_off_summary])
    (intro keeps_seq keeps_off_secret keeps_off_upsert keeps_true [OF keeps_off_summary];
     auto intro!: keeps_off_directory keeps_return simp: off_summary_input input_off_disabled)

lemma off_clear: "off_inv src s \<Longrightarrow> off_inv src (clearIntegrationRuntimeState p a s)"
  by (simp add: off_inv_def clearIntegrationRuntimeState_def Let_def)

lemma removed_input_off: "input_off src (removed_input t su)"
  by (auto simp: input_off_def removed_input_def summary_input_def removed_stored map_of_spread)

lemma keeps_off_remove: "keeps (off_inv src) (removeIntegration env platform key) (\<lambda>_. True)"
  unfolding removeIntegration_def
  apply (intro keeps_seq)
  apply (rule keeps_true [OF keeps_off_summary])
  apply (rule keeps_get, simp)
  apply (auto split: option.split intro: keeps_return keeps_off_cancel) [1]
  apply (rule keeps_off_secret)
  apply (auto split: option.split intro: keeps_return keeps_off_directory) [3]
  apply (rule keeps_put, erule off_clear)
  apply (rule keeps_off_upsert, rule removed_input_off)
  apply (rule keeps_return, simp)
  done

lemma keeps_off_enable:
  assumes "\<not> (enabled \<and> key \<noteq> None \<and> named_account src platform key)"
  shows "keeps (off_inv src) (auth_setIntegrationEnabled env platform key enabled) (\<lambda>_. True)"
  unfolding auth_setIntegrationEnabled_def
proof (rule keeps_bind [where Q = "\<lambda>p. normalizeIntegrationPlatform platform = Inr p"])
  show "keeps (off_inv src) (auth_read (\<lambda>_. normalizeIntegrationPlatform platform)) (\<lambda>p. normalizeIntegrationPlatform platform = Inr p)"
    by (rule keeps_off_read) simp
  fix p assume p: "normalizeIntegrationPlatform platform = Inr p"
  show "keeps (off_inv src) (step_bind (auth_read (\<lambda>s. resolveAccountKey p key (ac_integrations s)))
      (\<lambda>k. step_bind (auth_write (setIntegrationEnabled (ae_clock env 0) (platform_name p) k enabled))
      (\<lambda>_. auth_read (getIntegrationSummary (platform_name p) (Some k))))) (\<lambda>_. True)"
  proof (rule keeps_bind [where Q = "\<lambda>k. (platform_name p, k) = src \<longrightarrow> \<not> enabled"])
    show "keeps (off_inv src) (auth_read (\<lambda>s. resolveAccountKey p key (ac_integrations s))) (\<lambda>k. (platform_name p, k) = src \<longrightarrow> \<not> enabled)"
    proof (rule keeps_off_read)
      fix s k assume s: "off_inv src s" and k: "resolveAccountKey p key (ac_integrations s) = Inr k"
      show "(platform_name p, k) = src \<longrightarrow> \<not> enabled"
      proof (cases key)
        case None
        then obtain r where f: "filter (\<lambda>r. in_platform r = platform_name p \<and> \<not> isHiddenIntegrationRow r)
            (listIntegrationStates (ac_integrations s)) = [r]" "in_account r = k"
          using k by (auto simp: resolveAccountKey_def split: list.split_asm)
        then have "r \<in> set (filter (\<lambda>r. in_platform r = platform_name p \<and> \<not> isHiddenIntegrationRow r)
            (listIntegrationStates (ac_integrations s)))" by simp
        then have r: "r \<in> set (listIntegrationStates (ac_integrations s))" "in_platform r = platform_name p"
            "\<not> isHiddenIntegrationRow r" "in_account r = k" using f(2) by auto
        then have "in_source r \<noteq> src"
          using s by (auto simp: off_inv_def account_off_def listIntegrationStates_def isHiddenIntegrationRow_def
              isUserRemovedIntegrationRow_def dest: removed_markD)
        then show ?thesis using r by (auto simp: in_source_def)
      next
        case (Some k')
        then show ?thesis using assms p k
          by (auto simp: resolveAccountKey_def named_account_def dest!: auth_key_named)
      qed
    qed
    show "keeps (off_inv src) (step_bind (auth_write (setIntegrationEnabled (ae_clock env 0) (platform_name p) k enabled))
        (\<lambda>_. auth_read (getIntegrationSummary (platform_name p) (Some k)))) (\<lambda>_. True)"
      if k: "(platform_name p, k) = src \<longrightarrow> \<not> enabled" for k
      by (rule keeps_seq [OF keeps_off_write keeps_true [OF keeps_off_summary]])
        (use k off_enable integration_step.enable in blast)
  qed
qed

lemma keeps_off_reconcile: "keeps (off_inv src) (reconcileAbandonedAuthSessions env stale now) (\<lambda>_. True)"
proof -
  have one: "keeps (off_inv src) (reconcile_session env t stale' session) (\<lambda>_. True)" for t stale' session
  proof -
    have abandoned: "input_off src (abandoned_input t (as_id session) e row)" if "row_off src row" for e row
    proof -
      have "nullish_or (metadata_get (row_metadata row) ''userRemoved'') (JBool False) = JBool True" if "in_source row = src"
        using that \<open>row_off src row\<close>
        by (simp add: row_off_def removed_mark_def isUserRemovedIntegrationMetadata_def nullish_or_def)
      then show ?thesis using that
        by (auto simp: input_off_def abandoned_input_def Let_def row_input_def row_off_def in_source_def removed_stored map_of_spread)
    qed
    show ?thesis unfolding reconcile_session_def Let_def
      apply (rule keeps_if, rule keeps_return, rule TrueI)
      apply (rule keeps_seq, rule keeps_off_session)
      apply (rule keeps_bind [OF keeps_off_row])
      apply (rule keeps_seq, rule keeps_get, simp)
      apply (auto split: option.split intro!: keeps_return keeps_off_upsert abandoned)
      done
  qed
  show ?thesis unfolding reconcileAbandonedAuthSessions_def
    by (intro keeps_seq keeps_get keeps_all one) simp
qed

lemma keeps_off_block: "keeps (off_inv src) (blockDiscordIntegration env key e) (\<lambda>_. True)"
proof -
  have blocked: "input_off src (blocked_input t e row)" if "row_off src row" for t row
    using that by (simp add: blocked_input_def off_row_input)
  show ?thesis unfolding blockDiscordIntegration_def
    apply (rule keeps_bind [OF keeps_off_row])
    apply (auto split: option.split intro!: keeps_return keeps_seq keeps_off_upsert keeps_put blocked simp: off_inv_def)
    done
qed

lemma keeps_off_refresh:
  assumes "\<not> list_ex (\<lambda>m. (platform_name (mg_platform m), mg_account m) = src) managed"
  shows "keeps (off_inv src) (refreshLocalIntegrationStates helper now managed) (\<lambda>_. True)"
proof -
  have one: "keeps (off_inv src) (refresh_requestable helper now row) (\<lambda>_. True)" if row: "row_off src row" for row
  proof -
    have "input_off src ((row_input row [])\<lparr>ii_sync_capable := Some c, ii_metadata := Some m\<rparr>)"
      if "normalizePersistedRequestableIntegrationRow helper row = Some (c, m)" for c m
      using row that
      by (auto simp: normalizePersistedRequestableIntegrationRow_def Let_def input_off_def row_input_def row_off_def in_source_def
          removed_stored map_of_spread removed_spread split: if_split_asm)
    then show ?thesis unfolding refresh_requestable_def
      by (auto split: option.split intro!: keeps_return keeps_off_upsert)
  qed
  have local: "keeps (off_inv src) (upsertManagedIntegrationState now m) (\<lambda>_. True)"
    if "m \<in> set (map addSupportedByDaemonMetadata managed)" for m
  proof -
    have "(platform_name (mg_platform m), mg_account m) \<noteq> src"
      using assms that by (auto simp: list_ex_iff addSupportedByDaemonMetadata_def)
    then show ?thesis unfolding upsertManagedIntegrationState_def
      by (intro keeps_seq keeps_get keeps_off_upsert) (auto simp: input_off_def managed_input_def)
  qed
  show ?thesis unfolding refreshLocalIntegrationStates_def refreshPersistedRequestableIntegrationStates_def
  proof (rule keeps_seq)
    show "keeps (off_inv src) (step_bind (step_get (\<lambda>s. listIntegrationStates (ac_integrations s)))
        (step_all (refresh_requestable helper now))) (\<lambda>_. True)"
    proof (rule keeps_bind)
      show "keeps (off_inv src) (step_get (\<lambda>s. listIntegrationStates (ac_integrations s))) (\<lambda>rows. \<forall>r\<in>set rows. row_off src r)"
        by (rule keeps_get) (auto simp: off_inv_def account_off_def row_off_def listIntegrationStates_def)
    qed (intro keeps_all one, simp)
    show "keeps (off_inv src) (step_all (upsertManagedIntegrationState now) (map addSupportedByDaemonMetadata managed)) (\<lambda>_. True)"
      by (intro keeps_all local)
  qed
qed

lemma off_completed:
  assumes row: "row_off src row" "in_source row = (as_platform session, as_account session)"
    and target: "target = resolveCompletedAccountKey session input" "\<not> signs_in_as src session input"
    and existing: "target = in_account row \<Longrightarrow> existing = Some row \<and> targetMetadata = js_spread (row_metadata row)"
  shows "input_off src (completed_row env sid input target row existing targetMetadata)"
  unfolding input_off_def
proof
  let ?v = "completed_row env sid input target row existing targetMetadata"
  assume "(ii_platform ?v, ii_account ?v) = src"
  then have src: "src = (in_platform row, target)" by (simp add: completed_row_def Let_def)
  then have t: "target = in_account row" using row(2) target by (auto simp: signs_in_as_def in_source_def)
  then have off: "\<not> in_enabled row" "removed_mark (row_metadata row)"
    using row(1) src by (auto simp: row_off_def in_source_def)
  note e = existing [OF t]
  have removed: "map_of (completed_metadata env sid input hidden target (row_metadata row) (row_metadata row) targetMetadata)
      ''userRemoved'' = Some (JBool True)" for hidden
    using e removed_spread [OF off(2)] by (auto simp: completed_metadata_def Let_def map_of_spread map_add_def)
  show "ii_enabled ?v = Some False \<and> removed_mark (safeParseJsonRecord (safeStringifyJson (ii_metadata ?v)))"
    using e off removed removed_markD [OF off(2)]
    by (simp add: completed_row_def Let_def removed_stored completed_metadata_def)
qed

lemma keeps_off_profile:
  "keeps (off_inv src) (completed_profile env platform fromKey toKey metadata)
     (\<lambda>m. fromKey = toKey \<longrightarrow> m = js_spread metadata)"
  unfolding completed_profile_def Let_def
  by (auto split: option.split intro!: keeps_return keeps_seq keeps_off_effect)

lemma keeps_off_identity: "keeps (off_inv src) (auth_write (updateAuthSessionIdentity t sid a q)) (\<lambda>_. True)"
  by (rule keeps_off_write) (auto intro: off_sessions integration_step.identity)

lemma keeps_off_delete: "keeps (off_inv src) (auth_write (\<lambda>db. Inr (deleteIntegrationState p a db))) (\<lambda>_. True)"
  by (rule keeps_off_write) (auto intro: off_delete integration_step.delete)

lemma keeps_off_complete:
  assumes "\<not> signs_in_as src session input"
  shows "keeps (off_inv src) (complete_session env sid input session) (\<lambda>_. True)"
  unfolding complete_session_def
  apply (rule keeps_seq, rule keeps_get, simp)
  apply (rule keeps_if, rule keeps_return, simp)
  apply (rule keeps_seq, rule keeps_off_session)
  apply (rule keeps_bind [where Q = "\<lambda>row. row_off src row \<and> in_source row = (as_platform session, as_account session)"])
   apply (rule keeps_off_read)
   apply (auto simp: off_inv_def dest!: off_get split: option.split_asm) [1]
  apply (rule_tac Q = "\<lambda>target. target = resolveCompletedAccountKey session input" in keeps_bind)
   apply (rule keeps_off_read)
   apply (auto simp: auth_key_def validateIntegrationAccountKey_def Let_def split: sum.split_asm if_split_asm) [1]
  apply (rule keeps_bind [OF keeps_off_profile])
  apply (rule_tac Q = "\<lambda>existing. xc = in_account xb \<longrightarrow> existing = Some xb" in keeps_bind)
   apply (rule keeps_get, simp)
  apply (rule keeps_seq, rule keeps_off_upsert, rule off_completed [OF _ _ _ assms])
  apply (auto intro!: keeps_return keeps_seq keeps_off_identity keeps_off_delete keeps_true [OF keeps_off_summary])
  done

subsection \<open>Removed for good\<close>

lemma keeps_off_op: "\<not> brings_back src op t \<Longrightarrow> off_inv src t \<Longrightarrow> account_op env op t = (seen, r, t') \<Longrightarrow>
    list_all (off_inv src) seen \<and> off_inv src t'"
proof (cases op)
  case (OpComplete sid input)
  assume o: "\<not> brings_back src op t" "off_inv src t" "account_op env op t = (seen, r, t')"
  let ?rest = "\<lambda>found. case found of None \<Rightarrow> step_return None | Some session \<Rightarrow> complete_session env sid input session"
  have "keeps (off_inv src) (?rest (getAuthSession sid (ac_integrations t))) (\<lambda>_. True)"
    using o(1) OpComplete by (auto split: option.split intro!: keeps_return keeps_off_complete)
  then have k: "keeps (off_inv src) (step_unit (?rest (getAuthSession sid (ac_integrations t)))) (\<lambda>_. True)" by (rule keeps_off_unit)
  have "step_unit (completeAuthSession env sid input) t = step_unit (?rest (getAuthSession sid (ac_integrations t))) t"
    by (simp add: step_unit_def completeAuthSession_def step_bind_def step_get_def split: prod.split)
  then show ?thesis using keepsD [OF k o(2)] o(3) OpComplete by simp
qed (auto elim!: keepsD [rotated 2] intro: keeps_off_unit keeps_off_request keeps_off_start keeps_off_disconnect keeps_off_remove
    keeps_off_invalidate keeps_off_enable keeps_off_reconcile keeps_off_refresh keeps_off_block)

text \<open>What may follow, with a crash anywhere: operations that do not bring the account back.\<close>

inductive later_accounts :: "string \<times> string \<Rightarrow> accounts_db \<Rightarrow> accounts_db \<Rightarrow> bool" for src s where
  none: "later_accounts src s s"
| op: "later_accounts src s t \<Longrightarrow> \<not> brings_back src op t \<Longrightarrow> account_op env op t = (seen, r, t') \<Longrightarrow> u \<in> set (t' # seen) \<Longrightarrow>
    later_accounts src s u"

lemma later_off: "later_accounts src s t \<Longrightarrow> off_inv src s \<Longrightarrow> off_inv src t"
  by (induction rule: later_accounts.induct) (auto simp: list_all_iff dest: keeps_off_op)

lemma off_established:
  assumes "upsertIntegrationState t (removed_input now su) db = Inr db'"
  shows "account_off (platform_name (su_platform su), su_account su) db'"
proof -
  let ?v = "removed_input now su"
  have src: "in_source (integration_values t ?v) = (platform_name (su_platform su), su_account su)"
    by (simp add: in_source_def integration_values_def removed_input_def summary_input_def)
  have new: "\<not> in_enabled (integration_values t ?v) \<and> removed_mark (row_metadata (integration_values t ?v))"
    using removed_input_off [of "in_source (integration_values t ?v)" now su]
    by (auto simp: input_off_def integration_values_def row_metadata_def in_source_def)
  from assms show ?thesis
  proof (cases rule: upsert_cases)
    case inserted
    then show ?thesis using new by (auto simp: account_off_def src)
  next
    case (rewritten e)
    have "\<not> in_enabled (stored_integration t ?v r) \<and> removed_mark (row_metadata (stored_integration t ?v r))" for r
      using new by (simp add: stored_integration_def row_metadata_def)
    then show ?thesis unfolding account_off_def rewritten(4) by (auto simp: set_tbl_update src)
  qed
qed

lemma removes_last:
  "holds_over (\<lambda>_. True) (\<lambda>_. True)
     (step_bind (upsert_step t (removed_input now su)) (\<lambda>_. step_return (su_platform su, su_account su)))
     (\<lambda>(p, a) s. account_off (platform_name p, a) (ac_integrations s))"
proof (rule holds_bind)
  show "holds_over (\<lambda>_. True) (\<lambda>_. True) (upsert_step t (removed_input now su))
      (\<lambda>_ s. account_off (platform_name (su_platform su), su_account su) (ac_integrations s))"
    unfolding upsert_step_def auth_write_def
    by (rule holds_write) (auto split: sum.split_asm intro: off_established)
qed (rule holds_return, simp)

lemma remove_establishes:
  assumes "integration_inv (ac_integrations s)" "removeIntegration env platform key s = (seen, Inr (p, a), s1)"
  shows "off_inv (platform_name p, a) s1"
proof -
  obtain x :: string where x: "x \<notin> snd ` in_source ` set (idb_integrations (ac_integrations s))"
    using ex_new_if_finite [OF infinite_UNIV_listI] by (metis finite_imageI finite_set)
  have "off_inv ([], x) s"
  proof -
    have "in_source row \<noteq> ([], x)" if "row \<in> set (idb_integrations (ac_integrations s))" for row
      using x that by (metis imageI snd_conv)
    then show ?thesis using assms(1) by (auto simp: off_inv_def account_off_def)
  qed
  then have inv: "integration_inv (ac_integrations s1)"
    using keepsD [OF keeps_off_remove _ assms(2)] by (auto simp: off_inv_def)
  have "holds_over (\<lambda>_. True) (\<lambda>_. True) (removeIntegration env platform key)
      (\<lambda>(p, a) s. account_off (platform_name p, a) (ac_integrations s))"
    unfolding removeIntegration_def by (rule removes_last | rule holds_bind [OF holds_top])+
  from holds_overD [OF this TrueI assms(2)] show ?thesis using inv by (simp add: off_inv_def)
qed


definition demo_auth_env :: auth_env where
  "demo_auth_env = \<lparr>ae_clock = int, ae_profile_dir = (\<lambda>_ k. ''/browser/'' @ k), ae_signal_dir = (\<lambda>k. k), ae_whatsapp_dir = (\<lambda>k. k),
     ae_refuses = (\<lambda>_. False), ae_process_exists = (\<lambda>_. False)\<rparr>"

definition demo_accounts :: accounts_db where
  "demo_accounts = \<lparr>ac_integrations = \<lparr>idb_integrations = [integration_values 1 demo_integration], idb_sessions = []\<rparr>,
     ac_accounts = [], ac_checkpoints = [], ac_proofs = \<lparr>pdb_scopes = [], pdb_proofs = []\<rparr>,
     ac_runs = \<lparr>rdb_runs = [], rdb_errors = []\<rparr>, ac_slack_backfill = [''work'', ''home''], ac_effects = []\<rparr>"

lemma demo_removed:
  "fst (snd (removeIntegration demo_auth_env ''slack'' (Some ''work'') demo_accounts)) = Inr (Slack, ''work'')"
  by code_simp


text \<open>
  The local sources are an exception: the refresh writes their row without its old metadata, so a removed
  \<open>contacts\<close> account loses its mark and is listed again, switched off.
\<close>

definition local_accounts :: accounts_db where
  "local_accounts = demo_accounts\<lparr>ac_integrations := \<lparr>idb_integrations =
     [integration_values 1 (managed_input (hd (buildLocalIntegrationStates AsAuthorized AsMissing [] False)) None)], idb_sessions = []\<rparr>\<rparr>"

lemma local_refresh_forgets_removal:
  "let s1 = snd (snd (removeIntegration demo_auth_env ''contacts'' (Some ''local'') local_accounts));
       t = snd (snd (refreshLocalIntegrationStates \<lparr>sh_path = None, sh_version = None, sh_protocol = JNull, sh_supported = False\<rparr> 9
             (buildLocalIntegrationStates AsAuthorized AsMissing [] False) s1))
   in map isHiddenIntegrationRow (idb_integrations (ac_integrations s1)) = [True] \<and>
      map (\<lambda>r. (in_platform r, isHiddenIntegrationRow r, in_enabled r)) (idb_integrations (ac_integrations t)) =
        [(''contacts'', False, False), (''imessage'', False, True)]"
  by code_simp

end
