(* ===== verification/EventBuilder.thy ===== *)
theory EventBuilder
  imports RawEvents ProjText
begin

text \<open>
  What the event builders of the platforms (\<^verbatim>\<open>src/platforms/*/sync/events.ts\<close>) share: the frame of a raw event and the
  way JavaScript picks the first text that is there. \<open>hash\<close> stands for the hexadecimal SHA-256 digest of a text, the
  function \<open>stableId\<close> of the builders.
\<close>

definition raw_event ::
  "platform \<Rightarrow> string \<Rightarrow> entity_kind \<Rightarrow> string \<Rightarrow> string \<Rightarrow> string \<Rightarrow> int \<Rightarrow> json \<Rightarrow> string \<Rightarrow> raw_input" where
  "raw_event p account entity kind eventId dedupe observedAt payload version =
     \<lparr>ev_id = eventId, ev_platform = p, ev_account = account, ev_entity = entity, ev_kind = kind, ev_external_event = None,
      ev_external_entity = None, ev_conversation = None, ev_occurred_at = None, ev_observed_at = observedAt, ev_cursor = None,
      ev_dedupe = dedupe, ev_payload = payload, ev_schema = None, ev_provenance = None, ev_source_version = Some version\<rparr>"

text \<open>\<open>a || b\<close> on texts that may be missing, and \<open>a?.trim() || b?.trim() || ...\<close>.\<close>

definition js_or :: "string option \<Rightarrow> string option \<Rightarrow> string option" where
  "js_or a b = (if truthy_text a then a else b)"

fun first_trimmed :: "string option list \<Rightarrow> string option" where
  "first_trimmed [] = None"
| "first_trimmed (t # ts) =
     (case t of
        None \<Rightarrow> first_trimmed ts
      | Some s \<Rightarrow> if js_trim s = [] then first_trimmed ts else Some (js_trim s))"

definition str_ends_with :: "string \<Rightarrow> string \<Rightarrow> bool" where
  "str_ends_with s part \<longleftrightarrow> suffix part s"

definition optional_number :: "int option \<Rightarrow> json" where
  "optional_number n = (case n of None \<Rightarrow> JNull | Some i \<Rightarrow> JNum (Fin (of_int i)))"

definition json_int :: "int \<Rightarrow> json" where
  "json_int i = JNum (Fin (of_int i))"

text \<open>Observations of one page are a millisecond apart.\<close>

fun enumerate_from :: "int \<Rightarrow> 'a list \<Rightarrow> (int \<times> 'a) list" where
  "enumerate_from k [] = []"
| "enumerate_from k (x # xs) = (k, x) # enumerate_from (k + 1) xs"

text \<open>\<open>typeof value[k] === "string" && value[k]\<close>: a text that is not empty.\<close>

definition text_field :: "json \<Rightarrow> string \<Rightarrow> string option" where
  "text_field value k = (case jstr (jget value k) of Some (c # cs) \<Rightarrow> Some (c # cs) | _ \<Rightarrow> None)"

definition first_field :: "json \<Rightarrow> string list \<Rightarrow> string option" where
  "first_field value ks = (case List.map_filter (text_field value) ks of [] \<Rightarrow> None | t # _ \<Rightarrow> Some t)"

text \<open>Events that share a key with one in the log are dropped when they are inserted.\<close>

definition event_known :: "raw_input \<Rightarrow> raw_row list \<Rightarrow> bool" where
  "event_known e rows \<longleftrightarrow> tbl_has rw_id (ev_id e) rows \<or> tbl_has rw_unique (ev_platform e, ev_account e, ev_dedupe e) rows"

text \<open>An event that the log accepts.\<close>

definition event_accepted :: "raw_input \<Rightarrow> bool" where
  "event_accepted e \<longleftrightarrow> (\<exists>r. buildRawEventValues e = Inr r)"

lemma raw_event_simps [simp]:
  "ev_id (raw_event p a e k i d t payload v) = i" "ev_platform (raw_event p a e k i d t payload v) = p"
  "ev_account (raw_event p a e k i d t payload v) = a" "ev_entity (raw_event p a e k i d t payload v) = e"
  "ev_kind (raw_event p a e k i d t payload v) = k" "ev_dedupe (raw_event p a e k i d t payload v) = d"
  "ev_observed_at (raw_event p a e k i d t payload v) = t" "ev_payload (raw_event p a e k i d t payload v) = payload"
  "ev_schema (raw_event p a e k i d t payload v) = None"
  by (simp_all add: raw_event_def)

lemma first_trimmed_nonempty: "first_trimmed ts = Some s \<Longrightarrow> s \<noteq> [] \<and> js_trim s = s"
  by (induction ts) (auto split: option.split_asm if_split_asm)

lemma accepted_eq:
  "event_accepted e \<longleftrightarrow>
     (let schema = resolveRawEventNormalizedSchema (ev_entity e) (ev_kind e) (ev_schema e) in
      assertCanonicalNormalizedSchemaForWrite schema = Inr () \<and>
      assertCanonicalRawEventPayloadForWrite (ev_entity e) (ev_kind e) (Some schema) (ev_payload e) = Inr ())"
  unfolding event_accepted_def buildRawEventValues_def Let_def
  by (cases "assertCanonicalNormalizedSchemaForWrite (resolveRawEventNormalizedSchema (ev_entity e) (ev_kind e) (ev_schema e))";
      cases "assertCanonicalRawEventPayloadForWrite (ev_entity e) (ev_kind e)
        (Some (resolveRawEventNormalizedSchema (ev_entity e) (ev_kind e) (ev_schema e))) (ev_payload e)")
    (simp_all add: ebind_def)

lemma accepted_iff:
  "ev_schema e = None \<Longrightarrow> event_accepted e \<longleftrightarrow>
    (\<exists>u. assertCanonicalRawEventPayloadForWrite (ev_entity e) (ev_kind e)
       (Some (resolveRawEventNormalizedSchema (ev_entity e) (ev_kind e) None)) (ev_payload e) = Inr u)"
  unfolding event_accepted_def buildRawEventValues_def Let_def
  by (auto simp: ebind_eq_Inr_iff assertCanonicalRawEventPayloadForWrite_def Let_def)

subsection \<open>Accepted events\<close>

definition schema_of :: "raw_input \<Rightarrow> string" where
  "schema_of e = buildNormalizedRawEventSchema (entity_name (ev_entity e)) (ev_kind e)"

definition text_at :: "json \<Rightarrow> string \<Rightarrow> bool" where
  "text_at payload k \<longleftrightarrow> (case jstr (jget payload k) of None \<Rightarrow> False | Some s \<Rightarrow> js_trim s \<noteq> [])"

lemma string_fields_iff: "assertStringFields payload fs = Inr () \<longleftrightarrow> list_all (text_at payload) fs"
  by (induction fs) (auto simp: assertStringField_def text_at_def ebind_def split: option.splits sum.splits)

lemma resolve_canonical: "resolveRawEventNormalizedSchema entity kind None = buildNormalizedRawEventSchema (entity_name entity) kind"
  by (simp add: resolveRawEventNormalizedSchema_def)

lemma event_acceptedI:
  assumes "ev_schema e = None" "schema_of e \<in> set SUPPORTED_NORMALIZED_SCHEMAS" "is_jobject (ev_payload e)"
    "\<exists>fs. required_strings (schema_of e) = Some fs \<and> list_all (text_at (ev_payload e)) fs"
    "schema_of e = ''call.observed@1'' \<Longrightarrow> assertNumberField (ev_payload e) ''startedAt'' = Inr ()"
  shows "event_accepted e"
proof -
  obtain fs where fs: "required_strings (schema_of e) = Some fs" "list_all (text_at (ev_payload e)) fs" using assms(4) by blast
  then have fields: "assertStringFields (ev_payload e) fs = Inr ()" by (simp add: string_fields_iff)
  show ?thesis
    using assms(2,3) fs(1) assms(5) unfolding accepted_iff [OF assms(1)] assms(1) resolve_canonical schema_of_def [symmetric]
      assertCanonicalRawEventPayloadForWrite_def assertCanonicalNormalizedSchemaForWrite_def assertObjectPayload_def Let_def
    by (cases "schema_of e = ''call.observed@1''") (simp_all add: ebind_def fields)
qed

lemma accepted_kinds:
  "\<lbrakk>ev_schema e = None; ev_entity e = EkContact; ev_kind e = ''observed''; is_jobject (ev_payload e);
     text_at (ev_payload e) ''sourceEntityKey''\<rbrakk> \<Longrightarrow> event_accepted e"
  "\<lbrakk>ev_schema e = None; ev_entity e = EkContact; ev_kind e = ''aliased''; is_jobject (ev_payload e);
     text_at (ev_payload e) ''aliasSourceEntityKey''; text_at (ev_payload e) ''canonicalSourceEntityKey''\<rbrakk> \<Longrightarrow> event_accepted e"
  "\<lbrakk>ev_schema e = None; ev_entity e = EkConversation; ev_kind e = ''observed''; is_jobject (ev_payload e);
     text_at (ev_payload e) ''sourceConversationKey''\<rbrakk> \<Longrightarrow> event_accepted e"
  "\<lbrakk>ev_schema e = None; ev_entity e = EkConversation; ev_kind e = ''removed''; is_jobject (ev_payload e);
     text_at (ev_payload e) ''sourceConversationKey''\<rbrakk> \<Longrightarrow> event_accepted e"
  "\<lbrakk>ev_schema e = None; ev_entity e = EkMessage; ev_kind e = ''created''; is_jobject (ev_payload e);
     text_at (ev_payload e) ''sourceMessageKey''; text_at (ev_payload e) ''sourceConversationKey''\<rbrakk> \<Longrightarrow> event_accepted e"
  "\<lbrakk>ev_schema e = None; ev_entity e = EkMessage; ev_kind e = ''updated''; is_jobject (ev_payload e);
     text_at (ev_payload e) ''sourceMessageKey''; text_at (ev_payload e) ''sourceConversationKey''\<rbrakk> \<Longrightarrow> event_accepted e"
  "\<lbrakk>ev_schema e = None; ev_entity e = EkMessage; ev_kind e = ''deleted''; is_jobject (ev_payload e);
     text_at (ev_payload e) ''sourceMessageKey''; text_at (ev_payload e) ''sourceConversationKey''\<rbrakk> \<Longrightarrow> event_accepted e"
  "\<lbrakk>ev_schema e = None; ev_entity e = EkReaction; ev_kind e = ''added''; is_jobject (ev_payload e);
     text_at (ev_payload e) ''sourceMessageKey''; text_at (ev_payload e) ''sourceConversationKey''; text_at (ev_payload e) ''emoji''\<rbrakk> \<Longrightarrow> event_accepted e"
  "\<lbrakk>ev_schema e = None; ev_entity e = EkReaction; ev_kind e = ''removed''; is_jobject (ev_payload e);
     text_at (ev_payload e) ''sourceMessageKey''; text_at (ev_payload e) ''sourceConversationKey''; text_at (ev_payload e) ''emoji''\<rbrakk> \<Longrightarrow> event_accepted e"
  "\<lbrakk>ev_schema e = None; ev_entity e = EkTimeline; ev_kind e = ''system_message''; is_jobject (ev_payload e);
     text_at (ev_payload e) ''sourceEventKey''; text_at (ev_payload e) ''sourceConversationKey''\<rbrakk> \<Longrightarrow> event_accepted e"
  "\<lbrakk>ev_schema e = None; ev_entity e = EkCall; ev_kind e = ''observed''; is_jobject (ev_payload e);
     text_at (ev_payload e) ''sourceCallKey''; text_at (ev_payload e) ''sourceConversationKey'';
     assertNumberField (ev_payload e) ''startedAt'' = Inr ()\<rbrakk> \<Longrightarrow> event_accepted e"
  by (rule event_acceptedI; simp add: supported_eq schema_of_def buildNormalizedRawEventSchema_def required_strings_def)+

lemma text_at_iff: "jget payload k = Some (JStr s) \<Longrightarrow> js_trim s \<noteq> [] \<Longrightarrow> text_at payload k"
  by (simp add: text_at_def)

lemma trim_keeps: "\<not> is_ws c \<Longrightarrow> c \<in> set s \<Longrightarrow> js_trim s \<noteq> []"
proof
  assume c: "\<not> is_ws c" "c \<in> set s" and "js_trim s = []"
  then have "list_all is_ws (dropWhile is_ws s)"
    by (simp add: js_trim_def list_all_iff dropWhile_eq_Nil_conv)
  moreover have "list_all is_ws (takeWhile is_ws s)" by (auto simp: list_all_iff dest: set_takeWhileD)
  ultimately have "list_all is_ws s" by (metis list_all_append takeWhile_dropWhile_id)
  then show False using c by (auto simp: list_all_iff)
qed

subsection \<open>Events seen again\<close>

text \<open>The key the log deduplicates by, and two observations of the same thing.\<close>

definition event_key :: "raw_input \<Rightarrow> platform \<times> string \<times> string" where
  "event_key e = (ev_platform e, ev_account e, ev_dedupe e)"

definition same_observation :: "raw_input \<Rightarrow> raw_input \<Rightarrow> bool" where
  "same_observation e e' \<longleftrightarrow> e'\<lparr>ev_id := ev_id e, ev_observed_at := ev_observed_at e\<rparr> = e"

text \<open>An id names one key: no two different keys of these events and rows share their id.\<close>

definition ids_name_keys :: "raw_input list \<Rightarrow> raw_row list \<Rightarrow> bool" where
  "ids_name_keys es rows \<longleftrightarrow>
     (\<forall>d\<in>set es. (\<forall>e\<in>set es. ev_id d = ev_id e \<longrightarrow> event_key d = event_key e) \<and>
                (\<forall>r\<in>set rows. ev_id d = rw_id r \<longrightarrow> event_key d = rw_unique r))"

lemma same_observation_fields:
  "same_observation e e' \<Longrightarrow> event_key e' = event_key e \<and> ev_schema e' = ev_schema e \<and> ev_entity e' = ev_entity e \<and>
     ev_kind e' = ev_kind e \<and> ev_payload e' = ev_payload e"
  unfolding same_observation_def event_key_def by (cases e, cases e') simp

lemma built_parts:
  "buildRawEventValues e = Inr v \<Longrightarrow> rw_id v = ev_id e \<and> rw_unique v = event_key e"
  by (auto simp: buildRawEventValues_def Let_def ebind_eq_Inr_iff rw_unique_def event_key_def)

lemma build_all_accepts: "list_all event_accepted es \<Longrightarrow> \<exists>vs. build_all es = Inr vs"
  by (induction es) (auto simp: event_accepted_def)

lemma build_all_parts:
  "build_all es = Inr vs \<Longrightarrow> map (\<lambda>v. (rw_id v, rw_unique v)) vs = map (\<lambda>e. (ev_id e, event_key e)) es"
  by (induction es arbitrary: vs) (auto simp: ebind_eq_Inr_iff dest: built_parts)

lemma accepted_inserts:
  assumes "list_all event_accepted es"
  obtains res vs where "insertRawEvents es rows = Inr (res, fold insert_raw vs rows)"
    "map (\<lambda>v. (rw_id v, rw_unique v)) vs = map (\<lambda>e. (ev_id e, event_key e)) (unique_events es)"
proof (cases "es = []")
  case True
  then show thesis by (intro that [of _ "[]"]) (simp_all add: insertRawEvents_def unique_events_def js_map_from_def)
next
  case False
  have "list_all event_accepted (unique_events es)"
    using assms unique_events_ids(3) [of es] by (auto simp: list_all_iff)
  from build_all_accepts [OF this] obtain vs where vs: "build_all (unique_events es) = Inr vs" ..
  then show thesis
    by (intro that [of _ vs])
      (simp_all add: insertRawEvents_def False Let_def insert_event_chunks_concat concat_chunkArray build_all_parts)
qed

lemma insert_raw_set: "set rows \<subseteq> set (insert_raw v rows)"
  by (auto simp: insert_raw_def)

lemma fold_insert_set: "set rows \<subseteq> set (fold insert_raw vs rows)"
proof (induction vs arbitrary: rows)
  case (Cons v vs)
  show ?case using insert_raw_set [of rows v] Cons.IH [of "insert_raw v rows"] by auto
qed simp

lemma fold_insert_known: "\<forall>v\<in>set vs. tbl_has rw_unique (rw_unique v) rows \<Longrightarrow> fold insert_raw vs rows = rows"
  by (induction vs) (auto simp: insert_raw_def raw_conflict_def)

lemma fold_insert_keys:
  "\<forall>v\<in>set vs. (\<forall>w\<in>set vs. rw_id v = rw_id w \<longrightarrow> rw_unique v = rw_unique w) \<and>
              (\<forall>r\<in>set rows. rw_id v = rw_id r \<longrightarrow> rw_unique v = rw_unique r) \<Longrightarrow>
   v \<in> set vs \<Longrightarrow> tbl_has rw_unique (rw_unique v) (fold insert_raw vs rows)"
proof (induction vs arbitrary: rows)
  case (Cons w ws)
  let ?rows = "insert_raw w rows"
  have here: "tbl_has rw_unique (rw_unique w) ?rows"
    using Cons.prems(1) by (auto simp: insert_raw_def raw_conflict_def tbl_has_iff rw_unique_def)
  have keys: "\<forall>r\<in>set ?rows. (\<exists>q\<in>insert w (set rows). rw_id r = rw_id q \<and> rw_unique r = rw_unique q)"
    by (auto simp: insert_raw_def rw_unique_def)
  show ?case
  proof (cases "v \<in> set ws")
    case True
    have "\<forall>v\<in>set ws. (\<forall>w\<in>set ws. rw_id v = rw_id w \<longrightarrow> rw_unique v = rw_unique w) \<and>
              (\<forall>r\<in>set ?rows. rw_id v = rw_id r \<longrightarrow> rw_unique v = rw_unique r)"
    proof
      fix v assume v: "v \<in> set ws"
      have all: "(\<forall>x\<in>set (w # ws). rw_id v = rw_id x \<longrightarrow> rw_unique v = rw_unique x) \<and>
          (\<forall>r\<in>set rows. rw_id v = rw_id r \<longrightarrow> rw_unique v = rw_unique r)"
        by (rule bspec [OF Cons.prems(1)]) (simp add: v)
      note mine = conjunct1 [OF all] conjunct2 [OF all]
      have "rw_unique v = rw_unique r" if "r \<in> set ?rows" "rw_id v = rw_id r" for r
      proof -
        from bspec [OF keys that(1)] obtain q
          where q: "q \<in> insert w (set rows)" "rw_id r = rw_id q" "rw_unique r = rw_unique q" by (elim bexE conjE)
        have eq: "rw_id v = rw_id q" by (rule trans [OF that(2) q(2)])
        have "rw_unique v = rw_unique q"
        proof (cases "q = w")
          case True
          show ?thesis unfolding True by (rule mp [OF bspec [OF mine(1) list.set_intros(1)] eq [unfolded True]])
        next
          case False
          then have "q \<in> set rows" using q(1) by blast
          from mp [OF bspec [OF mine(2) this] eq] show ?thesis .
        qed
        then show ?thesis by (rule trans) (rule q(3) [symmetric])
      qed
      then show "(\<forall>w\<in>set ws. rw_id v = rw_id w \<longrightarrow> rw_unique v = rw_unique w) \<and>
          (\<forall>r\<in>set ?rows. rw_id v = rw_id r \<longrightarrow> rw_unique v = rw_unique r)"
        using mine(1) by (intro conjI ballI impI) (simp_all only: list.set insert_iff simp_thms)
    qed
    from Cons.IH [OF this True] show ?thesis by simp
  next
    case False
    then show ?thesis using here Cons.prems(2) fold_insert_set [of ?rows ws] by (auto simp: tbl_has_iff)
  qed
qed simp

text \<open>Once every key is in the log, the same things seen again leave it as it is.\<close>

lemma seen_again:
  assumes "list_all event_accepted es" "\<forall>e\<in>set es. tbl_has rw_unique (event_key e) rows" "raw_inv rows"
  shows "\<exists>res. insertRawEvents es rows = Inr (res, rows) \<and> ir_count res = 0 \<and> ir_rows res = [] \<and> ir_first res = None \<and> ir_last res = None"
proof -
  obtain res vs where ins: "insertRawEvents es rows = Inr (res, fold insert_raw vs rows)"
    and vs: "map (\<lambda>v. (rw_id v, rw_unique v)) vs = map (\<lambda>e. (ev_id e, event_key e)) (unique_events es)"
    using accepted_inserts [OF assms(1)] by blast
  have "tbl_has rw_unique (rw_unique v) rows" if "v \<in> set vs" for v
  proof -
    have "(rw_id v, rw_unique v) \<in> set (map (\<lambda>e. (ev_id e, event_key e)) (unique_events es))"
      using that by (simp flip: vs)
    then show ?thesis using assms(2) unique_events_ids(3) [of es] by auto
  qed
  then have same: "fold insert_raw vs rows = rows" by (intro fold_insert_known) blast
  from ingest_is_append [OF assms(3) ins [unfolded same]] show ?thesis using ins same by auto
qed

lemma first_seen:
  assumes "list_all event_accepted es" "ids_name_keys es rows" "insertRawEvents es rows = Inr (res, rows')" "e \<in> set es"
  shows "tbl_has rw_unique (event_key e) rows'"
proof -
  obtain res0 vs where ins: "insertRawEvents es rows = Inr (res0, fold insert_raw vs rows)"
    and vs: "map (\<lambda>v. (rw_id v, rw_unique v)) vs = map (\<lambda>e. (ev_id e, event_key e)) (unique_events es)"
    using accepted_inserts [OF assms(1)] by blast
  have rows': "rows' = fold insert_raw vs rows" using assms(3) ins by simp
  have mem: "\<exists>d\<in>set es. rw_id v = ev_id d \<and> rw_unique v = event_key d" if "v \<in> set vs" for v
  proof -
    have "(rw_id v, rw_unique v) \<in> set (map (\<lambda>e. (ev_id e, event_key e)) (unique_events es))"
      using that by (simp flip: vs)
    then show ?thesis using unique_events_ids(3) [of es] by auto
  qed
  obtain d where d: "d \<in> set (unique_events es)" "ev_id d = ev_id e"
    using unique_events_ids(2) [of es] assms(4) by (metis (no_types, lifting) imageE image_eqI)
  then have "event_key d = event_key e"
    using assms(2,4) unique_events_ids(3) [of es] unfolding ids_name_keys_def by blast
  moreover obtain v where v: "v \<in> set vs" "rw_unique v = event_key d"
  proof -
    have "(ev_id d, event_key d) \<in> set (map (\<lambda>v. (rw_id v, rw_unique v)) vs)" using d(1) by (simp add: vs)
    then show thesis using that by auto
  qed
  have ok: "\<forall>v\<in>set vs. (\<forall>w\<in>set vs. rw_id v = rw_id w \<longrightarrow> rw_unique v = rw_unique w) \<and>
              (\<forall>r\<in>set rows. rw_id v = rw_id r \<longrightarrow> rw_unique v = rw_unique r)"
    using assms(2) mem unfolding ids_name_keys_def by metis
  show ?thesis using fold_insert_keys [OF ok v(1)] v(2) calculation by (simp add: rows')
qed

lemma keys_again: "list_all2 same_observation es es' \<Longrightarrow> e' \<in> set es' \<Longrightarrow> \<exists>e\<in>set es. event_key e' = event_key e"
  by (metis in_set_conv_nth list_all2_conv_all_nth same_observation_fields)

subsection \<open>Events built from pages\<close>

text \<open>The events so far, the contacts and the conversations that have one.\<close>

type_synonym seen_events = "raw_input list \<times> string set \<times> string set"

text \<open>What holds of the events a snapshot builds, by a step for each kind of thing in it.\<close>

definition all_events :: "(raw_input \<Rightarrow> bool) \<Rightarrow> seen_events \<Rightarrow> bool" where
  "all_events P seen \<longleftrightarrow> list_all P (fst seen)"

lemma fold_invariant: "S s \<Longrightarrow> (\<And>x s. S s \<Longrightarrow> S (f x s)) \<Longrightarrow> S (fold f xs s)"
  by (induction xs arbitrary: s) simp_all

lemma fold_related:
  "S a b \<Longrightarrow> list_all2 R xs ys \<Longrightarrow> (\<And>x y a b. R x y \<Longrightarrow> S a b \<Longrightarrow> S (f x a) (g y b)) \<Longrightarrow> S (fold f xs a) (fold g ys b)"
  by (induction xs arbitrary: ys a b) (auto simp: list_all2_Cons1)

definition same_seen :: "seen_events \<Rightarrow> seen_events \<Rightarrow> bool" where
  "same_seen s s' \<longleftrightarrow> list_all2 same_observation (fst s) (fst s') \<and> snd s = snd s'"

definition same_thing :: "int \<times> 'a \<Rightarrow> int \<times> 'a \<Rightarrow> bool" where
  "same_thing x y \<longleftrightarrow> snd x = snd y"

lemma enumerate_same [simp]: "list_all2 same_thing (enumerate_from t xs) (enumerate_from t' xs)"
  by (induction xs arbitrary: t t') (simp_all add: same_thing_def)

lemma same_cases:
  assumes "same_thing x x'" "same_seen s s'"
  obtains t t' v es es' C D where "x = (t, v)" "x' = (t', v)" "s = (es, C, D)" "s' = (es', C, D)" "list_all2 same_observation es es'"
  using assms by (cases x; cases x'; cases s; cases s') (auto simp: same_thing_def same_seen_def)

lemma same_seenI: "list_all2 same_observation es es' \<Longrightarrow> same_seen (es, C, D) (es', C, D)"
  by (simp add: same_seen_def)

lemma keys_of_same: "list_all2 same_observation es es' \<Longrightarrow> event_key ` set es' \<subseteq> event_key ` set es"
  by (metis image_eqI image_subsetI keys_again)

lemmas fold_same [OF _ enumerate_same] = fold_related [of same_seen _ _ same_thing]

end
