(* ===== verification/EventSource.thy ===== *)
theory EventSource
  imports IngestProofs EventBuilder
begin

text \<open>
  What the daemon relies on in the event builders of a platform, and what it gets for it: every event they build is one
  the log accepts, and the key of an event does not depend on when it was seen. Then what was delivered is in the log
  afterwards, and a second delivery changes nothing.
\<close>

subsection \<open>The provenance changes no key\<close>

lemma accepted_provenance: "event_accepted (e\<lparr>ev_provenance := p\<rparr>) = event_accepted e"
  by (simp add: accepted_eq)

lemma mode_fields:
  "list_all event_accepted es \<Longrightarrow> list_all event_accepted (withRawEventAcquisitionMode es mode)"
  "map event_key (withRawEventAcquisitionMode es mode) = map event_key es"
  by (simp_all add: withRawEventAcquisitionMode_def list_all_iff accepted_provenance event_key_def)

lemma names_map:
  "(\<And>e. ev_id (f e) = ev_id e) \<Longrightarrow> (\<And>e. event_key (f e) = event_key e) \<Longrightarrow> ids_name_keys (map f es) rows = ids_name_keys es rows"
  by (simp add: ids_name_keys_def)

lemma mode_names: "ids_name_keys es rows \<Longrightarrow> ids_name_keys (withRawEventAcquisitionMode es mode) rows"
  unfolding withRawEventAcquisitionMode_def by (subst names_map) (simp_all add: event_key_def)

lemma mode_keys: "event_key ` set (withRawEventAcquisitionMode es mode) = event_key ` set es"
  using arg_cong [OF mode_fields(2), of set] by simp

subsection \<open>A delivery that brings nothing new\<close>

definition quiet_inv :: "raw_row list \<Rightarrow> hook_payload hook_batch list \<Rightarrow> hook_payload list \<Rightarrow> ingest \<Rightarrow> bool" where
  "quiet_inv rows hooks sent s \<longleftrightarrow> en_raw (sv_engine (ig_service s)) = rows \<and> ig_hooks s = hooks \<and> ig_sent s = sent"

lemma quiet_steps:
  "keeps (quiet_inv rows hooks sent) (accounts_step now accounts) (\<lambda>_. True)"
  "keeps (quiet_inv rows hooks sent) (backlog_step now) (\<lambda>_. True)"
  "keeps (quiet_inv rows hooks sent) (queue_projection_step cfg now uuid trigger) (\<lambda>_. True)"
  unfolding accounts_step_def backlog_step_def queue_projection_step_def
  by (rule keeps_write; auto simp: quiet_inv_def Let_def dest: queue_raw split: sum.splits prod.splits)+

lemma quiet_insert:
  assumes "insertRawEvents es rows = Inr (res, rows)" "ir_count res = 0" "ir_first res = None"
  shows "keeps (quiet_inv rows hooks sent) (insert_step es) (\<lambda>r. ir_count r = 0 \<and> inserted_range r = None)"
  unfolding insert_step_def by (rule keeps_write) (use assms in \<open>auto simp: quiet_inv_def inserted_range_def\<close>)

lemma quiet_take_in:
  assumes "insertRawEvents es rows = Inr (res, rows)" "ir_count res = 0" "ir_first res = None"
  shows "keeps (quiet_inv rows hooks sent) (take_in cfg clock fresh p a name trigger es) (\<lambda>_. True)"
  unfolding take_in_def
proof (rule keeps_seq [OF quiet_steps(1)], rule keeps_bind [OF quiet_insert [OF assms]], elim conjE)
  fix result assume r: "ir_count result = 0" "inserted_range result = None"
  show "keeps (quiet_inv rows hooks sent) (step_bind (case inserted_range result of
         Some (a, b) \<Rightarrow> if getRealtimeProjectionEnabled (is_env cfg) then realtime_step cfg (clock 1) a b else step_return ()
       | None \<Rightarrow> step_return ()) (\<lambda>_.
     step_bind (backlog_step (clock 2)) (\<lambda>(w, maxRow, pending).
     step_bind (if 0 < pending then queue_projection_step cfg (clock 3) (fresh 0) trigger else step_return ()) (\<lambda>_.
     step_bind (if 0 < ir_count result then update_checkpoint_from_realtime clock p a else step_return ()) (\<lambda>_.
     step_bind (queueMessageReceivedHooks cfg (clock 6) (inserted_range result)
                  (collectInboundMessageHookPayloads trigger (ir_rows result))) (\<lambda>_.
       case inserted_range result of
         Some (a, b) \<Rightarrow> if pending = 0 then releaseMessageReceivedHooksForRange a b else step_return ()
       | None \<Rightarrow> step_return ()))))))  (\<lambda>_. True)"
    unfolding r queueMessageReceivedHooks_def
    by (auto intro!: keeps_seq quiet_steps keeps_return keeps_if split: prod.splits)
qed

subsection \<open>Builders of events\<close>

locale event_source =
  fixes build :: "'a \<Rightarrow> int \<Rightarrow> string + raw_input list" and valid :: "'a \<Rightarrow> bool"
  assumes accepted: "valid x \<Longrightarrow> build x t = Inr es \<Longrightarrow> list_all event_accepted es"
    and keys: "build x t = Inr es \<Longrightarrow> build x t' = Inr es' \<Longrightarrow> event_key ` set es' \<subseteq> event_key ` set es"
begin

lemma taken_in:
  assumes "valid x" "build x t = Inr es" "ids_name_keys es rows"
  shows "\<exists>res rows'. insertRawEvents (withRawEventAcquisitionMode es mode) rows = Inr (res, rows') \<and>
    (\<forall>e\<in>set es. tbl_has rw_unique (event_key e) rows')"
proof -
  note ok = mode_fields(1) [OF accepted [OF assms(1,2)]]
  obtain res vs where ins: "insertRawEvents (withRawEventAcquisitionMode es mode) rows = Inr (res, fold insert_raw vs rows)"
    using accepted_inserts [OF ok] by blast
  have "tbl_has rw_unique (event_key e) (fold insert_raw vs rows)" if "e \<in> set es" for e
  proof -
    have "event_key e \<in> event_key ` set (withRawEventAcquisitionMode es mode)" using that by (simp add: mode_keys)
    then obtain d where "d \<in> set (withRawEventAcquisitionMode es mode)" "event_key d = event_key e" by auto
    then show ?thesis using first_seen [OF ok mode_names [OF assms(3)] ins] by metis
  qed
  then show ?thesis using ins by blast
qed

lemma again:
  assumes "valid x" "build x t = Inr es" "ids_name_keys es rows"
    and "insertRawEvents (withRawEventAcquisitionMode es mode) rows = Inr (res, rows')"
    and "build x t' = Inr es'" "raw_inv rows'"
  shows "\<exists>res. insertRawEvents (withRawEventAcquisitionMode es' mode') rows' = Inr (res, rows') \<and>
    ir_count res = 0 \<and> ir_rows res = [] \<and> ir_first res = None \<and> ir_last res = None"
proof (rule seen_again)
  show "list_all event_accepted (withRawEventAcquisitionMode es' mode')"
    by (rule mode_fields(1) [OF accepted [OF assms(1,5)]])
  have stored: "tbl_has rw_unique (event_key e) rows'" if "e \<in> set es" for e
    using taken_in [OF assms(1-3), of mode] assms(4) that by auto
  have "event_key ` set (withRawEventAcquisitionMode es' mode') \<subseteq> event_key ` set es"
    using keys [OF assms(2,5)] by (simp add: mode_keys)
  then show "\<forall>e\<in>set (withRawEventAcquisitionMode es' mode'). tbl_has rw_unique (event_key e) rows'"
    using stored by (metis image_iff image_subset_iff)
qed (rule assms(6))

text \<open>A realtime delivery of what was taken in before keeps the log and the hooks at every point.\<close>

lemma redelivered:
  assumes "valid x" "build x t = Inr es" "ids_name_keys es rows"
    and "insertRawEvents (withRawEventAcquisitionMode es mode) rows = Inr (res, rows')" "raw_inv rows'"
  shows "keeps (quiet_inv rows' hooks sent)
    (case build x t' of Inl err \<Rightarrow> step_return ()
     | Inr es' \<Rightarrow> ingest_realtime cfg clock fresh p a name trigger (withRawEventAcquisitionMode es' AcqRealtime)) (\<lambda>_. True)"
proof (cases "build x t'")
  case (Inl err)
  then show ?thesis by (auto intro: keeps_return)
next
  case (Inr es')
  from again [OF assms(1-4) Inr assms(5)] obtain res' where
    "insertRawEvents (withRawEventAcquisitionMode es' AcqRealtime) rows' = Inr (res', rows')" "ir_count res' = 0" "ir_first res' = None"
    by blast
  from quiet_take_in [OF this] show ?thesis
    unfolding Inr sum.case ingest_realtime_def by (auto intro!: keeps_if keeps_return keeps_catch)
qed

end

text \<open>Builders that never fail.\<close>

lemma event_sourceI:
  assumes "\<And>x t. valid x \<Longrightarrow> list_all event_accepted (b x t)" "\<And>x t t'. event_key ` set (b x t') \<subseteq> event_key ` set (b x t)"
  shows "event_source (\<lambda>x t. Inr (b x t)) valid"
proof
  fix x t es t' es'
  assume es: "Inr (b x t) = (Inr es :: string + raw_input list)"
  then show "list_all event_accepted es" if "valid x" using assms(1) [OF that, of t] by simp
  assume es': "Inr (b x t') = (Inr es' :: string + raw_input list)"
  have "es = b x t" "es' = b x t'" using es es' by simp_all
  then show "event_key ` set es' \<subseteq> event_key ` set es" using assms(2) by (simp only:)
qed

end
