(* ===== verification/WhatsAppEvents.thy ===== *)
theory WhatsAppEvents
  imports EventBuilder IdentityAlias
begin

text \<open>
  The WhatsApp adapter: how a snapshot of the helper becomes raw events
  (\<^verbatim>\<open>src/platforms/whatsapp/sync/events.ts\<close>, with the snapshots of \<^verbatim>\<open>src/platforms/whatsapp/types.ts\<close>). A field that
  may be left out or \<open>null\<close> is an option; the attachments are the JSON the helper delivered.
\<close>

subsection \<open>Snapshots\<close>

record wa_alias =
  wl_lid :: string
  wl_pn :: string

record wa_contact =
  wc_jid :: string
  wc_phone :: "string option"
  wc_name :: "string option"
  wc_push_name :: "string option"

record wa_chat =
  wh_jid :: string
  wh_name :: "string option"
  wh_group :: bool
  wh_participants :: "string list"

record wa_message =
  wm_id :: string
  wm_chat :: string
  wm_sender :: "string option"
  wm_participant :: "string option"
  wm_from_me :: bool
  wm_timestamp :: int
  wm_text :: string
  wm_push_name :: "string option"
  wm_status :: "string option"
  wm_delivered_at :: "int option"
  wm_read_at :: "int option"
  wm_reply_to :: "string option"
  wm_reply_sender :: "string option"
  wm_forwarded :: bool
  wm_forwarding_score :: "rat option"
  wm_revoked :: "bool option"
  wm_attachments :: "json list"

record wa_call =
  wk_id :: string
  wk_chat :: string
  wk_initiator :: "string option"
  wk_remote :: "string option"
  wk_from_me :: bool
  wk_timestamp :: int
  wk_duration :: "rat option"
  wk_status :: string
  wk_medium :: string
  wk_type :: "string option"

record wa_call_delete =
  wd_chat :: string
  wd_from_me :: bool

record wa_receipt =
  wr_id :: string
  wr_chat :: string
  wr_from_me :: bool
  wr_status :: "string option"
  wr_delivered_at :: "int option"
  wr_read_at :: "int option"

record wa_snapshot =
  ws_aliases :: "wa_alias list"
  ws_contacts :: "wa_contact list"
  ws_chats :: "wa_chat list"
  ws_messages :: "wa_message list"
  ws_calls :: "wa_call list"

subsection \<open>Keys\<close>

definition normalizeWhatsAppJid :: "string \<Rightarrow> string" where
  "normalizeWhatsAppJid jid = js_lower (js_trim jid)"

definition whatsappSourceEntityKey :: "string \<Rightarrow> string" where
  "whatsappSourceEntityKey jid = ''whatsapp:'' @ normalizeWhatsAppJid jid"

definition whatsappSourceConversationKey :: "string \<Rightarrow> string" where
  "whatsappSourceConversationKey chatJID = ''whatsapp:'' @ normalizeWhatsAppJid chatJID"

definition extractWhatsAppPhone :: "string \<Rightarrow> string option" where
  "extractWhatsAppPhone jid =
     (case split_at CHR ''@'' (normalizeWhatsAppJid jid) of
        user # server # _ \<Rightarrow>
          if server = [] \<or> \<not> all_digits user \<or> \<not> str_includes server ''whatsapp.net'' then None else Some (''+'' @ user)
      | _ \<Rightarrow> None)"

definition whatsappMessageSourceKey :: "wa_message \<Rightarrow> string" where
  "whatsappMessageSourceKey m = normalizeWhatsAppJid (wm_chat m) @ '':'' @ wm_id m"

definition whatsappCallSourceKey :: "wa_call \<Rightarrow> string" where
  "whatsappCallSourceKey c = normalizeWhatsAppJid (wk_chat c) @ '':'' @ wk_id c"

definition extensionForMimeType :: "string \<Rightarrow> string option" where
  "extensionForMimeType mimeType = map_of
     [(''application/pdf'', ''.pdf''), (''text/csv'', ''.csv''), (''text/plain'', ''.txt''), (''application/json'', ''.json''),
      (''application/zip'', ''.zip''),
      (''application/vnd.openxmlformats-officedocument.wordprocessingml.document'', ''.docx''),
      (''application/vnd.openxmlformats-officedocument.presentationml.presentation'', ''.pptx''),
      (''application/vnd.openxmlformats-officedocument.spreadsheetml.sheet'', ''.xlsx'')] (js_lower (js_trim mimeType))"

definition normalize_attachment :: "json \<Rightarrow> json" where
  "normalize_attachment a =
     (let kind = js_lower (js_trim (get_or (jstr (jget a ''kind'')) []));
          named = (case jstr (jget a ''filename'') of Some f \<Rightarrow> js_trim f \<noteq> [] | None \<Rightarrow> False);
          extension = Option.bind (first_field a [''mime_type'', ''mimetype'']) extensionForMimeType
      in case extension of
           None \<Rightarrow> a
         | Some e \<Rightarrow> if named \<or> kind \<noteq> ''document'' then a else field_update a [(''filename'', JStr (''file'' @ e))])"

definition normalizeWhatsAppAttachments :: "json list \<Rightarrow> json list" where
  "normalizeWhatsAppAttachments attachments = map normalize_attachment attachments"

definition whatsappReplySourceKey :: "wa_message \<Rightarrow> string option" where
  "whatsappReplySourceKey m =
     (case first_trimmed [wm_reply_to m] of None \<Rightarrow> None | Some r \<Rightarrow> Some (normalizeWhatsAppJid (wm_chat m) @ '':'' @ r))"

definition whatsappMessageProviderMetadata :: "wa_message \<Rightarrow> (string \<times> json) list" where
  "whatsappMessageProviderMetadata m =
     (let whatsapp =
        (if wm_forwarded m then [(''isForwarded'', JBool True)] else []) @
        (case wm_forwarding_score m of None \<Rightarrow> [] | Some x \<Rightarrow> [(''forwardingScore'', JNum (Fin x))]) @
        (case first_trimmed [wm_reply_sender m] of None \<Rightarrow> [] | Some s \<Rightarrow> [(''replyToSenderJID'', JStr (normalizeWhatsAppJid s))])
      in if whatsapp = [] then [] else [(''providerMetadata'', JObj [(''whatsapp'', JObj whatsapp)])])"

definition bestContactName :: "wa_contact \<Rightarrow> string" where
  "bestContactName c = get_or (first_trimmed [wc_name c, wc_push_name c, wc_phone c]) (normalizeWhatsAppJid (wc_jid c))"

subsection \<open>Events\<close>

definition wa_handle :: "string \<Rightarrow> string \<Rightarrow> bool \<Rightarrow> json" where
  "wa_handle type value deterministic = JObj [(''type'', JStr type), (''value'', JStr value), (''deterministic'', JBool deterministic)]"

definition buildWhatsAppContactEvent :: "(string \<Rightarrow> string) \<Rightarrow> wa_contact \<Rightarrow> string \<Rightarrow> int \<Rightarrow> raw_input" where
  "buildWhatsAppContactEvent hash contact accountKey observedAt =
     (let jid = normalizeWhatsAppJid (wc_jid contact);
          seed = ''whatsapp:contact:'' @ accountKey @ '':'' @ jid;
          phone = js_or (first_trimmed [wc_phone contact]) (extractWhatsAppPhone jid)
      in (raw_event WhatsApp accountKey EkContact ''observed'' (hash (seed @ '':'' @ dec_int observedAt)) (hash seed) observedAt
           (JObj [(''sourceEntityKey'', JStr (whatsappSourceEntityKey jid)),
                  (''fields'', JObj [(''display_name'', JStr (bestContactName contact))]),
                  (''handles'', JArr (wa_handle ''whatsapp_jid'' jid (\<not> str_ends_with jid ''@lid'') #
                     (case phone of None \<Rightarrow> [] | Some t \<Rightarrow> [wa_handle ''phone'' t True])))])
           ''whatsapp-v1'')\<lparr>ev_external_entity := Some jid\<rparr>)"

definition buildWhatsAppChatEvent :: "(string \<Rightarrow> string) \<Rightarrow> wa_chat \<Rightarrow> string \<Rightarrow> int \<Rightarrow> raw_input" where
  "buildWhatsAppChatEvent hash chat accountKey observedAt =
     (let chatJID = normalizeWhatsAppJid (wh_jid chat);
          seed = ''whatsapp:conversation:'' @ accountKey @ '':'' @ chatJID;
          members = filter (\<lambda>j. j \<noteq> []) (map normalizeWhatsAppJid (wh_participants chat))
      in (raw_event WhatsApp accountKey EkConversation ''observed'' (hash (seed @ '':'' @ dec_int observedAt)) (hash seed) observedAt
           (JObj [(''sourceConversationKey'', JStr (whatsappSourceConversationKey chatJID)),
                  (''conversationType'', JStr (if wh_group chat then ''group'' else ''dm'')),
                  (''displayName'', optional_text (first_trimmed [wh_name chat])),
                  (''nativeConversationKey'', JStr chatJID), (''service'', JStr ''whatsapp''),
                  (''participants'', JArr (map (\<lambda>j. JObj [(''sourceEntityKey'', JStr (whatsappSourceEntityKey j))]) members))])
           ''whatsapp-v1'')\<lparr>ev_conversation := Some chatJID\<rparr>)"

text \<open>The other side of a message, as far as it names one.\<close>

definition message_contact :: "wa_message \<Rightarrow> string" where
  "message_contact m =
     (if wm_from_me m then wm_chat m else get_or (js_or (wm_participant m) (js_or (wm_sender m) (Some (wm_chat m)))) [])"

definition buildSyntheticContactFromMessage :: "(string \<Rightarrow> string) \<Rightarrow> wa_message \<Rightarrow> string \<Rightarrow> int \<Rightarrow> raw_input option" where
  "buildSyntheticContactFromMessage hash m accountKey observedAt =
     (if message_contact m = [] then None
      else Some (buildWhatsAppContactEvent hash
        \<lparr>wc_jid = message_contact m, wc_phone = extractWhatsAppPhone (message_contact m), wc_name = wm_push_name m,
         wc_push_name = None\<rparr> accountKey observedAt))"

definition message_participants :: "wa_message \<Rightarrow> string list" where
  "message_participants m =
     (let peer = (if wm_from_me m then get_or (js_or (wm_sender m) (js_or (wm_participant m) (Some (wm_chat m)))) [] else wm_chat m)
      in remdups (rev (map normalizeWhatsAppJid
           ((if str_ends_with (normalizeWhatsAppJid (wm_chat m)) ''@g.us'' then [] else [peer]) @
            (if truthy_text (wm_participant m) then [the (wm_participant m)] else []) @
            (if truthy_text (wm_sender m) then [the (wm_sender m)] else [])))))"

definition buildConversationFromMessage :: "(string \<Rightarrow> string) \<Rightarrow> wa_message \<Rightarrow> string \<Rightarrow> int \<Rightarrow> raw_input" where
  "buildConversationFromMessage hash m accountKey observedAt =
     buildWhatsAppChatEvent hash
       \<lparr>wh_jid = wm_chat m, wh_name = wm_push_name m, wh_group = str_ends_with (normalizeWhatsAppJid (wm_chat m)) ''@g.us'',
        wh_participants = message_participants m\<rparr> accountKey observedAt"

definition buildWhatsAppMessageEvent :: "(string \<Rightarrow> string) \<Rightarrow> wa_message \<Rightarrow> string \<Rightarrow> int \<Rightarrow> raw_input" where
  "buildWhatsAppMessageEvent hash m accountKey observedAt =
     (let sender = (if wm_from_me m then None else js_or (wm_participant m) (js_or (wm_sender m) (Some (wm_chat m))));
          chat = normalizeWhatsAppJid (wm_chat m);
          key = whatsappMessageSourceKey m;
          stable = hash (''whatsapp:message:'' @ accountKey @ '':'' @ key);
          revoked = (wm_revoked m = Some True)
      in (raw_event WhatsApp accountKey EkMessage (if revoked then ''deleted'' else ''created'') stable stable observedAt
           (JObj ([(''sourceMessageKey'', JStr key), (''sourceConversationKey'', JStr (whatsappSourceConversationKey chat)),
              (''senderSourceKey'', if truthy_text sender then JStr (whatsappSourceEntityKey (the sender)) else JNull),
              (''sentAt'', json_int (wm_timestamp m)), (''content'', JStr (wm_text m)), (''service'', JStr ''whatsapp''),
              (''status'', JStr (get_or (wm_status m) (if wm_from_me m then ''sent'' else ''delivered''))),
              (''isFromMe'', JBool (wm_from_me m)), (''deliveredAt'', optional_number (wm_delivered_at m)),
              (''readAt'', optional_number (wm_read_at m)),
              (''deletedAt'', if revoked then json_int (wm_timestamp m) else JNull),
              (''replyToSourceMessageKey'', optional_text (whatsappReplySourceKey m)),
              (''isDeleted'', JBool (get_or (wm_revoked m) False)),
              (''attachments'', JArr (normalizeWhatsAppAttachments (wm_attachments m)))] @ whatsappMessageProviderMetadata m))
           ''whatsapp-v1'')\<lparr>ev_external_entity := Some (wm_id m), ev_conversation := Some chat,
                          ev_occurred_at := Some (wm_timestamp m)\<rparr>)"

definition call_direction :: "bool \<Rightarrow> string" where
  "call_direction fromMe = (if fromMe then ''outgoing'' else ''incoming'')"

definition normalizeCallMedium :: "string \<Rightarrow> string" where
  "normalizeCallMedium value = (let v = js_lower (js_trim value) in if v = ''video'' \<or> v = ''audio'' then v else ''unknown'')"

definition normalizeCallStatus :: "string \<Rightarrow> string" where
  "normalizeCallStatus value =
     (let v = js_lower (js_trim value)
      in if v \<in> {''completed'', ''missed'', ''declined'', ''canceled'', ''blocked'', ''failed'', ''ongoing''} then v else ''unknown'')"

definition optional_key :: "(string \<Rightarrow> string) \<Rightarrow> string option \<Rightarrow> json" where
  "optional_key f t = (if truthy_text t then JStr (f (the t)) else JNull)"

definition buildWhatsAppCallEvent :: "(string \<Rightarrow> string) \<Rightarrow> wa_call \<Rightarrow> string \<Rightarrow> int \<Rightarrow> raw_input" where
  "buildWhatsAppCallEvent hash c accountKey observedAt =
     (let chat = normalizeWhatsAppJid (wk_chat c);
          key = whatsappCallSourceKey c;
          stable = hash (''whatsapp:call:'' @ accountKey @ '':'' @ key)
      in (raw_event WhatsApp accountKey EkCall ''observed'' stable stable observedAt
           (JObj [(''sourceCallKey'', JStr key), (''sourceConversationKey'', JStr (whatsappSourceConversationKey chat)),
              (''provider'', JStr ''whatsapp''), (''providerCallType'', optional_text (wk_type c)),
              (''direction'', JStr (call_direction (wk_from_me c))), (''medium'', JStr (normalizeCallMedium (wk_medium c))),
              (''status'', JStr (normalizeCallStatus (wk_status c))), (''startedAt'', json_int (wk_timestamp c)),
              (''durationSeconds'', case wk_duration c of None \<Rightarrow> JNull | Some d \<Rightarrow> JNum (Fin d)),
              (''endedAt'', case wk_duration c of None \<Rightarrow> JNull | Some d \<Rightarrow> JNum (Fin (of_int (wk_timestamp c) + d * 1000))),
              (''initiatorSourceKey'', optional_key whatsappSourceEntityKey (wk_initiator c)),
              (''primaryRemoteSourceKey'', optional_key whatsappSourceEntityKey (wk_remote c)),
              (''metadata'', JObj [(''isFromMe'', JBool (wk_from_me c))])])
           ''whatsapp-v1'')\<lparr>ev_external_entity := Some (wk_id c), ev_conversation := Some chat,
                          ev_occurred_at := Some (wk_timestamp c)\<rparr>)"

definition buildWhatsAppCallDeleteEvent :: "(string \<Rightarrow> string) \<Rightarrow> wa_call_delete \<Rightarrow> string \<Rightarrow> int \<Rightarrow> raw_input" where
  "buildWhatsAppCallDeleteEvent hash d accountKey observedAt =
     (let chat = normalizeWhatsAppJid (wd_chat d);
          direction = call_direction (wd_from_me d);
          stable = hash (''whatsapp:call-delete:'' @ accountKey @ '':'' @ chat @ '':'' @ direction @ '':'' @ dec_int observedAt)
      in (raw_event WhatsApp accountKey EkCall ''deleted'' stable stable observedAt
           (JObj [(''sourceConversationKey'', JStr (whatsappSourceConversationKey chat)), (''provider'', JStr ''whatsapp''),
                  (''direction'', JStr direction)])
           ''whatsapp-v1'')\<lparr>ev_conversation := Some chat, ev_occurred_at := Some observedAt\<rparr>)"

subsection \<open>Snapshots as events\<close>

definition append_message :: "(string \<Rightarrow> string) \<Rightarrow> string \<Rightarrow> int \<times> wa_message \<Rightarrow> seen_events \<Rightarrow> seen_events" where
  "append_message hash accountKey timed seen =
     (case (timed, seen) of ((observedAt, m), (rawEvents, contacts, conversations)) \<Rightarrow>
        let candidate = normalizeWhatsAppJid (message_contact m);
            contact = (if candidate \<in> contacts then None else buildSyntheticContactFromMessage hash m accountKey observedAt);
            conversation = whatsappSourceConversationKey (wm_chat m);
            known = conversation \<in> conversations
        in (rawEvents @ (case contact of None \<Rightarrow> [] | Some e \<Rightarrow> [e]) @
              (if known then [] else [buildConversationFromMessage hash m accountKey observedAt]) @
              [buildWhatsAppMessageEvent hash m accountKey observedAt],
            if contact = None then contacts else insert candidate contacts, insert conversation conversations))"

definition appendMessages :: "(string \<Rightarrow> string) \<Rightarrow> wa_message list \<Rightarrow> string \<Rightarrow> int \<Rightarrow> seen_events \<Rightarrow> seen_events" where
  "appendMessages hash messages accountKey observedBase seen =
     fold (append_message hash accountKey) (enumerate_from observedBase messages) seen"

definition call_contact :: "(string \<Rightarrow> string) \<Rightarrow> string \<Rightarrow> int \<Rightarrow> string option \<Rightarrow> seen_events \<Rightarrow> seen_events" where
  "call_contact hash accountKey observedAt jid seen =
     (case seen of (rawEvents, contacts, conversations) \<Rightarrow>
        if \<not> truthy_text jid then seen
        else let normalized = normalizeWhatsAppJid (the jid) in
          if normalized \<in> contacts then seen
          else (rawEvents @ [buildWhatsAppContactEvent hash
                  \<lparr>wc_jid = normalized, wc_phone = extractWhatsAppPhone normalized, wc_name = None, wc_push_name = None\<rparr>
                  accountKey observedAt], insert normalized contacts, conversations))"

definition call_conversation :: "(string \<Rightarrow> string) \<Rightarrow> wa_call \<Rightarrow> string \<Rightarrow> int \<Rightarrow> raw_input" where
  "call_conversation hash c accountKey observedAt =
     buildWhatsAppChatEvent hash
       \<lparr>wh_jid = wk_chat c, wh_name = None, wh_group = str_ends_with (normalizeWhatsAppJid (wk_chat c)) ''@g.us'',
        wh_participants = filter (\<lambda>jid. js_trim jid \<noteq> []) (List.map_filter (\<lambda>jid. jid) [wk_initiator c, wk_remote c])\<rparr>
       accountKey observedAt"

definition append_call :: "(string \<Rightarrow> string) \<Rightarrow> string \<Rightarrow> int \<times> wa_call \<Rightarrow> seen_events \<Rightarrow> seen_events" where
  "append_call hash accountKey timed seen =
     (case timed of (observedAt, c) \<Rightarrow>
        case fold (call_contact hash accountKey observedAt) [wk_initiator c, wk_remote c] seen of
          (rawEvents, contacts, conversations) \<Rightarrow>
            let conversation = whatsappSourceConversationKey (wk_chat c) in
            (rawEvents @ (if conversation \<in> conversations then [] else [call_conversation hash c accountKey observedAt]) @
               [buildWhatsAppCallEvent hash c accountKey observedAt],
             contacts, insert conversation conversations))"

definition appendCalls :: "(string \<Rightarrow> string) \<Rightarrow> wa_call list \<Rightarrow> string \<Rightarrow> int \<Rightarrow> seen_events \<Rightarrow> seen_events" where
  "appendCalls hash calls accountKey observedBase seen = fold (append_call hash accountKey) (enumerate_from observedBase calls) seen"

definition append_contact :: "(string \<Rightarrow> string) \<Rightarrow> string \<Rightarrow> int \<times> wa_contact \<Rightarrow> seen_events \<Rightarrow> seen_events" where
  "append_contact hash accountKey timed seen =
     (case (timed, seen) of ((observedAt, contact), (rawEvents, contacts, conversations)) \<Rightarrow>
        let jid = normalizeWhatsAppJid (wc_jid contact) in
        if jid \<in> contacts then seen
        else (rawEvents @ [buildWhatsAppContactEvent hash contact accountKey observedAt], insert jid contacts, conversations))"

definition append_chat :: "(string \<Rightarrow> string) \<Rightarrow> string \<Rightarrow> int \<times> wa_chat \<Rightarrow> seen_events \<Rightarrow> seen_events" where
  "append_chat hash accountKey timed seen =
     (case (timed, seen) of ((observedAt, chat), (rawEvents, contacts, conversations)) \<Rightarrow>
        let conversation = whatsappSourceConversationKey (wh_jid chat) in
        if conversation \<in> conversations then seen
        else (rawEvents @ [buildWhatsAppChatEvent hash chat accountKey observedAt], contacts, insert conversation conversations))"

definition provider_alias :: "wa_alias \<Rightarrow> bool" where
  "provider_alias a \<longleftrightarrow> digits_then ''@lid'' (normalizeWhatsAppJid (wl_lid a)) \<and>
     digits_then ''@s.whatsapp.net'' (normalizeWhatsAppJid (wl_pn a))"

definition alias_dedupe :: "(string \<Rightarrow> string) \<Rightarrow> string \<Rightarrow> wa_alias \<Rightarrow> string" where
  "alias_dedupe hash accountKey a =
     hash (''whatsapp:alias:'' @ accountKey @ '':'' @ normalizeWhatsAppJid (wl_lid a) @ '':'' @ normalizeWhatsAppJid (wl_pn a))"

definition alias_event :: "(string \<Rightarrow> string) \<Rightarrow> string \<Rightarrow> int \<Rightarrow> wa_alias \<Rightarrow> raw_input" where
  "alias_event hash accountKey observedAt a =
     (let lid = normalizeWhatsAppJid (wl_lid a); dedupe = alias_dedupe hash accountKey a
      in (raw_event WhatsApp accountKey EkContact ''aliased'' (hash (dedupe @ '':'' @ dec_int observedAt)) dedupe observedAt
           (JObj [(''aliasSourceEntityKey'', JStr (whatsappSourceEntityKey lid)),
                  (''canonicalSourceEntityKey'', JStr (whatsappSourceEntityKey (normalizeWhatsAppJid (wl_pn a))))])
           ''whatsapp-v1'')\<lparr>ev_external_entity := Some lid\<rparr>)"

text \<open>One alias that the provider cannot have issued fails the whole snapshot.\<close>

fun alias_events :: "(string \<Rightarrow> string) \<Rightarrow> string \<Rightarrow> int \<Rightarrow> string set \<Rightarrow> wa_alias list \<Rightarrow> string + raw_input list" where
  "alias_events hash accountKey observedAt seen [] = Inr []"
| "alias_events hash accountKey observedAt seen (a # as) =
     (if \<not> provider_alias a then Inl ''Invalid WhatsApp provider identity alias''
      else if alias_dedupe hash accountKey a \<in> seen then alias_events hash accountKey observedAt seen as
      else ebind (alias_events hash accountKey observedAt (insert (alias_dedupe hash accountKey a) seen) as)
             (\<lambda>es. Inr (alias_event hash accountKey observedAt a # es)))"

definition buildWhatsAppIdentityAliasEvents :: "(string \<Rightarrow> string) \<Rightarrow> wa_alias list \<Rightarrow> string \<Rightarrow> int \<Rightarrow> string + raw_input list" where
  "buildWhatsAppIdentityAliasEvents hash as accountKey observedAt = alias_events hash accountKey observedAt {} as"

definition buildWhatsAppRawEventsFromSnapshot :: "(string \<Rightarrow> string) \<Rightarrow> string \<Rightarrow> wa_snapshot \<Rightarrow> int \<Rightarrow> string + raw_input list" where
  "buildWhatsAppRawEventsFromSnapshot hash accountKey snapshot observedBase =
     ebind (buildWhatsAppIdentityAliasEvents hash (ws_aliases snapshot) accountKey observedBase) (\<lambda>aliased.
       Inr (fst
         (appendCalls hash (ws_calls snapshot) accountKey (observedBase + 30000)
         (appendMessages hash (ws_messages snapshot) accountKey (observedBase + 20000)
         (fold (append_chat hash accountKey) (enumerate_from (observedBase + 10000) (ws_chats snapshot))
         (fold (append_contact hash accountKey) (enumerate_from observedBase (ws_contacts snapshot))
           (aliased, {}, {})))))))"

subsection \<open>The events of the helper\<close>

datatype wa_event =
    WaContactUpsert wa_contact | WaChatUpsert wa_chat | WaMessageUpsert wa_message | WaCallUpsert wa_call
  | WaHistorySync wa_snapshot | WaCallDelete wa_call_delete | WaReceiptUpdate wa_receipt | WaOther

definition empty_snapshot :: "wa_alias list \<Rightarrow> wa_snapshot" where
  "empty_snapshot as = \<lparr>ws_aliases = as, ws_contacts = [], ws_chats = [], ws_messages = [], ws_calls = []\<rparr>"

definition buildWhatsAppRealtimeSnapshotFromEvent :: "wa_alias list \<Rightarrow> wa_event \<Rightarrow> wa_snapshot option" where
  "buildWhatsAppRealtimeSnapshotFromEvent as event =
     (case event of
        WaContactUpsert c \<Rightarrow> Some ((empty_snapshot as)\<lparr>ws_contacts := [c]\<rparr>)
      | WaChatUpsert c \<Rightarrow> Some ((empty_snapshot as)\<lparr>ws_chats := [c]\<rparr>)
      | WaMessageUpsert m \<Rightarrow> Some ((empty_snapshot as)\<lparr>ws_messages := [m]\<rparr>)
      | WaCallUpsert c \<Rightarrow> Some ((empty_snapshot as)\<lparr>ws_calls := [c]\<rparr>)
      | WaHistorySync snapshot \<Rightarrow> Some (snapshot\<lparr>ws_aliases := as\<rparr>)
      | _ \<Rightarrow> None)"

subsection \<open>Every event is accepted\<close>

lemma key_texts [simp]:
  "js_trim (whatsappSourceEntityKey s) \<noteq> []" "js_trim (whatsappSourceConversationKey s) \<noteq> []"
  "js_trim (whatsappMessageSourceKey m) \<noteq> []" "js_trim (whatsappCallSourceKey c) \<noteq> []"
  by (rule trim_keeps [of "CHR '':''"];
      simp add: is_ws_def whatsappSourceEntityKey_def whatsappSourceConversationKey_def whatsappMessageSourceKey_def
        whatsappCallSourceKey_def)+

lemma contact_accepted: "event_accepted (buildWhatsAppContactEvent hash c a t)"
  by (rule accepted_kinds(1)) (simp_all add: buildWhatsAppContactEvent_def Let_def text_at_def)

lemma chat_accepted: "event_accepted (buildWhatsAppChatEvent hash c a t)"
  by (rule accepted_kinds(3)) (simp_all add: buildWhatsAppChatEvent_def Let_def text_at_def)

lemma alias_accepted: "event_accepted (alias_event hash a t x)"
  by (rule accepted_kinds(2)) (simp_all add: alias_event_def Let_def text_at_def)

lemma call_accepted: "event_accepted (buildWhatsAppCallEvent hash c a t)"
  by (rule accepted_kinds(11))
    (simp_all add: buildWhatsAppCallEvent_def Let_def text_at_def
      assertNumberField_def json_int_def)

lemma message_accepted: "event_accepted (buildWhatsAppMessageEvent hash m a t)"
proof (cases "wm_revoked m = Some True")
  case True
  then show ?thesis by (intro accepted_kinds(7)) (simp_all add: buildWhatsAppMessageEvent_def Let_def text_at_def)
next
  case False
  then show ?thesis by (intro accepted_kinds(5)) (simp_all add: buildWhatsAppMessageEvent_def Let_def text_at_def)
qed

lemma synthetic_accepted: "buildSyntheticContactFromMessage hash m a t = Some e \<Longrightarrow> event_accepted e"
  by (auto simp: buildSyntheticContactFromMessage_def contact_accepted split: if_split_asm)

lemma append_accepted:
  "all_events event_accepted seen \<Longrightarrow> all_events event_accepted (append_contact hash a x seen)"
  "all_events event_accepted seen \<Longrightarrow> all_events event_accepted (append_chat hash a y seen)"
  "all_events event_accepted seen \<Longrightarrow> all_events event_accepted (append_message hash a z seen)"
  "all_events event_accepted seen \<Longrightarrow> all_events event_accepted (call_contact hash a t j seen)"
  by (auto simp: all_events_def append_contact_def append_chat_def append_message_def call_contact_def Let_def contact_accepted
      chat_accepted message_accepted buildConversationFromMessage_def synthetic_accepted split: prod.splits option.splits)

lemma append_call_accepted: "all_events event_accepted seen \<Longrightarrow> all_events event_accepted (append_call hash a x seen)"
proof -
  assume "all_events event_accepted seen"
  then have "all_events event_accepted (fold (call_contact hash a (fst x)) [wk_initiator (snd x), wk_remote (snd x)] seen)"
    by (rule fold_invariant) (rule append_accepted(4))
  then show ?thesis
    by (auto simp: all_events_def append_call_def Let_def call_accepted chat_accepted call_conversation_def split: prod.splits)
qed

lemma folds_accepted:
  "all_events event_accepted s \<Longrightarrow> all_events event_accepted (fold (append_contact hash a) xs s)"
  "all_events event_accepted s \<Longrightarrow> all_events event_accepted (fold (append_chat hash a) ys s)"
  "all_events event_accepted s \<Longrightarrow> all_events event_accepted (fold (append_message hash a) zs s)"
  "all_events event_accepted s \<Longrightarrow> all_events event_accepted (fold (append_call hash a) cs s)"
  by (erule fold_invariant, rule append_accepted append_call_accepted, assumption)+

lemma aliases_accepted: "alias_events hash a t seen as = Inr es \<Longrightarrow> list_all event_accepted es"
  by (induction as arbitrary: seen es) (auto simp: ebind_eq_Inr_iff alias_accepted split: if_split_asm)

lemma snapshot_accepted:
  assumes "buildWhatsAppRawEventsFromSnapshot hash a snapshot t = Inr es"
  shows "list_all event_accepted es"
proof -
  obtain al where al: "list_all event_accepted al"
    and es: "es = fst (appendCalls hash (ws_calls snapshot) a (t + 30000)
         (appendMessages hash (ws_messages snapshot) a (t + 20000)
         (fold (append_chat hash a) (enumerate_from (t + 10000) (ws_chats snapshot))
         (fold (append_contact hash a) (enumerate_from t (ws_contacts snapshot)) (al, {}, {})))))"
    using assms
    by (auto simp: buildWhatsAppRawEventsFromSnapshot_def buildWhatsAppIdentityAliasEvents_def ebind_eq_Inr_iff
        dest: aliases_accepted)
  have "all_events event_accepted (al, {}, {})" using al by (simp add: all_events_def)
  then show ?thesis
    unfolding es appendCalls_def appendMessages_def all_events_def [symmetric]
    by (intro folds_accepted)
qed

subsection \<open>The same snapshot at another time\<close>

lemma same_built:
  "same_observation (buildWhatsAppContactEvent hash c a t) (buildWhatsAppContactEvent hash c a t')"
  "same_observation (buildWhatsAppChatEvent hash h a t) (buildWhatsAppChatEvent hash h a t')"
  "same_observation (buildWhatsAppMessageEvent hash m a t) (buildWhatsAppMessageEvent hash m a t')"
  "same_observation (buildWhatsAppCallEvent hash k a t) (buildWhatsAppCallEvent hash k a t')"
  "same_observation (alias_event hash a t x) (alias_event hash a t' x)"
  by (simp_all add: same_observation_def raw_event_def buildWhatsAppContactEvent_def buildWhatsAppChatEvent_def
      buildWhatsAppMessageEvent_def buildWhatsAppCallEvent_def alias_event_def Let_def)

lemma same_append:
  "same_thing x x' \<Longrightarrow> same_seen s s' \<Longrightarrow> same_seen (append_contact hash a x s) (append_contact hash a x' s')"
  "same_thing y y' \<Longrightarrow> same_seen s s' \<Longrightarrow> same_seen (append_chat hash a y s) (append_chat hash a y' s')"
  "same_seen s s' \<Longrightarrow> same_seen (call_contact hash a t j s) (call_contact hash a t' j s')"
  by (auto simp: same_seen_def same_thing_def append_contact_def append_chat_def call_contact_def Let_def same_built
      intro!: list_all2_appendI split: prod.splits)

lemma same_append_message:
  assumes "same_thing x x'" "same_seen s s'"
  shows "same_seen (append_message hash a x s) (append_message hash a x' s')"
proof -
  obtain t m t' where x: "x = (t, m)" "x' = (t', m)" using assms(1) by (cases x, cases x') (auto simp: same_thing_def)
  obtain es C D es' where s: "s = (es, C, D)" "s' = (es', C, D)" "list_all2 same_observation es es'"
    using assms(2) by (cases s, cases s') (auto simp: same_seen_def)
  then show ?thesis
    by (auto simp: x s(1,2) same_seen_def append_message_def Let_def buildSyntheticContactFromMessage_def
        buildConversationFromMessage_def same_built intro!: list_all2_appendI)
qed

lemma same_append_call:
  assumes "same_thing x x'" "same_seen s s'"
  shows "same_seen (append_call hash a x s) (append_call hash a x' s')"
proof -
  obtain t m t' where x: "x = (t, m)" "x' = (t', m)" using assms(1) by (cases x, cases x') (auto simp: same_thing_def)
  have "same_seen (fold (call_contact hash a t) [wk_initiator m, wk_remote m] s)
      (fold (call_contact hash a t') [wk_initiator m, wk_remote m] s')"
    using assms(2) by (simp add: same_append(3))
  then show ?thesis
    by (auto simp: x same_seen_def append_call_def Let_def call_conversation_def same_built split: prod.splits
        intro!: list_all2_appendI)
qed

lemma same_aliases:
  "alias_events hash a t seen as = Inr es \<Longrightarrow> \<exists>es'. alias_events hash a t' seen as = Inr es' \<and> list_all2 same_observation es es'"
proof (induction as arbitrary: seen es)
  case (Cons x as)
  show ?case
  proof (cases "alias_dedupe hash a x \<in> seen")
    case True
    then show ?thesis using Cons by (auto split: if_split_asm)
  next
    case False
    let ?seen = "insert (alias_dedupe hash a x) seen"
    obtain rest where rest: "alias_events hash a t ?seen as = Inr rest" "es = alias_event hash a t x # rest" "provider_alias x"
      using Cons.prems False by (auto simp: ebind_eq_Inr_iff split: if_split_asm)
    from Cons.IH [OF rest(1)] show ?thesis using rest False by (auto simp: same_built ebind_def)
  qed
qed simp

lemma same_snapshot:
  assumes "buildWhatsAppRawEventsFromSnapshot hash a snapshot t = Inr es"
  shows "\<exists>es'. buildWhatsAppRawEventsFromSnapshot hash a snapshot t' = Inr es' \<and> list_all2 same_observation es es'"
proof -
  let ?build = "\<lambda>t al. appendCalls hash (ws_calls snapshot) a (t + 30000)
         (appendMessages hash (ws_messages snapshot) a (t + 20000)
         (fold (append_chat hash a) (enumerate_from (t + 10000) (ws_chats snapshot))
         (fold (append_contact hash a) (enumerate_from t (ws_contacts snapshot)) (al, {}, {}))))"
  obtain al where al: "alias_events hash a t {} (ws_aliases snapshot) = Inr al" and es: "es = fst (?build t al)"
    using assms by (auto simp: buildWhatsAppRawEventsFromSnapshot_def buildWhatsAppIdentityAliasEvents_def ebind_eq_Inr_iff)
  from same_aliases [OF al] obtain al' where al': "alias_events hash a t' {} (ws_aliases snapshot) = Inr al'"
    and same: "list_all2 same_observation al al'" by blast
  have "same_seen (al, {}, {}) (al', {}, {})" using same by (simp add: same_seen_def)
  then have "same_seen (?build t al) (?build t' al')"
    unfolding appendCalls_def appendMessages_def
    by (intro fold_same same_append same_append_message same_append_call)
  then have "list_all2 same_observation es (fst (?build t' al'))" by (simp add: same_seen_def es)
  then show ?thesis using al'
    by (auto simp: buildWhatsAppRawEventsFromSnapshot_def buildWhatsAppIdentityAliasEvents_def ebind_def)
qed

end
