(* ===== verification/WhatsAppDaemon.thy ===== *)
theory WhatsAppDaemon
  imports EventSource WhatsAppEvents
begin

text \<open>
  How the daemon handles the events of a WhatsApp helper (\<^verbatim>\<open>src/runtime/daemon/server.ts\<close>): snapshots, receipts and
  deleted calls. Times of messages are whole milliseconds. A snapshot that was taken in once changes nothing when the
  helper delivers it again, whatever the time.
\<close>

subsection \<open>Handlers\<close>

definition ingestWhatsAppRealtimeSnapshot ::
  "ingest_settings \<Rightarrow> (nat \<Rightarrow> int) \<Rightarrow> (nat \<Rightarrow> string) \<Rightarrow> (string \<Rightarrow> string) \<Rightarrow> string \<Rightarrow> wa_snapshot \<Rightarrow> string \<Rightarrow>
   (ingest, ingest_error, unit) process" where
  "ingestWhatsAppRealtimeSnapshot cfg clock fresh hash accountKey snapshot trigger =
     (case buildWhatsAppRawEventsFromSnapshot hash accountKey snapshot (clock 7) of
        Inl message \<Rightarrow> step_return ()
      | Inr rawEvents \<Rightarrow> ingestWhatsAppRealtimeEvents cfg clock fresh accountKey rawEvents trigger)"

definition findMessageByPlatformKey :: "platform \<Rightarrow> string \<Rightarrow> string \<Rightarrow> proj_db \<Rightarrow> message_row option" where
  "findMessageByPlatformKey platform accountKey platformMessageId db =
     find (\<lambda>m. ms_platform m = platform \<and> ms_account m = accountKey \<and> ms_key m = platformMessageId) (pj_messages db)"

definition receipt_candidates :: "string \<Rightarrow> wa_receipt \<Rightarrow> wa_alias list \<Rightarrow> proj_db \<Rightarrow> string list" where
  "receipt_candidates accountKey receipt as db =
     (let rawKey = js_lower (wr_chat receipt) @ '':'' @ wr_id receipt
      in canonicalizeWhatsAppSourceKey accountKey db rawKey #
         (case find (\<lambda>a. wl_lid a = js_lower (wr_chat receipt)) as of
            None \<Rightarrow> [] | Some a \<Rightarrow> [wl_pn a @ '':'' @ wr_id receipt]) @ [rawKey])"

definition receipt_message :: "string \<Rightarrow> wa_receipt \<Rightarrow> wa_alias list \<Rightarrow> proj_db \<Rightarrow> message_row option" where
  "receipt_message accountKey receipt as db =
     (case List.map_filter (\<lambda>key. findMessageByPlatformKey WhatsApp accountKey key db) (receipt_candidates accountKey receipt as db) of
        [] \<Rightarrow> None | m # _ \<Rightarrow> Some m)"

definition receipt_snapshot :: "wa_receipt \<Rightarrow> message_row \<Rightarrow> wa_message" where
  "receipt_snapshot receipt m =
     \<lparr>wm_id = wr_id receipt, wm_chat = wr_chat receipt,
      wm_sender = Some (case ms_sender_key m of
          None \<Rightarrow> wr_chat receipt
        | Some k \<Rightarrow> if starts_with ''whatsapp:'' k then drop 9 k else k),
      wm_participant = None, wm_from_me = wr_from_me receipt, wm_timestamp = \<lfloor>ms_sent_at m\<rfloor>,
      wm_text = get_or (ms_content m) [], wm_push_name = None, wm_status = coalesce (wr_status receipt) (ms_status m),
      wm_delivered_at = coalesce (wr_delivered_at receipt) (map_option floor (ms_delivered_at m)),
      wm_read_at = coalesce (wr_read_at receipt) (map_option floor (ms_read_at m)),
      wm_reply_to = None, wm_reply_sender = None, wm_forwarded = False, wm_forwarding_score = None, wm_revoked = None,
      wm_attachments = []\<rparr>"

definition applyReceiptToRealtimeSnapshot ::
  "ingest_settings \<Rightarrow> (nat \<Rightarrow> int) \<Rightarrow> (nat \<Rightarrow> string) \<Rightarrow> (string \<Rightarrow> string) \<Rightarrow> string \<Rightarrow> wa_receipt \<Rightarrow> wa_alias list \<Rightarrow>
   (ingest, ingest_error, unit) process" where
  "applyReceiptToRealtimeSnapshot cfg clock fresh hash accountKey receipt as =
     step_bind (step_get (\<lambda>s. receipt_message accountKey receipt as (en_db (sv_engine (ig_service s))))) (\<lambda>message.
       case message of
         None \<Rightarrow> step_return ()
       | Some m \<Rightarrow> ingestWhatsAppRealtimeSnapshot cfg clock fresh hash accountKey
                     ((empty_snapshot [])\<lparr>ws_messages := [receipt_snapshot receipt m]\<rparr>) (''whatsapp_receipt:'' @ accountKey))"

text \<open>A deleted call is taken in without hooks, and what fails is not caught.\<close>

definition take_in_call_delete ::
  "ingest_settings \<Rightarrow> (nat \<Rightarrow> int) \<Rightarrow> (nat \<Rightarrow> string) \<Rightarrow> string \<Rightarrow> string \<Rightarrow> raw_input list \<Rightarrow> (ingest, ingest_error, unit) process" where
  "take_in_call_delete cfg clock fresh accountKey trigger rawEvents =
     step_bind (accounts_step (clock 0) [realtime_account WhatsApp accountKey ''WhatsApp'']) (\<lambda>_.
     step_bind (insert_step rawEvents) (\<lambda>result.
     step_bind (case inserted_range result of
         Some (a, b) \<Rightarrow> if getRealtimeProjectionEnabled (is_env cfg) then realtime_step cfg (clock 1) a b else step_return ()
       | None \<Rightarrow> step_return ()) (\<lambda>_.
     step_bind (backlog_step (clock 2)) (\<lambda>(w, maxRow, pending).
     step_bind (if 0 < pending then queue_projection_step cfg (clock 3) (fresh 0) trigger else step_return ()) (\<lambda>_.
       if 0 < ir_count result then update_checkpoint_from_realtime clock WhatsApp accountKey else step_return ())))))"

text \<open>The second part of a receipt has its own times and ids.\<close>

definition handleWhatsAppRealtimeEvent ::
  "ingest_settings \<Rightarrow> (nat \<Rightarrow> int) \<Rightarrow> (nat \<Rightarrow> string) \<Rightarrow> (string \<Rightarrow> string) \<Rightarrow> string \<Rightarrow> wa_alias list \<Rightarrow> wa_event \<Rightarrow>
   (ingest, ingest_error, unit) process" where
  "handleWhatsAppRealtimeEvent cfg clock fresh hash accountKey as event =
     (case buildWhatsAppRealtimeSnapshotFromEvent as event of
        Some snapshot \<Rightarrow> ingestWhatsAppRealtimeSnapshot cfg clock fresh hash accountKey snapshot
          (case event of WaHistorySync _ \<Rightarrow> ''whatsapp_history_sync:'' @ accountKey | _ \<Rightarrow> ''whatsapp_realtime:'' @ accountKey)
      | None \<Rightarrow>
          (case event of
             WaCallDelete d \<Rightarrow>
               (case buildWhatsAppIdentityAliasEvents hash as accountKey (clock 7) of
                  Inl message \<Rightarrow> step_throw (IeAdapter message)
                | Inr aliased \<Rightarrow> take_in_call_delete cfg clock fresh accountKey (''whatsapp_realtime:'' @ accountKey)
                    (withRawEventAcquisitionMode (aliased @ [buildWhatsAppCallDeleteEvent hash d accountKey (clock 8)]) AcqRealtime))
           | WaReceiptUpdate receipt \<Rightarrow>
               step_bind (if as = [] then step_return ()
                          else ingestWhatsAppRealtimeSnapshot cfg clock fresh hash accountKey (empty_snapshot as)
                                 (''whatsapp_identity:'' @ accountKey)) (\<lambda>_.
                 applyReceiptToRealtimeSnapshot cfg (\<lambda>k. clock (k + 20)) (\<lambda>k. fresh (k + 20)) hash accountKey receipt as)
           | _ \<Rightarrow> step_return ()))"

subsection \<open>The builders as a source of events\<close>

interpretation whatsapp: event_source "buildWhatsAppRawEventsFromSnapshot hash a" "\<lambda>_. True" for hash a
proof unfold_locales
  fix x t es t' es'
  assume b: "buildWhatsAppRawEventsFromSnapshot hash a x t = Inr es"
  then show "list_all event_accepted es" by (rule snapshot_accepted)
  assume "buildWhatsAppRawEventsFromSnapshot hash a x t' = Inr es'"
  then have "list_all2 same_observation es es'" using same_snapshot [OF b, of t'] by auto
  then show "event_key ` set es' \<subseteq> event_key ` set es" by (rule keys_of_same)
qed

subsection \<open>Properties\<close>


text \<open>
  C11: a snapshot that was taken in once is ignored when it is delivered again. Once the events of a snapshot were
  inserted, by a sync or in realtime, a later realtime delivery of the same snapshot (at any time, whichever way it ends)
  passes through no state with another event in the log, with a hook queued or with a hook sent a second time.
\<close>

theorem redelivery_changes_nothing:
  assumes "raw_inv (en_raw (sv_engine (ig_service s)))"
    and "buildWhatsAppRawEventsFromSnapshot hash a snapshot t = Inr es" "ids_name_keys es rows"
    and "insertRawEvents (withRawEventAcquisitionMode es mode) rows = Inr (res, en_raw (sv_engine (ig_service s)))"
    and "ingestWhatsAppRealtimeSnapshot cfg clock fresh hash a snapshot trigger s = (seen, r, s')"
  shows "\<forall>u\<in>set (seen @ [s']). en_raw (sv_engine (ig_service u)) = en_raw (sv_engine (ig_service s)) \<and>
    ig_hooks u = ig_hooks s \<and> ig_sent u = ig_sent s"
proof -
  let ?P = "quiet_inv (en_raw (sv_engine (ig_service s))) (ig_hooks s) (ig_sent s)"
  have "keeps ?P (ingestWhatsAppRealtimeSnapshot cfg clock fresh hash a snapshot trigger) (\<lambda>_. True)"
    unfolding ingestWhatsAppRealtimeSnapshot_def ingestWhatsAppRealtimeEvents_def
    by (rule whatsapp.redelivered [OF TrueI assms(2-4,1)])
  from keepsD [OF this _ assms(5)] show ?thesis by (auto simp: quiet_inv_def list_all_iff)
qed

subsection \<open>A delivered message\<close>

definition demo_wa_message :: wa_message where
  "demo_wa_message = \<lparr>wm_id = ''M1'', wm_chat = ''1@s'', wm_sender = Some ''1@s'',
     wm_participant = None, wm_from_me = True, wm_timestamp = 1000, wm_text = ''hi'', wm_push_name = None, wm_status = None,
     wm_delivered_at = None, wm_read_at = None, wm_reply_to = None, wm_reply_sender = None, wm_forwarded = False,
     wm_forwarding_score = None, wm_revoked = None, wm_attachments = []\<rparr>"

definition demo_wa_snapshot :: wa_snapshot where
  "demo_wa_snapshot = (empty_snapshot [\<lparr>wl_lid = ''7@lid'', wl_pn = ''1@s.whatsapp.net''\<rparr>])
     \<lparr>ws_contacts := [\<lparr>wc_jid = ''2@s'', wc_phone = None, wc_name = Some ''Bo'', wc_push_name = None\<rparr>],
      ws_messages := [demo_wa_message, demo_wa_message]\<rparr>"

definition demo_wa_events :: "raw_input list" where
  "demo_wa_events = (case buildWhatsAppRawEventsFromSnapshot (\<lambda>x. x) ''me'' demo_wa_snapshot 5 of Inr es \<Rightarrow> es | Inl _ \<Rightarrow> [])"

lemma demo_wa_built:
  "buildWhatsAppRawEventsFromSnapshot (\<lambda>x. x) ''me'' demo_wa_snapshot 5 = Inr demo_wa_events"
  "length demo_wa_events = 6" "ids_name_keys demo_wa_events []"
proof -
  have "isl (buildWhatsAppRawEventsFromSnapshot (\<lambda>x. x) ''me'' demo_wa_snapshot 5) = False" by code_simp
  then show "buildWhatsAppRawEventsFromSnapshot (\<lambda>x. x) ''me'' demo_wa_snapshot 5 = Inr demo_wa_events"
    by (auto simp: demo_wa_events_def split: sum.splits)
  show "length demo_wa_events = 6" by code_simp
  show "ids_name_keys demo_wa_events []" by code_simp
qed


theorem redelivery_changes_nothing_witness:
  "\<exists>res s seen r s'. insertRawEvents (withRawEventAcquisitionMode demo_wa_events AcqSync) [] = Inr (res, en_raw (sv_engine (ig_service s))) \<and>
     ingestWhatsAppRealtimeSnapshot demo_settings (\<lambda>k. int k + 1000) demo_fresh (\<lambda>x. x) ''me'' demo_wa_snapshot ''again'' s = (seen, r, s') \<and>
     en_raw (sv_engine (ig_service s')) = en_raw (sv_engine (ig_service s)) \<and> ig_sent s' = ig_sent s"
proof -
  obtain res vs where ins: "insertRawEvents (withRawEventAcquisitionMode demo_wa_events AcqSync) [] = Inr (res, fold insert_raw vs [])"
    using accepted_inserts [OF mode_fields(1) [OF snapshot_accepted [OF demo_wa_built(1)]]] by blast
  let ?svc = "ig_service demo_ingest_state"
  let ?s = "demo_ingest_state\<lparr>ig_service := ?svc\<lparr>sv_engine := (sv_engine ?svc)\<lparr>en_raw := fold insert_raw vs []\<rparr>\<rparr>\<rparr>"
  have ins': "insertRawEvents (withRawEventAcquisitionMode demo_wa_events AcqSync) [] = Inr (res, en_raw (sv_engine (ig_service ?s)))"
    using ins by simp
  have "raw_inv []" by (simp add: raw_inv_def)
  from conjunct1 [OF ingest_is_append [OF this ins']] have inv: "raw_inv (en_raw (sv_engine (ig_service ?s)))" .
  obtain seen r s' where i: "ingestWhatsAppRealtimeSnapshot demo_settings (\<lambda>k. int k + 1000) demo_fresh (\<lambda>x. x) ''me''
      demo_wa_snapshot ''again'' ?s = (seen, r, s')"
    by (rule prod_cases3)
  from redelivery_changes_nothing [OF inv demo_wa_built(1,3) ins' i]
  have "en_raw (sv_engine (ig_service s')) = en_raw (sv_engine (ig_service ?s)) \<and> ig_sent s' = ig_sent ?s" by simp
  with i ins' show ?thesis by (metis (no_types, lifting))
qed

subsection \<open>Receipts\<close>

text \<open>
  A receipt never reaches the projection: it is turned into the message it is about, with the key that message already
  has, so that the log drops it. The message stays unread and undelivered whatever the helper reports.
\<close>

lemma receipt_repeats_message:
  "wm_id m = wr_id receipt \<Longrightarrow> normalizeWhatsAppJid (wm_chat m) = normalizeWhatsAppJid (wr_chat receipt) \<Longrightarrow>
   event_key (buildWhatsAppMessageEvent hash (receipt_snapshot receipt row) a t') = event_key (buildWhatsAppMessageEvent hash m a t)"
  by (simp add: buildWhatsAppMessageEvent_def event_key_def Let_def receipt_snapshot_def whatsappMessageSourceKey_def)

lemma contact_entity [simp]:
  "ev_entity (buildWhatsAppContactEvent hash c a t) = EkContact" "ev_entity (buildWhatsAppChatEvent hash h a t) = EkConversation"
  by (simp_all add: buildWhatsAppContactEvent_def buildWhatsAppChatEvent_def Let_def)

lemma one_message_events:
  assumes "buildWhatsAppRawEventsFromSnapshot hash a ((empty_snapshot [])\<lparr>ws_messages := [m]\<rparr>) t = Inr es"
    and "e \<in> set es" "ev_entity e = EkMessage"
  shows "e = buildWhatsAppMessageEvent hash m a (t + 20000)"
  using assms
  by (auto simp: buildWhatsAppRawEventsFromSnapshot_def buildWhatsAppIdentityAliasEvents_def ebind_def empty_snapshot_def
      appendMessages_def appendCalls_def append_message_def Let_def buildSyntheticContactFromMessage_def
      buildConversationFromMessage_def split: if_split_asm)

lemma fold_insert_filter:
  "\<forall>v\<in>set vs. rw_entity v = k \<longrightarrow> tbl_has rw_unique (rw_unique v) rows \<Longrightarrow>
   filter (\<lambda>r. rw_entity r = k) (fold insert_raw vs rows) = filter (\<lambda>r. rw_entity r = k) rows"
proof (induction vs arbitrary: rows)
  case (Cons v vs)
  have keep: "filter (\<lambda>r. rw_entity r = k) (insert_raw v rows) = filter (\<lambda>r. rw_entity r = k) rows"
    using Cons.prems by (auto simp: insert_raw_def raw_conflict_def)
  have "\<forall>w\<in>set vs. rw_entity w = k \<longrightarrow> tbl_has rw_unique (rw_unique w) (insert_raw v rows)"
    using Cons.prems image_mono [OF insert_raw_set [of rows v], of rw_unique] by (simp add: tbl_has_iff image_def) blast
  from Cons.IH [OF this] show ?case by (simp add: keep)
qed simp

lemma build_all_entity:
  "build_all es = Inr vs \<Longrightarrow> v \<in> set vs \<Longrightarrow> \<exists>e\<in>set es. rw_entity v = ev_entity e \<and> rw_unique v = event_key e"
  by (induction es arbitrary: vs) (auto simp: ebind_eq_Inr_iff buildRawEventValues_def Let_def rw_unique_def event_key_def)

lemma receipt_adds_no_message:
  assumes "tbl_has rw_unique (event_key (buildWhatsAppMessageEvent hash m a t)) rows"
    and "wm_id m = wr_id receipt" "normalizeWhatsAppJid (wm_chat m) = normalizeWhatsAppJid (wr_chat receipt)"
    and "buildWhatsAppRawEventsFromSnapshot hash a ((empty_snapshot [])\<lparr>ws_messages := [receipt_snapshot receipt row]\<rparr>) t' = Inr es"
    and "insertRawEvents (withRawEventAcquisitionMode es mode) rows = Inr (res, rows')"
  shows "filter (\<lambda>r. rw_entity r = EkMessage) rows' = filter (\<lambda>r. rw_entity r = EkMessage) rows"
proof (cases "withRawEventAcquisitionMode es mode = []")
  case True
  then show ?thesis using assms(5) by (simp add: insertRawEvents_def)
next
  case False
  then obtain vs where vs: "build_all (unique_events (withRawEventAcquisitionMode es mode)) = Inr vs" "rows' = fold insert_raw vs rows"
    using assms(5) by (auto simp: insertRawEvents_def Let_def ebind_eq_Inr_iff insert_event_chunks_concat concat_chunkArray)
  have "tbl_has rw_unique (rw_unique v) rows" if v: "v \<in> set vs" "rw_entity v = EkMessage" for v
  proof -
    obtain e where e: "e \<in> set (withRawEventAcquisitionMode es mode)" "ev_entity e = EkMessage" "rw_unique v = event_key e"
      using build_all_entity [OF vs(1) v(1)] v(2) unique_events_ids(3) by fastforce
    then obtain d where d: "d \<in> set es" "ev_entity d = EkMessage" "event_key d = event_key e"
      by (auto simp: withRawEventAcquisitionMode_def event_key_def)
    from one_message_events [OF assms(4) d(1,2)] receipt_repeats_message [OF assms(2,3)]
    have "event_key d = event_key (buildWhatsAppMessageEvent hash m a t)" by simp
    then show ?thesis using assms(1) d(3) e(3) by simp
  qed
  then show ?thesis unfolding vs(2) by (intro fold_insert_filter) blast
qed

end
