(* ===== verification/SignalEvents.thy ===== *)
theory SignalEvents
  imports EventSource
begin

text \<open>
  The Signal adapter: what the command-line helper reports (\<^verbatim>\<open>src/platforms/signal/cli/client.ts\<close>) and how it becomes raw
  events (\<^verbatim>\<open>src/platforms/signal/sync/events.ts\<close>). The JSON the helper prints is taken as parsed into its declared types; a
  field that may be left out or \<open>null\<close> is an option, the attachments stay JSON; \<open>now\<close> is the time of the clock.
\<close>

subsection \<open>What the helper reports\<close>

record sg_contact =
  sc_number :: "string option"
  sc_uuid :: "string option"
  sc_name :: "string option"
  sc_given :: "string option"
  sc_family :: "string option"
  sc_profile :: "(string option \<times> string option) option"
  sc_blocked :: bool
  sc_unregistered :: bool

record sg_group =
  sg_id :: "string option"
  sg_group_id :: "string option"
  sg_name :: "string option"
  sg_title :: "string option"
  sg_members :: "(string option \<times> string option) list"

record sg_message =
  sm_id :: string
  sm_thread :: string
  sm_group :: bool
  sm_thread_name :: "string option"
  sm_text :: string
  sm_sent_at :: int
  sm_from_me :: bool
  sm_sender :: "string option"
  sm_sender_name :: "string option"
  sm_peer :: "string option"
  sm_attachments :: "json list"

text \<open>The group a message names is its id and name; a message the account sent elsewhere names its destination.\<close>

record sg_data =
  sd_message :: "string option"
  sd_timestamp :: "int option"
  sd_attachments :: "json list option"
  sd_group :: "(string option \<times> string option) option"

record sg_sent = sg_data +
  ss_destination :: "string option"
  ss_number :: "string option"
  ss_uuid :: "string option"

record sg_envelope =
  se_source :: "string option"
  se_number :: "string option"
  se_uuid :: "string option"
  se_name :: "string option"
  se_timestamp :: "int option"
  se_server_guid :: "string option"
  se_envelope_id :: "string option"
  se_data :: "sg_data option"
  se_sent :: "sg_sent option"

text \<open>\<open>normalizeHandle\<close> of the client is the same function.\<close>

definition normalizeSignalHandle :: "string \<Rightarrow> string" where
  "normalizeSignalHandle value = js_lower (js_trim value)"

definition isLikelyPhone :: "string \<Rightarrow> bool" where
  "isLikelyPhone value =
     (case (let v = js_trim value in if starts_with ''+'' v then drop 1 v else v) of
        [] \<Rightarrow> False
      | d # rest \<Rightarrow> is_digit d \<and> 5 \<le> length rest \<and>
          list_all (\<lambda>c. is_digit c \<or> is_ws c \<or> c = CHR ''('' \<or> c = CHR '')'' \<or> c = CHR ''-'') rest)"

definition number_or_uuid :: "string option \<Rightarrow> string option \<Rightarrow> string option" where
  "number_or_uuid number uuid = js_or (first_trimmed [number]) (map_option js_lower (first_trimmed [uuid]))"

definition bestContactHandle :: "sg_contact \<Rightarrow> string option" where
  "bestContactHandle c = number_or_uuid (sc_number c) (sc_uuid c)"

definition contactHandleType :: "string \<Rightarrow> string" where
  "contactHandleType handle = (if isLikelyPhone handle then ''phone'' else ''signal_id'')"

definition spaced_name :: "string option \<Rightarrow> string option \<Rightarrow> string" where
  "spaced_name given family = js_trim (join_with '' '' (List.map_filter (\<lambda>t. if truthy_text t then t else None) [given, family]))"

definition bestSignalContactName :: "sg_contact \<Rightarrow> string" where
  "bestSignalContactName c =
     get_or (first_trimmed
       [sc_name c, map_option (\<lambda>(given, family). spaced_name given family) (sc_profile c),
        Some (spaced_name (sc_given c) (sc_family c))])
       (get_or (bestContactHandle c) ''Signal Contact'')"

definition bestSourceHandle :: "sg_envelope \<Rightarrow> string option" where
  "bestSourceHandle e = js_or (first_trimmed [se_number e, se_source e]) (map_option js_lower (first_trimmed [se_uuid e]))"

definition makeSignalMessageFallbackId :: "int \<Rightarrow> string \<Rightarrow> bool \<Rightarrow> string \<Rightarrow> nat \<Rightarrow> string" where
  "makeSignalMessageFallbackId timestamp threadId isFromMe text fallbackIndex =
     dec_int timestamp @ '':'' @ (if isFromMe then ''out'' else ''in'') @ '':'' @ threadId @ '':'' @ take 32 text @ '':'' @ dec_nat fallbackIndex"

definition envelope_time :: "int \<Rightarrow> sg_envelope \<Rightarrow> int" where
  "envelope_time now e = get_or (coalesce (Option.bind (se_data e) sd_timestamp)
     (coalesce (Option.bind (se_sent e) sd_timestamp) (se_timestamp e))) now"

definition makeMessageId :: "int \<Rightarrow> sg_envelope \<Rightarrow> string \<Rightarrow> bool \<Rightarrow> string \<Rightarrow> nat \<Rightarrow> string" where
  "makeMessageId now e threadId isFromMe text fallbackIndex =
     (case first_trimmed [se_server_guid e, se_envelope_id e] of
        Some guid \<Rightarrow> guid
      | None \<Rightarrow> makeSignalMessageFallbackId (envelope_time now e) threadId isFromMe text fallbackIndex)"

definition toSignalMessage :: "int \<Rightarrow> sg_envelope \<Rightarrow> string \<Rightarrow> nat \<Rightarrow> sg_message option" where
  "toSignalMessage now e account index =
     (let text = coalesce (Option.bind (se_data e) sd_message) (Option.bind (se_sent e) sd_message);
          named = coalesce (Option.bind (se_data e) sd_group) (Option.bind (se_sent e) sd_group);
          groupId = first_trimmed [Option.bind named fst];
          source = bestSourceHandle e;
          isFromMe = (se_sent e \<noteq> None \<or>
            (case source of Some s \<Rightarrow> normalizeSignalHandle s = normalizeSignalHandle account | None \<Rightarrow> False));
          destination = Option.bind (se_sent e) (\<lambda>d. js_or (first_trimmed [ss_number d, ss_destination d])
            (map_option js_lower (first_trimmed [ss_uuid d])));
          peer = (if groupId \<noteq> None then None else if isFromMe then destination else source);
          threadId = (case groupId of
              Some g \<Rightarrow> ''group:'' @ g
            | None \<Rightarrow> (case peer of Some p \<Rightarrow> ''dm:'' @ normalizeSignalHandle p | None \<Rightarrow> ''dm:unknown''));
          attachments = filter is_js_object (get_or (coalesce (Option.bind (se_data e) sd_attachments)
            (Option.bind (se_sent e) sd_attachments)) [])
      in if first_trimmed [text] = None \<and> attachments = [] then None
         else Some \<lparr>sm_id = makeMessageId now e threadId isFromMe (get_or text ''[attachment]'') index,
           sm_thread = threadId, sm_group = (groupId \<noteq> None), sm_thread_name = first_trimmed [Option.bind named snd],
           sm_text = get_or text [], sm_sent_at = envelope_time now e, sm_from_me = isFromMe,
           sm_sender = (if isFromMe then None else source),
           sm_sender_name = (if isFromMe then None else first_trimmed [se_name e]),
           sm_peer = peer, sm_attachments = attachments\<rparr>)"

text \<open>\<open>listContacts\<close> and \<open>receiveMessages\<close>, on what was parsed.\<close>

definition listContacts :: "string \<Rightarrow> sg_contact list \<Rightarrow> sg_contact list" where
  "listContacts account contacts =
     filter (\<lambda>c. (case bestContactHandle c of
         None \<Rightarrow> False
       | Some h \<Rightarrow> \<not> sc_blocked c \<and> \<not> sc_unregistered c \<and> normalizeSignalHandle h \<noteq> normalizeSignalHandle account)) contacts"

definition receiveMessages :: "int \<Rightarrow> string \<Rightarrow> sg_envelope list \<Rightarrow> sg_message list" where
  "receiveMessages now account envelopes =
     List.map_filter (\<lambda>(index, e). toSignalMessage now e account index) (enumerate 0 envelopes)"

subsection \<open>Events\<close>

definition signalSourceEntityKey :: "string \<Rightarrow> string" where
  "signalSourceEntityKey handle = ''signal:'' @ normalizeSignalHandle handle"

definition signalSourceConversationKey :: "string \<Rightarrow> string" where
  "signalSourceConversationKey threadId = ''signal:'' @ threadId"

definition nonblank_field :: "json \<Rightarrow> string \<Rightarrow> string option" where
  "nonblank_field value k = (case jstr (jget value k) of Some s \<Rightarrow> if js_trim s = [] then None else Some s | None \<Rightarrow> None)"

definition first_number :: "json \<Rightarrow> string list \<Rightarrow> json" where
  "first_number value ks =
     (case List.map_filter (\<lambda>k. jnum (jget value k)) ks of [] \<Rightarrow> JNull | n # _ \<Rightarrow> JNum n)"

definition signal_attachment :: "nat \<Rightarrow> json \<Rightarrow> json" where
  "signal_attachment index a =
     (let path = first_field a [''path'', ''localPath'', ''storedFilename'', ''file''] in
      JObj [(''id'', JStr (get_or (coalesce (nonblank_field a ''id'') (nonblank_field a ''digest'')) (''signal-attachment:'' @ dec_nat index))),
        (''kind'', JStr ''file''), (''filename'', optional_text (first_field a [''filename'', ''fileName''])),
        (''mime_type'', optional_text (first_field a [''contentType'', ''mimeType'', ''mimetype''])),
        (''size_bytes'', first_number a [''size'', ''sizeBytes'', ''length'']), (''local_path'', optional_text path),
        (''access_kind'', JStr (if path = None then ''none'' else ''local_path'')),
        (''availability_status'', JStr (if path = None then ''unsupported_pending_signal_fetch'' else ''available'')),
        (''access_ref'', case path of None \<Rightarrow> JNull | Some p \<Rightarrow> JObj [(''path'', JStr p)]),
        (''provider_metadata'', JObj (js_spread (Some a)))])"

definition normalizeSignalAttachments :: "json list \<Rightarrow> json list" where
  "normalizeSignalAttachments attachments = map (\<lambda>(i, a). signal_attachment i a) (enumerate 0 attachments)"

definition handle_json :: "string \<Rightarrow> string \<Rightarrow> json" where
  "handle_json type value = JObj [(''type'', JStr type), (''value'', JStr value), (''deterministic'', JBool True)]"

definition contactHandles :: "sg_contact \<Rightarrow> json list" where
  "contactHandles c =
     (case first_trimmed [sc_number c] of None \<Rightarrow> [] | Some n \<Rightarrow> [handle_json ''phone'' n]) @
     (case first_trimmed [sc_uuid c] of None \<Rightarrow> [] | Some u \<Rightarrow> [handle_json ''signal_id'' (js_lower u)])"

definition signal_contact :: "(string \<Rightarrow> string) \<Rightarrow> string \<Rightarrow> string \<Rightarrow> string \<Rightarrow> json list \<Rightarrow> int \<Rightarrow> raw_input" where
  "signal_contact hash accountKey handle name handles observedAt =
     (let seed = ''signal:contact:'' @ accountKey @ '':'' @ handle in
      (raw_event Signal accountKey EkContact ''observed'' (hash (seed @ '':'' @ dec_int observedAt)) (hash seed) observedAt
        (JObj [(''sourceEntityKey'', JStr (signalSourceEntityKey handle)), (''fields'', JObj [(''display_name'', JStr name)]),
               (''handles'', JArr handles)]) ''signal-v1'')\<lparr>ev_external_entity := Some handle\<rparr>)"

definition buildSignalContactEvent :: "(string \<Rightarrow> string) \<Rightarrow> sg_contact \<Rightarrow> string \<Rightarrow> int \<Rightarrow> raw_input option" where
  "buildSignalContactEvent hash contact accountKey observedAt =
     map_option (\<lambda>handle. signal_contact hash accountKey handle (bestSignalContactName contact) (contactHandles contact) observedAt)
       (bestContactHandle contact)"

definition signal_conversation ::
  "(string \<Rightarrow> string) \<Rightarrow> string \<Rightarrow> string \<Rightarrow> string \<Rightarrow> string \<Rightarrow> json \<Rightarrow> string list \<Rightarrow> int \<Rightarrow> raw_input" where
  "signal_conversation hash accountKey native conversationKey type name members observedAt =
     (let seed = ''signal:conversation:'' @ accountKey @ '':'' @ native in
      (raw_event Signal accountKey EkConversation ''observed'' (hash (seed @ '':'' @ dec_int observedAt)) (hash seed) observedAt
        (JObj [(''sourceConversationKey'', JStr conversationKey), (''conversationType'', JStr type), (''displayName'', name),
               (''nativeConversationKey'', JStr native), (''service'', JStr ''signal''),
               (''participants'', JArr (map (\<lambda>m. JObj [(''sourceEntityKey'', JStr (signalSourceEntityKey m))]) members))])
        ''signal-v1'')\<lparr>ev_conversation := Some native\<rparr>)"

definition group_key :: "sg_group \<Rightarrow> string option" where
  "group_key g = first_trimmed [sg_group_id g, sg_id g]"

definition buildSignalGroupConversationEvent :: "(string \<Rightarrow> string) \<Rightarrow> sg_group \<Rightarrow> string \<Rightarrow> int \<Rightarrow> raw_input option" where
  "buildSignalGroupConversationEvent hash g accountKey observedAt =
     map_option (\<lambda>groupId. signal_conversation hash accountKey groupId (signalSourceConversationKey (''group:'' @ groupId)) ''group''
         (JStr (get_or (first_trimmed [sg_name g, sg_title g]) ''Signal Group''))
         (List.map_filter (\<lambda>(number, uuid). number_or_uuid number uuid) (sg_members g)) observedAt)
       (group_key g)"

definition buildSignalMessageConversationEvent :: "(string \<Rightarrow> string) \<Rightarrow> sg_message \<Rightarrow> string \<Rightarrow> int \<Rightarrow> raw_input" where
  "buildSignalMessageConversationEvent hash m accountKey observedAt =
     signal_conversation hash accountKey (sm_thread m) (signalSourceConversationKey (sm_thread m))
       (if sm_group m then ''group'' else ''dm'') (optional_text (coalesce (sm_thread_name m) (sm_peer m)))
       (if \<not> sm_group m \<and> truthy_text (sm_peer m) then [the (sm_peer m)] else []) observedAt"

definition buildSyntheticSignalContactEvent :: "(string \<Rightarrow> string) \<Rightarrow> string \<Rightarrow> string \<Rightarrow> string \<Rightarrow> int \<Rightarrow> raw_input" where
  "buildSyntheticSignalContactEvent hash handle displayName accountKey observedAt =
     signal_contact hash accountKey handle displayName [handle_json (contactHandleType handle) handle] observedAt"

definition buildSignalMessageEvent :: "(string \<Rightarrow> string) \<Rightarrow> sg_message \<Rightarrow> string \<Rightarrow> int \<Rightarrow> raw_input" where
  "buildSignalMessageEvent hash m accountKey observedAt =
     (let sender = (if sm_from_me m then None else js_or (sm_sender m) (sm_peer m));
          stable = hash (''signal:message:'' @ accountKey @ '':'' @ sm_id m)
      in (raw_event Signal accountKey EkMessage ''created'' stable stable observedAt
           (JObj [(''sourceMessageKey'', JStr (sm_id m)), (''sourceConversationKey'', JStr (signalSourceConversationKey (sm_thread m))),
              (''senderSourceKey'', if truthy_text sender then JStr (signalSourceEntityKey (the sender)) else JNull),
              (''sentAt'', json_int (sm_sent_at m)), (''content'', JStr (sm_text m)), (''service'', JStr ''signal''),
              (''status'', JStr (if sm_from_me m then ''sent'' else ''delivered'')), (''isFromMe'', JBool (sm_from_me m)),
              (''deliveredAt'', json_int (sm_sent_at m)),
              (''attachments'', JArr (normalizeSignalAttachments (sm_attachments m)))])
           ''signal-v1'')\<lparr>ev_external_entity := Some (sm_id m), ev_conversation := Some (sm_thread m),
                        ev_occurred_at := Some (sm_sent_at m)\<rparr>)"

subsection \<open>Pages\<close>

definition signal_message :: "(string \<Rightarrow> string) \<Rightarrow> string \<Rightarrow> int \<times> sg_message \<Rightarrow> seen_events \<Rightarrow> seen_events" where
  "signal_message hash accountKey timed seen =
     (case (timed, seen) of ((observedAt, m), (rawEvents, contacts, conversations)) \<Rightarrow>
        let peer = js_or (sm_peer m) (sm_sender m);
            new = truthy_text peer \<and> the peer \<notin> contacts;
            conversation = signalSourceConversationKey (sm_thread m)
        in (rawEvents @
              (if new then [buildSyntheticSignalContactEvent hash (the peer) (get_or (sm_sender_name m) (the peer)) accountKey observedAt]
               else []) @
              (if conversation \<in> conversations then [] else [buildSignalMessageConversationEvent hash m accountKey observedAt]) @
              [buildSignalMessageEvent hash m accountKey observedAt],
            if new then insert (the peer) contacts else contacts, insert conversation conversations))"

definition signal_appendMessageEvents :: "(string \<Rightarrow> string) \<Rightarrow> sg_message list \<Rightarrow> string \<Rightarrow> int \<Rightarrow> seen_events \<Rightarrow> seen_events" where
  "signal_appendMessageEvents hash messages accountKey observedBase seen =
     fold (signal_message hash accountKey) (enumerate_from observedBase messages) seen"

definition signal_add_contact :: "(string \<Rightarrow> string) \<Rightarrow> string \<Rightarrow> int \<times> sg_contact \<Rightarrow> seen_events \<Rightarrow> seen_events" where
  "signal_add_contact hash accountKey timed seen =
     (case (timed, seen) of ((observedAt, c), (rawEvents, contacts, conversations)) \<Rightarrow>
        case bestContactHandle c of
          None \<Rightarrow> seen
        | Some handle \<Rightarrow>
            if handle \<in> contacts then seen
            else (rawEvents @ (case buildSignalContactEvent hash c accountKey observedAt of None \<Rightarrow> [] | Some e \<Rightarrow> [e]),
                  insert handle contacts, conversations))"

definition signal_add_group :: "(string \<Rightarrow> string) \<Rightarrow> string \<Rightarrow> int \<times> sg_group \<Rightarrow> seen_events \<Rightarrow> seen_events" where
  "signal_add_group hash accountKey timed seen =
     (case (timed, seen) of ((observedAt, g), (rawEvents, contacts, conversations)) \<Rightarrow>
        case buildSignalGroupConversationEvent hash g accountKey observedAt of
          None \<Rightarrow> seen
        | Some e \<Rightarrow>
            let key = get_or (jstr (jget (ev_payload e) ''sourceConversationKey'')) [] in
            if key \<in> conversations then seen else (rawEvents @ [e], contacts, insert key conversations))"

record sg_snapshot =
  sp_contacts :: "sg_contact list"
  sp_groups :: "sg_group list"
  sp_messages :: "sg_message list"

definition buildSignalRawEventsFromSnapshot :: "(string \<Rightarrow> string) \<Rightarrow> string \<Rightarrow> sg_snapshot \<Rightarrow> int \<Rightarrow> raw_input list" where
  "buildSignalRawEventsFromSnapshot hash accountKey snapshot observedBase =
     fst (signal_appendMessageEvents hash (sp_messages snapshot) accountKey (observedBase + 10000)
       (fold (signal_add_group hash accountKey) (enumerate_from (observedBase + 1000) (sp_groups snapshot))
       (fold (signal_add_contact hash accountKey) (enumerate_from observedBase (sp_contacts snapshot)) ([], {}, {}))))"

definition buildSignalRawEventsFromMessages :: "(string \<Rightarrow> string) \<Rightarrow> string \<Rightarrow> sg_message list \<Rightarrow> int \<Rightarrow> raw_input list" where
  "buildSignalRawEventsFromMessages hash accountKey messages observedBase =
     fst (signal_appendMessageEvents hash messages accountKey observedBase ([], {}, {}))"

text \<open>The bundle of a sync: what the helper listed and received; groups that fail to be listed are left out.\<close>

definition buildSignalSyncBundle ::
  "(string \<Rightarrow> string) \<Rightarrow> string \<Rightarrow> string \<Rightarrow> bool \<Rightarrow> sg_contact list \<Rightarrow> sg_group list option \<Rightarrow> sg_envelope list \<Rightarrow> int \<Rightarrow> sync_bundle" where
  "buildSignalSyncBundle hash accountKey account lastSynced contacts groups envelopes observedBase =
     \<lparr>sb_accounts = [realtime_account Signal accountKey ''Signal''],
      sb_cursor = Some (JObj [(''account'', JStr account), (''lastSyncAt'', json_int observedBase)]),
      sb_mode = Some (if lastSynced then IncrementalSync else FullSync), sb_has_more = False, sb_continuation = None,
      sb_diagnostics = None,
      sb_events = buildSignalRawEventsFromSnapshot hash accountKey
        \<lparr>sp_contacts = listContacts account contacts, sp_groups = get_or groups [],
         sp_messages = receiveMessages observedBase account envelopes\<rparr> observedBase,
      sb_proofs = []\<rparr>"

subsection \<open>A source of events\<close>

lemma signal_texts [simp]:
  "js_trim (signalSourceEntityKey h) \<noteq> []" "js_trim (signalSourceConversationKey c) \<noteq> []"
  by (rule trim_keeps [of "CHR '':''"]; simp add: is_ws_def signalSourceEntityKey_def signalSourceConversationKey_def)+

text \<open>Whatever the helper reports, a message has an id.\<close>

lemma message_id_text:
  assumes "toSignalMessage now e account i = Some m"
  shows "js_trim (sm_id m) \<noteq> []"
proof -
  have "js_trim (makeMessageId now e t f x i) \<noteq> []" for t f x
  proof (cases "first_trimmed [se_server_guid e, se_envelope_id e]")
    case None
    have "CHR '':'' \<in> set (makeSignalMessageFallbackId (envelope_time now e) t f x i)"
      by (simp add: makeSignalMessageFallbackId_def)
    then show ?thesis using None trim_keeps [of "CHR '':''"] by (simp add: makeMessageId_def is_ws_def)
  next
    case (Some g)
    then show ?thesis using first_trimmed_nonempty [OF Some] by (simp add: makeMessageId_def)
  qed
  then show ?thesis using assms by (auto simp: toSignalMessage_def Let_def split: if_split_asm)
qed

lemma signal_contact_accepted: "event_accepted (signal_contact hash a h n hs t)"
  by (rule accepted_kinds(1)) (simp_all add: signal_contact_def Let_def text_at_def)

lemma signal_conversation_accepted: "js_trim k \<noteq> [] \<Longrightarrow> event_accepted (signal_conversation hash a nk k ty nm ms t)"
  by (rule accepted_kinds(3)) (simp_all add: signal_conversation_def Let_def text_at_def)

lemma signal_message_accepted: "js_trim (sm_id m) \<noteq> [] \<Longrightarrow> event_accepted (buildSignalMessageEvent hash m a t)"
  by (rule accepted_kinds(5)) (simp_all add: buildSignalMessageEvent_def Let_def text_at_def)

lemmas signal_accepted = signal_contact_accepted signal_conversation_accepted signal_message_accepted

lemma signal_append_accepted:
  "all_events event_accepted s \<Longrightarrow> all_events event_accepted (signal_add_contact hash a x s)"
  "all_events event_accepted s \<Longrightarrow> all_events event_accepted (signal_add_group hash a y s)"
  "all_events event_accepted s \<Longrightarrow> js_trim (sm_id (snd z)) \<noteq> [] \<Longrightarrow> all_events event_accepted (signal_message hash a z s)"
  by (auto simp: all_events_def signal_add_contact_def signal_add_group_def signal_message_def Let_def signal_accepted
      buildSignalContactEvent_def buildSignalGroupConversationEvent_def buildSyntheticSignalContactEvent_def
      buildSignalMessageConversationEvent_def split: prod.splits option.splits)

lemma fold_invariant_on: "S s \<Longrightarrow> (\<And>x s. x \<in> set xs \<Longrightarrow> S s \<Longrightarrow> S (f x s)) \<Longrightarrow> S (fold f xs s)"
  by (induction xs arbitrary: s) simp_all

lemma enumerate_snd: "x \<in> set (enumerate_from t xs) \<Longrightarrow> snd x \<in> set xs"
  by (induction xs arbitrary: t) auto

definition signal_valid :: "sg_snapshot \<Rightarrow> bool" where
  "signal_valid snapshot \<longleftrightarrow> list_all (\<lambda>m. js_trim (sm_id m) \<noteq> []) (sp_messages snapshot)"

lemma received_valid:
  "signal_valid \<lparr>sp_contacts = cs, sp_groups = gs, sp_messages = receiveMessages now account es\<rparr>"
proof -
  have "js_trim (sm_id m) \<noteq> []" if "m \<in> set (receiveMessages now account es)" for m
    using that message_id_text unfolding receiveMessages_def map_filter_def by fastforce
  then show ?thesis by (simp add: signal_valid_def list_all_iff)
qed

lemma signal_snapshot_accepted: "signal_valid x \<Longrightarrow> list_all event_accepted (buildSignalRawEventsFromSnapshot hash a x t)"
proof -
  assume v: "signal_valid x"
  have "all_events event_accepted ([], {}, {})" by (simp add: all_events_def)
  then have "all_events event_accepted (fold (signal_add_contact hash a) (enumerate_from t (sp_contacts x)) ([], {}, {}))"
    by (rule fold_invariant) (rule signal_append_accepted(1))
  then have "all_events event_accepted (fold (signal_add_group hash a) (enumerate_from (t + 1000) (sp_groups x))
      (fold (signal_add_contact hash a) (enumerate_from t (sp_contacts x)) ([], {}, {})))"
    by (rule fold_invariant) (rule signal_append_accepted(2))
  then show ?thesis
    unfolding buildSignalRawEventsFromSnapshot_def signal_appendMessageEvents_def all_events_def [symmetric]
    by (rule fold_invariant_on) (use v in \<open>auto simp: signal_valid_def list_all_iff intro: signal_append_accepted(3) dest: enumerate_snd\<close>)
qed

lemma signal_same:
  "same_observation (signal_contact hash a h n hs t) (signal_contact hash a h n hs t')"
  "same_observation (signal_conversation hash a nk k ty nm ms t) (signal_conversation hash a nk k ty nm ms t')"
  "same_observation (buildSignalMessageEvent hash m a t) (buildSignalMessageEvent hash m a t')"
  by (simp_all add: same_observation_def raw_event_def signal_contact_def signal_conversation_def buildSignalMessageEvent_def Let_def)

lemma signal_same_contact:
  assumes "same_thing x x'" "same_seen s s'"
  shows "same_seen (signal_add_contact hash a x s) (signal_add_contact hash a x' s')"
  by (rule same_cases [OF assms])
    (auto simp: signal_add_contact_def buildSignalContactEvent_def signal_same split: option.split
      intro!: same_seenI list_all2_appendI)

lemma signal_same_group:
  assumes "same_thing x x'" "same_seen s s'"
  shows "same_seen (signal_add_group hash a x s) (signal_add_group hash a x' s')"
proof (rule same_cases [OF assms])
  fix t t' g es es' C D
  assume x: "x = (t, g)" "x' = (t', g)" and s: "s = (es, C, D)" "s' = (es', C, D)" and es: "list_all2 same_observation es es'"
  have key: "jget (ev_payload (signal_conversation hash a nk k ty nm ms u)) ''sourceConversationKey'' = Some (JStr k)"
    for nk k ty nm ms u by (simp add: signal_conversation_def Let_def)
  show ?thesis using es
    by (auto simp: x s signal_add_group_def buildSignalGroupConversationEvent_def key signal_same Let_def split: option.split
        intro!: same_seenI list_all2_appendI)
qed

lemma signal_same_message:
  assumes "same_thing x x'" "same_seen s s'"
  shows "same_seen (signal_message hash a x s) (signal_message hash a x' s')"
  by (rule same_cases [OF assms])
    (auto simp: signal_message_def Let_def buildSyntheticSignalContactEvent_def buildSignalMessageConversationEvent_def signal_same
      intro!: same_seenI list_all2_appendI)

lemma signal_snapshot_same:
  "list_all2 same_observation (buildSignalRawEventsFromSnapshot hash a x t) (buildSignalRawEventsFromSnapshot hash a x t')"
proof -
  have "same_seen ([], {}, {}) ([], {}, {})" by (simp add: same_seen_def)
  then have "same_seen
     (signal_appendMessageEvents hash (sp_messages x) a (t + 10000)
       (fold (signal_add_group hash a) (enumerate_from (t + 1000) (sp_groups x))
       (fold (signal_add_contact hash a) (enumerate_from t (sp_contacts x)) ([], {}, {}))))
     (signal_appendMessageEvents hash (sp_messages x) a (t' + 10000)
       (fold (signal_add_group hash a) (enumerate_from (t' + 1000) (sp_groups x))
       (fold (signal_add_contact hash a) (enumerate_from t' (sp_contacts x)) ([], {}, {}))))"
    unfolding signal_appendMessageEvents_def by (intro fold_same signal_same_contact signal_same_group signal_same_message)
  then show ?thesis by (simp add: same_seen_def buildSignalRawEventsFromSnapshot_def)
qed

interpretation signal: event_source "\<lambda>x t. Inr (buildSignalRawEventsFromSnapshot hash a x t)" signal_valid for hash a
  by (rule event_sourceI) (rule signal_snapshot_accepted, assumption, rule keys_of_same [OF signal_snapshot_same])

end
