(* ===== verification/SlackEvents.thy ===== *)
theory SlackEvents
  imports EventSource
begin

text \<open>
  The Slack adapter's raw events (\<^verbatim>\<open>src/platforms/slack/sync/events.ts\<close>, with the types of \<^verbatim>\<open>src/platforms/slack/types.ts\<close>).
  A field that may be left out is an option, a flag that may be left out is false. Timestamps are decimal texts; they are
  read as exact numbers.
\<close>

record sl_user =
  su_id :: string
  su_name :: string
  su_real_name :: "string option"
  su_deleted :: bool
  su_profile_real_name :: "string option"
  su_display_name :: "string option"
  su_email :: "string option"
  su_image_72 :: "string option"
  su_image_192 :: "string option"
  su_image_512 :: "string option"
  su_image_original :: "string option"

record sl_file =
  sf_id :: string
  sf_name :: string
  sf_mimetype :: "string option"
  sf_pretty_type :: "string option"
  sf_size :: "int option"
  sf_url_private :: "string option"
  sf_url_download :: "string option"
  sf_thumb_360 :: "string option"
  sf_thumb_480 :: "string option"

record sl_attachment =
  sa_fallback :: "string option"
  sa_text :: "string option"
  sa_title :: "string option"
  sa_title_link :: "string option"
  sa_image_url :: "string option"
  sa_thumb_url :: "string option"
  sa_footer :: "string option"
  sa_ts :: "json option"

record sl_message =
  sl_subtype :: "string option"
  sl_user :: "string option"
  sl_bot :: "string option"
  sl_text :: string
  sl_ts :: string
  sl_thread_ts :: "string option"
  sl_reply_count :: "int option"
  sl_reactions :: "(string \<times> string list) list"
  sl_attachments :: "sl_attachment list"
  sl_files :: "sl_file list"
  sl_edited :: "string option"

record sl_conversation =
  sl_id :: string
  sl_name :: "string option"
  sl_members :: "int option"
  sl_channel :: bool
  sl_group :: bool
  sl_im :: bool
  sl_mpim :: bool
  sl_peer :: "string option"
  sl_topic :: "string option"
  sl_purpose :: "string option"
  sl_latest :: "string option"

subsection \<open>Keys and times\<close>

definition slackSourceKey :: "string \<Rightarrow> string \<Rightarrow> string" where
  "slackSourceKey teamId userId = ''slack:'' @ teamId @ '':'' @ userId"

definition slackMessageKey :: "string \<Rightarrow> string \<Rightarrow> string \<Rightarrow> string" where
  "slackMessageKey teamId conversationId messageTs = ''slack:'' @ teamId @ '':'' @ conversationId @ '':'' @ messageTs"

text \<open>\<open>Number\<close> of a text, as far as it is finite; blank text is zero.\<close>

definition finite_number :: "string \<Rightarrow> rat option" where
  "finite_number s = (if js_trim s = [] then Some 0 else js_number s)"

definition slackTimestampMs :: "string option \<Rightarrow> int option" where
  "slackTimestampMs slackTs =
     (if truthy_text slackTs then map_option (\<lambda>x. \<lfloor>x * 1000 + 1 / 2\<rfloor>) (finite_number (the slackTs)) else None)"

definition bestSlackAvatar :: "sl_user \<Rightarrow> string option" where
  "bestSlackAvatar u = js_or (su_image_original u) (js_or (su_image_512 u) (js_or (su_image_192 u) (su_image_72 u)))"

definition slack_user_name :: "sl_user \<Rightarrow> string" where
  "slack_user_name u = get_or (js_or (su_real_name u) (js_or (su_profile_real_name u) (js_or (su_display_name u) (Some (su_name u))))) []"

subsection \<open>Attachments\<close>

definition url_ref :: "bool \<Rightarrow> string option \<Rightarrow> json" where
  "url_ref known url = (if known then JObj [(''url'', optional_text url)] else JNull)"

text \<open>The attachments of a message, each with the text it adds to a message without one.\<close>

definition file_metadata :: "sl_file \<Rightarrow> string \<times> json" where
  "file_metadata f =
     (let url = coalesce (sf_url_download f) (sf_url_private f);
          known = (truthy_text (sf_url_download f) \<or> truthy_text (sf_url_private f));
          thumb = coalesce (sf_thumb_480 f) (sf_thumb_360 f)
      in (sf_name f, JObj
        [(''kind'', JStr ''file''), (''id'', JStr (sf_id f)), (''name'', JStr (sf_name f)), (''mimetype'', optional_text (sf_mimetype f)),
         (''prettyType'', optional_text (sf_pretty_type f)), (''size'', optional_number (sf_size f)), (''url'', optional_text url),
         (''previewUrl'', optional_text thumb), (''access_kind'', JStr (if known then ''remote_url'' else ''none'')),
         (''access_ref'', url_ref known url),
         (''preview_ref'', url_ref (truthy_text (sf_thumb_480 f) \<or> truthy_text (sf_thumb_360 f)) thumb),
         (''availability_status'', JStr (if known then ''available'' else ''metadata_only'')),
         (''provider_metadata'', JObj [(''id'', JStr (sf_id f)), (''prettyType'', optional_text (sf_pretty_type f))])]))"

definition attachment_metadata :: "sl_attachment \<Rightarrow> string \<times> json" where
  "attachment_metadata a =
     (let text = coalesce (sa_text a) (sa_fallback a);
          preview = coalesce (sa_image_url a) (sa_thumb_url a);
          url = coalesce (sa_title_link a) preview;
          previewed = (truthy_text (sa_image_url a) \<or> truthy_text (sa_thumb_url a));
          known = (truthy_text (sa_title_link a) \<or> previewed)
      in (get_or (coalesce (sa_title a) text) [], JObj
        [(''kind'', JStr ''attachment''), (''title'', optional_text (sa_title a)), (''text'', optional_text text), (''url'', optional_text url),
         (''access_kind'', JStr (if known then ''remote_url'' else ''none'')), (''access_ref'', url_ref known url),
         (''preview_ref'', url_ref previewed preview), (''availability_status'', JStr (if known then ''available'' else ''metadata_only'')),
         (''provider_metadata'', JObj [(''footer'', optional_text (sa_footer a)), (''ts'', get_or (sa_ts a) JNull)])]))"

definition toAttachmentMetadata :: "sl_message \<Rightarrow> (string \<times> json) list" where
  "toAttachmentMetadata m = map file_metadata (sl_files m) @ map attachment_metadata (sl_attachments m)"

subsection \<open>Events\<close>

definition buildSlackConversationDisplayName :: "sl_conversation \<Rightarrow> (string \<rightharpoonup> sl_user) \<Rightarrow> string option \<Rightarrow> string" where
  "buildSlackConversationDisplayName c usersById explicit =
     (case first_trimmed [explicit] of
        Some name \<Rightarrow> name
      | None \<Rightarrow>
          if sl_im c \<and> truthy_text (sl_peer c)
          then (case usersById (the (sl_peer c)) of Some u \<Rightarrow> slack_user_name u | None \<Rightarrow> the (sl_peer c))
          else get_or (js_or (sl_name c) (js_or (sl_topic c) (js_or (sl_purpose c) (Some (sl_id c))))) [])"

definition user_handle :: "string \<Rightarrow> string \<Rightarrow> json" where
  "user_handle type value = JObj [(''type'', JStr type), (''value'', JStr value), (''deterministic'', JBool True)]"

definition slack_contact_event :: "(string \<Rightarrow> string) \<Rightarrow> string \<Rightarrow> string \<Rightarrow> int \<Rightarrow> sl_user \<Rightarrow> raw_input" where
  "slack_contact_event hash teamId accountKey observedAt u =
     (let contactId = hash (''slack:contact:'' @ teamId @ '':'' @ su_id u) in
      (raw_event Slack accountKey EkContact ''observed'' contactId contactId observedAt
        (JObj [(''sourceEntityKey'', JStr (slackSourceKey teamId (su_id u))),
               (''fields'', JObj [(''display_name'', JStr (slack_user_name u)), (''photo_url'', optional_text (bestSlackAvatar u))]),
               (''handles'', JArr (user_handle ''slack_user_id'' (teamId @ '':'' @ su_id u) #
                  (if truthy_text (su_email u) then [user_handle ''email'' (the (su_email u))] else [])))])
        ''slack-v1'')\<lparr>ev_external_entity := Some (su_id u)\<rparr>)"

definition buildSlackContactEvents :: "(string \<Rightarrow> string) \<Rightarrow> string \<Rightarrow> string \<Rightarrow> int \<Rightarrow> sl_user list \<Rightarrow> raw_input list" where
  "buildSlackContactEvents hash teamId accountKey observedAt users = map (slack_contact_event hash teamId accountKey observedAt) users"

definition buildSlackConversationEvent ::
  "(string \<Rightarrow> string) \<Rightarrow> string \<Rightarrow> string \<Rightarrow> sl_conversation \<Rightarrow> int \<Rightarrow> string list \<Rightarrow> string \<Rightarrow> (string \<rightharpoonup> sl_user) \<Rightarrow> string option \<Rightarrow>
   raw_input" where
  "buildSlackConversationEvent hash teamId accountKey c observedAt memberIds selfUserId usersById displayName =
     (let conversationId = hash (''slack:conversation:'' @ teamId @ '':'' @ sl_id c) in
      (raw_event Slack accountKey EkConversation ''observed'' conversationId conversationId observedAt
        (JObj [(''sourceConversationKey'', JStr (''slack:'' @ teamId @ '':'' @ sl_id c)),
               (''conversationType'', JStr (if sl_mpim c \<or> sl_channel c \<or> sl_group c then ''group'' else ''dm'')),
               (''displayName'', JStr (buildSlackConversationDisplayName c usersById displayName)),
               (''nativeConversationKey'', JStr (sl_id c)), (''service'', JStr ''slack''),
               (''participants'', JArr (map (\<lambda>member. JObj [(''sourceEntityKey'', JStr (slackSourceKey teamId member)),
                  (''isSelf'', JBool (member = selfUserId))]) memberIds))])
        ''slack-v1'')\<lparr>ev_conversation := Some (sl_id c)\<rparr>)"

definition slack_message_event ::
  "(string \<Rightarrow> string) \<Rightarrow> string \<Rightarrow> string \<Rightarrow> string \<Rightarrow> string \<Rightarrow> int \<Rightarrow> sl_message \<Rightarrow> raw_input" where
  "slack_message_event hash teamId accountKey conversationId selfUserId observedAt m =
     (let sentAt = get_or (slackTimestampMs (Some (sl_ts m))) observedAt;
          attachments = toAttachmentMetadata m;
          sender = coalesce (sl_user m) (sl_bot m);
          messageId = hash (''slack:message:'' @ teamId @ '':'' @ conversationId @ '':'' @ sl_ts m @ '':'' @ sl_text m @ '':'' @
            get_or (sl_edited m) [])
      in (raw_event Slack accountKey EkMessage ''created'' messageId messageId observedAt
        (JObj [(''sourceMessageKey'', JStr (slackMessageKey teamId conversationId (sl_ts m))),
               (''sourceConversationKey'', JStr (''slack:'' @ teamId @ '':'' @ conversationId)),
               (''senderSourceKey'', if truthy_text sender \<and> sender \<noteq> Some selfUserId then JStr (slackSourceKey teamId (the sender)) else JNull),
               (''sentAt'', json_int sentAt),
               (''content'', JStr (if sl_text m \<noteq> [] then sl_text m
                  else join_with [CHR 0x0A] (filter (\<lambda>t. t \<noteq> []) (map fst attachments)))),
               (''service'', JStr ''slack''), (''status'', JNull), (''isFromMe'', JBool (sender = Some selfUserId)),
               (''editedAt'', optional_number (slackTimestampMs (sl_edited m))), (''isEdited'', JBool (truthy_text (sl_edited m))),
               (''isDeleted'', JBool False),
               (''replyToSourceMessageKey'', if truthy_text (sl_thread_ts m) \<and> sl_thread_ts m \<noteq> Some (sl_ts m)
                  then JStr (slackMessageKey teamId conversationId (the (sl_thread_ts m))) else JNull),
               (''attachments'', JArr (map snd attachments))])
        ''slack-v1'')\<lparr>ev_external_entity := Some (conversationId @ '':'' @ sl_ts m), ev_conversation := Some conversationId,
                     ev_occurred_at := Some sentAt\<rparr>)"

definition slack_reaction_event ::
  "(string \<Rightarrow> string) \<Rightarrow> string \<Rightarrow> string \<Rightarrow> string \<Rightarrow> string \<Rightarrow> int \<Rightarrow> sl_message \<Rightarrow> string \<Rightarrow> string \<Rightarrow> raw_input" where
  "slack_reaction_event hash teamId accountKey conversationId selfUserId observedAt m name reactor =
     (let sentAt = get_or (slackTimestampMs (Some (sl_ts m))) observedAt;
          reactionId = hash (''slack:reaction:'' @ teamId @ '':'' @ conversationId @ '':'' @ sl_ts m @ '':'' @ name @ '':'' @ reactor)
      in (raw_event Slack accountKey EkReaction ''added'' reactionId reactionId observedAt
        (JObj [(''sourceMessageKey'', JStr (slackMessageKey teamId conversationId (sl_ts m))),
               (''sourceConversationKey'', JStr (''slack:'' @ teamId @ '':'' @ conversationId)),
               (''reactorSourceKey'', if reactor = selfUserId then JNull else JStr (slackSourceKey teamId reactor)),
               (''emoji'', JStr ('':'' @ name @ '':'')), (''timestamp'', json_int sentAt), (''isActive'', JBool True)])
        ''slack-v1'')\<lparr>ev_external_entity := Some (conversationId @ '':'' @ sl_ts m @ '':'' @ name @ '':'' @ reactor),
                     ev_conversation := Some conversationId, ev_occurred_at := Some sentAt\<rparr>)"

definition buildSlackMessageEvents ::
  "(string \<Rightarrow> string) \<Rightarrow> string \<Rightarrow> string \<Rightarrow> string \<Rightarrow> string \<Rightarrow> int \<Rightarrow> sl_message list \<Rightarrow> raw_input list" where
  "buildSlackMessageEvents hash teamId accountKey conversationId selfUserId observedAt messages =
     concat (map (\<lambda>m.
       slack_message_event hash teamId accountKey conversationId selfUserId observedAt m #
       concat (map (\<lambda>(name, users). map (slack_reaction_event hash teamId accountKey conversationId selfUserId observedAt m name) users)
         (sl_reactions m))) messages)"

subsection \<open>Sources of events\<close>

lemma slack_texts [simplified, simp]: "js_trim (''slack:'' @ x) \<noteq> []" "js_trim ('':'' @ x) \<noteq> []"
  by (rule trim_keeps [of "CHR '':''"]; simp add: is_ws_def slackSourceKey_def slackMessageKey_def)+

lemma slack_accepted:
  "event_accepted (slack_contact_event hash team a t u)"
  "event_accepted (buildSlackConversationEvent hash team a c t ms self users nm)"
  "event_accepted (slack_message_event hash team a cid self t m)"
  "event_accepted (slack_reaction_event hash team a cid self t m emoji r)"
proof -
  note unfold = Let_def text_at_def slackSourceKey_def slackMessageKey_def
  show "event_accepted (slack_contact_event hash team a t u)"
    by (rule accepted_kinds(1)) (simp_all add: slack_contact_event_def unfold)
  show "event_accepted (buildSlackConversationEvent hash team a c t ms self users nm)"
    by (rule accepted_kinds(3)) (simp_all add: buildSlackConversationEvent_def unfold)
  show "event_accepted (slack_message_event hash team a cid self t m)"
    by (rule accepted_kinds(5)) (simp_all add: slack_message_event_def unfold)
  show "event_accepted (slack_reaction_event hash team a cid self t m emoji r)"
    by (rule accepted_kinds(8)) (simp_all add: slack_reaction_event_def unfold)
qed

lemma slack_keys:
  "event_key (slack_contact_event hash team a t u) = (Slack, a, hash (''slack:contact:'' @ team @ '':'' @ su_id u))"
  "event_key (buildSlackConversationEvent hash team a c t ms self users nm) = (Slack, a, hash (''slack:conversation:'' @ team @ '':'' @ sl_id c))"
  "event_key (slack_message_event hash team a cid self t m) =
     (Slack, a, hash (''slack:message:'' @ team @ '':'' @ cid @ '':'' @ sl_ts m @ '':'' @ sl_text m @ '':'' @ get_or (sl_edited m) []))"
  "event_key (slack_reaction_event hash team a cid self t m emoji r) =
     (Slack, a, hash (''slack:reaction:'' @ team @ '':'' @ cid @ '':'' @ sl_ts m @ '':'' @ emoji @ '':'' @ r))"
  by (simp_all add: event_key_def slack_contact_event_def buildSlackConversationEvent_def slack_message_event_def
      slack_reaction_event_def Let_def)

text \<open>A page of a sync: its users, and the conversations with their members and messages.\<close>

definition slack_page_events ::
  "(string \<Rightarrow> string) \<Rightarrow> string \<Rightarrow> string \<Rightarrow> string \<Rightarrow> sl_user list \<times> (sl_conversation \<times> string list \<times> sl_message list) list \<Rightarrow> int \<Rightarrow>
   raw_input list" where
  "slack_page_events hash teamId accountKey selfUserId page observedAt =
     buildSlackContactEvents hash teamId accountKey observedAt (fst page) @
     concat (map (\<lambda>(c, memberIds, messages).
       buildSlackConversationEvent hash teamId accountKey c observedAt memberIds selfUserId
         (map_of (rev (map (\<lambda>u. (su_id u, u)) (fst page)))) None #
       buildSlackMessageEvents hash teamId accountKey (sl_id c) selfUserId observedAt messages) (snd page))"

lemma slack_page_keys:
  "map event_key (slack_page_events hash team a self page t) = map event_key (slack_page_events hash team a self page t')"
  by (simp add: slack_page_events_def buildSlackContactEvents_def buildSlackMessageEvents_def map_concat comp_def slack_keys
      case_prod_beta')

lemma slack_page_accepted: "list_all event_accepted (slack_page_events hash team a self page t)"
  by (auto simp: slack_page_events_def buildSlackContactEvents_def buildSlackMessageEvents_def list_all_iff slack_accepted)

interpretation slack: event_source "\<lambda>page t. Inr (slack_page_events hash team a self page t)" "\<lambda>_. True" for hash team a self
  by (rule event_sourceI) (rule slack_page_accepted, metis slack_page_keys list.set_map order_refl)

end
