(* ===== verification/SlackProofs.thy ===== *)
theory SlackProofs
  imports SyncProofs RawSchemas
begin

text \<open>
  The evidence a Slack backfill leaves for a conversation (\<^verbatim>\<open>src/platforms/slack/sync/proof.ts\<close>): how far its messages and
  its threads were read, and, after a full scan from the start, that its history is complete.
\<close>

datatype slack_phase = PhHistory | PhThreads | PhComplete

fun slack_phase_name :: "slack_phase \<Rightarrow> string" where
  "slack_phase_name PhHistory = ''history''"
| "slack_phase_name PhThreads = ''threads''"
| "slack_phase_name PhComplete = ''complete''"

record slack_error =
  ser_code :: string
  ser_message :: string
  ser_retryable :: bool
  ser_kind :: "string option"

record slack_backfill =
  bf_team :: string
  bf_mode :: sync_mode
  bf_started :: int
  bf_known :: nat
  bf_conversation :: string
  bf_name :: "string option"
  bf_family :: string
  bf_phase :: slack_phase
  bf_history_complete :: bool
  bf_from_start :: "bool option"
  bf_history_cursor :: "string option"
  bf_roots :: rat
  bf_completed :: rat
  bf_pending :: rat
  bf_pending_ts :: "string list option"
  bf_active_ts :: "string option"
  bf_replies_cursor :: "string option"
  bf_oldest :: "string option"
  bf_newest :: "string option"
  bf_observed :: int
  bf_history_error :: "slack_error option"
  bf_replies_error :: "slack_error option"
  bf_members_error :: "slack_error option"

definition json_nat :: "nat \<Rightarrow> json" where
  "json_nat n = JNum (Fin (of_nat n))"

definition error_json :: "slack_error \<Rightarrow> json" where
  "error_json e = JObj ([(''code'', JStr (ser_code e)), (''message'', JStr (ser_message e)), (''retryable'', JBool (ser_retryable e))] @
     (case ser_kind e of None \<Rightarrow> [] | Some k \<Rightarrow> [(''kind'', JStr k)]))"

definition getMessagesProofStatus :: "slack_backfill \<Rightarrow> proof_status" where
  "getMessagesProofStatus b =
     (if bf_history_error b = None
      then if bf_history_complete b \<or> bf_phase b \<noteq> PhHistory then PfComplete else PfRunning
      else if truthy_text (bf_oldest b) \<or> truthy_text (bf_newest b) then PfPartial else PfBlocked)"

definition getRepliesProofStatus :: "slack_backfill \<Rightarrow> proof_status" where
  "getRepliesProofStatus b =
     (if bf_replies_error b = None \<and> bf_history_error b = None
      then if bf_phase b = PhComplete then PfComplete else PfRunning
      else if 0 < bf_completed b then PfPartial else PfBlocked)"

definition slack_coverage :: "slack_backfill \<Rightarrow> (string \<times> json) list" where
  "slack_coverage b =
     (case bf_oldest b of None \<Rightarrow> [] | Some ts \<Rightarrow> [(''oldestMessageTs'', JStr ts)]) @
     (case bf_newest b of None \<Rightarrow> [] | Some ts \<Rightarrow> [(''newestMessageTs'', JStr ts)])"

definition buildSlackMessageCoverage :: "slack_backfill \<Rightarrow> json option" where
  "buildSlackMessageCoverage b = (if slack_coverage b = [] then None else Some (JObj (slack_coverage b)))"

definition slack_scope :: "slack_backfill \<Rightarrow> scope_input" where
  "slack_scope b = \<lparr>si_kind = ''conversation'', si_key = bf_conversation b, si_parent = None, si_display_name = Some (bf_name b),
     si_metadata = Some (JObj [(''teamId'', JStr (bf_team b)), (''conversationFamily'', JStr (bf_family b))])\<rparr>"

definition slack_proof :: "slack_backfill \<Rightarrow> string \<Rightarrow> proof_status \<Rightarrow> proof_input" where
  "slack_proof b kind status =
     \<lparr>pi_scope = slack_scope b, pi_kind = kind, pi_status = status, pi_mode = Some (bf_mode b), pi_observed_at = bf_observed b,
      pi_run_started_at = Some (bf_started b),
      pi_completed_at = (if status = PfComplete \<or> status = PfPartial then Some (bf_observed b) else None), pi_fresh_until = None,
      pi_resume_cursor = None, pi_coverage = None, pi_stats = None, pi_error = None\<rparr>"

definition messages_proof :: "slack_backfill \<Rightarrow> proof_input" where
  "messages_proof b =
     (let status = getMessagesProofStatus b in
      (slack_proof b ''messages'' status)
        \<lparr>pi_resume_cursor := (if status = PfComplete \<or> bf_history_error b \<noteq> None then Some JNull
            else Some (JObj [(''historyCursor'', optional_text (bf_history_cursor b)),
                             (''conversationPhase'', JStr (slack_phase_name (bf_phase b)))])),
         pi_coverage := buildSlackMessageCoverage b,
         pi_stats := Some (JObj ([(''knownConversationCount'', json_nat (bf_known b))] @
            (if 0 < bf_roots b then [(''threadRootCount'', JNum (Fin (bf_roots b)))] else []))),
         pi_error := map_option error_json (coalesce (bf_history_error b) (bf_members_error b))\<rparr>)"

definition replies_reported :: "slack_backfill \<Rightarrow> bool" where
  "replies_reported b \<longleftrightarrow> 0 < bf_roots b \<or> 0 < bf_completed b \<or> 0 < bf_pending b \<or> bf_phase b = PhThreads \<or>
     bf_active_ts b \<noteq> None \<or> bf_replies_cursor b \<noteq> None \<or> bf_replies_error b \<noteq> None"

definition replies_proof :: "slack_backfill \<Rightarrow> proof_input" where
  "replies_proof b =
     (let status = getRepliesProofStatus b in
      (slack_proof b ''replies'' status)
        \<lparr>pi_resume_cursor := (if status = PfComplete \<or> bf_replies_error b \<noteq> None \<or> bf_history_error b \<noteq> None then Some JNull
            else Some (JObj [(''activeThreadTs'', optional_text (bf_active_ts b)),
                             (''repliesCursor'', optional_text (bf_replies_cursor b)),
                             (''pendingThreadTs'', JArr (map JStr (get_or (bf_pending_ts b) []))),
                             (''conversationPhase'', JStr (slack_phase_name (bf_phase b)))])),
         pi_coverage := Some (JObj (slack_coverage b @ [(''completedThreadCount'', JNum (Fin (bf_completed b))),
            (''pendingThreadCount'', JNum (Fin (bf_pending b)))])),
         pi_stats := Some (JObj [(''threadRootCount'', JNum (Fin (bf_roots b))), (''completedThreadCount'', JNum (Fin (bf_completed b))),
            (''pendingThreadCount'', JNum (Fin (bf_pending b)))]),
         pi_error := map_option error_json (coalesce (bf_replies_error b) (bf_history_error b))\<rparr>)"

definition history_proved :: "slack_backfill \<Rightarrow> bool" where
  "history_proved b \<longleftrightarrow> bf_mode b = ModeFull \<and> bf_from_start b = Some True \<and> bf_phase b = PhComplete \<and>
     bf_history_error b = None \<and> bf_replies_error b = None"

definition history_proof :: "slack_backfill \<Rightarrow> proof_input" where
  "history_proof b = (slack_proof b ''history'' PfComplete)
     \<lparr>pi_mode := Some ModeFull, pi_run_started_at := None, pi_coverage := Some (JObj [(''version'', json_nat 1)])\<rparr>"

definition buildSlackBackfillSyncProofs :: "slack_backfill \<Rightarrow> proof_input list" where
  "buildSlackBackfillSyncProofs b =
     [messages_proof b] @ (if replies_reported b then [replies_proof b] else []) @
     (if history_proved b then [history_proof b] else [])"

subsection \<open>Recording them\<close>

text \<open>The loop of the daemon over the proofs of a bundle; \<open>clock k\<close> is the time of its k-th call.\<close>

fun record_proofs :: "(nat \<Rightarrow> int) \<Rightarrow> platform \<Rightarrow> string \<Rightarrow> proof_input list \<Rightarrow> proof_db \<Rightarrow> proof_error + proof_db" where
  "record_proofs clock platform accountKey [] db = Inr db"
| "record_proofs clock platform accountKey (inp # rest) db =
     ebind (upsertSyncProof (clock 0) platform accountKey inp db)
       (record_proofs (\<lambda>k. clock (Suc k)) platform accountKey rest)"

lemma slack_proof_fields [simp]:
  "pi_scope (messages_proof b) = slack_scope b" "pi_kind (messages_proof b) = ''messages''"
  "pi_scope (replies_proof b) = slack_scope b" "pi_kind (replies_proof b) = ''replies''"
  "pi_scope (history_proof b) = slack_scope b" "pi_kind (history_proof b) = ''history''"
  "pi_status (history_proof b) = PfComplete" "si_kind (slack_scope b) = ''conversation''" "si_key (slack_scope b) = bf_conversation b"
  by (simp_all add: messages_proof_def replies_proof_def history_proof_def slack_proof_def slack_scope_def Let_def)

text \<open>What Slack reports always has a contract, and is about its own conversation.\<close>

lemma slack_proofs_known:
  assumes "inp \<in> set (buildSlackBackfillSyncProofs b)"
  shows "getSyncProofKindContract Slack inp \<noteq> None" "pi_scope inp = slack_scope b"
    "pi_kind inp = ''history'' \<longleftrightarrow> inp = history_proof b" "pi_kind inp = ''history'' \<longrightarrow> history_proved b"
  using assms
  by (auto simp: buildSlackBackfillSyncProofs_def getSyncProofKindContract_def PROOF_KIND_CONTRACTS_def proof_contract_list_def
      split: if_split_asm)

lemma history_reported:
  "(\<exists>inp\<in>set (buildSlackBackfillSyncProofs b). pi_kind inp = ''history'' \<and> si_key (pi_scope inp) = c) \<longleftrightarrow>
     bf_conversation b = c \<and> history_proved b"
  by (auto simp: buildSlackBackfillSyncProofs_def)

lemma record_proofs_total:
  "\<forall>inp\<in>set ps. getSyncProofKindContract p inp \<noteq> None \<Longrightarrow> proof_inv db \<Longrightarrow>
   \<exists>db'. record_proofs clock p a ps db = Inr db' \<and> proof_inv db'"
proof (induction ps arbitrary: clock db)
  case (Cons inp ps)
  let ?db = "proof_recorded (clock 0) p a inp db"
  have up: "upsertSyncProof (clock 0) p a inp db = Inr ?db" "proof_inv ?db"
    using upsertSyncProof_eq [OF Cons.prems(2)] Cons.prems(1) by simp_all
  have "\<exists>db'. record_proofs (\<lambda>k. clock (Suc k)) p a ps ?db = Inr db' \<and> proof_inv db'"
    by (rule Cons.IH) (use Cons.prems(1) up(2) in simp_all)
  then show ?case by (simp add: up(1) ebind_def)
qed simp

lemma history_step:
  assumes "proof_inv db" "\<forall>inp\<in>set ps. getSyncProofKindContract p inp \<noteq> None" "record_proofs clock p a ps db = Inr db'"
    and "i = buildSyncProofId p a ''conversation'' c ''history''"
    and "\<forall>inp\<in>set ps. pi_kind inp = ''history'' \<longrightarrow> pi_status inp = PfComplete"
    and "\<forall>inp\<in>set ps. si_kind (pi_scope inp) = ''conversation''"
  shows "if \<exists>inp\<in>set ps. pi_kind inp = ''history'' \<and> si_key (pi_scope inp) = c
    then \<exists>r. tbl_get pf_id i (pdb_proofs db') = Some r \<and> pf_status r = PfComplete \<and>
      (\<forall>r0. tbl_get pf_id i (pdb_proofs db) = Some r0 \<longrightarrow> pf_completed_at r0 \<noteq> None \<longrightarrow> pf_completed_at r = pf_completed_at r0)
    else tbl_get pf_id i (pdb_proofs db') = tbl_get pf_id i (pdb_proofs db)"
  using assms(1-3,5,6)
proof (induction ps arbitrary: clock db)
  case (Cons inp ps)
  let ?db = "proof_recorded (clock 0) p a inp db"
  have up: "upsertSyncProof (clock 0) p a inp db = Inr ?db" "proof_inv ?db"
    using upsertSyncProof_eq [OF Cons.prems(1)] Cons.prems(2) by simp_all
  have rest: "record_proofs (\<lambda>k. clock (Suc k)) p a ps ?db = Inr db'" using Cons.prems(3) up(1) by (simp add: ebind_def)
  have kinds: "si_kind (pi_scope inp) = ''conversation''" using Cons.prems(5) by simp
  have here: "tbl_get pf_id i (pdb_proofs ?db) =
     (let old = tbl_get pf_id i (pdb_proofs db); row = proof_values (clock 0) p a inp old in
      if si_key (pi_scope inp) = c \<and> pi_kind inp = ''history''
      then Some (case old of None \<Rightarrow> row | Some x \<Rightarrow> overwrite_proof row x) else old)"
  proof (cases "si_key (pi_scope inp) = c \<and> pi_kind inp = ''history''")
    case True
    then have "i = buildSyncProofId p a (si_kind (pi_scope inp)) (si_key (pi_scope inp)) (pi_kind inp)"
      by (simp only: assms(4) kinds)
    with True show ?thesis by (simp add: recorded_proof_get Let_def)
  qed (auto simp: recorded_proof_get Let_def assms(4) kinds)
  have ih: "if \<exists>inp\<in>set ps. pi_kind inp = ''history'' \<and> si_key (pi_scope inp) = c
    then \<exists>r. tbl_get pf_id i (pdb_proofs db') = Some r \<and> pf_status r = PfComplete \<and>
      (\<forall>r0. tbl_get pf_id i (pdb_proofs ?db) = Some r0 \<longrightarrow> pf_completed_at r0 \<noteq> None \<longrightarrow> pf_completed_at r = pf_completed_at r0)
    else tbl_get pf_id i (pdb_proofs db') = tbl_get pf_id i (pdb_proofs ?db)"
    using Cons.prems(2,4,5) by (intro Cons.IH [OF up(2) _ rest]) simp_all
  have now: "\<exists>r. tbl_get pf_id i (pdb_proofs ?db) = Some r \<and> pf_status r = PfComplete \<and> pf_completed_at r \<noteq> None \<and>
      (\<forall>r0. tbl_get pf_id i (pdb_proofs db) = Some r0 \<longrightarrow> pf_completed_at r0 \<noteq> None \<longrightarrow> pf_completed_at r = pf_completed_at r0)"
    if "si_key (pi_scope inp) = c" "pi_kind inp = ''history''"
    using that Cons.prems(4)
    by (auto simp: here Let_def proof_values_def overwrite_proof_def coalesce_def split: option.split)
  show ?case
  proof (cases "si_key (pi_scope inp) = c \<and> pi_kind inp = ''history''")
    case True
    then obtain r where r: "tbl_get pf_id i (pdb_proofs ?db) = Some r" "pf_status r = PfComplete" "pf_completed_at r \<noteq> None"
      "\<forall>r0. tbl_get pf_id i (pdb_proofs db) = Some r0 \<longrightarrow> pf_completed_at r0 \<noteq> None \<longrightarrow> pf_completed_at r = pf_completed_at r0"
      using now by blast
    show ?thesis using True ih r by (auto split: if_split_asm)
  next
    case False
    then have "tbl_get pf_id i (pdb_proofs ?db) = tbl_get pf_id i (pdb_proofs db)" by (auto simp: here Let_def)
    then show ?thesis using False ih by (auto split: if_split_asm)
  qed
qed simp

subsection \<open>Properties\<close>

text \<open>
  C10: the evidence that the history of a Slack conversation was read from its start is never lost. Recording what any
  pages of a backfill report succeeds on every database the operations built and keeps its keys. The evidence for a
  conversation is changed only by a page of a full scan that began at the start, has gone through history and threads
  and met no error, and such a page leaves it complete, with the time of the first completion; pages
  of incremental syncs, unfinished pages and pages that failed leave it exactly as it was.
\<close>

theorem slack_history_evidence:
  assumes "proof_reachable db"
  shows "\<exists>db'. record_proofs clock Slack a (concat (map buildSlackBackfillSyncProofs pages)) db = Inr db' \<and> proof_inv db' \<and>
    (\<forall>c. let i = buildSyncProofId Slack a ''conversation'' c ''history'' in
      if \<exists>b\<in>set pages. bf_conversation b = c \<and> bf_mode b = ModeFull \<and> bf_from_start b = Some True \<and> bf_phase b = PhComplete \<and>
           bf_history_error b = None \<and> bf_replies_error b = None
      then \<exists>r. tbl_get pf_id i (pdb_proofs db') = Some r \<and> pf_status r = PfComplete \<and>
        (\<forall>r0. tbl_get pf_id i (pdb_proofs db) = Some r0 \<longrightarrow> pf_completed_at r0 \<noteq> None \<longrightarrow> pf_completed_at r = pf_completed_at r0)
      else tbl_get pf_id i (pdb_proofs db') = tbl_get pf_id i (pdb_proofs db))"
proof -
  let ?ps = "concat (map buildSlackBackfillSyncProofs pages)"
  note inv = proof_reachable_inv [OF assms]
  have known: "\<forall>inp\<in>set ?ps. getSyncProofKindContract Slack inp \<noteq> None" using slack_proofs_known(1) by auto
  obtain db' where db': "record_proofs clock Slack a ?ps db = Inr db'" "proof_inv db'"
    using record_proofs_total [OF known inv] by blast
  have hist: "\<forall>inp\<in>set ?ps. pi_kind inp = ''history'' \<longrightarrow> pi_status inp = PfComplete"
    "\<forall>inp\<in>set ?ps. si_kind (pi_scope inp) = ''conversation''"
    using slack_proofs_known(2,3) by auto
  have pages: "(\<exists>inp\<in>set ?ps. pi_kind inp = ''history'' \<and> si_key (pi_scope inp) = c) \<longleftrightarrow>
      (\<exists>b\<in>set pages. bf_conversation b = c \<and> bf_mode b = ModeFull \<and> bf_from_start b = Some True \<and> bf_phase b = PhComplete \<and>
           bf_history_error b = None \<and> bf_replies_error b = None)" for c
    by (simp add: history_reported history_proved_def)
  show ?thesis
    unfolding Let_def
    by (intro exI [of _ db'] conjI allI db' history_step [OF inv known db'(1) refl hist, unfolded pages])
qed

definition demo_backfill :: slack_backfill where
  "demo_backfill = \<lparr>bf_team = ''T1'', bf_mode = ModeFull, bf_started = 10, bf_known = 1, bf_conversation = ''C1'', bf_name = None,
     bf_family = ''channels'', bf_phase = PhComplete, bf_history_complete = True, bf_from_start = Some True, bf_history_cursor = None,
     bf_roots = 1, bf_completed = 1, bf_pending = 0, bf_pending_ts = None, bf_active_ts = None, bf_replies_cursor = None,
     bf_oldest = Some ''1.0'', bf_newest = Some ''2.0'', bf_observed = 20, bf_history_error = None, bf_replies_error = None,
     bf_members_error = None\<rparr>"

theorem slack_history_evidence_witness:
  "\<exists>db'. record_proofs int Slack ''me'' (concat (map buildSlackBackfillSyncProofs
       [demo_backfill, demo_backfill\<lparr>bf_mode := ModeIncremental, bf_conversation := ''C2''\<rparr>])) \<lparr>pdb_scopes = [], pdb_proofs = []\<rparr> = Inr db' \<and>
     (\<exists>r. tbl_get pf_id (buildSyncProofId Slack ''me'' ''conversation'' ''C1'' ''history'') (pdb_proofs db') = Some r \<and>
       pf_status r = PfComplete) \<and>
     tbl_get pf_id (buildSyncProofId Slack ''me'' ''conversation'' ''C2'' ''history'') (pdb_proofs db') = None"
proof -
  let ?pages = "[demo_backfill, demo_backfill\<lparr>bf_mode := ModeIncremental, bf_conversation := ''C2''\<rparr>]"
  obtain db' where db': "record_proofs int Slack ''me'' (concat (map buildSlackBackfillSyncProofs ?pages)) empty_proofs = Inr db'"
    and all: "\<forall>c. let i = buildSyncProofId Slack ''me'' ''conversation'' c ''history'' in
      if \<exists>b\<in>set ?pages. bf_conversation b = c \<and> bf_mode b = ModeFull \<and> bf_from_start b = Some True \<and> bf_phase b = PhComplete \<and>
           bf_history_error b = None \<and> bf_replies_error b = None
      then \<exists>r. tbl_get pf_id i (pdb_proofs db') = Some r \<and> pf_status r = PfComplete \<and>
        (\<forall>r0. tbl_get pf_id i (pdb_proofs empty_proofs) = Some r0 \<longrightarrow> pf_completed_at r0 \<noteq> None \<longrightarrow> pf_completed_at r = pf_completed_at r0)
      else tbl_get pf_id i (pdb_proofs db') = tbl_get pf_id i (pdb_proofs empty_proofs)"
    using slack_history_evidence [OF proof_reachable.start, of int "''me''" ?pages] by (elim exE conjE) rule
  show ?thesis
    using db' spec [OF all, of "''C1''"] spec [OF all, of "''C2''"] by (auto simp: demo_backfill_def Let_def tbl_get_def)
qed

end
