(* ===== verification/Invocation.thy ===== *)
theory Invocation
  imports SyncProofs RawSchemas
begin

text \<open>
  How the daemon hands its progress to the adapter of a platform and the adapter reads it back
  (\<^verbatim>\<open>src/platforms/core/invocation.ts\<close>): the cursor of the checkpoint and the proofs the adapter resumes from, as variables of the
  environment. The texts in the environment are JSON; the model keeps the values they are parsed to.
\<close>

definition proof_status_name :: "proof_status \<Rightarrow> string" where
  "proof_status_name s =
     (case s of PfPending \<Rightarrow> ''pending'' | PfRunning \<Rightarrow> ''running'' | PfComplete \<Rightarrow> ''complete'' | PfPartial \<Rightarrow> ''partial''
      | PfBlocked \<Rightarrow> ''blocked'' | PfFailed \<Rightarrow> ''failed'' | PfStale \<Rightarrow> ''stale'')"

definition serializeInvocationProof :: "scope_row \<times> proof_row \<Rightarrow> json" where
  "serializeInvocationProof row =
     (case row of (scope, proof) \<Rightarrow>
        JObj [(''scopeKind'', JStr (sc_kind scope)), (''scopeKey'', JStr (sc_key scope)), (''proofKind'', JStr (pf_kind proof)),
              (''status'', JStr (proof_status_name (pf_status proof))),
              (''resumeCursor'', json_or_null (safeParseJsonRecord (pf_resume_cursor proof))),
              (''coverage'', json_or_null (safeParseJsonRecord (pf_coverage proof))),
              (''stats'', json_or_null (safeParseJsonRecord (pf_stats proof))),
              (''lastObservedAt'', JNum (Fin (of_int (pf_last_observed proof))))])"

fun getStringPath :: "json option \<Rightarrow> string list \<Rightarrow> string option" where
  "getStringPath value [] = (case jstr value of Some s \<Rightarrow> if s = [] then None else Some s | None \<Rightarrow> None)"
| "getStringPath value (segment # path) =
     (case value of Some j \<Rightarrow> if is_js_object j then getStringPath (jget j segment) path else None | None \<Rightarrow> None)"

definition strip_urn :: "string \<Rightarrow> string \<Rightarrow> string" where
  "strip_urn part value = (if starts_with part value then ''urn:li:fs_conversation:'' @ drop (length part) value else value)"

definition normalizeLinkedInConversationScopeKey :: "string option \<Rightarrow> string option" where
  "normalizeLinkedInConversationScopeKey value =
     map_option (strip_urn ''urn:li:messagingThread:'' \<circ> strip_urn ''urn:li:msg_conversation:'' \<circ> strip_urn ''urn:li:fsd_conversation:'') value"

definition selectAdapterInvocationProofs ::
  "platform \<Rightarrow> (scope_row \<times> proof_row) list \<Rightarrow> json option \<Rightarrow> (scope_row \<times> proof_row) list" where
  "selectAdapterInvocationProofs platform proofs sourceCursor =
     (case platform of
        Slack \<Rightarrow>
          (case getStringPath sourceCursor [''scan'', ''activeConversationId''] of
             None \<Rightarrow> []
           | Some active \<Rightarrow> filter (\<lambda>(s, p). sc_kind s = ''conversation'' \<and> sc_key s = active \<and>
               (pf_kind p = ''messages'' \<or> pf_kind p = ''replies'')) proofs)
      | LinkedIn \<Rightarrow>
          (let active = normalizeLinkedInConversationScopeKey (getStringPath sourceCursor [''scan'', ''activeConversation'', ''entityURN'']) in
           filter (\<lambda>(s, p). (sc_kind s = ''account'' \<and> pf_kind p = ''discovery'' \<and> pf_status p = PfRunning) \<or>
             (sc_kind s = ''conversation'' \<and> pf_kind p = ''messages'' \<and> Some (sc_key s) = active)) proofs)
      | Discord \<Rightarrow> filter (\<lambda>(s, p). pf_kind p = ''latest_messages'' \<or> pf_kind p = ''messages'') proofs
      | _ \<Rightarrow> filter (\<lambda>(s, p). pf_status p = PfRunning) proofs)"

subsection \<open>The environment\<close>

definition env_prefix :: "platform \<Rightarrow> string" where
  "env_prefix p = ''CUED_'' @ map (\<lambda>c. if CHR ''a'' \<le> c \<and> c \<le> CHR ''z'' then char_of (of_char c - 32 :: nat) else c) (platform_name p) @ ''_''"

definition number_setting :: "json option \<Rightarrow> string \<Rightarrow> string \<Rightarrow> (string \<times> json) list" where
  "number_setting cursor field name =
     (case jnum (Option.bind cursor (\<lambda>c. jget c field)) of Some n \<Rightarrow> [(name, JNum n)] | None \<Rightarrow> [])"

definition buildAdapterInvocationEnv ::
  "platform \<Rightarrow> json option \<Rightarrow> (scope_row \<times> proof_row) list \<Rightarrow> (string \<times> json) list" where
  "buildAdapterInvocationEnv platform checkpointCursor proofs =
     (let sourceCursor = safeParseJsonRecord checkpointCursor in
      (case checkpointCursor of
         None \<Rightarrow> [] | Some c \<Rightarrow> [(''CUED_SYNC_SOURCE_CURSOR'', c), (env_prefix platform @ ''SOURCE_CURSOR'', c)]) @
      (if proofs = [] then []
       else (''CUED_SYNC_PROOFS'', JArr (map serializeInvocationProof proofs)) #
         (if platform = Discord then [(''CUED_DISCORD_SYNC_PROOFS'', JArr (map serializeInvocationProof proofs))] else [])) @
      (if platform = IMessage then number_setting sourceCursor ''rowId'' ''CUED_IMESSAGE_LAST_ROWID'' else []) @
      (if platform = Slack then number_setting sourceCursor ''lastSyncAt'' ''CUED_SLACK_LAST_SYNC_AT'' else []) @
      (if platform = LinkedIn
       then number_setting sourceCursor ''lastSyncAt'' ''CUED_LINKEDIN_LAST_SYNC_AT'' @
         (case getStringPath sourceCursor [''syncToken''] of Some t \<Rightarrow> [(''CUED_LINKEDIN_SYNC_TOKEN'', JStr t)] | None \<Rightarrow> [])
       else []) @
      (if platform = Signal then number_setting sourceCursor ''lastSyncAt'' ''CUED_SIGNAL_LAST_SYNC_AT'' else []))"

text \<open>The cursor and the proofs the adapter starts from.\<close>

definition readAdapterInvocationEnv :: "platform \<Rightarrow> (string \<times> json) list \<Rightarrow> json option \<times> json option" where
  "readAdapterInvocationEnv platform env =
     (coalesce (map_of env (env_prefix platform @ ''SOURCE_CURSOR'')) (map_of env ''CUED_SYNC_SOURCE_CURSOR''),
      coalesce (map_of env (env_prefix platform @ ''SYNC_PROOFS'')) (map_of env ''CUED_SYNC_PROOFS''))"

text \<open>What the daemon hands over from its database.\<close>

definition invocation_env :: "platform \<Rightarrow> string \<Rightarrow> json option \<Rightarrow> proof_db \<Rightarrow> (string \<times> json) list" where
  "invocation_env platform accountKey checkpointCursor db =
     buildAdapterInvocationEnv platform checkpointCursor
       (selectAdapterInvocationProofs platform (listSyncProofs platform accountKey db) (safeParseJsonRecord checkpointCursor))"

text \<open>The adapter gets the cursor of the checkpoint and the selected proofs, whatever the platform.\<close>

lemma invocation_roundtrip:
  "readAdapterInvocationEnv platform (buildAdapterInvocationEnv platform cursor proofs) =
     (cursor, if proofs = [] then None else Some (JArr (map serializeInvocationProof proofs)))"
  by (cases platform; cases cursor)
    (simp_all add: readAdapterInvocationEnv_def buildAdapterInvocationEnv_def number_setting_def env_prefix_def Let_def
      split: option.split)

end
