(* ===== verification/SlackBackfill.thy ===== *)
theory SlackBackfill
  imports SlackEvents SlackProofs Invocation
begin

text \<open>
  How the Slack adapter reads a conversation (\<^verbatim>\<open>src/platforms/slack/sync/bundle.ts\<close>): page by page within a budget of requests,
  the history first and then every thread, with its progress kept in the proofs of the conversation. The client is a
  parameter: what the service answers to a request for a page.
\<close>

subsection \<open>The client\<close>

record sl_failure =
  fl_message :: string
  fl_code :: "string option"
  fl_kind :: "string option"
  fl_retryable :: bool

record sl_page =
  pg_messages :: "sl_message list"
  pg_next :: "string option"

type_synonym sl_fetch = "string option \<Rightarrow> sl_failure + sl_page"

text \<open>
  The order of texts and, where a timestamp is not a number, of messages is that of the language's collation; \<open>so_key\<close> is
  the collation key of a text, \<open>so_messages\<close> what sorting makes of messages with such a timestamp among them.
\<close>

record sl_order =
  so_key :: "string \<Rightarrow> nat list"
  so_messages :: "sl_message list \<Rightarrow> sl_message list"

definition slackAccessProofError :: "sl_failure \<Rightarrow> slack_error option" where
  "slackAccessProofError failure =
     (let code = get_or (fl_code failure) (fl_message failure) in
      if fl_retryable failure \<or> code \<notin> set [''missing_scope'', ''not_in_channel'', ''channel_not_found'', ''is_archived''] then None
      else Some \<lparr>ser_code = code, ser_message = fl_message failure, ser_retryable = False,
                ser_kind = Some (get_or (fl_kind failure) ''slack_api'')\<rparr>)"

definition shouldIncludeMessage :: "sl_message \<Rightarrow> bool" where
  "shouldIncludeMessage m \<longleftrightarrow> sl_subtype m \<noteq> Some ''channel_join'' \<and> sl_subtype m \<noteq> Some ''channel_leave'' \<and>
     (sl_text m \<noteq> [] \<or> sl_files m \<noteq> [] \<or> sl_attachments m \<noteq> [])"

definition sortSlackMessages :: "sl_order \<Rightarrow> sl_message list \<Rightarrow> sl_message list" where
  "sortSlackMessages order messages =
     (if list_all (\<lambda>m. finite_number (sl_ts m) \<noteq> None) messages
      then sort_key (\<lambda>m. the (finite_number (sl_ts m))) messages else so_messages order messages)"

definition thread_root :: "sl_message \<Rightarrow> bool" where
  "thread_root m \<longleftrightarrow> (case sl_reply_count m of Some n \<Rightarrow> 0 < n | None \<Rightarrow> False)"

subsection \<open>A batch of pages\<close>

record resume_state =
  rs_history_cursor :: "string option"
  rs_history_complete :: bool
  rs_roots :: rat
  rs_completed :: rat
  rs_pending :: "string list"
  rs_active :: "string option"
  rs_replies_cursor :: "string option"

record batch_state =
  bs_messages :: "sl_message list"
  bs_resume :: resume_state
  bs_history_error :: "slack_error option"
  bs_replies_error :: "slack_error option"

text \<open>A message is taken once in a batch.\<close>

definition add_message :: "sl_message \<Rightarrow> batch_state \<Rightarrow> batch_state" where
  "add_message m s =
     (if \<not> shouldIncludeMessage m \<or> sl_ts m \<in> sl_ts ` set (bs_messages s) then s
      else s\<lparr>bs_messages := bs_messages s @ [m]\<rparr>)"

definition resume_history :: "sl_page \<Rightarrow> resume_state \<Rightarrow> resume_state" where
  "resume_history page r =
     (let roots = map sl_ts (filter thread_root (pg_messages page)) in
      r\<lparr>rs_pending := rs_pending r @ roots, rs_roots := rs_roots r + of_nat (length roots), rs_history_cursor := pg_next page,
        rs_history_complete := (rs_history_complete r \<or> \<not> truthy_text (pg_next page))\<rparr>)"

definition take_history :: "sl_page \<Rightarrow> batch_state \<Rightarrow> batch_state" where
  "take_history page s = fold add_message (pg_messages page) (s\<lparr>bs_resume := resume_history page (bs_resume s)\<rparr>)"

definition next_thread :: "resume_state \<Rightarrow> resume_state" where
  "next_thread r =
     (case rs_pending r of
        ts # rest \<Rightarrow>
          if truthy_text (rs_active r) then r
          else r\<lparr>rs_active := Some ts, rs_pending := rest, rs_replies_cursor := None\<rparr>
      | [] \<Rightarrow> r)"

definition resume_replies :: "sl_page \<Rightarrow> resume_state \<Rightarrow> resume_state" where
  "resume_replies page r =
     (if truthy_text (pg_next page) then r\<lparr>rs_replies_cursor := pg_next page\<rparr>
      else r\<lparr>rs_replies_cursor := pg_next page, rs_completed := rs_completed r + 1, rs_active := None\<rparr>)"

definition take_replies :: "string \<Rightarrow> sl_page \<Rightarrow> batch_state \<Rightarrow> batch_state" where
  "take_replies ts page s =
     fold add_message (filter (\<lambda>m. sl_ts m \<noteq> ts) (pg_messages page)) (s\<lparr>bs_resume := resume_replies page (bs_resume s)\<rparr>)"

fun batch_loop :: "sl_fetch \<Rightarrow> (string \<Rightarrow> sl_fetch) \<Rightarrow> nat \<Rightarrow> batch_state \<Rightarrow> sl_failure + batch_state" where
  "batch_loop history replies 0 s = Inr s"
| "batch_loop history replies (Suc n) s =
     (if \<not> rs_history_complete (bs_resume s)
      then (case history (rs_history_cursor (bs_resume s)) of
              Inl failure \<Rightarrow>
                (case slackAccessProofError failure of
                   None \<Rightarrow> Inl failure | Some e \<Rightarrow> Inr (s\<lparr>bs_history_error := Some e\<rparr>))
            | Inr page \<Rightarrow> batch_loop history replies n (take_history page s))
      else let s1 = s\<lparr>bs_resume := next_thread (bs_resume s)\<rparr>; active = rs_active (bs_resume s1) in
           if truthy_text active
           then (case replies (the active) (rs_replies_cursor (bs_resume s1)) of
                   Inl failure \<Rightarrow>
                     (case slackAccessProofError failure of
                        None \<Rightarrow> Inl failure | Some e \<Rightarrow> Inr (s1\<lparr>bs_replies_error := Some e\<rparr>))
                 | Inr page \<Rightarrow> batch_loop history replies n (take_replies (the active) page s1))
           else Inr s1)"

record batch_result =
  br_messages :: "sl_message list"
  br_complete :: bool
  br_phase :: slack_phase
  br_resume :: resume_state
  br_history_error :: "slack_error option"
  br_replies_error :: "slack_error option"

definition start_batch :: "resume_state option \<Rightarrow> batch_state" where
  "start_batch resume =
     (let r = get_or resume \<lparr>rs_history_cursor = None, rs_history_complete = False, rs_roots = 0, rs_completed = 0, rs_pending = [],
            rs_active = None, rs_replies_cursor = None\<rparr>
      in \<lparr>bs_messages = [],
          bs_resume = r\<lparr>rs_roots := max (rs_roots r) (of_nat (length (rs_pending r)) + (if truthy_text (rs_active r) then 1 else 0)),
                       rs_completed := max (rs_completed r) 0\<rparr>,
          bs_history_error = None, bs_replies_error = None\<rparr>)"

definition batch_phase :: "resume_state \<Rightarrow> slack_phase" where
  "batch_phase r =
     (if \<not> rs_history_complete r then PhHistory
      else if truthy_text (rs_active r) \<or> rs_pending r \<noteq> [] then PhThreads else PhComplete)"

definition finish_batch :: "sl_order \<Rightarrow> batch_state \<Rightarrow> batch_result" where
  "finish_batch order s =
     (let r = bs_resume s in
      \<lparr>br_messages = sortSlackMessages order (bs_messages s),
       br_complete = (bs_history_error s \<noteq> None \<or> bs_replies_error s \<noteq> None \<or>
         (rs_history_complete r \<and> \<not> truthy_text (rs_active r) \<and> rs_pending r = [])),
       br_phase = batch_phase r,
       br_resume = (if truthy_text (rs_active r) then r else r\<lparr>rs_replies_cursor := None\<rparr>),
       br_history_error = bs_history_error s, br_replies_error = bs_replies_error s\<rparr>)"

definition listConversationMessagesBatch ::
  "sl_order \<Rightarrow> sl_fetch \<Rightarrow> (string \<Rightarrow> sl_fetch) \<Rightarrow> nat \<Rightarrow> resume_state option \<Rightarrow> sl_failure + batch_result" where
  "listConversationMessagesBatch order history replies apiPageBudget resume =
     ebind (batch_loop history replies apiPageBudget (start_batch resume)) (\<lambda>s. Inr (finish_batch order s))"

subsection \<open>Progress kept in proofs\<close>

definition parseStringArray :: "json option \<Rightarrow> string list" where
  "parseStringArray value =
     (case value of Some (JArr js) \<Rightarrow> List.map_filter (\<lambda>j. jstr (Some j)) js | _ \<Rightarrow> [])"

record proof_snapshot =
  ps_key :: string
  ps_kind :: string
  ps_status :: string
  ps_resume :: "json option"
  ps_coverage :: "json option"
  ps_stats :: "json option"

definition object_field :: "json \<Rightarrow> string \<Rightarrow> json option" where
  "object_field j k = (case jget j k of Some v \<Rightarrow> if is_js_object v then Some v else None | None \<Rightarrow> None)"

definition parse_snapshot :: "json \<Rightarrow> proof_snapshot option" where
  "parse_snapshot entry =
     (let scoped = (\<lambda>k. Option.bind (object_field entry ''scope'') (\<lambda>scope. jget scope k));
          text = (\<lambda>k fallback. if jstr (jget entry k) \<noteq> None then jget entry k else scoped fallback);
          kind = text ''scopeKind'' ''kind''; key = jstr (text ''scopeKey'' ''key''); proofKind = jstr (jget entry ''proofKind'')
      in if \<not> is_js_object entry \<or> kind \<noteq> Some (JStr ''conversation'') \<or> key = None \<or> proofKind = None then None
         else Some \<lparr>ps_key = the key, ps_kind = the proofKind, ps_status = get_or (jstr (jget entry ''status'')) [],
           ps_resume = object_field entry ''resumeCursor'', ps_coverage = object_field entry ''coverage'', ps_stats = object_field entry ''stats''\<rparr>)"

definition parseSlackSyncProofState :: "json option \<Rightarrow> proof_snapshot list" where
  "parseSlackSyncProofState raw = (case raw of Some (JArr js) \<Rightarrow> List.map_filter parse_snapshot js | _ \<Rightarrow> [])"

text \<open>Of two snapshots of a conversation and kind the map holds the last.\<close>

definition snapshot_of :: "proof_snapshot list \<Rightarrow> string \<Rightarrow> string \<Rightarrow> proof_snapshot option" where
  "snapshot_of state conversationId kind = find (\<lambda>p. ps_key p = conversationId \<and> ps_kind p = kind) (rev state)"

definition progress_number :: "json option \<Rightarrow> string \<Rightarrow> rat option" where
  "progress_number j k = (case jnum (Option.bind j (\<lambda>v. jget v k)) of Some (Fin x) \<Rightarrow> Some x | _ \<Rightarrow> None)"

definition json_at :: "json option \<Rightarrow> string \<Rightarrow> json option" where
  "json_at j k = Option.bind j (\<lambda>v. jget v k)"

definition phase_past :: "json option \<Rightarrow> bool" where
  "phase_past cursor \<longleftrightarrow> json_at cursor ''conversationPhase'' \<in> {Some (JStr ''threads''), Some (JStr ''complete'')}"

definition nullish :: "json option \<Rightarrow> json option \<Rightarrow> json option" where
  "nullish a b = (if a = None \<or> a = Some JNull then b else a)"

definition slackResumeStateFromProofs :: "proof_snapshot list \<Rightarrow> string \<Rightarrow> resume_state option" where
  "slackResumeStateFromProofs state conversationId =
     (let messages = Option.bind (snapshot_of state conversationId ''messages'') ps_resume;
          repliesProof = snapshot_of state conversationId ''replies'';
          replies = Option.bind repliesProof ps_resume
      in if messages = None \<and> replies = None then None
         else Some \<lparr>rs_history_cursor = jstr (json_at messages ''historyCursor''),
           rs_history_complete = (phase_past messages \<or> phase_past replies),
           rs_roots = get_or (coalesce (progress_number (Option.bind repliesProof ps_stats) ''threadRootCount'')
             (progress_number messages ''threadRootCount'')) 0,
           rs_completed = get_or (progress_number (Option.bind repliesProof ps_coverage) ''completedThreadCount'') 0,
           rs_pending = parseStringArray (nullish (json_at replies ''pendingThreadTs'') (json_at messages ''pendingThreadTs'')),
           rs_active = jstr (json_at replies ''activeThreadTs''),
           rs_replies_cursor = jstr (json_at replies ''repliesCursor'')\<rparr>)"

subsection \<open>The proofs of a conversation\<close>

definition summarizeMessageRange :: "sl_order \<Rightarrow> sl_message list \<Rightarrow> string option \<times> string option" where
  "summarizeMessageRange order messages =
     (if messages = [] then (None, None)
      else let sorted = sortSlackMessages order messages in (Some (sl_ts (hd sorted)), Some (sl_ts (List.last sorted))))"

datatype slack_family = DirectFamily | ChannelFamily

fun family_name :: "slack_family \<Rightarrow> string" where
  "family_name DirectFamily = ''direct''"
| "family_name ChannelFamily = ''channels''"

definition isDirectConversation :: "sl_conversation \<Rightarrow> bool" where
  "isDirectConversation c \<longleftrightarrow> sl_im c \<or> sl_mpim c"

definition DEFAULT_SLACK_CHANNEL_HISTORY_DAYS :: int where
  "DEFAULT_SLACK_CHANNEL_HISTORY_DAYS = 0"

definition getConversationHistoryOldestMs :: "sync_mode \<Rightarrow> int \<Rightarrow> sl_conversation \<Rightarrow> int \<Rightarrow> int" where
  "getConversationHistoryOldestMs mode oldestMs c observedAt =
     (if mode = ModeIncremental \<or> isDirectConversation c \<or> DEFAULT_SLACK_CHANNEL_HISTORY_DAYS \<le> 0 then oldestMs
      else max oldestMs (observedAt - DEFAULT_SLACK_CHANNEL_HISTORY_DAYS * 24 * 60 * 60 * 1000))"

definition buildSlackBackfillConversationProof ::
  "sl_order \<Rightarrow> string \<Rightarrow> sl_conversation \<Rightarrow> slack_family \<Rightarrow> sync_mode \<Rightarrow> int \<Rightarrow> int \<Rightarrow> nat \<Rightarrow> int \<Rightarrow> slack_error option \<Rightarrow>
   batch_result \<Rightarrow> slack_backfill" where
  "buildSlackBackfillConversationProof order teamId c family mode startedAt oldestMs known observedAt membersError result =
     (let r = br_resume result; range_ts = summarizeMessageRange order (br_messages result) in
      \<lparr>bf_team = teamId, bf_mode = mode, bf_started = startedAt, bf_known = known, bf_conversation = sl_id c, bf_name = sl_name c,
       bf_family = family_name family, bf_phase = br_phase result, bf_history_complete = rs_history_complete r,
       bf_from_start = Some (getConversationHistoryOldestMs mode oldestMs c observedAt = 0),
       bf_history_cursor = rs_history_cursor r, bf_roots = rs_roots r, bf_completed = rs_completed r,
       bf_pending = of_nat (length (rs_pending r)) + (if truthy_text (rs_active r) then 1 else 0),
       bf_pending_ts = Some (rs_pending r), bf_active_ts = rs_active r, bf_replies_cursor = rs_replies_cursor r,
       bf_oldest = fst range_ts, bf_newest = snd range_ts, bf_observed = observedAt, bf_history_error = br_history_error result,
       bf_replies_error = br_replies_error result, bf_members_error = membersError\<rparr>)"

definition buildCompleteSlackBackfillConversationProof ::
  "sl_order \<Rightarrow> string \<Rightarrow> sl_conversation \<Rightarrow> slack_family \<Rightarrow> sync_mode \<Rightarrow> int \<Rightarrow> nat \<Rightarrow> int \<Rightarrow> sl_message list \<Rightarrow>
   slack_error option \<Rightarrow> slack_error option \<Rightarrow> nat \<Rightarrow> nat \<Rightarrow> slack_error option \<Rightarrow> slack_backfill" where
  "buildCompleteSlackBackfillConversationProof order teamId c family mode startedAt known observedAt messages historyError repliesError
     roots completed membersError =
     (let range_ts = summarizeMessageRange order messages in
      \<lparr>bf_team = teamId, bf_mode = mode, bf_started = startedAt, bf_known = known, bf_conversation = sl_id c, bf_name = sl_name c,
       bf_family = family_name family, bf_phase = PhComplete, bf_history_complete = True, bf_from_start = None,
       bf_history_cursor = None, bf_roots = of_nat roots, bf_completed = of_nat completed, bf_pending = of_nat (roots - completed),
       bf_pending_ts = None, bf_active_ts = None, bf_replies_cursor = None, bf_oldest = fst range_ts, bf_newest = snd range_ts,
       bf_observed = observedAt, bf_history_error = historyError, bf_replies_error = repliesError, bf_members_error = membersError\<rparr>)"

text \<open>What the adapter of the next run is handed of its progress.\<close>

definition stored_resume :: "string \<Rightarrow> json option \<Rightarrow> proof_db \<Rightarrow> string \<Rightarrow> resume_state option" where
  "stored_resume accountKey checkpointCursor db conversationId =
     slackResumeStateFromProofs
       (parseSlackSyncProofState (snd (readAdapterInvocationEnv Slack (invocation_env Slack accountKey checkpointCursor db))))
       conversationId"

text \<open>
  The runs of a backfill of one conversation, each with its budget of requests and its time: a batch, its proofs recorded,
  and, while there is more, the next run with what the database kept. The result says whether the last batch was complete.
\<close>

fun stored_backfill ::
  "sl_order \<Rightarrow> string \<Rightarrow> string \<Rightarrow> sl_conversation \<Rightarrow> slack_family \<Rightarrow> sync_mode \<Rightarrow> int \<Rightarrow> int \<Rightarrow> nat \<Rightarrow> json option \<Rightarrow>
   sl_fetch \<Rightarrow> (string \<Rightarrow> sl_fetch) \<Rightarrow> (nat \<times> int) list \<Rightarrow> resume_state option \<Rightarrow> proof_db \<Rightarrow>
   (sl_failure + proof_error) + sl_message list \<times> bool \<times> proof_db" where
  "stored_backfill order teamId accountKey c family mode startedAt oldestMs known cursor history replies [] resume db = Inr ([], False, db)"
| "stored_backfill order teamId accountKey c family mode startedAt oldestMs known cursor history replies ((budget, observedAt) # runs)
     resume db =
     (case listConversationMessagesBatch order history replies budget resume of
        Inl failure \<Rightarrow> Inl (Inl failure)
      | Inr result \<Rightarrow>
          (case record_proofs (\<lambda>_. observedAt) Slack accountKey (buildSlackBackfillSyncProofs
                  (buildSlackBackfillConversationProof order teamId c family mode startedAt oldestMs known observedAt None result)) db of
             Inl e \<Rightarrow> Inl (Inr e)
           | Inr db' \<Rightarrow>
               if br_complete result then Inr (br_messages result, True, db')
               else ebind (stored_backfill order teamId accountKey c family mode startedAt oldestMs known cursor history replies runs
                      (stored_resume accountKey cursor db' (sl_id c)) db')
                    (\<lambda>(messages, complete, db''). Inr (br_messages result @ messages, complete, db''))))"

end
