(* ===== verification/SlackBackfillProofs.thy ===== *)
theory SlackBackfillProofs
  imports SlackBackfill
begin

text \<open>
  A backfill of a Slack conversation that is cut into batches misses nothing: the pages that are left after a batch, what its
  proofs keep of them in the database, and what the next batch reads back.
\<close>

subsection \<open>The pages that are left\<close>

inductive page_chain :: "sl_fetch \<Rightarrow> string option \<Rightarrow> sl_message list list \<Rightarrow> bool" for fetch where
  last_page: "fetch c = Inr page \<Longrightarrow> \<not> truthy_text (pg_next page) \<Longrightarrow> page_chain fetch c [pg_messages page]"
| next_page: "fetch c = Inr page \<Longrightarrow> truthy_text (pg_next page) \<Longrightarrow> page_chain fetch (pg_next page) pages \<Longrightarrow>
    page_chain fetch c (pg_messages page # pages)"

definition read_all :: "resume_state \<Rightarrow> bool" where
  "read_all r \<longleftrightarrow> rs_history_complete r \<and> \<not> truthy_text (rs_active r) \<and> rs_pending r = []"

inductive work :: "sl_fetch \<Rightarrow> (string \<Rightarrow> sl_fetch) \<Rightarrow> resume_state \<Rightarrow> sl_message list list \<Rightarrow> bool" for history replies where
  work_done: "read_all r \<Longrightarrow> work history replies r []"
| work_history: "\<not> rs_history_complete r \<Longrightarrow> history (rs_history_cursor r) = Inr page \<Longrightarrow>
    work history replies (resume_history page r) items \<Longrightarrow> work history replies r (pg_messages page # items)"
| work_replies: "rs_history_complete r \<Longrightarrow> rs_active (next_thread r) = Some ts \<Longrightarrow> ts \<noteq> [] \<Longrightarrow>
    replies ts (rs_replies_cursor (next_thread r)) = Inr page \<Longrightarrow>
    work history replies (resume_replies page (next_thread r)) items \<Longrightarrow>
    work history replies r (filter (\<lambda>m. sl_ts m \<noteq> ts) (pg_messages page) # items)"

lemma truthy_iff: "truthy_text t \<longleftrightarrow> (\<exists>c cs. t = Some (c # cs))"
  by (cases t) (auto simp: truthy_text_def neq_Nil_conv)

lemma work_left: "work h rp r items \<Longrightarrow> items = [] \<longleftrightarrow> read_all r"
  by (induction rule: work.induct)
    (auto simp: read_all_def next_thread_def truthy_iff neq_Nil_conv split: list.splits if_splits)

text \<open>What the requests to come depend on.\<close>

definition same_work :: "resume_state \<Rightarrow> resume_state \<Rightarrow> bool" where
  "same_work r r' \<longleftrightarrow> rs_history_complete r' = rs_history_complete r \<and> rs_pending r' = rs_pending r \<and> rs_active r' = rs_active r \<and>
     (\<not> rs_history_complete r \<longrightarrow> rs_history_cursor r' = rs_history_cursor r) \<and>
     (truthy_text (rs_active r) \<longrightarrow> rs_replies_cursor r' = rs_replies_cursor r)"

lemma same_work_steps:
  "same_work r r' \<Longrightarrow> same_work (resume_history page r) (resume_history page r')"
  "same_work r r' \<Longrightarrow> same_work (next_thread r) (next_thread r')"
  "same_work r r' \<Longrightarrow> same_work (resume_replies page r) (resume_replies page r')"
  by (auto simp: same_work_def resume_history_def next_thread_def resume_replies_def Let_def truthy_iff split: list.splits)

lemma work_same: "work h rp r items \<Longrightarrow> same_work r r' \<Longrightarrow> work h rp r' items"
proof (induction arbitrary: r' rule: work.induct)
  case (work_done r)
  then show ?case by (intro work.work_done) (simp add: same_work_def read_all_def)
next
  case (work_history r page items)
  from work_history.IH [OF same_work_steps(1) [OF work_history.prems]] show ?case
    using work_history.hyps work_history.prems by (intro work.work_history) (auto simp: same_work_def)
next
  case (work_replies r ts page items)
  note same = same_work_steps(2) [OF work_replies.prems]
  have "truthy_text (rs_active (next_thread r))" using work_replies.hyps by (auto simp: truthy_iff neq_Nil_conv)
  then have "rs_replies_cursor (next_thread r') = rs_replies_cursor (next_thread r)" "rs_active (next_thread r') = Some ts"
    using same work_replies.hyps by (simp_all add: same_work_def)
  then show ?case using work_replies same_work_steps(3) [OF same]
    by (intro work.work_replies) (auto simp: same_work_def)
qed

subsection \<open>One batch\<close>

definition included_ts :: "sl_message list \<Rightarrow> string set" where
  "included_ts ms = sl_ts ` {m \<in> set ms. shouldIncludeMessage m}"

lemma included_append [simp]: "included_ts (xs @ ys) = included_ts xs \<union> included_ts ys" "included_ts [] = {}"
  by (auto simp: included_ts_def)

text \<open>A state that has taken these messages as well.\<close>

definition takes :: "sl_message list \<Rightarrow> batch_state \<Rightarrow> batch_state \<Rightarrow> bool" where
  "takes ms s s' \<longleftrightarrow> bs_history_error s' = bs_history_error s \<and> bs_replies_error s' = bs_replies_error s \<and>
     sl_ts ` set (bs_messages s') = sl_ts ` set (bs_messages s) \<union> included_ts ms \<and>
     set (bs_messages s') \<subseteq> set (bs_messages s) \<union> {m \<in> set ms. shouldIncludeMessage m}"

lemma takes_trans: "takes ms s s' \<Longrightarrow> takes ms' s' s'' \<Longrightarrow> takes (ms @ ms') s s''"
  unfolding takes_def by auto

lemma takes_refl: "bs_messages s' = bs_messages s \<Longrightarrow> bs_history_error s' = bs_history_error s \<Longrightarrow>
    bs_replies_error s' = bs_replies_error s \<Longrightarrow> takes [] s s'"
  by (simp add: takes_def)

lemma add_message_takes: "takes [m] s (add_message m s)" "bs_resume (add_message m s) = bs_resume s"
  by (auto simp: takes_def add_message_def included_ts_def)

lemma add_messages_take: "takes ms s (fold add_message ms s) \<and> bs_resume (fold add_message ms s) = bs_resume s"
proof (induction ms arbitrary: s)
  case (Cons m ms)
  show ?case using takes_trans [OF add_message_takes(1) conjunct1 [OF Cons.IH]] Cons.IH [of "add_message m s"]
    by (simp add: add_message_takes)
qed (simp add: takes_refl)

lemma takes_resume [simp]: "takes ms (s\<lparr>bs_resume := r\<rparr>) s' = takes ms s s'"
  by (simp add: takes_def)

lemma page_takes:
  "takes (pg_messages page) s (take_history page s)" "bs_resume (take_history page s) = resume_history page (bs_resume s)"
  "takes (filter (\<lambda>m. sl_ts m \<noteq> ts) (pg_messages page)) s (take_replies ts page s)"
  "bs_resume (take_replies ts page s) = resume_replies page (bs_resume s)"
  using add_messages_take [of "pg_messages page" "s\<lparr>bs_resume := resume_history page (bs_resume s)\<rparr>"]
    add_messages_take [of "filter (\<lambda>m. sl_ts m \<noteq> ts) (pg_messages page)" "s\<lparr>bs_resume := resume_replies page (bs_resume s)\<rparr>"]
  by (simp_all add: take_history_def take_replies_def)

text \<open>A batch takes as many of the pages that are left as its budget allows.\<close>

lemma batch_takes:
  "work h rp r items \<Longrightarrow> bs_resume s = r \<Longrightarrow>
   \<exists>s'. batch_loop h rp n s = Inr s' \<and> takes (concat (take n items)) s s' \<and> work h rp (bs_resume s') (drop n items)"
proof (induction arbitrary: s n rule: work.induct)
  case (work_done r)
  have "next_thread r = r" using work_done by (simp add: next_thread_def read_all_def)
  then show ?case using work_done by (cases n) (auto simp: read_all_def intro: work.work_done takes_refl)
next
  case (work_history r page items)
  show ?case
  proof (cases n)
    case 0
    then show ?thesis using work_history by (auto intro: work.work_history takes_refl)
  next
    case (Suc n')
    have "bs_resume (take_history page s) = resume_history page r" using work_history.prems by (simp add: page_takes)
    from work_history.IH [OF this, of n'] obtain s' where s': "batch_loop h rp n' (take_history page s) = Inr s'"
      "takes (concat (take n' items)) (take_history page s) s'" "work h rp (bs_resume s') (drop n' items)" by blast
    show ?thesis
      using s' takes_trans [OF page_takes(1) s'(2)] work_history.hyps work_history.prems Suc by auto
  qed
next
  case (work_replies r ts page items)
  let ?s = "s\<lparr>bs_resume := next_thread (bs_resume s)\<rparr>"
  have t: "truthy_text (Some ts)" using work_replies.hyps by (auto simp: truthy_iff neq_Nil_conv)
  show ?case
  proof (cases n)
    case 0
    then show ?thesis using work_replies by (auto intro: work.work_replies takes_refl)
  next
    case (Suc n')
    have "bs_resume (take_replies ts page ?s) = resume_replies page (next_thread r)" using work_replies.prems by (simp add: page_takes)
    from work_replies.IH [OF this, of n'] obtain s' where s': "batch_loop h rp n' (take_replies ts page ?s) = Inr s'"
      "takes (concat (take n' items)) (take_replies ts page ?s) s'" "work h rp (bs_resume s') (drop n' items)" by blast
    show ?thesis
      using s' takes_trans [OF page_takes(3) s'(2)] work_replies.hyps work_replies.prems Suc t by auto
  qed
qed

subsection \<open>All the pages of a conversation\<close>

definition reply_pages :: "(string \<Rightarrow> sl_message list list) \<Rightarrow> string \<Rightarrow> sl_message list list" where
  "reply_pages rps ts = map (filter (\<lambda>m. sl_ts m \<noteq> ts)) (rps ts)"

definition root_ts :: "sl_message list list \<Rightarrow> string list" where
  "root_ts pages = map sl_ts (filter thread_root (concat pages))"

definition threads_known :: "(string \<Rightarrow> sl_fetch) \<Rightarrow> (string \<Rightarrow> sl_message list list) \<Rightarrow> string list \<Rightarrow> bool" where
  "threads_known rp rps tss \<longleftrightarrow> (\<forall>ts\<in>set tss. ts \<noteq> [] \<and> page_chain (rp ts) None (rps ts))"

lemma replies_work:
  assumes "page_chain (rp ts) c ps" "ts \<noteq> []"
  shows "rs_history_complete r \<Longrightarrow> rs_active r = Some ts \<Longrightarrow> rs_replies_cursor r = c \<Longrightarrow>
    (\<And>r'. rs_history_complete r' \<Longrightarrow> rs_active r' = None \<Longrightarrow> rs_pending r' = rs_pending r \<Longrightarrow> work h rp r' items) \<Longrightarrow>
    work h rp r (map (filter (\<lambda>m. sl_ts m \<noteq> ts)) ps @ items)"
  using assms(1)
proof (induction arbitrary: r rule: page_chain.induct)
  case (last_page c page)
  have "next_thread r = r" using last_page.prems assms(2) by (auto simp: next_thread_def truthy_iff neq_Nil_conv split: list.split)
  then show ?case using last_page assms(2) by (auto simp: resume_replies_def intro!: work.work_replies)
next
  case (next_page c page pages)
  have keep: "next_thread r = r" using next_page.prems assms(2) by (auto simp: next_thread_def truthy_iff neq_Nil_conv split: list.split)
  have "work h rp (resume_replies page r) (map (filter (\<lambda>m. sl_ts m \<noteq> ts)) pages @ items)"
    using next_page.prems next_page.hyps by (intro next_page.IH) (auto simp: resume_replies_def)
  then show ?case using next_page assms(2) keep by (auto intro!: work.work_replies)
qed

lemma threads_work:
  "threads_known rp rps tss \<Longrightarrow> rs_history_complete r \<Longrightarrow> \<not> truthy_text (rs_active r) \<Longrightarrow> rs_pending r = tss \<Longrightarrow>
   work h rp r (concat (map (reply_pages rps) tss))"
proof (induction tss arbitrary: r)
  case Nil
  then show ?case by (auto simp: read_all_def intro: work.work_done)
next
  case (Cons ts tss)
  let ?r = "r\<lparr>rs_active := Some ts, rs_pending := tss, rs_replies_cursor := None\<rparr>"
  have ts: "ts \<noteq> []" "page_chain (rp ts) None (rps ts)" using Cons.prems(1) by (simp_all add: threads_known_def)
  have nt: "next_thread r = ?r" using Cons.prems by (simp add: next_thread_def)
  have nt': "next_thread ?r = ?r" using ts(1) by (auto simp: next_thread_def truthy_iff neq_Nil_conv split: list.split)
  have "work h rp ?r (map (filter (\<lambda>m. sl_ts m \<noteq> ts)) (rps ts) @ concat (map (reply_pages rps) tss))"
  proof (rule replies_work [where rp = rp and ts = ts, OF ts(2,1)])
    fix r' :: resume_state assume r': "rs_history_complete r'" "rs_active r' = None" "rs_pending r' = rs_pending ?r"
    show "work h rp r' (concat (map (reply_pages rps) tss))"
      by (rule Cons.IH) (use Cons.prems(1) r' in \<open>simp_all add: threads_known_def truthy_iff\<close>)
  qed (use Cons.prems in simp_all)
  then have "work h rp r (map (filter (\<lambda>m. sl_ts m \<noteq> ts)) (rps ts) @ concat (map (reply_pages rps) tss))"
  proof (cases rule: work.cases)
    case work_done
    then show ?thesis using ts(1) by (auto simp: read_all_def truthy_iff neq_Nil_conv)
  next
    case (work_history page items)
    then show ?thesis using Cons.prems by simp
  next
    case (work_replies ts' page items)
    have eq: "ts' = ts" using work_replies(3) by (simp add: nt')
    show ?thesis unfolding work_replies(1) eq
      by (rule work.work_replies) (use work_replies Cons.prems in \<open>simp_all only: nt nt' eq not_False_eq_True\<close>)
  qed
  then show ?case by (simp add: reply_pages_def [of _ ts])
qed

lemma history_work:
  assumes "page_chain h c ps"
  shows "\<not> rs_history_complete r \<Longrightarrow> rs_history_cursor r = c \<Longrightarrow> \<not> truthy_text (rs_active r) \<Longrightarrow>
    threads_known rp rps (rs_pending r @ root_ts ps) \<Longrightarrow>
    work h rp r (ps @ concat (map (reply_pages rps) (rs_pending r @ root_ts ps)))"
  using assms
proof (induction arbitrary: r rule: page_chain.induct)
  case (last_page c page)
  have "work h rp (resume_history page r) (concat (map (reply_pages rps) (rs_pending r @ root_ts [pg_messages page])))"
    using last_page by (intro threads_work) (auto simp: resume_history_def Let_def root_ts_def)
  then show ?case using last_page by (auto intro!: work.work_history)
next
  case (next_page c page pages)
  have pend: "rs_pending (resume_history page r) @ root_ts pages = rs_pending r @ root_ts (pg_messages page # pages)"
    by (simp add: resume_history_def Let_def root_ts_def)
  have "work h rp (resume_history page r)
      (pages @ concat (map (reply_pages rps) (rs_pending (resume_history page r) @ root_ts pages)))"
    by (rule next_page.IH) (use next_page.prems next_page.hyps in \<open>auto simp: resume_history_def Let_def root_ts_def\<close>)
  then show ?case using next_page.hyps next_page.prems unfolding pend by (auto intro!: work.work_history)
qed

text \<open>What a full read of the conversation finds.\<close>

definition conversation_pages :: "sl_message list list \<Rightarrow> (string \<Rightarrow> sl_message list list) \<Rightarrow> sl_message list list" where
  "conversation_pages hps rps = hps @ concat (map (reply_pages rps) (root_ts hps))"

lemma fresh_work:
  assumes "page_chain h None hps" "threads_known rp rps (root_ts hps)"
  shows "work h rp (bs_resume (start_batch None)) (conversation_pages hps rps)"
  unfolding conversation_pages_def
  using history_work [OF assms(1), of "bs_resume (start_batch None)" rp rps] assms(2)
  by (simp add: start_batch_def truthy_iff)

subsection \<open>Progress in the database\<close>

definition row_snapshot :: "string \<Rightarrow> proof_row \<Rightarrow> proof_snapshot" where
  "row_snapshot c p = \<lparr>ps_key = c, ps_kind = pf_kind p, ps_status = proof_status_name (pf_status p),
     ps_resume = safeParseJsonRecord (pf_resume_cursor p), ps_coverage = safeParseJsonRecord (pf_coverage p),
     ps_stats = safeParseJsonRecord (pf_stats p)\<rparr>"

lemma stored_object: "map_of kvs k = Some (json_or_null (safeParseJsonRecord raw)) \<Longrightarrow>
    object_field (JObj kvs) k = safeParseJsonRecord raw"
  by (cases "safeParseJsonRecord raw")
    (auto simp: object_field_def json_or_null_def safeParseJsonRecord_def split: option.split_asm if_split_asm elim!: is_jobject.elims)

lemma parse_serialized:
  "sc_kind s = ''conversation'' \<Longrightarrow> parse_snapshot (serializeInvocationProof (s, p)) = Some (row_snapshot (sc_key s) p)"
proof -
  have "object_field (serializeInvocationProof (s, p)) ''resumeCursor'' = safeParseJsonRecord (pf_resume_cursor p)"
    "object_field (serializeInvocationProof (s, p)) ''coverage'' = safeParseJsonRecord (pf_coverage p)"
    "object_field (serializeInvocationProof (s, p)) ''stats'' = safeParseJsonRecord (pf_stats p)"
    unfolding serializeInvocationProof_def prod.case by (rule stored_object, simp)+
  moreover assume "sc_kind s = ''conversation''"
  moreover have "is_js_object (serializeInvocationProof (s, p))" by (simp add: serializeInvocationProof_def)
  moreover have "jget (serializeInvocationProof (s, p)) ''scopeKind'' = Some (JStr (sc_kind s))"
    "jget (serializeInvocationProof (s, p)) ''scopeKey'' = Some (JStr (sc_key s))"
    "jget (serializeInvocationProof (s, p)) ''proofKind'' = Some (JStr (pf_kind p))"
    "jget (serializeInvocationProof (s, p)) ''status'' = Some (JStr (proof_status_name (pf_status p)))"
    by (simp_all add: serializeInvocationProof_def)
  ultimately show ?thesis by (simp add: parse_snapshot_def row_snapshot_def Let_def)
qed

lemma find_the: "x \<in> set xs \<Longrightarrow> P x \<Longrightarrow> (\<And>y. y \<in> set xs \<Longrightarrow> P y \<Longrightarrow> y = x) \<Longrightarrow> find P xs = Some x"
proof (induction xs)
  case (Cons a xs)
  show ?case
  proof (cases "P a")
    case True
    have "a = x" by (rule Cons.prems(3)) (use True in simp_all)
    then show ?thesis using True by simp
  next
    case False
    then have "x \<in> set xs" using Cons.prems(1,2) by auto
    then have "find P xs = Some x" using Cons.prems(2,3) by (intro Cons.IH) simp_all
    then show ?thesis using False by simp
  qed
qed simp

lemma listed_proof:
  assumes "proof_inv db"
  shows "(s, p) \<in> set (listSyncProofs Slack a db) \<and> sc_kind s = k \<and> sc_key s = y \<and> pf_kind p = q \<longleftrightarrow>
    tbl_get pf_id (buildSyncProofId Slack a k y q) (pdb_proofs db) = Some p \<and>
    s \<in> set (pdb_scopes db) \<and> sc_id s = buildSyncScopeId Slack a k y"
proof -
  let ?id = "buildSyncProofId Slack a k y q"
  have mem: "(s, p) \<in> set (listSyncProofs Slack a db) \<longleftrightarrow>
      s \<in> set (pdb_scopes db) \<and> p \<in> set (pdb_proofs db) \<and> sc_id s = pf_scope p \<and> pf_platform p = Slack \<and> pf_account p = a"
    by (auto simp: listSyncProofs_def)
  have scope: "scope_ok s" if "s \<in> set (pdb_scopes db)" using assms that by (simp add: proof_inv_def scopes_inv_def)
  have evidence: "proof_ok x" if "x \<in> set (pdb_proofs db)" for x using assms that by (simp add: proof_inv_def)
  show ?thesis
  proof
    assume l: "(s, p) \<in> set (listSyncProofs Slack a db) \<and> sc_kind s = k \<and> sc_key s = y \<and> pf_kind p = q"
    then have s: "s \<in> set (pdb_scopes db)" "sc_id s = pf_scope p" and p: "p \<in> set (pdb_proofs db)" "pf_platform p = Slack" "pf_account p = a"
      using mem by simp_all
    from evidence [OF p(1)] obtain k' y' where ky: "pf_scope p = buildSyncScopeId Slack a k' y'" "pf_id p = buildSyncProofId Slack a k' y' q"
      using l p by (auto simp: proof_ok_def)
    have eq: "k' = k" "y' = y" using scope [OF s(1)] s(2) ky(1) l by (auto simp: scope_ok_def)
    then have "tbl_has pf_id ?id (pdb_proofs db)" using p(1) ky(2) by (force simp: tbl_has_iff)
    then obtain r where r: "tbl_get pf_id ?id (pdb_proofs db) = Some r" "pf_id r = ?id" using tbl_has_get by metis
    have rp: "r \<in> set (pdb_proofs db)" using tbl_get_SomeD [OF r(1)] by simp
    have "proof_unique r = proof_unique p"
      using proof_ok_unique [OF evidence [OF rp] evidence [OF p(1)]] r(2) ky(2) eq by simp
    then have "r = p" using assms rp p(1) keyed_unique by (auto simp: proof_inv_def)
    then show "tbl_get pf_id ?id (pdb_proofs db) = Some p \<and> s \<in> set (pdb_scopes db) \<and> sc_id s = buildSyncScopeId Slack a k y"
      using r s ky eq by simp
  next
    assume r: "tbl_get pf_id ?id (pdb_proofs db) = Some p \<and> s \<in> set (pdb_scopes db) \<and> sc_id s = buildSyncScopeId Slack a k y"
    then have p: "p \<in> set (pdb_proofs db)" "pf_id p = ?id" using tbl_get_SomeD by metis+
    from evidence [OF p(1)] p(2) have "pf_platform p = Slack \<and> pf_account p = a \<and> pf_kind p = q \<and> pf_scope p = buildSyncScopeId Slack a k y"
      by (auto simp: proof_ok_def)
    moreover have "sc_kind s = k \<and> sc_key s = y" using scope r by (auto simp: scope_ok_def)
    ultimately show "(s, p) \<in> set (listSyncProofs Slack a db) \<and> sc_kind s = k \<and> sc_key s = y \<and> pf_kind p = q"
      using r p mem by simp
  qed
qed

definition active_conversation :: "json option \<Rightarrow> string \<Rightarrow> bool" where
  "active_conversation cursor c \<longleftrightarrow> getStringPath (safeParseJsonRecord cursor) [''scan'', ''activeConversationId''] = Some c"

text \<open>The adapter is handed the rows of the conversation as they are stored.\<close>

lemma stored_snapshot:
  assumes inv: "proof_inv db" and act: "active_conversation cursor c" and q: "q = ''messages'' \<or> q = ''replies''"
  shows "snapshot_of (parseSlackSyncProofState (snd (readAdapterInvocationEnv Slack (invocation_env Slack a cursor db)))) c q =
    map_option (row_snapshot c) (tbl_get pf_id (buildSyncProofId Slack a ''conversation'' c q) (pdb_proofs db))"
proof -
  let ?rows = "filter (\<lambda>(s, p). sc_kind s = ''conversation'' \<and> sc_key s = c \<and> (pf_kind p = ''messages'' \<or> pf_kind p = ''replies''))
      (listSyncProofs Slack a db)"
  have sel: "selectAdapterInvocationProofs Slack (listSyncProofs Slack a db) (safeParseJsonRecord cursor) = ?rows"
    using act by (simp add: selectAdapterInvocationProofs_def active_conversation_def del: getStringPath.simps)
  have parsed: "List.map_filter parse_snapshot (map serializeInvocationProof rows) = map (\<lambda>(s, p). row_snapshot c p) rows"
    if "\<forall>(s, p)\<in>set rows. sc_kind s = ''conversation'' \<and> sc_key s = c" for rows
    using that by (induction rows) (auto simp: parse_serialized)
  have state: "parseSlackSyncProofState (snd (readAdapterInvocationEnv Slack (invocation_env Slack a cursor db))) =
      map (\<lambda>(s, p). row_snapshot c p) ?rows"
  proof (cases "?rows = []")
    case True
    then show ?thesis unfolding invocation_env_def sel invocation_roundtrip by (simp add: parseSlackSyncProofState_def)
  next
    case False
    have "parseSlackSyncProofState (Some (JArr (map serializeInvocationProof ?rows))) = map (\<lambda>(s, p). row_snapshot c p) ?rows"
      unfolding parseSlackSyncProofState_def option.case json.case by (rule parsed) auto
    then show ?thesis unfolding invocation_env_def sel invocation_roundtrip using False by (simp only: if_False snd_conv)
  qed
  let ?get = "tbl_get pf_id (buildSyncProofId Slack a ''conversation'' c q) (pdb_proofs db)"
  let ?P = "\<lambda>p. ps_key p = c \<and> ps_kind p = q"
  have listed: "(s, p) \<in> set ?rows \<and> pf_kind p = q \<longleftrightarrow>
      ?get = Some p \<and> s \<in> set (pdb_scopes db) \<and> sc_id s = buildSyncScopeId Slack a ''conversation'' c" for s p
    using listed_proof [OF inv, of s p a "''conversation''" c q] q by auto
  have found: "x \<in> set (rev (map (\<lambda>(s, p). row_snapshot c p) ?rows)) \<and> ?P x \<Longrightarrow> \<exists>p. ?get = Some p \<and> x = row_snapshot c p" for x
  proof -
    assume x: "x \<in> set (rev (map (\<lambda>(s, p). row_snapshot c p) ?rows)) \<and> ?P x"
    then obtain s p where sp: "(s, p) \<in> set ?rows" "x = row_snapshot c p" by auto
    then have "pf_kind p = q" using x by (simp add: row_snapshot_def)
    then have "?get = Some p" using iffD1 [OF listed [of s p]] sp(1) by blast
    then show "\<exists>p. ?get = Some p \<and> x = row_snapshot c p" using sp(2) by blast
  qed
  show ?thesis
  proof (cases ?get)
    case None
    have "find ?P (rev (map (\<lambda>(s, p). row_snapshot c p) ?rows)) = None"
      unfolding find_None_iff
    proof
      assume "\<exists>x. x \<in> set (rev (map (\<lambda>(s, p). row_snapshot c p) ?rows)) \<and> ?P x"
      then obtain p where "?get = Some p" using found by blast
      then show False using None by simp
    qed
    then show ?thesis unfolding snapshot_of_def state using None by simp
  next
    case (Some p)
    have "p \<in> set (pdb_proofs db)" "pf_id p = buildSyncProofId Slack a ''conversation'' c q" using tbl_get_SomeD [OF Some] by simp_all
    then have "pf_scope p = buildSyncScopeId Slack a ''conversation'' c" "tbl_has sc_id (pf_scope p) (pdb_scopes db)"
      using inv by (auto simp: proof_inv_def proof_ok_def)
    then obtain s where "s \<in> set (pdb_scopes db)" "sc_id s = buildSyncScopeId Slack a ''conversation'' c"
      by (auto simp: tbl_has_iff)
    then have row: "(s, p) \<in> set ?rows" "pf_kind p = q" using iffD2 [OF listed [of s p]] Some by blast+
    have "find ?P (rev (map (\<lambda>(s, p). row_snapshot c p) ?rows)) = Some (row_snapshot c p)"
    proof (rule find_the)
      show "row_snapshot c p \<in> set (rev (map (\<lambda>(s, p). row_snapshot c p) ?rows))" using row(1) by force
      show "?P (row_snapshot c p)" using row(2) by (simp add: row_snapshot_def)
    next
      fix y assume "y \<in> set (rev (map (\<lambda>(s, p). row_snapshot c p) ?rows))" "?P y"
      then show "y = row_snapshot c p" using found [of y] Some by auto
    qed
    then show ?thesis unfolding snapshot_of_def state using Some by simp
  qed
qed

lemma stored_resume_rows:
  assumes "proof_inv db" "active_conversation cursor c"
    and "tbl_get pf_id (buildSyncProofId Slack a ''conversation'' c ''messages'') (pdb_proofs db) = m"
    and "tbl_get pf_id (buildSyncProofId Slack a ''conversation'' c ''replies'') (pdb_proofs db) = r"
  shows "stored_resume a cursor db c =
    (let messages = Option.bind m (\<lambda>p. safeParseJsonRecord (pf_resume_cursor p));
         replies = Option.bind r (\<lambda>p. safeParseJsonRecord (pf_resume_cursor p))
     in if messages = None \<and> replies = None then None
        else Some \<lparr>rs_history_cursor = jstr (json_at messages ''historyCursor''),
           rs_history_complete = (phase_past messages \<or> phase_past replies),
           rs_roots = get_or (coalesce (progress_number (Option.bind r (\<lambda>p. safeParseJsonRecord (pf_stats p))) ''threadRootCount'')
             (progress_number messages ''threadRootCount'')) 0,
           rs_completed = get_or (progress_number (Option.bind r (\<lambda>p. safeParseJsonRecord (pf_coverage p))) ''completedThreadCount'') 0,
           rs_pending = parseStringArray (nullish (json_at replies ''pendingThreadTs'') (json_at messages ''pendingThreadTs'')),
           rs_active = jstr (json_at replies ''activeThreadTs''),
           rs_replies_cursor = jstr (json_at replies ''repliesCursor'')\<rparr>)"
proof -
  note snap = stored_snapshot [OF assms(1,2), of _ a]
  show ?thesis
    unfolding stored_resume_def slackResumeStateFromProofs_def snap [OF disjI1, OF refl] snap [OF disjI2, OF refl] assms(3,4)
    by (cases m; cases r) (simp_all add: row_snapshot_def Let_def)
qed

subsection \<open>What a batch leaves in the database\<close>

abbreviation proof_id_of :: "platform \<Rightarrow> string \<Rightarrow> proof_input \<Rightarrow> string" where
  "proof_id_of p a inp \<equiv> buildSyncProofId p a (si_kind (pi_scope inp)) (si_key (pi_scope inp)) (pi_kind inp)"

lemma record_other:
  "record_proofs clock p a ps db = Inr db' \<Longrightarrow> proof_inv db \<Longrightarrow> \<forall>inp\<in>set ps. getSyncProofKindContract p inp \<noteq> None \<Longrightarrow>
   \<forall>inp\<in>set ps. i \<noteq> proof_id_of p a inp \<Longrightarrow> tbl_get pf_id i (pdb_proofs db') = tbl_get pf_id i (pdb_proofs db)"
proof (induction ps arbitrary: clock db)
  case (Cons inp ps)
  let ?db = "proof_recorded (clock 0) p a inp db"
  have up: "upsertSyncProof (clock 0) p a inp db = Inr ?db" "proof_inv ?db"
    using upsertSyncProof_eq [OF Cons.prems(2)] Cons.prems(3) by simp_all
  have "record_proofs (\<lambda>k. clock (Suc k)) p a ps ?db = Inr db'" using Cons.prems(1) up(1) by (simp add: ebind_def)
  then have "tbl_get pf_id i (pdb_proofs db') = tbl_get pf_id i (pdb_proofs ?db)"
    by (rule Cons.IH) (use Cons.prems(3,4) up(2) in simp_all)
  moreover have "i \<noteq> proof_id_of p a inp" using Cons.prems(4) by simp
  ultimately show ?case unfolding recorded_proof_get Let_def by (simp del: proof_id_inj)
qed simp

lemma record_row:
  "record_proofs clock p a ps db = Inr db' \<Longrightarrow> proof_inv db \<Longrightarrow> \<forall>inp\<in>set ps. getSyncProofKindContract p inp \<noteq> None \<Longrightarrow>
   distinct (map (proof_id_of p a) ps) \<Longrightarrow> inp \<in> set ps \<Longrightarrow>
   \<exists>r. tbl_get pf_id (proof_id_of p a inp) (pdb_proofs db') = Some r \<and> pf_status r = pi_status inp \<and>
     pf_resume_cursor r = safeStringifyJson (pi_resume_cursor inp) \<and> pf_coverage r = safeStringifyJson (pi_coverage inp) \<and>
     pf_stats r = safeStringifyJson (pi_stats inp)"
proof (induction ps arbitrary: clock db)
  case (Cons x ps)
  let ?db = "proof_recorded (clock 0) p a x db"
  have up: "upsertSyncProof (clock 0) p a x db = Inr ?db" "proof_inv ?db"
    using upsertSyncProof_eq [OF Cons.prems(2)] Cons.prems(3) by simp_all
  have rest: "record_proofs (\<lambda>k. clock (Suc k)) p a ps ?db = Inr db'" using Cons.prems(1) up(1) by (simp add: ebind_def)
  have known: "\<forall>inp\<in>set ps. getSyncProofKindContract p inp \<noteq> None" using Cons.prems(3) by simp
  show ?case
  proof (cases "inp \<in> set ps")
    case True
    then show ?thesis using Cons.IH [OF rest up(2) known] Cons.prems(4) by simp
  next
    case False
    then have x: "inp = x" using Cons.prems(5) by simp
    have "\<forall>y\<in>set ps. proof_id_of p a x \<noteq> proof_id_of p a y" using Cons.prems(4) by (auto simp: image_iff)
    from record_other [OF rest up(2) known this] show ?thesis
      by (auto simp: x recorded_proof_get Let_def proof_values_def overwrite_proof_def split: option.split)
  qed
qed simp

lemma stored_json [simp]:
  "safeParseJsonRecord (safeStringifyJson (Some (JObj kvs))) = Some (json_stored (JObj kvs))"
  "safeParseJsonRecord (safeStringifyJson (Some JNull)) = None"
  "json_at (Some (json_stored j)) k = map_option json_stored (jget j k)"
  "json_stored (optional_text t) = optional_text t" "jstr (Some (optional_text t)) = t"
  "parseStringArray (Some (json_stored (JArr (map JStr ts)))) = ts" "json_stored (JArr js) \<noteq> JNull"
  by (simp_all add: safeParseJsonRecord_def safeStringifyJson_def json_at_def jget_stored optional_text_def parseStringArray_def
      map_filter_def comp_def split: option.split)

text \<open>
  Threads have been seen: then every later batch reports its replies. A database is clear of the conversation when it holds no
  replies to go on with.
\<close>

definition threads_seen :: "resume_state \<Rightarrow> bool" where
  "threads_seen r \<longleftrightarrow> 0 < rs_roots r \<or> 0 < rs_completed r \<or> rs_pending r \<noteq> [] \<or> rs_active r \<noteq> None"

definition no_replies :: "string \<Rightarrow> string \<Rightarrow> proof_db \<Rightarrow> bool" where
  "no_replies a c db \<longleftrightarrow>
     Option.bind (tbl_get pf_id (buildSyncProofId Slack a ''conversation'' c ''replies'') (pdb_proofs db))
       (\<lambda>p. safeParseJsonRecord (pf_resume_cursor p)) = None"

definition counted :: "resume_state \<Rightarrow> bool" where
  "counted r \<longleftrightarrow> 0 \<le> rs_completed r \<and> 0 \<le> rs_roots r"

lemma threads_stay:
  "batch_loop h rp n s = Inr s' \<Longrightarrow> counted (bs_resume s) \<Longrightarrow>
   counted (bs_resume s') \<and> (threads_seen (bs_resume s) \<longrightarrow> threads_seen (bs_resume s'))"
proof (induction h rp n s rule: batch_loop.induct)
  case (2 h rp n s)
  let ?s1 = "s\<lparr>bs_resume := next_thread (bs_resume s)\<rparr>"
  have nt: "counted (next_thread (bs_resume s))" "threads_seen (bs_resume s) \<longrightarrow> threads_seen (next_thread (bs_resume s))"
    using "2.prems"(2) by (auto simp: counted_def threads_seen_def next_thread_def split: list.split)
  have th: "counted (bs_resume (take_history page s))" "threads_seen (bs_resume s) \<longrightarrow> threads_seen (bs_resume (take_history page s))" for page
    using "2.prems"(2) by (auto simp: counted_def threads_seen_def page_takes resume_history_def Let_def)
  have tr: "counted (bs_resume (take_replies ts page ?s1))"
      "threads_seen (bs_resume s) \<longrightarrow> threads_seen (bs_resume (take_replies ts page ?s1))"
    if "truthy_text (rs_active (next_thread (bs_resume s)))" for ts page
    using nt that by (auto simp: counted_def threads_seen_def page_takes resume_replies_def)
  show ?case
  proof (cases "rs_history_complete (bs_resume s)")
    case False
    show ?thesis
    proof (cases "h (rs_history_cursor (bs_resume s))")
      case (Inl failure)
      then show ?thesis using "2.prems" False by (auto split: option.split_asm)
    next
      case (Inr page)
      then show ?thesis using "2.IH"(1) [OF False Inr _ th(1)] "2.prems" False th(2) by auto
    qed
  next
    case True
    show ?thesis
    proof (cases "truthy_text (rs_active (next_thread (bs_resume s)))")
      case False
      then show ?thesis using "2.prems" True nt by auto
    next
      case active: True
      let ?ts = "the (rs_active (next_thread (bs_resume s)))"
      show ?thesis
      proof (cases "rp ?ts (rs_replies_cursor (next_thread (bs_resume s)))")
        case (Inl failure)
        then show ?thesis using "2.prems" True active nt by (auto split: option.split_asm)
      next
        case (Inr page)
        then have run: "batch_loop h rp n (take_replies ?ts page ?s1) = Inr s'" using "2.prems"(1) True active by simp
        have "counted (bs_resume s') \<and> (threads_seen (bs_resume (take_replies ?ts page ?s1)) \<longrightarrow> threads_seen (bs_resume s'))"
          by (rule "2.IH"(2) [OF _ refl refl, simplified]) (use True active Inr run tr(1) in simp_all)
        then show ?thesis using tr(2) [OF active] by blast
      qed
    qed
  qed
qed simp

lemma started:
  "counted (bs_resume (start_batch resume))"
  "resume = Some r \<Longrightarrow> threads_seen r \<Longrightarrow> threads_seen (bs_resume (start_batch resume))"
  "same_work r (bs_resume (start_batch (Some r)))"
  by (auto simp: counted_def threads_seen_def start_batch_def Let_def same_work_def max_def)

text \<open>The proofs of a batch that met no error.\<close>

lemma batch_replies_reported:
  assumes "br_history_error result = None" "br_replies_error result = None" "br_phase result = batch_phase (br_resume result)"
    and "truthy_text (rs_active (br_resume result)) \<or> rs_replies_cursor (br_resume result) = None"
  shows "replies_reported (buildSlackBackfillConversationProof order team c family mode t0 oldest known t merr result) \<longleftrightarrow>
    threads_seen (br_resume result)"
  using assms(4)
  by (auto simp: replies_reported_def buildSlackBackfillConversationProof_def Let_def threads_seen_def assms(1-3) batch_phase_def
      truthy_iff split: if_split_asm)

lemma finished [simp]:
  "br_history_error (finish_batch order s) = bs_history_error s" "br_replies_error (finish_batch order s) = bs_replies_error s"
  "br_messages (finish_batch order s) = sortSlackMessages order (bs_messages s)"
  by (simp_all add: finish_batch_def Let_def)

lemma finished_resume:
  "same_work (bs_resume s) (br_resume (finish_batch order s))"
  "threads_seen (br_resume (finish_batch order s)) = threads_seen (bs_resume s)"
  "br_phase (finish_batch order s) = batch_phase (br_resume (finish_batch order s))"
  "truthy_text (rs_active (br_resume (finish_batch order s))) \<or> rs_replies_cursor (br_resume (finish_batch order s)) = None"
  "bs_history_error s = None \<Longrightarrow> bs_replies_error s = None \<Longrightarrow> br_complete (finish_batch order s) = read_all (bs_resume s)"
  by (auto simp: finish_batch_def Let_def same_work_def threads_seen_def batch_phase_def read_all_def)

lemma batch_rows:
  assumes inv: "proof_inv db" and rec: "record_proofs clock Slack a (buildSlackBackfillSyncProofs b) db = Inr db'"
  shows "proof_inv db'"
    and "\<exists>m. tbl_get pf_id (buildSyncProofId Slack a ''conversation'' (bf_conversation b) ''messages'') (pdb_proofs db') = Some m \<and>
      pf_status m = getMessagesProofStatus b \<and> pf_resume_cursor m = safeStringifyJson (pi_resume_cursor (messages_proof b))"
    and "replies_reported b \<Longrightarrow>
      \<exists>r. tbl_get pf_id (buildSyncProofId Slack a ''conversation'' (bf_conversation b) ''replies'') (pdb_proofs db') = Some r \<and>
        pf_resume_cursor r = safeStringifyJson (pi_resume_cursor (replies_proof b)) \<and>
        pf_coverage r = safeStringifyJson (pi_coverage (replies_proof b)) \<and> pf_stats r = safeStringifyJson (pi_stats (replies_proof b))"
    and "\<not> replies_reported b \<Longrightarrow>
      tbl_get pf_id (buildSyncProofId Slack a ''conversation'' (bf_conversation b) ''replies'') (pdb_proofs db') =
      tbl_get pf_id (buildSyncProofId Slack a ''conversation'' (bf_conversation b) ''replies'') (pdb_proofs db)"
    and "history_proved b \<Longrightarrow>
      \<exists>h. tbl_get pf_id (buildSyncProofId Slack a ''conversation'' (bf_conversation b) ''history'') (pdb_proofs db') = Some h \<and>
        pf_status h = PfComplete"
proof -
  let ?ps = "buildSlackBackfillSyncProofs b"
  have known: "\<forall>inp\<in>set ?ps. getSyncProofKindContract Slack inp \<noteq> None" using slack_proofs_known(1) by blast
  have dist: "distinct (map (proof_id_of Slack a) ?ps)" by (auto simp: buildSlackBackfillSyncProofs_def)
  show "proof_inv db'" using record_proofs_total [OF known inv, of clock a] rec by auto
  note row = record_row [OF rec inv known dist]
  have "messages_proof b \<in> set ?ps" by (simp add: buildSlackBackfillSyncProofs_def)
  from row [OF this] show "\<exists>m. tbl_get pf_id (buildSyncProofId Slack a ''conversation'' (bf_conversation b) ''messages'') (pdb_proofs db') = Some m \<and>
      pf_status m = getMessagesProofStatus b \<and> pf_resume_cursor m = safeStringifyJson (pi_resume_cursor (messages_proof b))"
    by (auto simp: messages_proof_def slack_proof_def slack_scope_def Let_def)
  show "\<exists>r. tbl_get pf_id (buildSyncProofId Slack a ''conversation'' (bf_conversation b) ''replies'') (pdb_proofs db') = Some r \<and>
        pf_resume_cursor r = safeStringifyJson (pi_resume_cursor (replies_proof b)) \<and>
        pf_coverage r = safeStringifyJson (pi_coverage (replies_proof b)) \<and> pf_stats r = safeStringifyJson (pi_stats (replies_proof b))"
    if "replies_reported b"
  proof -
    have "replies_proof b \<in> set ?ps" using that by (simp add: buildSlackBackfillSyncProofs_def)
    from row [OF this] show ?thesis by auto
  qed
  show "tbl_get pf_id (buildSyncProofId Slack a ''conversation'' (bf_conversation b) ''replies'') (pdb_proofs db') =
      tbl_get pf_id (buildSyncProofId Slack a ''conversation'' (bf_conversation b) ''replies'') (pdb_proofs db)"
    if "\<not> replies_reported b"
    by (rule record_other [OF rec inv known]) (use that in \<open>auto simp: buildSlackBackfillSyncProofs_def\<close>)
  show "\<exists>h. tbl_get pf_id (buildSyncProofId Slack a ''conversation'' (bf_conversation b) ''history'') (pdb_proofs db') = Some h \<and>
        pf_status h = PfComplete" if "history_proved b"
  proof -
    have "history_proof b \<in> set ?ps" using that by (simp add: buildSlackBackfillSyncProofs_def)
    from row [OF this] show ?thesis by auto
  qed
qed

text \<open>What the proofs of an unfinished batch say, as it is read back.\<close>

lemma resume_cursors:
  fixes b :: slack_backfill
  assumes "bf_history_error b = None" "bf_replies_error b = None" "bf_phase b \<noteq> PhComplete"
    and "bf_history_complete b \<longleftrightarrow> bf_phase b \<noteq> PhHistory"
  shows "safeParseJsonRecord (safeStringifyJson (pi_resume_cursor (messages_proof b))) =
      (if bf_phase b = PhHistory then Some (json_stored (JObj [(''historyCursor'', optional_text (bf_history_cursor b)),
         (''conversationPhase'', JStr (slack_phase_name (bf_phase b)))])) else None)"
    and "safeParseJsonRecord (safeStringifyJson (pi_resume_cursor (replies_proof b))) =
      Some (json_stored (JObj [(''activeThreadTs'', optional_text (bf_active_ts b)), (''repliesCursor'', optional_text (bf_replies_cursor b)),
         (''pendingThreadTs'', JArr (map JStr (get_or (bf_pending_ts b) []))),
         (''conversationPhase'', JStr (slack_phase_name (bf_phase b)))]))"
  using assms
  by (cases "bf_phase b"; simp add: messages_proof_def replies_proof_def slack_proof_def Let_def getMessagesProofStatus_def
      getRepliesProofStatus_def del: json_stored.simps)+

lemma seen_counts:
  "progress_number (safeParseJsonRecord (safeStringifyJson (pi_stats (replies_proof b)))) ''threadRootCount'' = Some (bf_roots b)"
  "progress_number (safeParseJsonRecord (safeStringifyJson (pi_coverage (replies_proof b)))) ''completedThreadCount'' = Some (bf_completed b)"
  by (simp_all add: replies_proof_def slack_proof_def Let_def progress_number_def slack_coverage_def jget_stored
      del: json_stored.simps split: option.split) 
    (auto split: option.split)

lemma resume_kept:
  fixes s :: batch_state and order :: sl_order and team mode t0 oldest known t merr family and c :: sl_conversation
  defines "result \<equiv> finish_batch order s"
  defines "b \<equiv> buildSlackBackfillConversationProof order team c family mode t0 oldest known t merr result"
  assumes inv: "proof_inv db" and rec: "record_proofs clock Slack a (buildSlackBackfillSyncProofs b) db = Inr db'"
    and act: "active_conversation cursor (sl_id c)"
    and ok: "bs_history_error s = None" "bs_replies_error s = None" and left: "\<not> read_all (bs_resume s)"
    and kept: "no_replies a (sl_id c) db \<or> threads_seen (bs_resume s)"
  shows "\<exists>r'. stored_resume a cursor db' (sl_id c) = Some r' \<and> same_work (bs_resume s) r' \<and>
    (no_replies a (sl_id c) db' \<or> threads_seen r')"
proof -
  let ?r = "br_resume result"
  have r: "rs_history_complete ?r = rs_history_complete (bs_resume s)" "rs_pending ?r = rs_pending (bs_resume s)"
    "rs_active ?r = rs_active (bs_resume s)" "\<not> rs_history_complete (bs_resume s) \<Longrightarrow> rs_history_cursor ?r = rs_history_cursor (bs_resume s)"
    "truthy_text (rs_active (bs_resume s)) \<Longrightarrow> rs_replies_cursor ?r = rs_replies_cursor (bs_resume s)"
    using finished_resume(1) [of s order] by (simp_all add: result_def same_work_def)
  have b: "bf_conversation b = sl_id c" "bf_history_error b = None" "bf_replies_error b = None" "bf_phase b = batch_phase ?r"
    "bf_history_complete b = rs_history_complete ?r" "bf_history_cursor b = rs_history_cursor ?r" "bf_pending_ts b = Some (rs_pending ?r)"
    "bf_active_ts b = rs_active ?r" "bf_replies_cursor b = rs_replies_cursor ?r" "bf_roots b = rs_roots ?r" "bf_completed b = rs_completed ?r"
    using ok finished_resume(3) [of order s] by (simp_all add: b_def buildSlackBackfillConversationProof_def Let_def result_def)
  have reported: "replies_reported b \<longleftrightarrow> threads_seen ?r"
    unfolding b_def by (rule batch_replies_reported) (use ok finished_resume(3,4) [of order s] in \<open>simp_all add: result_def\<close>)
  have phase: "bf_phase b \<noteq> PhComplete" "bf_history_complete b \<longleftrightarrow> bf_phase b \<noteq> PhHistory"
    "bf_phase b = PhThreads \<longleftrightarrow> rs_history_complete ?r" "bf_phase b = PhHistory \<longleftrightarrow> \<not> rs_history_complete ?r"
    using left by (auto simp: b batch_phase_def r read_all_def)
  note cursors = resume_cursors [OF b(2,3) phase(1,2)]
  note rows = batch_rows [OF inv rec, unfolded b(1)]
  obtain m where m: "tbl_get pf_id (buildSyncProofId Slack a ''conversation'' (sl_id c) ''messages'') (pdb_proofs db') = Some m"
    "pf_resume_cursor m = safeStringifyJson (pi_resume_cursor (messages_proof b))" using rows(2) by blast
  note resume = stored_resume_rows [OF rows(1) act m(1) refl]
  show ?thesis
  proof (cases "threads_seen ?r")
    case True
    then obtain q where q: "tbl_get pf_id (buildSyncProofId Slack a ''conversation'' (sl_id c) ''replies'') (pdb_proofs db') = Some q"
      "pf_resume_cursor q = safeStringifyJson (pi_resume_cursor (replies_proof b))"
      "pf_coverage q = safeStringifyJson (pi_coverage (replies_proof b))" "pf_stats q = safeStringifyJson (pi_stats (replies_proof b))"
      using rows(3) reported by blast
    have "stored_resume a cursor db' (sl_id c) = Some
        \<lparr>rs_history_cursor = (if rs_history_complete ?r then None else rs_history_cursor ?r),
         rs_history_complete = rs_history_complete ?r, rs_roots = rs_roots ?r, rs_completed = rs_completed ?r,
         rs_pending = rs_pending ?r, rs_active = rs_active ?r, rs_replies_cursor = rs_replies_cursor ?r\<rparr>"
      unfolding resume q(1) Option.bind.bind_lunit m(2) q(2-4) cursors seen_counts
      using phase by (cases "rs_history_complete ?r")
        (simp_all add: b phase_past_def nullish_def json_at_def jget_stored Let_def del: json_stored.simps)
    then show ?thesis using True r by (auto simp: same_work_def threads_seen_def)
  next
    case False
    have none: "rs_pending ?r = []" "rs_active ?r = None" using False by (simp_all add: threads_seen_def)
    have hist: "\<not> rs_history_complete ?r" using left none r by (simp add: read_all_def truthy_iff)
    have clear: "no_replies a (sl_id c) db'"
      using kept rows(4) reported False finished_resume(2) [of order s] by (simp add: no_replies_def result_def)
    have msg: "safeParseJsonRecord (pf_resume_cursor m) = Some (json_stored (JObj
        [(''historyCursor'', optional_text (rs_history_cursor ?r)), (''conversationPhase'', JStr ''history'')]))"
      unfolding m(2) cursors(1) using hist phase(4) by (simp add: b del: json_stored.simps)
    obtain roots completed where "stored_resume a cursor db' (sl_id c) = Some
        \<lparr>rs_history_cursor = rs_history_cursor ?r, rs_history_complete = False, rs_roots = roots, rs_completed = completed,
         rs_pending = [], rs_active = None, rs_replies_cursor = None\<rparr>"
      unfolding resume Option.bind.bind_lunit msg clear [unfolded no_replies_def]
      by (simp add: phase_past_def nullish_def json_at_def jget_stored Let_def parseStringArray_def del: json_stored.simps)
    then show ?thesis using clear none hist r by (auto simp: same_work_def truthy_iff)
  qed
qed

subsection \<open>All the runs\<close>

lemma record_total:
  "proof_inv db \<Longrightarrow> \<exists>db'. record_proofs clock Slack a (buildSlackBackfillSyncProofs b) db = Inr db'"
proof -
  assume "proof_inv db"
  moreover have "\<forall>inp\<in>set (buildSlackBackfillSyncProofs b). getSyncProofKindContract Slack inp \<noteq> None"
    using slack_proofs_known(1) by blast
  ultimately show ?thesis using record_proofs_total by blast
qed

lemma sorted_set:
  "\<forall>ms. set (so_messages order ms) = set ms \<Longrightarrow> set (sortSlackMessages order ms) = set ms"
  by (simp add: sortSlackMessages_def)

definition slack_finished :: "string \<Rightarrow> string \<Rightarrow> bool \<Rightarrow> proof_db \<Rightarrow> bool" where
  "slack_finished a c whole db \<longleftrightarrow>
     (\<exists>m. tbl_get pf_id (buildSyncProofId Slack a ''conversation'' c ''messages'') (pdb_proofs db) = Some m \<and> pf_status m = PfComplete) \<and>
     (whole \<longrightarrow>
       (\<exists>h. tbl_get pf_id (buildSyncProofId Slack a ''conversation'' c ''history'') (pdb_proofs db) = Some h \<and> pf_status h = PfComplete))"

lemma runs_read_all:
  assumes order: "\<forall>ms. set (so_messages order ms) = set ms" and act: "active_conversation cursor (sl_id c)"
  shows "work h rp (bs_resume (start_batch resume)) items \<Longrightarrow> items \<noteq> [] \<Longrightarrow> proof_inv db \<Longrightarrow>
    no_replies a (sl_id c) db \<or> threads_seen (bs_resume (start_batch resume)) \<Longrightarrow>
    length items \<le> sum_list (map fst runs) \<Longrightarrow>
    \<exists>msgs db'. stored_backfill order team a c family mode t0 oldest known cursor h rp runs resume db = Inr (msgs, True, db') \<and>
      proof_inv db' \<and> sl_ts ` set msgs = included_ts (concat items) \<and>
      set msgs \<subseteq> {m \<in> set (concat items). shouldIncludeMessage m} \<and>
      slack_finished a (sl_id c) (mode = ModeFull \<and> oldest = 0) db'"
proof (induction runs arbitrary: resume items db)
  case (Cons run runs)
  obtain budget t where run: "run = (budget, t)" by (cases run)
  obtain s where s: "batch_loop h rp budget (start_batch resume) = Inr s" "takes (concat (take budget items)) (start_batch resume) s"
    "work h rp (bs_resume s) (drop budget items)"
    using batch_takes [OF Cons.prems(1) refl] by blast
  let ?result = "finish_batch order s"
  let ?b = "buildSlackBackfillConversationProof order team c family mode t0 oldest known t None ?result"
  have ok: "bs_history_error s = None" "bs_replies_error s = None"
    using s(2) by (simp_all add: takes_def start_batch_def Let_def)
  have msgs: "sl_ts ` set (bs_messages s) = included_ts (concat (take budget items))"
    "set (bs_messages s) \<subseteq> {m \<in> set (concat (take budget items)). shouldIncludeMessage m}"
    using s(2) by (simp_all add: takes_def start_batch_def Let_def)
  obtain db1 where db1: "record_proofs (\<lambda>_. t) Slack a (buildSlackBackfillSyncProofs ?b) db = Inr db1"
    using record_total [OF Cons.prems(3)] by blast
  note rows = batch_rows [OF Cons.prems(3) db1]
  have b: "bf_conversation ?b = sl_id c" "bf_history_error ?b = None" "bf_replies_error ?b = None" "bf_mode ?b = mode"
    "bf_phase ?b = br_phase ?result" "bf_from_start ?b = Some (oldest = 0)"
    using ok by (simp_all add: buildSlackBackfillConversationProof_def Let_def getConversationHistoryOldestMs_def
        DEFAULT_SLACK_CHANNEL_HISTORY_DAYS_def)
  have complete: "br_complete ?result \<longleftrightarrow> drop budget items = []"
    using finished_resume(5) [OF ok, of order] work_left [OF s(3)] by simp
  show ?case
  proof (cases "drop budget items = []")
    case True
    then have done_all: "read_all (bs_resume s)" using work_left [OF s(3)] by simp
    then have phase: "br_phase ?result = PhComplete"
      by (simp add: finish_batch_def Let_def batch_phase_def read_all_def)
    have "getMessagesProofStatus ?b = PfComplete" by (simp add: getMessagesProofStatus_def b phase)
    moreover have "history_proved ?b" if "mode = ModeFull \<and> oldest = 0"
      using that unfolding history_proved_def b phase by blast
    ultimately have "slack_finished a (sl_id c) (mode = ModeFull \<and> oldest = 0) db1"
      using rows(2,5) unfolding slack_finished_def b by auto
    then show ?thesis using s(1) db1 complete True rows(1) msgs
      by (simp add: run listConversationMessagesBatch_def ebind_def sorted_set [OF order])
  next
    case False
    then have left: "\<not> read_all (bs_resume s)" using work_left [OF s(3)] by simp
    have kept: "no_replies a (sl_id c) db \<or> threads_seen (bs_resume s)"
      using Cons.prems(4) threads_stay [OF s(1) started(1)] by blast
    obtain r' where r': "stored_resume a cursor db1 (sl_id c) = Some r'" "same_work (bs_resume s) r'"
      "no_replies a (sl_id c) db1 \<or> threads_seen r'"
      using resume_kept [OF Cons.prems(3) db1 act ok left kept] by blast
    have "work h rp (bs_resume (start_batch (Some r'))) (drop budget items)"
      by (rule work_same [OF work_same [OF s(3) r'(2)] started(3)])
    moreover have "no_replies a (sl_id c) db1 \<or> threads_seen (bs_resume (start_batch (Some r')))"
      using r'(3) started(2) by blast
    moreover have "length (drop budget items) \<le> sum_list (map fst runs)" using Cons.prems(5) by (simp add: run)
    ultimately obtain msgs' db' where rest:
      "stored_backfill order team a c family mode t0 oldest known cursor h rp runs (Some r') db1 = Inr (msgs', True, db')"
      "proof_inv db'" "sl_ts ` set msgs' = included_ts (concat (drop budget items))"
      "set msgs' \<subseteq> {m \<in> set (concat (drop budget items)). shouldIncludeMessage m}"
      "slack_finished a (sl_id c) (mode = ModeFull \<and> oldest = 0) db'"
      using Cons.IH [OF _ False rows(1)] by blast
    have split: "concat items = concat (take budget items) @ concat (drop budget items)"
      by (metis append_take_drop_id concat_append)
    have "stored_backfill order team a c family mode t0 oldest known cursor h rp (run # runs) resume db =
        Inr (sortSlackMessages order (bs_messages s) @ msgs', True, db')"
      using s(1) db1 complete False r'(1) rest(1) by (simp add: run listConversationMessagesBatch_def ebind_def)
    moreover have "sl_ts ` set (sortSlackMessages order (bs_messages s) @ msgs') = included_ts (concat items)"
      unfolding split using msgs(1) rest(3) by (simp add: sorted_set [OF order] image_Un)
    moreover have "set (sortSlackMessages order (bs_messages s) @ msgs') \<subseteq> {m \<in> set (concat items). shouldIncludeMessage m}"
      unfolding split using msgs(2) rest(4) by (auto simp: sorted_set [OF order])
    ultimately show ?thesis using rest(2,5) by blast
  qed
qed simp

lemma conversation_included:
  "included_ts (concat (conversation_pages hps rps)) =
     {sl_ts m | m. shouldIncludeMessage m \<and> (m \<in> set (concat hps) \<or>
        (\<exists>root\<in>set (concat hps). thread_root root \<and> m \<in> set (concat (rps (sl_ts root))) \<and> sl_ts m \<noteq> sl_ts root))}"
  unfolding included_ts_def conversation_pages_def reply_pages_def root_ts_def by auto blast+

lemma conversation_length:
  "length (conversation_pages hps rps) = length hps + (\<Sum>m\<leftarrow>filter thread_root (concat hps). length (rps (sl_ts m)))"
proof -
  have "length (concat (map (reply_pages rps) (map sl_ts ms))) = (\<Sum>m\<leftarrow>ms. length (rps (sl_ts m)))" for ms
    by (induction ms) (simp_all add: reply_pages_def)
  then show ?thesis by (simp add: conversation_pages_def root_ts_def)
qed

subsection \<open>Properties\<close>

text \<open>
  C3: a Slack backfill misses nothing, however it is cut into runs. Suppose the history of a conversation is a finite chain of
  pages, and so are the replies of each of its threads. Then runs with any budgets that add up to the pages there are, each
  resuming from nothing but the proofs the database kept, come to an end: the messages they emit are, up to their timestamps,
  exactly the messages of the history and of all the threads that are to be kept, the messages proof is complete at the
  end, and after a full scan from the start the history proof is. (The database starts without threads of the
  conversation in progress, and every thread has a timestamp.)
\<close>

theorem slack_backfill_misses_nothing:
  assumes "\<forall>ms. set (so_messages order ms) = set ms"
    and "page_chain history None hps"
    and "\<forall>m\<in>set (concat hps). thread_root m \<longrightarrow> sl_ts m \<noteq> [] \<and> page_chain (replies (sl_ts m)) None (rps (sl_ts m))"
    and "proof_reachable db" "no_replies accountKey (sl_id c) db" "active_conversation cursor (sl_id c)"
    and "length hps + (\<Sum>m\<leftarrow>filter thread_root (concat hps). length (rps (sl_ts m))) \<le> (\<Sum>run\<leftarrow>runs. fst run)"
  shows "\<exists>msgs db'. stored_backfill order teamId accountKey c family mode startedAt oldestMs known cursor history replies runs None db =
      Inr (msgs, True, db') \<and> proof_inv db' \<and>
    sl_ts ` set msgs = {sl_ts m | m. shouldIncludeMessage m \<and> (m \<in> set (concat hps) \<or>
        (\<exists>root\<in>set (concat hps). thread_root root \<and> m \<in> set (concat (rps (sl_ts root))) \<and> sl_ts m \<noteq> sl_ts root))} \<and>
    (\<exists>m. tbl_get pf_id (buildSyncProofId Slack accountKey ''conversation'' (sl_id c) ''messages'') (pdb_proofs db') = Some m \<and>
       pf_status m = PfComplete) \<and>
    (mode = ModeFull \<and> oldestMs = 0 \<longrightarrow>
       (\<exists>h. tbl_get pf_id (buildSyncProofId Slack accountKey ''conversation'' (sl_id c) ''history'') (pdb_proofs db') = Some h \<and>
         pf_status h = PfComplete))"
proof -
  have threads: "threads_known replies rps (root_ts hps)" using assms(3) by (auto simp: threads_known_def root_ts_def)
  have work: "work history replies (bs_resume (start_batch None)) (conversation_pages hps rps)"
    by (rule fresh_work [OF assms(2) threads])
  have some: "conversation_pages hps rps \<noteq> []" using assms(2) by (cases rule: page_chain.cases) (simp_all add: conversation_pages_def)
  have fits: "length (conversation_pages hps rps) \<le> sum_list (map fst runs)" unfolding conversation_length by (rule assms(7))
  have clear: "no_replies accountKey (sl_id c) db \<or> threads_seen (bs_resume (start_batch None))" using assms(5) by blast
  from runs_read_all [OF assms(1,6) work some proof_reachable_inv [OF assms(4)] clear fits, of teamId family mode startedAt oldestMs known]
  obtain msgs db' where finish: "stored_backfill order teamId accountKey c family mode startedAt oldestMs known cursor history replies runs None db =
      Inr (msgs, True, db')" "proof_inv db'" "sl_ts ` set msgs = included_ts (concat (conversation_pages hps rps))"
    "slack_finished accountKey (sl_id c) (mode = ModeFull \<and> oldestMs = 0) db'" by blast
  then show ?thesis unfolding conversation_included slack_finished_def by blast
qed

subsection \<open>A conversation with a thread\<close>

definition demo_slack_message :: "string \<Rightarrow> int option \<Rightarrow> sl_message" where
  "demo_slack_message ts replies = \<lparr>sl_subtype = None, sl_user = Some ''U1'', sl_bot = None, sl_text = ''hi'', sl_ts = ts,
     sl_thread_ts = None, sl_reply_count = replies, sl_reactions = [], sl_attachments = [], sl_files = [], sl_edited = None\<rparr>"

definition demo_history :: sl_fetch where
  "demo_history cursor =
     (if cursor = None then Inr \<lparr>pg_messages = [demo_slack_message ''3.0'' (Some 1)], pg_next = Some ''p2''\<rparr>
      else Inr \<lparr>pg_messages = [demo_slack_message ''1.0'' None], pg_next = None\<rparr>)"

definition demo_replies :: "string \<Rightarrow> sl_fetch" where
  "demo_replies ts cursor = Inr \<lparr>pg_messages = [demo_slack_message ts None, demo_slack_message ''4.0'' None], pg_next = Some []\<rparr>"

definition demo_conversation :: sl_conversation where
  "demo_conversation = \<lparr>sl_id = ''C1'', sl_name = Some ''general'', sl_members = None, sl_channel = True, sl_group = False, sl_im = False,
     sl_mpim = False, sl_peer = None, sl_topic = None, sl_purpose = None, sl_latest = None\<rparr>"

theorem slack_backfill_misses_nothing_witness:
  "\<exists>msgs db'. stored_backfill \<lparr>so_key = (\<lambda>_. []), so_messages = (\<lambda>ms. ms)\<rparr> ''T1'' ''me'' demo_conversation ChannelFamily ModeFull 10 0 1
       (Some (JObj [(''scan'', JObj [(''activeConversationId'', JStr ''C1'')])])) demo_history demo_replies [(1, 20), (2, 30)] None
       \<lparr>pdb_scopes = [], pdb_proofs = []\<rparr> = Inr (msgs, True, db') \<and> {''1.0'', ''3.0'', ''4.0''} \<subseteq> sl_ts ` set msgs"
proof -
  let ?hps = "[[demo_slack_message ''3.0'' (Some 1)], [demo_slack_message ''1.0'' None]]"
  let ?rps = "\<lambda>ts. [[demo_slack_message ts None, demo_slack_message ''4.0'' None]]"
  let ?order = "\<lparr>so_key = (\<lambda>_. []), so_messages = (\<lambda>ms. ms)\<rparr>"
  let ?cursor = "Some (JObj [(''scan'', JObj [(''activeConversationId'', JStr ''C1'')])])"
  have chain: "page_chain demo_history None ?hps"
  proof -
    have "page_chain demo_history (Some ''p2'') [[demo_slack_message ''1.0'' None]]"
      using page_chain.last_page [of demo_history "Some ''p2''" "\<lparr>pg_messages = [demo_slack_message ''1.0'' None], pg_next = None\<rparr>"]
      by (simp add: demo_history_def truthy_iff)
    then show ?thesis
      using page_chain.next_page [of demo_history None "\<lparr>pg_messages = [demo_slack_message ''3.0'' (Some 1)], pg_next = Some ''p2''\<rparr>"]
      by (simp add: demo_history_def truthy_iff)
  qed
  have thread: "page_chain (demo_replies ts) None (?rps ts)" for ts
    using page_chain.last_page [of "demo_replies ts" None
        "\<lparr>pg_messages = [demo_slack_message ts None, demo_slack_message ''4.0'' None], pg_next = Some []\<rparr>"]
    by (simp add: demo_replies_def truthy_iff)
  have roots: "\<forall>m\<in>set (concat ?hps). thread_root m \<longrightarrow> sl_ts m \<noteq> [] \<and> page_chain (demo_replies (sl_ts m)) None (?rps (sl_ts m))"
    using thread by (simp add: demo_slack_message_def)
  have order: "\<forall>ms. set (so_messages ?order ms) = set ms" by simp
  have clear: "no_replies ''me'' (sl_id demo_conversation) \<lparr>pdb_scopes = [], pdb_proofs = []\<rparr>" by (simp add: no_replies_def)
  have act: "active_conversation ?cursor (sl_id demo_conversation)"
    by (simp add: active_conversation_def demo_conversation_def safeParseJsonRecord_def)
  have fits: "length ?hps + (\<Sum>m\<leftarrow>filter thread_root (concat ?hps). length (?rps (sl_ts m))) \<le> (\<Sum>run\<leftarrow>[(1, 20), (2, 30 :: int)]. fst run)"
    by (simp add: thread_root_def demo_slack_message_def)
  obtain msgs db' where run: "stored_backfill ?order ''T1'' ''me'' demo_conversation ChannelFamily ModeFull 10 0 1 ?cursor demo_history demo_replies
      [(1, 20), (2, 30)] None \<lparr>pdb_scopes = [], pdb_proofs = []\<rparr> = Inr (msgs, True, db')"
    and ts: "sl_ts ` set msgs = {sl_ts m | m. shouldIncludeMessage m \<and> (m \<in> set (concat ?hps) \<or>
        (\<exists>root\<in>set (concat ?hps). thread_root root \<and> m \<in> set (concat (?rps (sl_ts root))) \<and> sl_ts m \<noteq> sl_ts root))}"
    using slack_backfill_misses_nothing [OF order chain roots proof_reachable.start clear act fits, of "''T1''" ChannelFamily ModeFull 10 0 1] by blast
  have inc: "shouldIncludeMessage (demo_slack_message ts n)" "sl_ts (demo_slack_message ts n) = ts"
    "thread_root (demo_slack_message ''3.0'' (Some 1))" for ts n
    by (simp_all add: shouldIncludeMessage_def demo_slack_message_def thread_root_def)
  have "''1.0'' \<in> sl_ts ` set msgs" unfolding ts using inc by (intro CollectI exI [of _ "demo_slack_message ''1.0'' None"]) simp
  moreover have "''3.0'' \<in> sl_ts ` set msgs" unfolding ts using inc by (intro CollectI exI [of _ "demo_slack_message ''3.0'' (Some 1)"]) simp
  moreover have "''4.0'' \<in> sl_ts ` set msgs" unfolding ts using inc by (intro CollectI exI [of _ "demo_slack_message ''4.0'' None"]) simp
  ultimately show ?thesis using run by blast
qed

end
