(* ===== verification/Spec2Isabelle.thy ===== *)
theory Spec2Isabelle
  imports ContactMerge Platforms Phone SyncRuns SyncProofs Integrations RunQueue RawEvents ProjectionCache ProjectorProofs ProjectorRounds
    ProjectionService ProjectionMachine HookBarrier DaemonSettings AutoSync IngestRun IngestProofs AuthProofs WhatsAppDaemon SignalEvents SlackBackfillProofs
begin

text \<open>
  A verification library for the message store.
\<close>

end
